(* ===== verification/Prelude.thy ===== *)
theory Prelude
  imports Main "HOL-Library.Multiset" "HOL-Library.AList" "HOL-Library.Word" "HOL-Library.Signed_Division"
begin

text \<open>
  Shared vocabulary of the development: the Go types the server uses (byte slices, 32-bit
  integers, errors), the samples a call draws from the outside world (\<open>uuid.New\<close>,
  \<open>rand.Read\<close>, \<open>time.Now\<close>, the iteration order of a Go map, errors of the SQL driver), the
  parts of \<open>fmt\<close> and \<open>strings\<close> the sources use, and the lemmas on association lists and
  words that the component theories share.
\<close>

section \<open>Collections of facts\<close>

named_theorems go_const \<open>integer constants declared by the sources\<close>
named_theorems store_defs \<open>defining equations of the storage operations\<close>
named_theorems handler_defs \<open>defining equations of the KMIP operation handlers\<close>

section \<open>Go types\<close>

text \<open>
  A byte slice is \<open>None\<close> when it is nil: the KMIP \<open>Register\<close> handler distinguishes a nil slice
  from an empty one. Go's \<open>int32\<close> is a 32-bit word read with \<open>sint\<close>; Go's \<open>int\<close> is an
  unbounded integer, with the 64-bit wrap-around written out (\<open>int64\<close>) where the code counts.
  An error value is its \<open>Error()\<close> text.
\<close>

type_synonym bytes = "8 word list"
type_synonym slice = "bytes option"
type_synonym i32 = "32 word"
type_synonym time = int
type_synonym error = string
type_synonym 'a result = "error + 'a"
type_synonym ('k, 'v) gomap = "('k \<times> 'v) list"

text \<open>A call that may panic: it returns a value, or unwinds with the panic's message.\<close>

datatype 'a outcome = Done 'a | Panicked string

definition sl :: "slice \<Rightarrow> bytes" where
  "sl m = (case m of None \<Rightarrow> [] | Some b \<Rightarrow> b)"

definition int64 :: "int \<Rightarrow> int" where
  "int64 x = (x + 2 ^ 63) mod 2 ^ 64 - 2 ^ 63"

text \<open>\<open>t.Unix()\<close> of a time kept in nanoseconds since the epoch.\<close>

definition time_Unix :: "time \<Rightarrow> int" where
  "time_Unix t = t div 1000000000"

section \<open>Samples from the outside world\<close>

text \<open>
  One call of a storage or crypto operation works with one \<open>draw\<close>: the identifier
  \<open>uuid.New().String()\<close> returns, what \<open>rand.Read\<close> puts into a buffer of a given size, the
  clock, the order in which a Go map is iterated (unspecified by the language), and the error,
  if any, that the SQL driver reports for each statement of the call, with the number of rows a
  query delivers before an error ends its iteration.
\<close>

record draw =
  d_uuid :: string
  d_rand :: "nat \<Rightarrow> bytes result"
  d_now :: time
  d_perm :: "string list \<Rightarrow> string list"
  d_sql :: "nat \<Rightarrow> error option"
  d_cut :: nat

type_synonym world = "nat \<Rightarrow> draw"

text \<open>What the standard library documents of a draw.\<close>

definition draw_ok :: "draw \<Rightarrow> bool" where
  "draw_ok d \<longleftrightarrow> (\<forall>n b. d_rand d n = Inr b \<longrightarrow> length b = n) \<and> (\<forall>xs. mset (d_perm d xs) = mset xs)"

text \<open>
  The rows a query delivers: its iteration ends early where the driver reports an error (with the
  index \<open>k\<close>), which the loops over \<open>rows.Next\<close> do not look at.
\<close>

definition delivered :: "draw \<Rightarrow> nat \<Rightarrow> 'a list \<Rightarrow> 'a list" where
  "delivered d k xs = (case d_sql d k of None \<Rightarrow> xs | Some _ \<Rightarrow> take (d_cut d) xs)"

section \<open>Formatting: fmt.Sprintf and strings\<close>

definition digit_char :: "nat \<Rightarrow> char" where
  "digit_char n = (if n < 10 then char_of (48 + n) else char_of (55 + n))"

fun show_base :: "nat \<Rightarrow> nat \<Rightarrow> string" where
  "show_base b n = (if b < 2 \<or> n < b then [digit_char n] else show_base b (n div b) @ [digit_char (n mod b)])"

declare show_base.simps [simp del]

text \<open>The verb \<open>%d\<close>.\<close>

definition fmt_d :: "int \<Rightarrow> string" where
  "fmt_d x = (if x < 0 then ''-'' @ show_base 10 (nat (- x)) else show_base 10 (nat x))"

text \<open>The verb \<open>%0wX\<close>: upper-case hexadecimal, padded with zeros to width \<open>w\<close>, sign included.\<close>

definition fmt_X :: "nat \<Rightarrow> int \<Rightarrow> string" where
  "fmt_X w x = (let ds = show_base 16 (nat \<bar>x\<bar>) in
     if x < 0 then ''-'' @ replicate (w - 1 - length ds) CHR ''0'' @ ds
     else replicate (w - length ds) CHR ''0'' @ ds)"

section \<open>Shared lemmas\<close>

lemma sl_simps [simp]: "sl None = []" "sl (Some b) = b"
  by (simp_all add: sl_def)

lemma int64_small: "- (2 ^ 63) \<le> x \<Longrightarrow> x < 2 ^ 63 \<Longrightarrow> int64 x = x"
  by (simp add: int64_def)

lemma int64_bounds: "- (2 ^ 63) \<le> int64 x" "int64 x < 2 ^ 63"
proof -
  have "0 \<le> (x + 2 ^ 63) mod 2 ^ 64" and "(x + 2 ^ 63) mod 2 ^ 64 < (2 ^ 64 :: int)"
    by simp_all
  then show "- (2 ^ 63) \<le> int64 x" "int64 x < 2 ^ 63"
    unfolding int64_def by (simp_all del: pos_mod_bound)
qed

lemma sdiv_nonneg: "0 \<le> x \<Longrightarrow> 0 < y \<Longrightarrow> x sdiv y = x div (y :: int)"
  by (cases "x = 0") (simp_all add: signed_divide_int_def)

lemma mod_shift: "((x mod m - h) + k + h) mod m = (x + k) mod (m :: int)"
proof -
  have "(x mod m - h) + k + h = x mod m + k" by simp
  then show ?thesis by (simp only: mod_add_left_eq)
qed

lemma int64_add [simp]: "int64 (int64 a + k) = int64 (a + k)"
  unfolding int64_def mod_shift by (simp only: ac_simps)

lemma map_of_update [simp]: "map_of (AList.update k v al) = (map_of al)(k \<mapsto> v)"
  by (rule update_conv')

lemma map_of_delete [simp]: "map_of (AList.delete k al) = (map_of al)(k := None)"
  by (rule delete_conv')

lemma distinct_keys_update [simp]:
  "distinct (map fst al) \<Longrightarrow> distinct (map fst (AList.update k v al))"
  by (rule distinct_update)

lemma distinct_keys_delete [simp]:
  "distinct (map fst al) \<Longrightarrow> distinct (map fst (AList.delete k al))"
  by (rule distinct_delete)

lemma map_of_Some_in_keys: "map_of al k = Some v \<Longrightarrow> k \<in> fst ` set al"
  by (metis domI dom_map_of_conv_image_fst)

lemma map_filter_map_of:
  assumes "distinct (map fst al)"
  shows "List.map_filter (map_of al) (map fst al) = map snd al"
proof -
  have "filter (\<lambda>k. map_of al k \<noteq> None) (map fst al) = map fst al"
    by (auto simp: filter_id_conv map_of_eq_None_iff)
  moreover have "map (the \<circ> map_of al) (map fst al) = map snd al"
    using assms by auto
  ultimately show ?thesis
    by (simp add: List.map_filter_def)
qed

lemma map_of_filter_values:
  "distinct (map fst al) \<Longrightarrow>
    map_of (filter (\<lambda>(_, v). P v) al) k = (case map_of al k of None \<Rightarrow> None | Some v \<Rightarrow> if P v then Some v else None)"
  by (induction al) (auto split: option.split simp: map_of_eq_None_iff rev_image_eqI)

lemma distinct_keys_filter [simp]: "distinct (map fst al) \<Longrightarrow> distinct (map fst (filter P al))"
  by (rule distinct_map_filter)

end
