(* ===== verification/Storage_Types.thy ===== *)
theory Storage_Types
  imports Prelude
begin

text \<open>
  \<open>internal/storage/types.go\<close>: the life-cycle states, the record of a managed object, the
  \<open>Storage\<close> interface as a table of operations over a store state \<open>'s\<close>, and the size limits.
\<close>

section \<open>Life-cycle states\<close>

type_synonym KeyState = int

definition StatePreActive :: KeyState where [go_const]: "StatePreActive = 1"
definition StateActive :: KeyState where [go_const]: "StateActive = 2"
definition StateDeactivated :: KeyState where [go_const]: "StateDeactivated = 3"
definition StateCompromised :: KeyState where [go_const]: "StateCompromised = 4"
definition StateDestroyed :: KeyState where [go_const]: "StateDestroyed = 5"
definition StateDestroyedCompromised :: KeyState where [go_const]: "StateDestroyedCompromised = 6"
definition StateArchived :: KeyState where [go_const]: "StateArchived = 100"
definition StateRevoked :: KeyState where [go_const]: "StateRevoked = StateCompromised"

definition MaxKeyLengthBits :: int where [go_const]: "MaxKeyLengthBits = 32768"
definition MaxDerivedKeyBytes :: int where [go_const]: "MaxDerivedKeyBytes = 512"

section \<open>Managed objects\<close>

record KeyRecord =
  UID :: string
  Name :: string
  ObjectType :: int
  Algorithm :: int
  Length :: i32
  Material :: slice
  UsageMask :: int
  State :: KeyState
  RevocationReason :: int
  Owner :: string
  CreatedAt :: time
  Version :: int

text \<open>A \<open>KeyRecord\<close> literal that leaves every field out: Go's zero values.\<close>

definition zero_KeyRecord :: KeyRecord where
  "zero_KeyRecord = \<lparr>UID = '''', Name = '''', ObjectType = 0, Algorithm = 0, Length = 0,
     Material = None, UsageMask = 0, State = 0, RevocationReason = 0, Owner = '''',
     CreatedAt = -62135596800000000000, Version = 0\<rparr>"

section \<open>The storage interface\<close>

text \<open>
  The methods of \<open>Storage\<close>. A method that may change the store returns the new store beside its
  result; every method takes the draw of its call.
\<close>

record 's Storage =
  Create :: "draw \<Rightarrow> string \<Rightarrow> int \<Rightarrow> i32 \<Rightarrow> int \<Rightarrow> string \<Rightarrow> 's \<Rightarrow> KeyRecord result \<times> 's"
  Get :: "draw \<Rightarrow> string \<Rightarrow> 's \<Rightarrow> KeyRecord option"
  Locate :: "draw \<Rightarrow> string \<Rightarrow> 's \<Rightarrow> string list"
  List :: "draw \<Rightarrow> 's \<Rightarrow> KeyRecord list"
  Activate :: "draw \<Rightarrow> string \<Rightarrow> 's \<Rightarrow> error option \<times> 's"
  Destroy :: "draw \<Rightarrow> string \<Rightarrow> 's \<Rightarrow> error option \<times> 's"
  Register :: "draw \<Rightarrow> KeyRecord \<Rightarrow> 's \<Rightarrow> KeyRecord result \<times> 's"
  Revoke :: "draw \<Rightarrow> string \<Rightarrow> int \<Rightarrow> 's \<Rightarrow> error option \<times> 's"
  GetAttributes :: "draw \<Rightarrow> string \<Rightarrow> 's \<Rightarrow> KeyRecord option"
  Rekey :: "draw \<Rightarrow> string \<Rightarrow> 's \<Rightarrow> KeyRecord result \<times> 's"
  Archive :: "draw \<Rightarrow> string \<Rightarrow> 's \<Rightarrow> error option \<times> 's"
  Recover :: "draw \<Rightarrow> string \<Rightarrow> 's \<Rightarrow> error option \<times> 's"
  DeriveKey :: "draw \<Rightarrow> string \<Rightarrow> slice \<Rightarrow> string \<Rightarrow> i32 \<Rightarrow> 's \<Rightarrow> KeyRecord result \<times> 's"
  GetCustomAttributes :: "draw \<Rightarrow> string \<Rightarrow> 's \<Rightarrow> (string, string) gomap result"
  SetCustomAttribute :: "draw \<Rightarrow> string \<Rightarrow> string \<Rightarrow> string \<Rightarrow> 's \<Rightarrow> error option \<times> 's"
  DeleteCustomAttribute :: "draw \<Rightarrow> string \<Rightarrow> string \<Rightarrow> 's \<Rightarrow> error option \<times> 's"
  Close :: "'s \<Rightarrow> error option \<times> 's"

end
