(* ===== verification/Storage_Contract.thy ===== *)
theory Storage_Contract
  imports Storage_Types
begin

text \<open>
  What a value of the interface \<open>Storage\<close> promises its callers, stated over an abstract vault:
  the managed objects by unique identifier and their custom attributes. The locale
  \<open>storage_contract\<close> is the interface between the request handlers and the stores; the stores
  interpret it in their own theories.
\<close>

section \<open>The abstract vault\<close>

record vault =
  objs :: "string \<rightharpoonup> KeyRecord"
  cattrs :: "string \<Rightarrow> string \<rightharpoonup> string"

definition live :: "vault \<Rightarrow> string \<Rightarrow> KeyRecord option" where
  "live v u = (case objs v u of None \<Rightarrow> None | Some r \<Rightarrow> if State r = StateDestroyed then None else Some r)"

text \<open>
  The vault after \<open>f\<close> was applied to the live object \<open>u\<close>, and after an object was added. A store
  may read an empty slice back as nil or a nil slice as empty: \<open>stored r r'\<close>.
\<close>

definition stored :: "KeyRecord \<Rightarrow> KeyRecord \<Rightarrow> bool" where
  "stored r r' \<longleftrightarrow> (\<exists>m. sl m = sl (Material r) \<and> r' = r\<lparr>Material := m\<rparr>)"

definition updates :: "string \<Rightarrow> (KeyRecord \<Rightarrow> KeyRecord) \<Rightarrow> vault \<Rightarrow> vault \<Rightarrow> bool" where
  "updates u f v v' \<longleftrightarrow> (\<exists>r. live v u = Some r \<and> v' = v\<lparr>objs := (objs v)(u \<mapsto> f r)\<rparr>)"

definition puts :: "string \<Rightarrow> KeyRecord \<Rightarrow> vault \<Rightarrow> vault \<Rightarrow> bool" where
  "puts u r v v' \<longleftrightarrow> (\<exists>r'. stored r r' \<and> v' = v\<lparr>objs := (objs v)(u \<mapsto> r')\<rparr>)"

definition adds :: "KeyRecord \<Rightarrow> vault \<Rightarrow> vault \<Rightarrow> bool" where
  "adds r v v' \<longleftrightarrow> puts (UID r) r v v'"

text \<open>The object \<open>Create\<close> makes, and the object \<open>DeriveKey\<close> makes from a source object.\<close>

definition new_key :: "draw \<Rightarrow> string \<Rightarrow> int \<Rightarrow> i32 \<Rightarrow> int \<Rightarrow> string \<Rightarrow> bytes \<Rightarrow> KeyRecord" where
  "new_key d name alg len usage own b =
     \<lparr>UID = d_uuid d, Name = name, ObjectType = 2, Algorithm = alg, Length = len, Material = Some b,
      UsageMask = usage, State = StatePreActive, RevocationReason = 0, Owner = own,
      CreatedAt = d_now d, Version = 1\<rparr>"

definition registered :: "draw \<Rightarrow> KeyRecord \<Rightarrow> KeyRecord" where
  "registered d r = r\<lparr>UID := d_uuid d, CreatedAt := d_now d, State := StatePreActive,
     Version := (if Version r = 0 then 1 else Version r)\<rparr>"

definition derive_size :: "i32 \<Rightarrow> int" where
  "derive_size len = (let n = sint len sdiv 8 in if n \<le> 0 then 32 else n)"

definition valid_length :: "i32 \<Rightarrow> bool" where
  "valid_length len \<longleftrightarrow> 0 < sint len \<and> sint len \<le> MaxKeyLengthBits"

definition key_size :: "i32 \<Rightarrow> nat" where
  "key_size len = nat (sint len sdiv 8)"

lemma live_SomeD: "live v u = Some r \<Longrightarrow> objs v u = Some r \<and> State r \<noteq> StateDestroyed"
  by (auto simp: live_def split: option.splits if_splits)

lemma live_Some_iff: "live v u = Some r \<longleftrightarrow> objs v u = Some r \<and> State r \<noteq> StateDestroyed"
  by (auto simp: live_def split: option.splits if_splits)

lemma live_None_iff: "live v u = None \<longleftrightarrow> (\<forall>r. objs v u = Some r \<longrightarrow> State r = StateDestroyed)"
  by (auto simp: live_def split: option.splits if_splits)

lemma stored_refl [simp]: "stored r r"
  by (auto simp: stored_def intro!: exI[of _ "Material r"])

lemma puts_same: "v' = v\<lparr>objs := (objs v)(u \<mapsto> r)\<rparr> \<Longrightarrow> puts u r v v'"
  unfolding puts_def by (rule exI[of _ r]) simp

lemma putsE:
  assumes "puts u r v v'"
  obtains m where "sl m = sl (Material r)" "v' = v\<lparr>objs := (objs v)(u \<mapsto> r\<lparr>Material := m\<rparr>)\<rparr>"
  using assms by (auto simp: puts_def stored_def)

lemma new_key_sel [simp]:
  "UID (new_key d name alg len usage own b) = d_uuid d"
  "Name (new_key d name alg len usage own b) = name"
  "ObjectType (new_key d name alg len usage own b) = 2"
  "Algorithm (new_key d name alg len usage own b) = alg"
  "Length (new_key d name alg len usage own b) = len"
  "Material (new_key d name alg len usage own b) = Some b"
  "UsageMask (new_key d name alg len usage own b) = usage"
  "State (new_key d name alg len usage own b) = StatePreActive"
  "Owner (new_key d name alg len usage own b) = own"
  "Version (new_key d name alg len usage own b) = 1"
  by (simp_all add: new_key_def)

lemma registered_sel [simp]:
  "UID (registered d r) = d_uuid d" "Name (registered d r) = Name r"
  "ObjectType (registered d r) = ObjectType r" "Algorithm (registered d r) = Algorithm r"
  "Length (registered d r) = Length r" "Material (registered d r) = Material r"
  "UsageMask (registered d r) = UsageMask r" "State (registered d r) = StatePreActive"
  "Owner (registered d r) = Owner r"
  by (simp_all add: registered_def)

section \<open>The contract\<close>

text \<open>
  \<open>sinv\<close> is the store's own invariant, \<open>sabs\<close> its abstraction and \<open>ok\<close> the draws in which the
  backing store reports no failure of its own. Every mutating method either reports an error and
  leaves the vault as it was, or has exactly the stated effect on it; where the draw is good and
  the object is live, it does not report an error.
\<close>

locale storage_contract =
  fixes S :: "'s Storage" and sinv :: "'s \<Rightarrow> bool" and sabs :: "'s \<Rightarrow> vault"
    and ok :: "draw \<Rightarrow> bool" and H :: "slice \<Rightarrow> slice \<Rightarrow> string \<Rightarrow> nat \<Rightarrow> bytes result"
  assumes get_sound: "sinv s \<Longrightarrow> Get S d u s = Some r \<Longrightarrow> live (sabs s) u = Some r"
    and get_complete: "sinv s \<Longrightarrow> ok d \<Longrightarrow> Get S d u s = live (sabs s) u"
    and get_attributes: "GetAttributes S d u s = Get S d u s"
    and uid_key: "sinv s \<Longrightarrow> objs (sabs s) u = Some r \<Longrightarrow> UID r = u"
    and locate_sound: "sinv s \<Longrightarrow> draw_ok d \<Longrightarrow> u \<in> set (Locate S d name s) \<Longrightarrow>
      \<exists>r. live (sabs s) u = Some r \<and> Name r = name"
    and locate_complete: "sinv s \<Longrightarrow> draw_ok d \<Longrightarrow> ok d \<Longrightarrow> live (sabs s) u = Some r \<Longrightarrow> Name r = name \<Longrightarrow>
      u \<in> set (Locate S d name s)"
    and locate_distinct: "sinv s \<Longrightarrow> draw_ok d \<Longrightarrow> distinct (Locate S d name s)"
    and list_sound: "sinv s \<Longrightarrow> draw_ok d \<Longrightarrow> r \<in> set (List S d s) \<Longrightarrow> live (sabs s) (UID r) = Some r"
    and list_complete: "sinv s \<Longrightarrow> draw_ok d \<Longrightarrow> ok d \<Longrightarrow> live (sabs s) u = Some r \<Longrightarrow> r \<in> set (List S d s)"
    and create_err: "sinv s \<Longrightarrow> Create S d name alg len usage own s = (Inl e, s') \<Longrightarrow> sinv s' \<and> sabs s' = sabs s"
    and create_ok: "sinv s \<Longrightarrow> Create S d name alg len usage own s = (Inr rec, s') \<Longrightarrow>
      sinv s' \<and> valid_length len \<and> adds rec (sabs s) (sabs s') \<and>
      (\<exists>b. d_rand d (key_size len) = Inr b \<and> rec = new_key d name alg len usage own b)"
    and create_total: "sinv s \<Longrightarrow> ok d \<Longrightarrow> objs (sabs s) (d_uuid d) = None \<Longrightarrow> valid_length len \<Longrightarrow>
      d_rand d (key_size len) = Inr b \<Longrightarrow> \<exists>rec. fst (Create S d name alg len usage own s) = Inr rec"
    and register_err: "sinv s \<Longrightarrow> Register S d r s = (Inl e, s') \<Longrightarrow> sinv s' \<and> sabs s' = sabs s"
    and register_ok: "sinv s \<Longrightarrow> Register S d r s = (Inr rec, s') \<Longrightarrow>
      sinv s' \<and> rec = registered d r \<and> adds rec (sabs s) (sabs s')"
    and register_total: "sinv s \<Longrightarrow> ok d \<Longrightarrow> objs (sabs s) (d_uuid d) = None \<Longrightarrow> Material r \<noteq> None \<Longrightarrow>
      0 \<le> sint (Length r) \<Longrightarrow> \<exists>rec. fst (Register S d r s) = Inr rec"
    and activate_err: "sinv s \<Longrightarrow> Activate S d u s = (Some e, s') \<Longrightarrow> sinv s' \<and> sabs s' = sabs s"
    and activate_ok: "sinv s \<Longrightarrow> Activate S d u s = (None, s') \<Longrightarrow>
      sinv s' \<and> updates u (\<lambda>r. r\<lparr>State := StateActive\<rparr>) (sabs s) (sabs s')"
    and activate_total: "sinv s \<Longrightarrow> ok d \<Longrightarrow> live (sabs s) u = Some r \<Longrightarrow> fst (Activate S d u s) = None"
    and destroy_err: "sinv s \<Longrightarrow> Destroy S d u s = (Some e, s') \<Longrightarrow> sinv s' \<and> sabs s' = sabs s"
    and destroy_ok: "sinv s \<Longrightarrow> Destroy S d u s = (None, s') \<Longrightarrow>
      sinv s' \<and> (\<exists>m. sl m = [] \<and> updates u (\<lambda>r. r\<lparr>Material := m, State := StateDestroyed\<rparr>) (sabs s) (sabs s'))"
    and destroy_total: "sinv s \<Longrightarrow> ok d \<Longrightarrow> live (sabs s) u = Some r \<Longrightarrow> fst (Destroy S d u s) = None"
    and revoke_err: "sinv s \<Longrightarrow> Revoke S d u k s = (Some e, s') \<Longrightarrow> sinv s' \<and> sabs s' = sabs s"
    and revoke_ok: "sinv s \<Longrightarrow> Revoke S d u k s = (None, s') \<Longrightarrow>
      sinv s' \<and> updates u (\<lambda>r. r\<lparr>State := StateRevoked, RevocationReason := k\<rparr>) (sabs s) (sabs s')"
    and revoke_total: "sinv s \<Longrightarrow> ok d \<Longrightarrow> live (sabs s) u = Some r \<Longrightarrow> fst (Revoke S d u k s) = None"
    and rekey_err: "sinv s \<Longrightarrow> Rekey S d u s = (Inl e, s') \<Longrightarrow> sinv s' \<and> sabs s' = sabs s"
    and rekey_ok: "sinv s \<Longrightarrow> Rekey S d u s = (Inr rec, s') \<Longrightarrow>
      sinv s' \<and> (\<exists>r b. live (sabs s) u = Some r \<and> valid_length (Length r) \<and>
        d_rand d (key_size (Length r)) = Inr b \<and>
        rec = r\<lparr>Material := Some b, Version := int64 (Version r + 1)\<rparr> \<and>
        puts u rec (sabs s) (sabs s'))"
    and archive_err: "sinv s \<Longrightarrow> Archive S d u s = (Some e, s') \<Longrightarrow> sinv s' \<and> sabs s' = sabs s"
    and archive_ok: "sinv s \<Longrightarrow> Archive S d u s = (None, s') \<Longrightarrow>
      sinv s' \<and> updates u (\<lambda>r. r\<lparr>State := StateArchived\<rparr>) (sabs s) (sabs s')"
    and recover_err: "sinv s \<Longrightarrow> Recover S d u s = (Some e, s') \<Longrightarrow> sinv s' \<and> sabs s' = sabs s"
    and recover_ok: "sinv s \<Longrightarrow> Recover S d u s = (None, s') \<Longrightarrow>
      sinv s' \<and> (\<exists>r. live (sabs s) u = Some r \<and> State r = StateArchived) \<and>
      updates u (\<lambda>r. r\<lparr>State := StatePreActive\<rparr>) (sabs s) (sabs s')"
    and derive_err: "sinv s \<Longrightarrow> DeriveKey S d u dat name len s = (Inl e, s') \<Longrightarrow> sinv s' \<and> sabs s' = sabs s"
    and derive_ok: "sinv s \<Longrightarrow> DeriveKey S d u dat name len s = (Inr rec, s') \<Longrightarrow>
      sinv s' \<and> adds rec (sabs s) (sabs s') \<and> derive_size len \<le> MaxDerivedKeyBytes \<and>
      (\<exists>r b. live (sabs s) u = Some r \<and> H (Material r) dat ''kmip-derive'' (nat (derive_size len)) = Inr b \<and>
        rec = new_key d name (Algorithm r) len (UsageMask r) (Owner r) b)"
    and set_attr_err: "sinv s \<Longrightarrow> SetCustomAttribute S d u n x s = (Some e, s') \<Longrightarrow> sinv s' \<and> sabs s' = sabs s"
    and set_attr_ok: "sinv s \<Longrightarrow> SetCustomAttribute S d u n x s = (None, s') \<Longrightarrow>
      sinv s' \<and> live (sabs s) u \<noteq> None \<and>
      sabs s' = (sabs s)\<lparr>cattrs := (cattrs (sabs s))(u := (cattrs (sabs s) u)(n \<mapsto> x))\<rparr>"
    and delete_attr_err: "sinv s \<Longrightarrow> DeleteCustomAttribute S d u n s = (Some e, s') \<Longrightarrow> sinv s' \<and> sabs s' = sabs s"
    and delete_attr_ok: "sinv s \<Longrightarrow> DeleteCustomAttribute S d u n s = (None, s') \<Longrightarrow>
      sinv s' \<and> live (sabs s) u \<noteq> None \<and>
      sabs s' = (sabs s)\<lparr>cattrs := (cattrs (sabs s))(u := (cattrs (sabs s) u)(n := None))\<rparr>"
    and get_attrs_sound: "sinv s \<Longrightarrow> GetCustomAttributes S d u s = Inr al \<Longrightarrow>
      live (sabs s) u \<noteq> None \<and> map_of al \<subseteq>\<^sub>m cattrs (sabs s) u"
    and get_attrs_total: "sinv s \<Longrightarrow> ok d \<Longrightarrow> live (sabs s) u \<noteq> None \<Longrightarrow>
      \<exists>al. GetCustomAttributes S d u s = Inr al \<and> map_of al = cattrs (sabs s) u"
    and set_attr_total: "sinv s \<Longrightarrow> ok d \<Longrightarrow> live (sabs s) u \<noteq> None \<Longrightarrow>
      fst (SetCustomAttribute S d u n x s) = None"

end
