(* ===== verification/Memory_Store.thy ===== *)
theory Memory_Store
  imports Storage_Contract
begin

text \<open>
  \<open>internal/storage/memory.go\<close>: the in-memory key store. The two Go maps are association lists;
  a loop over \<open>m.keys\<close> visits the keys in the order \<open>d_perm\<close> gives, since Go leaves it
  unspecified. A method runs under the store's mutex, so it is one step. \<open>hkdf\<close> stands for
  \<open>golang.org/x/crypto/hkdf\<close> read with \<open>io.ReadFull\<close> (secret, salt, info, size).
\<close>

type_synonym hkdf = "slice \<Rightarrow> slice \<Rightarrow> string \<Rightarrow> nat \<Rightarrow> bytes result"

record MemoryStore =
  keys :: "(string, KeyRecord) gomap"
  attrs :: "(string, (string, string) gomap) gomap"

section \<open>Operations\<close>

definition NewMemoryStore :: MemoryStore where
  "NewMemoryStore = \<lparr>keys = [], attrs = []\<rparr>"

definition mem_Create ::
  "draw \<Rightarrow> string \<Rightarrow> int \<Rightarrow> i32 \<Rightarrow> int \<Rightarrow> string \<Rightarrow> MemoryStore \<Rightarrow> KeyRecord result \<times> MemoryStore" where
  [store_defs]: "mem_Create d name algorithm len usageMask own m =
     (if sint len \<le> 0 \<or> sint len > MaxKeyLengthBits then (Inl (''invalid key length: '' @ fmt_d (sint len)), m)
      else case d_rand d (nat (sint len sdiv 8)) of
        Inl e \<Rightarrow> (Inl e, m)
      | Inr keyBytes \<Rightarrow>
          let rec = \<lparr>UID = d_uuid d, Name = name, ObjectType = 2, Algorithm = algorithm,
            Length = len, Material = Some keyBytes, UsageMask = usageMask, State = StatePreActive,
            RevocationReason = 0, Owner = own, CreatedAt = d_now d, Version = 1\<rparr>
          in (Inr rec, m\<lparr>keys := AList.update (UID rec) rec (keys m)\<rparr>))"

definition mem_Get :: "draw \<Rightarrow> string \<Rightarrow> MemoryStore \<Rightarrow> KeyRecord option" where
  [store_defs]: "mem_Get d uid m =
     (case map_of (keys m) uid of
        None \<Rightarrow> None
      | Some rec \<Rightarrow> if State rec = StateDestroyed then None else Some rec)"

text \<open>The records of \<open>range m.keys\<close>, in iteration order.\<close>

definition mem_range :: "draw \<Rightarrow> MemoryStore \<Rightarrow> KeyRecord list" where
  "mem_range d m = List.map_filter (map_of (keys m)) (d_perm d (map fst (keys m)))"

definition mem_Locate :: "draw \<Rightarrow> string \<Rightarrow> MemoryStore \<Rightarrow> string list" where
  [store_defs]: "mem_Locate d name m =
     map UID (filter (\<lambda>rec. Name rec = name \<and> State rec \<noteq> StateDestroyed) (mem_range d m))"

definition mem_List :: "draw \<Rightarrow> MemoryStore \<Rightarrow> KeyRecord list" where
  [store_defs]: "mem_List d m = filter (\<lambda>rec. State rec \<noteq> StateDestroyed) (mem_range d m)"

definition mem_Activate :: "draw \<Rightarrow> string \<Rightarrow> MemoryStore \<Rightarrow> error option \<times> MemoryStore" where
  [store_defs]: "mem_Activate d uid m =
     (case map_of (keys m) uid of
        None \<Rightarrow> (Some (''object not found: '' @ uid), m)
      | Some rec \<Rightarrow>
          if State rec = StateDestroyed then (Some (''object not found: '' @ uid), m)
          else (None, m\<lparr>keys := AList.update uid (rec\<lparr>State := StateActive\<rparr>) (keys m)\<rparr>))"

text \<open>
  \<open>Destroy\<close> overwrites the material byte by byte before it drops the slice.
\<close>

definition zero_material :: "slice \<Rightarrow> slice" where
  "zero_material m = map_option (map (\<lambda>_. 0)) m"

definition mem_Destroy :: "draw \<Rightarrow> string \<Rightarrow> MemoryStore \<Rightarrow> error option \<times> MemoryStore" where
  [store_defs]: "mem_Destroy d uid m =
     (case map_of (keys m) uid of
        None \<Rightarrow> (Some (''object not found: '' @ uid), m)
      | Some rec \<Rightarrow>
          if State rec = StateDestroyed then (Some (''object not found: '' @ uid), m)
          else let rec1 = rec\<lparr>Material := zero_material (Material rec)\<rparr>;
                   rec2 = rec1\<lparr>Material := None\<rparr>;
                   rec3 = rec2\<lparr>State := StateDestroyed\<rparr>
               in (None, m\<lparr>keys := AList.update uid rec3 (keys m)\<rparr>))"

definition mem_Register :: "draw \<Rightarrow> KeyRecord \<Rightarrow> MemoryStore \<Rightarrow> KeyRecord result \<times> MemoryStore" where
  [store_defs]: "mem_Register d rec m =
     (if ObjectType rec \<noteq> 1 \<and> sint (Length rec) < 0
      then (Inl (''invalid key length: '' @ fmt_d (sint (Length rec))), m)
      else let rec' = rec\<lparr>UID := d_uuid d, CreatedAt := d_now d, State := StatePreActive,
                          Version := (if Version rec = 0 then 1 else Version rec)\<rparr>
           in (Inr rec', m\<lparr>keys := AList.update (UID rec') rec' (keys m)\<rparr>))"

definition mem_Revoke :: "draw \<Rightarrow> string \<Rightarrow> int \<Rightarrow> MemoryStore \<Rightarrow> error option \<times> MemoryStore" where
  [store_defs]: "mem_Revoke d uid reason m =
     (case map_of (keys m) uid of
        None \<Rightarrow> (Some (''object not found: '' @ uid), m)
      | Some rec \<Rightarrow>
          if State rec = StateDestroyed then (Some (''object not found: '' @ uid), m)
          else (None, m\<lparr>keys := AList.update uid
                 (rec\<lparr>State := StateRevoked, RevocationReason := reason\<rparr>) (keys m)\<rparr>))"

definition mem_GetAttributes :: "draw \<Rightarrow> string \<Rightarrow> MemoryStore \<Rightarrow> KeyRecord option" where
  [store_defs]: "mem_GetAttributes d uid m = mem_Get d uid m"

definition mem_Rekey :: "draw \<Rightarrow> string \<Rightarrow> MemoryStore \<Rightarrow> KeyRecord result \<times> MemoryStore" where
  [store_defs]: "mem_Rekey d uid m =
     (case map_of (keys m) uid of
        None \<Rightarrow> (Inl (''object not found: '' @ uid), m)
      | Some rec \<Rightarrow>
          if State rec = StateDestroyed then (Inl (''object not found: '' @ uid), m)
          else if sint (Length rec) \<le> 0 \<or> sint (Length rec) > MaxKeyLengthBits
          then (Inl (''invalid key length: '' @ fmt_d (sint (Length rec))), m)
          else case d_rand d (nat (sint (Length rec) sdiv 8)) of
            Inl e \<Rightarrow> (Inl (''generate key material: '' @ e), m)
          | Inr keyBytes \<Rightarrow>
              let rec' = rec\<lparr>Material := Some keyBytes, Version := int64 (Version rec + 1)\<rparr>
              in (Inr rec', m\<lparr>keys := AList.update uid rec' (keys m)\<rparr>))"

definition mem_Archive :: "draw \<Rightarrow> string \<Rightarrow> MemoryStore \<Rightarrow> error option \<times> MemoryStore" where
  [store_defs]: "mem_Archive d uid m =
     (case map_of (keys m) uid of
        None \<Rightarrow> (Some (''object not found: '' @ uid), m)
      | Some rec \<Rightarrow>
          if State rec = StateDestroyed then (Some (''object not found: '' @ uid), m)
          else (None, m\<lparr>keys := AList.update uid (rec\<lparr>State := StateArchived\<rparr>) (keys m)\<rparr>))"

definition mem_Recover :: "draw \<Rightarrow> string \<Rightarrow> MemoryStore \<Rightarrow> error option \<times> MemoryStore" where
  [store_defs]: "mem_Recover d uid m =
     (case map_of (keys m) uid of
        None \<Rightarrow> (Some (''object not found or not archived: '' @ uid), m)
      | Some rec \<Rightarrow>
          if State rec \<noteq> StateArchived then (Some (''object not found or not archived: '' @ uid), m)
          else (None, m\<lparr>keys := AList.update uid (rec\<lparr>State := StatePreActive\<rparr>) (keys m)\<rparr>))"

definition mem_DeriveKey ::
  "hkdf \<Rightarrow> draw \<Rightarrow> string \<Rightarrow> slice \<Rightarrow> string \<Rightarrow> i32 \<Rightarrow> MemoryStore \<Rightarrow> KeyRecord result \<times> MemoryStore" where
  [store_defs]: "mem_DeriveKey H d sourceUID derivationData name len m =
     (case mem_Get d sourceUID m of
        None \<Rightarrow> (Inl (''source key not found: '' @ sourceUID), m)
      | Some src \<Rightarrow>
          let keyLen0 = sint len sdiv 8;
              keyLen = (if keyLen0 \<le> 0 then 32 else keyLen0)
          in if keyLen > MaxDerivedKeyBytes
             then (Inl (''derived key length '' @ fmt_d keyLen @ '' exceeds max '' @ fmt_d MaxDerivedKeyBytes), m)
             else case H (Material src) derivationData ''kmip-derive'' (nat keyLen) of
               Inl e \<Rightarrow> (Inl (''HKDF derivation failed: '' @ e), m)
             | Inr derived \<Rightarrow>
                 let rec = \<lparr>UID = d_uuid d, Name = name, ObjectType = 2, Algorithm = Algorithm src,
                   Length = len, Material = Some derived, UsageMask = UsageMask src,
                   State = StatePreActive, RevocationReason = 0, Owner = Owner src,
                   CreatedAt = d_now d, Version = 1\<rparr>
                 in (Inr rec, m\<lparr>keys := AList.update (UID rec) rec (keys m)\<rparr>))"

definition mem_GetCustomAttributes ::
  "draw \<Rightarrow> string \<Rightarrow> MemoryStore \<Rightarrow> (string, string) gomap result" where
  [store_defs]: "mem_GetCustomAttributes d uid m =
     (case mem_Get d uid m of
        None \<Rightarrow> Inl (''object not found: '' @ uid)
      | Some _ \<Rightarrow> Inr (case map_of (attrs m) uid of None \<Rightarrow> [] | Some a \<Rightarrow> a))"

definition mem_SetCustomAttribute ::
  "draw \<Rightarrow> string \<Rightarrow> string \<Rightarrow> string \<Rightarrow> MemoryStore \<Rightarrow> error option \<times> MemoryStore" where
  [store_defs]: "mem_SetCustomAttribute d uid name v m =
     (case mem_Get d uid m of
        None \<Rightarrow> (Some (''object not found: '' @ uid), m)
      | Some _ \<Rightarrow>
          let a = (case map_of (attrs m) uid of None \<Rightarrow> [] | Some a \<Rightarrow> a)
          in (None, m\<lparr>attrs := AList.update uid (AList.update name v a) (attrs m)\<rparr>))"

definition mem_DeleteCustomAttribute ::
  "draw \<Rightarrow> string \<Rightarrow> string \<Rightarrow> MemoryStore \<Rightarrow> error option \<times> MemoryStore" where
  [store_defs]: "mem_DeleteCustomAttribute d uid name m =
     (case mem_Get d uid m of
        None \<Rightarrow> (Some (''object not found: '' @ uid), m)
      | Some _ \<Rightarrow>
          (None, case map_of (attrs m) uid of
             None \<Rightarrow> m
           | Some a \<Rightarrow> m\<lparr>attrs := AList.update uid (AList.delete name a) (attrs m)\<rparr>))"

definition mem_Close :: "MemoryStore \<Rightarrow> error option \<times> MemoryStore" where
  [store_defs]: "mem_Close m = (None, m)"

text \<open>\<open>*MemoryStore\<close> as a value of the interface \<open>Storage\<close>.\<close>

definition memory_storage :: "hkdf \<Rightarrow> MemoryStore Storage" where
  "memory_storage H = \<lparr>Create = mem_Create, Get = mem_Get, Locate = mem_Locate, List = mem_List,
     Activate = mem_Activate, Destroy = mem_Destroy, Register = mem_Register, Revoke = mem_Revoke,
     GetAttributes = mem_GetAttributes, Rekey = mem_Rekey, Archive = mem_Archive,
     Recover = mem_Recover, DeriveKey = mem_DeriveKey H,
     GetCustomAttributes = mem_GetCustomAttributes, SetCustomAttribute = mem_SetCustomAttribute,
     DeleteCustomAttribute = mem_DeleteCustomAttribute, Close = mem_Close\<rparr>"

section \<open>Invariant and abstraction\<close>

text \<open>
  The invariant of the store: both maps have one entry per key, every record is filed under its
  own identifier, a destroyed record has no material, and only stored objects have attributes.
\<close>

definition mem_inv :: "MemoryStore \<Rightarrow> bool" where
  "mem_inv m \<longleftrightarrow> distinct (map fst (keys m)) \<and> distinct (map fst (attrs m)) \<and>
     (\<forall>u r. map_of (keys m) u = Some r \<longrightarrow> UID r = u \<and> (State r = StateDestroyed \<longrightarrow> Material r = None)) \<and>
     (\<forall>u a. map_of (attrs m) u = Some a \<longrightarrow> map_of (keys m) u \<noteq> None \<and> distinct (map fst a))"

definition mem_abs :: "MemoryStore \<Rightarrow> vault" where
  "mem_abs m = \<lparr>objs = map_of (keys m),
     cattrs = (\<lambda>u. case map_of (attrs m) u of None \<Rightarrow> Map.empty | Some a \<Rightarrow> map_of a)\<rparr>"

lemma mem_invD:
  assumes "mem_inv m"
  shows "distinct (map fst (keys m))" "distinct (map fst (attrs m))"
    "map_of (keys m) u = Some r \<Longrightarrow> UID r = u"
    "map_of (keys m) u = Some r \<Longrightarrow> State r = StateDestroyed \<Longrightarrow> Material r = None"
    "map_of (attrs m) u = Some a \<Longrightarrow> map_of (keys m) u \<noteq> None"
    "map_of (attrs m) u = Some a \<Longrightarrow> distinct (map fst a)"
  using assms by (auto simp: mem_inv_def)

lemma mem_inv_new: "mem_inv NewMemoryStore"
  by (simp add: mem_inv_def NewMemoryStore_def)

lemma mem_abs_new: "mem_abs NewMemoryStore = \<lparr>objs = Map.empty, cattrs = (\<lambda>_. Map.empty)\<rparr>"
  by (simp add: mem_abs_def NewMemoryStore_def)

lemma mem_abs_sel [simp]: "objs (mem_abs m) = map_of (keys m)"
  by (simp add: mem_abs_def)

text \<open>Filing a record under its own identifier keeps the invariant.\<close>

lemma mem_inv_file:
  assumes "mem_inv m" "UID r = u" "State r = StateDestroyed \<longrightarrow> Material r = None"
  shows "mem_inv (m\<lparr>keys := AList.update u r (keys m)\<rparr>)"
  using assms by (auto simp: mem_inv_def)

lemma mem_abs_file:
  "mem_abs (m\<lparr>keys := AList.update u r (keys m)\<rparr>) = (mem_abs m)\<lparr>objs := (objs (mem_abs m))(u \<mapsto> r)\<rparr>"
  by (simp add: mem_abs_def)

lemma mem_inv_set_attrs:
  assumes "mem_inv m" "map_of (keys m) u \<noteq> None" "distinct (map fst a)"
  shows "mem_inv (m\<lparr>attrs := AList.update u a (attrs m)\<rparr>)"
  using assms by (auto simp: mem_inv_def)

lemma mem_abs_set_attrs:
  "mem_abs (m\<lparr>attrs := AList.update u a (attrs m)\<rparr>) = (mem_abs m)\<lparr>cattrs := (cattrs (mem_abs m))(u := map_of a)\<rparr>"
  by (auto simp: mem_abs_def fun_eq_iff)

lemma mem_Get_live: "mem_Get d u m = live (mem_abs m) u"
  by (simp add: mem_Get_def live_def)

lemma mem_range_mset:
  assumes "mem_inv m" "draw_ok d"
  shows "mset (mem_range d m) = mset (map snd (keys m))"
proof -
  let ?f = "map_of (keys m)"
  have "mset (List.map_filter ?f (d_perm d (map fst (keys m)))) =
        mset (List.map_filter ?f (map fst (keys m)))"
    using assms(2) by (simp add: draw_ok_def List.map_filter_def)
  moreover have "List.map_filter ?f (map fst (keys m)) = map snd (keys m)"
    using mem_invD(1)[OF assms(1)] by (rule map_filter_map_of)
  ultimately show ?thesis by (simp add: mem_range_def)
qed

lemma mem_keys_snd:
  assumes "mem_inv m"
  shows "r \<in> snd ` set (keys m) \<longleftrightarrow> map_of (keys m) (UID r) = Some r"
proof
  assume "r \<in> snd ` set (keys m)"
  then obtain u where "(u, r) \<in> set (keys m)" by auto
  with mem_invD(1)[OF assms] have "map_of (keys m) u = Some r" by simp
  with mem_invD(3)[OF assms this] show "map_of (keys m) (UID r) = Some r" by simp
next
  assume "map_of (keys m) (UID r) = Some r"
  then have "(UID r, r) \<in> set (keys m)" by (rule map_of_SomeD)
  then show "r \<in> snd ` set (keys m)" by force
qed

lemma mem_range_set:
  assumes "mem_inv m" "draw_ok d"
  shows "r \<in> set (mem_range d m) \<longleftrightarrow> map_of (keys m) (UID r) = Some r"
proof -
  have "set (mem_range d m) = snd ` set (keys m)"
    using mem_range_mset[OF assms] by (metis list.set_map mset_eq_setD)
  then show ?thesis by (simp add: mem_keys_snd[OF assms(1)])
qed

lemma mem_keys_uids:
  assumes "mem_inv m"
  shows "map UID (map snd (keys m)) = map fst (keys m)"
proof -
  have "UID (snd p) = fst p" if "p \<in> set (keys m)" for p
    using that mem_invD(1)[OF assms] mem_invD(3)[OF assms, of "fst p" "snd p"] by simp
  then show ?thesis by simp
qed

lemma mem_range_distinct:
  assumes "mem_inv m" "draw_ok d"
  shows "distinct (map UID (mem_range d m))"
proof -
  have "mset (map UID (mem_range d m)) = mset (map fst (keys m))"
    using mem_range_mset[OF assms] mem_keys_uids[OF assms(1)] by (metis mset_map)
  then show ?thesis
    using mem_invD(1)[OF assms(1)] by (metis mset_eq_imp_distinct_iff)
qed

section \<open>Every operation keeps the invariant and has the promised effect\<close>

lemma mem_Create_err: "mem_Create d name alg len usage own m = (Inl e, m') \<Longrightarrow> m' = m"
  by (auto simp: mem_Create_def Let_def split: if_splits sum.splits)

lemma mem_Create_ok:
  assumes "mem_inv m" "mem_Create d name alg len usage own m = (Inr rec, m')"
  shows "mem_inv m' \<and> valid_length len \<and> adds rec (mem_abs m) (mem_abs m') \<and>
    (\<exists>b. d_rand d (key_size len) = Inr b \<and> rec = new_key d name alg len usage own b)"
proof -
  from assms(2) obtain b where b: "valid_length len" "d_rand d (key_size len) = Inr b"
      "rec = new_key d name alg len usage own b" "m' = m\<lparr>keys := AList.update (UID rec) rec (keys m)\<rparr>"
    by (auto simp: mem_Create_def Let_def valid_length_def key_size_def new_key_def
        split: if_splits sum.splits)
  have "mem_inv m'"
    unfolding b(4) by (rule mem_inv_file[OF assms(1)]) (simp_all add: b(3) go_const)
  with b show ?thesis by (auto simp: mem_abs_file adds_def intro!: puts_same)
qed

lemma mem_Create_total:
  "valid_length len \<Longrightarrow> d_rand d (key_size len) = Inr b \<Longrightarrow>
    fst (mem_Create d name alg len usage own m) = Inr (new_key d name alg len usage own b)"
  by (simp add: mem_Create_def valid_length_def key_size_def new_key_def Let_def)

lemma mem_Register_err: "mem_Register d r m = (Inl e, m') \<Longrightarrow> m' = m"
  by (auto simp: mem_Register_def Let_def split: if_splits)

lemma mem_Register_ok:
  assumes "mem_inv m" "mem_Register d r m = (Inr rec, m')"
  shows "mem_inv m' \<and> rec = registered d r \<and> adds rec (mem_abs m) (mem_abs m')"
proof -
  from assms(2) have b: "rec = registered d r" "m' = m\<lparr>keys := AList.update (UID rec) rec (keys m)\<rparr>"
    by (auto simp: mem_Register_def registered_def Let_def split: if_splits)
  have "mem_inv m'"
    unfolding b(2) by (rule mem_inv_file[OF assms(1)]) (simp_all add: b(1) go_const)
  with b show ?thesis by (auto simp: mem_abs_file adds_def intro!: puts_same)
qed

lemma mem_Register_total: "0 \<le> sint (Length r) \<Longrightarrow> \<exists>rec. fst (mem_Register d r m) = Inr rec"
  by (simp add: mem_Register_def Let_def)

text \<open>
  The methods that overwrite a live record in place share one shape: the record is looked up, a
  missing or destroyed one is an error, otherwise \<open>f\<close> of it is filed under the same identifier.
\<close>

lemma mem_update_ok:
  assumes "mem_inv m" "live (mem_abs m) u = Some r" "m' = m\<lparr>keys := AList.update u (f r) (keys m)\<rparr>"
    and "UID (f r) = UID r" "State (f r) = StateDestroyed \<longrightarrow> Material (f r) = None"
  shows "mem_inv m' \<and> updates u f (mem_abs m) (mem_abs m')"
proof
  have "UID r = u"
    using assms(1,2) mem_invD(3) by (auto simp: live_Some_iff)
  then show "mem_inv m'"
    unfolding assms(3) by (intro mem_inv_file assms(1)) (simp_all add: assms(4,5))
  show "updates u f (mem_abs m) (mem_abs m')"
    unfolding updates_def assms(3) mem_abs_file using assms(2) by blast
qed

lemma mem_Activate_err: "mem_Activate d u m = (Some e, m') \<Longrightarrow> m' = m"
  by (auto simp: mem_Activate_def split: option.splits if_splits)

lemma mem_Activate_ok:
  assumes "mem_inv m" "mem_Activate d u m = (None, m')"
  shows "mem_inv m' \<and> updates u (\<lambda>r. r\<lparr>State := StateActive\<rparr>) (mem_abs m) (mem_abs m')"
proof -
  from assms(2) obtain r where "live (mem_abs m) u = Some r"
      "m' = m\<lparr>keys := AList.update u (r\<lparr>State := StateActive\<rparr>) (keys m)\<rparr>"
    by (auto simp: mem_Activate_def live_Some_iff split: option.splits if_splits)
  from mem_update_ok[where f = "\<lambda>r. r\<lparr>State := StateActive\<rparr>", OF assms(1) this] show ?thesis by (simp add: go_const)
qed

lemma mem_Activate_total: "live (mem_abs m) u = Some r \<Longrightarrow> fst (mem_Activate d u m) = None"
  by (simp add: mem_Activate_def live_Some_iff)

lemma mem_Destroy_err: "mem_Destroy d u m = (Some e, m') \<Longrightarrow> m' = m"
  by (auto simp: mem_Destroy_def Let_def split: option.splits if_splits)

lemma mem_Destroy_ok:
  assumes "mem_inv m" "mem_Destroy d u m = (None, m')"
  shows "mem_inv m' \<and> updates u (\<lambda>r. r\<lparr>Material := None, State := StateDestroyed\<rparr>) (mem_abs m) (mem_abs m')"
proof -
  from assms(2) obtain r where "live (mem_abs m) u = Some r"
      "m' = m\<lparr>keys := AList.update u (r\<lparr>Material := None, State := StateDestroyed\<rparr>) (keys m)\<rparr>"
    by (auto simp: mem_Destroy_def Let_def live_Some_iff split: option.splits if_splits)
  from mem_update_ok[where f = "\<lambda>r. r\<lparr>Material := None, State := StateDestroyed\<rparr>", OF assms(1) this] show ?thesis by simp
qed

lemma mem_Destroy_total: "live (mem_abs m) u = Some r \<Longrightarrow> fst (mem_Destroy d u m) = None"
  by (simp add: mem_Destroy_def live_Some_iff Let_def)

lemma mem_Revoke_err: "mem_Revoke d u k m = (Some e, m') \<Longrightarrow> m' = m"
  by (auto simp: mem_Revoke_def split: option.splits if_splits)

lemma mem_Revoke_ok:
  assumes "mem_inv m" "mem_Revoke d u k m = (None, m')"
  shows "mem_inv m' \<and>
    updates u (\<lambda>r. r\<lparr>State := StateRevoked, RevocationReason := k\<rparr>) (mem_abs m) (mem_abs m')"
proof -
  from assms(2) obtain r where "live (mem_abs m) u = Some r"
      "m' = m\<lparr>keys := AList.update u (r\<lparr>State := StateRevoked, RevocationReason := k\<rparr>) (keys m)\<rparr>"
    by (auto simp: mem_Revoke_def live_Some_iff split: option.splits if_splits)
  from mem_update_ok[where f = "\<lambda>r. r\<lparr>State := StateRevoked, RevocationReason := k\<rparr>", OF assms(1) this] show ?thesis by (simp add: go_const)
qed

lemma mem_Revoke_total: "live (mem_abs m) u = Some r \<Longrightarrow> fst (mem_Revoke d u k m) = None"
  by (simp add: mem_Revoke_def live_Some_iff)

lemma mem_Rekey_err: "mem_Rekey d u m = (Inl e, m') \<Longrightarrow> m' = m"
  by (auto simp: mem_Rekey_def Let_def split: option.splits if_splits sum.splits)

lemma mem_Rekey_ok:
  assumes "mem_inv m" "mem_Rekey d u m = (Inr rec, m')"
  shows "mem_inv m' \<and> (\<exists>r b. live (mem_abs m) u = Some r \<and> valid_length (Length r) \<and>
    d_rand d (key_size (Length r)) = Inr b \<and>
    rec = r\<lparr>Material := Some b, Version := int64 (Version r + 1)\<rparr> \<and>
    puts u rec (mem_abs m) (mem_abs m'))"
proof -
  from assms(2) obtain r b where r: "live (mem_abs m) u = Some r" "valid_length (Length r)"
      "d_rand d (key_size (Length r)) = Inr b"
      "rec = r\<lparr>Material := Some b, Version := int64 (Version r + 1)\<rparr>"
      "m' = m\<lparr>keys := AList.update u rec (keys m)\<rparr>"
    by (auto simp: mem_Rekey_def Let_def valid_length_def key_size_def live_Some_iff
        split: option.splits if_splits sum.splits)
  have "mem_inv m'"
    using mem_update_ok[where f = "\<lambda>_. rec", OF assms(1) r(1,5)] live_SomeD[OF r(1)]
    by (simp add: r(4))
  with r show ?thesis by (auto simp: mem_abs_file intro!: puts_same)
qed

lemma mem_Archive_err: "mem_Archive d u m = (Some e, m') \<Longrightarrow> m' = m"
  by (auto simp: mem_Archive_def split: option.splits if_splits)

lemma mem_Archive_ok:
  assumes "mem_inv m" "mem_Archive d u m = (None, m')"
  shows "mem_inv m' \<and> updates u (\<lambda>r. r\<lparr>State := StateArchived\<rparr>) (mem_abs m) (mem_abs m')"
proof -
  from assms(2) obtain r where "live (mem_abs m) u = Some r"
      "m' = m\<lparr>keys := AList.update u (r\<lparr>State := StateArchived\<rparr>) (keys m)\<rparr>"
    by (auto simp: mem_Archive_def live_Some_iff split: option.splits if_splits)
  from mem_update_ok[where f = "\<lambda>r. r\<lparr>State := StateArchived\<rparr>", OF assms(1) this] show ?thesis by (simp add: go_const)
qed

lemma mem_Recover_err: "mem_Recover d u m = (Some e, m') \<Longrightarrow> m' = m"
  by (auto simp: mem_Recover_def split: option.splits if_splits)

lemma mem_Recover_ok:
  assumes "mem_inv m" "mem_Recover d u m = (None, m')"
  shows "mem_inv m' \<and> (\<exists>r. live (mem_abs m) u = Some r \<and> State r = StateArchived) \<and>
    updates u (\<lambda>r. r\<lparr>State := StatePreActive\<rparr>) (mem_abs m) (mem_abs m')"
proof -
  from assms(2) obtain r where r: "live (mem_abs m) u = Some r"
      "m' = m\<lparr>keys := AList.update u (r\<lparr>State := StatePreActive\<rparr>) (keys m)\<rparr>"
    and a: "State r = StateArchived"
    by (auto simp: mem_Recover_def live_Some_iff go_const split: option.splits if_splits)
  from mem_update_ok[where f = "\<lambda>r. r\<lparr>State := StatePreActive\<rparr>", OF assms(1) r] r(1) a show ?thesis by (simp add: go_const)
qed

lemma mem_DeriveKey_err: "mem_DeriveKey H d u dat name len m = (Inl e, m') \<Longrightarrow> m' = m"
  by (auto simp: mem_DeriveKey_def Let_def split: option.splits if_splits sum.splits)

lemma mem_DeriveKey_ok:
  assumes "mem_inv m" "mem_DeriveKey H d u dat name len m = (Inr rec, m')"
  shows "mem_inv m' \<and> adds rec (mem_abs m) (mem_abs m') \<and> derive_size len \<le> MaxDerivedKeyBytes \<and>
    (\<exists>r b. live (mem_abs m) u = Some r \<and> H (Material r) dat ''kmip-derive'' (nat (derive_size len)) = Inr b \<and>
      rec = new_key d name (Algorithm r) len (UsageMask r) (Owner r) b)"
proof -
  from assms(2) obtain r b where r: "live (mem_abs m) u = Some r" "derive_size len \<le> MaxDerivedKeyBytes"
      "H (Material r) dat ''kmip-derive'' (nat (derive_size len)) = Inr b"
      "rec = new_key d name (Algorithm r) len (UsageMask r) (Owner r) b"
      "m' = m\<lparr>keys := AList.update (UID rec) rec (keys m)\<rparr>"
    unfolding mem_DeriveKey_def Let_def derive_size_def[unfolded Let_def, symmetric]
    by (auto simp: mem_Get_live new_key_def not_less split: option.splits if_splits sum.splits)
  have "mem_inv m'"
    unfolding r(5) by (rule mem_inv_file[OF assms(1)]) (simp_all add: r(4) go_const)
  with r show ?thesis by (auto simp: mem_abs_file adds_def intro!: puts_same)
qed

lemma mem_SetCustomAttribute_err: "mem_SetCustomAttribute d u n x m = (Some e, m') \<Longrightarrow> m' = m"
  by (auto simp: mem_SetCustomAttribute_def Let_def split: option.splits)

lemma mem_SetCustomAttribute_ok:
  assumes "mem_inv m" "mem_SetCustomAttribute d u n x m = (None, m')"
  shows "mem_inv m' \<and> live (mem_abs m) u \<noteq> None \<and>
    mem_abs m' = (mem_abs m)\<lparr>cattrs := (cattrs (mem_abs m))(u := (cattrs (mem_abs m) u)(n \<mapsto> x))\<rparr>"
proof -
  let ?a = "case map_of (attrs m) u of None \<Rightarrow> [] | Some a \<Rightarrow> a"
  from assms(2) have l: "live (mem_abs m) u \<noteq> None"
    and m': "m' = m\<lparr>attrs := AList.update u (AList.update n x ?a) (attrs m)\<rparr>"
    by (auto simp: mem_SetCustomAttribute_def Let_def mem_Get_live split: option.splits)
  have "mem_inv m'"
    unfolding m' using l mem_invD(6)[OF assms(1)]
    by (intro mem_inv_set_attrs assms(1)) (auto simp: live_Some_iff split: option.splits)
  moreover have "map_of ?a = cattrs (mem_abs m) u"
    by (simp add: mem_abs_def split: option.splits)
  ultimately show ?thesis
    using l unfolding m' mem_abs_set_attrs by simp
qed

lemma mem_DeleteCustomAttribute_err: "mem_DeleteCustomAttribute d u n m = (Some e, m') \<Longrightarrow> m' = m"
  by (auto simp: mem_DeleteCustomAttribute_def split: option.splits)

lemma mem_DeleteCustomAttribute_ok:
  assumes "mem_inv m" "mem_DeleteCustomAttribute d u n m = (None, m')"
  shows "mem_inv m' \<and> live (mem_abs m) u \<noteq> None \<and>
    mem_abs m' = (mem_abs m)\<lparr>cattrs := (cattrs (mem_abs m))(u := (cattrs (mem_abs m) u)(n := None))\<rparr>"
proof (cases "map_of (attrs m) u")
  case None
  with assms have "m' = m" "live (mem_abs m) u \<noteq> None" "cattrs (mem_abs m) u = Map.empty"
    by (auto simp: mem_DeleteCustomAttribute_def mem_Get_live mem_abs_def split: option.splits)
  then show ?thesis using assms(1) by (simp add: fun_upd_idem)
next
  case (Some a)
  with assms have l: "live (mem_abs m) u \<noteq> None"
    and m': "m' = m\<lparr>attrs := AList.update u (AList.delete n a) (attrs m)\<rparr>"
    by (auto simp: mem_DeleteCustomAttribute_def mem_Get_live split: option.splits)
  have "mem_inv m'"
    unfolding m' using l mem_invD(6)[OF assms(1) Some]
    by (intro mem_inv_set_attrs assms(1)) (auto simp: live_Some_iff)
  moreover have "map_of a = cattrs (mem_abs m) u"
    using Some by (simp add: mem_abs_def)
  ultimately show ?thesis
    using l unfolding m' mem_abs_set_attrs by simp
qed

lemma mem_GetCustomAttributes_ok:
  "mem_GetCustomAttributes d u m = Inr al \<Longrightarrow> live (mem_abs m) u \<noteq> None \<and> map_of al = cattrs (mem_abs m) u"
  by (auto simp: mem_GetCustomAttributes_def mem_Get_live mem_abs_def split: option.splits)

lemma mem_GetCustomAttributes_total:
  "live (mem_abs m) u \<noteq> None \<Longrightarrow> \<exists>al. mem_GetCustomAttributes d u m = Inr al \<and> map_of al = cattrs (mem_abs m) u"
  by (auto simp: mem_GetCustomAttributes_def mem_Get_live mem_abs_def split: option.splits)

lemma mem_SetCustomAttribute_total:
  "live (mem_abs m) u \<noteq> None \<Longrightarrow> fst (mem_SetCustomAttribute d u n x m) = None"
  by (auto simp: mem_SetCustomAttribute_def mem_Get_live Let_def split: option.splits)

section \<open>The store fulfils the storage contract\<close>

lemma memory_storage_sel [simp]:
  "Create (memory_storage H) = mem_Create" "Get (memory_storage H) = mem_Get"
  "Locate (memory_storage H) = mem_Locate" "List (memory_storage H) = mem_List"
  "Activate (memory_storage H) = mem_Activate" "Destroy (memory_storage H) = mem_Destroy"
  "Register (memory_storage H) = mem_Register" "Revoke (memory_storage H) = mem_Revoke"
  "GetAttributes (memory_storage H) = mem_GetAttributes" "Rekey (memory_storage H) = mem_Rekey"
  "Archive (memory_storage H) = mem_Archive" "Recover (memory_storage H) = mem_Recover"
  "DeriveKey (memory_storage H) = mem_DeriveKey H"
  "GetCustomAttributes (memory_storage H) = mem_GetCustomAttributes"
  "SetCustomAttribute (memory_storage H) = mem_SetCustomAttribute"
  "DeleteCustomAttribute (memory_storage H) = mem_DeleteCustomAttribute"
  "Close (memory_storage H) = mem_Close"
  by (simp_all add: memory_storage_def)

lemma mem_Locate_set:
  assumes "mem_inv m" "draw_ok d"
  shows "u \<in> set (mem_Locate d name m) \<longleftrightarrow> (\<exists>r. live (mem_abs m) u = Some r \<and> Name r = name)"
  using mem_range_set[OF assms] mem_invD(3)[OF assms(1)]
  by (auto simp: mem_Locate_def live_Some_iff image_iff)

lemma mem_Locate_distinct:
  assumes "mem_inv m" "draw_ok d"
  shows "distinct (mem_Locate d name m)"
  using mem_range_distinct[OF assms] by (simp add: mem_Locate_def distinct_map_filter)

lemma mem_List_set:
  assumes "mem_inv m" "draw_ok d"
  shows "r \<in> set (mem_List d m) \<longleftrightarrow> live (mem_abs m) (UID r) = Some r"
  using mem_range_set[OF assms] by (auto simp: mem_List_def live_Some_iff)

lemmas mem_contract =
  mem_Create_ok mem_Create_err mem_Create_total mem_Register_ok mem_Register_err
  mem_Activate_ok mem_Activate_err mem_Activate_total mem_Destroy_err mem_Destroy_total
  mem_Revoke_ok mem_Revoke_err mem_Revoke_total mem_Rekey_ok mem_Rekey_err
  mem_Archive_ok mem_Archive_err mem_Recover_ok mem_Recover_err mem_DeriveKey_ok mem_DeriveKey_err
  mem_SetCustomAttribute_ok mem_SetCustomAttribute_err
  mem_DeleteCustomAttribute_ok mem_DeleteCustomAttribute_err mem_GetCustomAttributes_ok

interpretation mem: storage_contract "memory_storage H" mem_inv mem_abs "\<lambda>_. True" H for H
proof (unfold_locales, unfold memory_storage_sel)
  fix s d u r name
  assume i: "mem_inv s"
  show "mem_Get d u s = Some r \<Longrightarrow> live (mem_abs s) u = Some r"
    and "mem_Get d u s = live (mem_abs s) u" by (simp_all add: mem_Get_live)
  show "\<exists>al. mem_GetCustomAttributes d u s = Inr al \<and> map_of al = cattrs (mem_abs s) u"
    if "live (mem_abs s) u \<noteq> None" using that by (rule mem_GetCustomAttributes_total)
  show "0 \<le> sint (Length r) \<Longrightarrow> \<exists>rec. fst (mem_Register d r s) = Inr rec" by (rule mem_Register_total)
  show "live (mem_abs s) u \<noteq> None \<Longrightarrow> fst (mem_SetCustomAttribute d u n x s) = None" for n x
    by (rule mem_SetCustomAttribute_total)
  show "objs (mem_abs s) u = Some r \<Longrightarrow> UID r = u" using mem_invD(3)[OF i] by simp
  then show "live (mem_abs s) u = Some r \<Longrightarrow> draw_ok d \<Longrightarrow> r \<in> set (mem_List d s)"
    using i by (simp add: mem_List_set live_Some_iff)
  fix m assume "mem_Destroy d u s = (None, m)"
  from mem_Destroy_ok[OF i this] show "mem_inv m \<and>
    (\<exists>mat. sl mat = [] \<and> updates u (\<lambda>r. r\<lparr>Material := mat, State := StateDestroyed\<rparr>) (mem_abs s) (mem_abs m))"
    by (auto intro: exI[of _ None])
qed (auto simp: mem_Locate_set mem_Locate_distinct mem_List_set mem_GetAttributes_def
    dest: mem_contract)

end
