(* ===== verification/SQLite_Store.thy ===== *)
theory SQLite_Store
  imports Storage_Contract "HOL-Library.List_Lexorder" "HOL-Library.Char_ord"
begin

text \<open>
  \<open>internal/storage/sqlite.go\<close>: the key store backed by SQLite. The tables \<open>keys\<close> and
  \<open>key_attributes\<close> are lists of rows by primary key; each SQL statement of the source is a
  function on them. The \<open>k\<close>-th statement of a call fails where \<open>d_sql d k\<close> gives an error, and
  then changes nothing; where \<open>d_sql d (k + 1)\<close> gives one for a query, its iteration ends after
  \<open>d_cut d\<close> rows, as \<open>rows.Next\<close> does. What the driver decides is the parameter \<open>driver\<close>: how
  it reads an empty blob back, whether it binds a nil slice to NULL (the column is NOT NULL, so the
  insertion fails) or to an empty blob, its text for a violated primary key, and the text of a
  timestamp (RFC 3339 in the local zone), by which the source sorts.
\<close>

record SQLiteStore =
  key_rows :: "(string, KeyRecord) gomap"
  attr_rows :: "(string \<times> string, string) gomap"

record driver =
  empty_nil :: bool
  err_unique :: error
  err_nil :: "error option"
  ts_text :: "time \<Rightarrow> string"

text \<open>
  A blob is read back with the bytes that were written; an empty one may come back as a nil slice.
\<close>

definition blob_read :: "driver \<Rightarrow> bytes \<Rightarrow> slice" where
  "blob_read D b = (if b = [] \<and> empty_nil D then None else Some b)"

lemma sl_blob_read [simp]: "sl (blob_read D b) = b"
  by (simp add: blob_read_def)

section \<open>Statements\<close>

text \<open>\<open>scanKey\<close> and the loop of \<open>List\<close> read a row into a record.\<close>

definition scan_row :: "driver \<Rightarrow> KeyRecord \<Rightarrow> KeyRecord" where
  "scan_row D r = r\<lparr>Material := blob_read D (sl (Material r))\<rparr>"

definition insert_key :: "driver \<Rightarrow> error option \<Rightarrow> KeyRecord \<Rightarrow> SQLiteStore \<Rightarrow> error option \<times> SQLiteStore" where
  "insert_key D err rec s =
     (case err of
        Some e \<Rightarrow> (Some e, s)
      | None \<Rightarrow>
          if Material rec = None \<and> err_nil D \<noteq> None then (err_nil D, s)
          else if map_of (key_rows s) (UID rec) \<noteq> None then (Some (err_unique D), s)
          else (None, s\<lparr>key_rows := key_rows s @ [(UID rec, rec)]\<rparr>))"

text \<open>\<open>UPDATE keys SET f WHERE uid = ? AND cond\<close>, with the number of rows affected.\<close>

definition update_rows ::
  "string \<Rightarrow> (KeyRecord \<Rightarrow> bool) \<Rightarrow> (KeyRecord \<Rightarrow> KeyRecord) \<Rightarrow> (string, KeyRecord) gomap \<Rightarrow> (string, KeyRecord) gomap" where
  "update_rows uid cond f rows = map (\<lambda>(k, r). (k, if k = uid \<and> cond r then f r else r)) rows"

definition rows_affected :: "string \<Rightarrow> (KeyRecord \<Rightarrow> bool) \<Rightarrow> (string, KeyRecord) gomap \<Rightarrow> nat" where
  "rows_affected uid cond rows = length (filter (\<lambda>(k, r). k = uid \<and> cond r) rows)"

text \<open>The body shared by \<open>Activate\<close>, \<open>Destroy\<close>, \<open>Revoke\<close>, \<open>Archive\<close> and \<open>Recover\<close>.\<close>

definition exec_update ::
  "draw \<Rightarrow> string \<Rightarrow> string \<Rightarrow> string \<Rightarrow> (KeyRecord \<Rightarrow> bool) \<Rightarrow> (KeyRecord \<Rightarrow> KeyRecord) \<Rightarrow> SQLiteStore \<Rightarrow>
   error option \<times> SQLiteStore" where
  "exec_update d what missing uid cond f s =
     (case d_sql d 0 of
        Some e \<Rightarrow> (Some (what @ '': '' @ e), s)
      | None \<Rightarrow>
          let s' = s\<lparr>key_rows := update_rows uid cond f (key_rows s)\<rparr>
          in if rows_affected uid cond (key_rows s) = 0 then (Some (missing @ uid), s') else (None, s'))"

definition not_destroyed :: "KeyRecord \<Rightarrow> bool" where
  "not_destroyed r \<longleftrightarrow> State r \<noteq> StateDestroyed"

section \<open>Operations\<close>

text \<open>
  \<open>NewSQLiteStore\<close> on a database file with the contents \<open>file\<close>: the three pragmas are executed
  with their errors ignored, the tables are created only where they do not exist.
\<close>

definition NewSQLiteStore :: "draw \<Rightarrow> SQLiteStore \<Rightarrow> SQLiteStore result" where
  "NewSQLiteStore d file =
     (case d_sql d 0 of
        Some e \<Rightarrow> Inl (''open database: '' @ e)
      | None \<Rightarrow> (case d_sql d 4 of Some e \<Rightarrow> Inl (''create tables: '' @ e) | None \<Rightarrow> Inr file))"

definition sql_Get :: "driver \<Rightarrow> draw \<Rightarrow> string \<Rightarrow> SQLiteStore \<Rightarrow> KeyRecord option" where
  [store_defs]: "sql_Get D d uid s =
     (case d_sql d 0 of
        Some _ \<Rightarrow> None
      | None \<Rightarrow>
          (case map_of (key_rows s) uid of
             None \<Rightarrow> None
           | Some r \<Rightarrow> if not_destroyed r then Some (scan_row D r) else None))"

definition sql_Create ::
  "driver \<Rightarrow> draw \<Rightarrow> string \<Rightarrow> int \<Rightarrow> i32 \<Rightarrow> int \<Rightarrow> string \<Rightarrow> SQLiteStore \<Rightarrow> KeyRecord result \<times> SQLiteStore" where
  [store_defs]: "sql_Create D d name algorithm len usageMask own s =
     (if sint len \<le> 0 \<or> sint len > MaxKeyLengthBits
      then (Inl (''invalid key length: '' @ fmt_d (sint len) @ '' (must be 1-'' @ fmt_d MaxKeyLengthBits @ '' bits)''), s)
      else case d_rand d (nat (sint len sdiv 8)) of
        Inl e \<Rightarrow> (Inl (''generate key material: '' @ e), s)
      | Inr keyBytes \<Rightarrow>
          let rec = \<lparr>UID = d_uuid d, Name = name, ObjectType = 2, Algorithm = algorithm,
            Length = len, Material = Some keyBytes, UsageMask = usageMask, State = StatePreActive,
            RevocationReason = 0, Owner = own, CreatedAt = d_now d, Version = 1\<rparr>
          in (case insert_key D (d_sql d 0) rec s of
                (Some e, s') \<Rightarrow> (Inl (''insert key: '' @ e), s')
              | (None, s') \<Rightarrow> (Inr rec, s')))"

definition sql_Locate :: "draw \<Rightarrow> string \<Rightarrow> SQLiteStore \<Rightarrow> string list" where
  [store_defs]: "sql_Locate d name s =
     (case d_sql d 0 of
        Some _ \<Rightarrow> []
      | None \<Rightarrow> delivered d 1 (filter (\<lambda>u. case map_of (key_rows s) u of
          None \<Rightarrow> False | Some r \<Rightarrow> Name r = name \<and> not_destroyed r) (d_perm d (map fst (key_rows s)))))"

text \<open>\<open>ORDER BY created_at DESC\<close> compares the texts of the timestamps.\<close>

definition sql_List :: "driver \<Rightarrow> draw \<Rightarrow> SQLiteStore \<Rightarrow> KeyRecord list" where
  [store_defs]: "sql_List D d s =
     (case d_sql d 0 of
        Some _ \<Rightarrow> []
      | None \<Rightarrow> map (scan_row D) (delivered d 1 (rev (sort_key (\<lambda>r. ts_text D (CreatedAt r))
          (filter not_destroyed (List.map_filter (map_of (key_rows s)) (d_perm d (map fst (key_rows s)))))))))"

definition sql_Activate :: "draw \<Rightarrow> string \<Rightarrow> SQLiteStore \<Rightarrow> error option \<times> SQLiteStore" where
  [store_defs]: "sql_Activate d uid s =
     exec_update d ''activate'' ''object not found: '' uid not_destroyed (\<lambda>r. r\<lparr>State := StateActive\<rparr>) s"

definition sql_Destroy :: "draw \<Rightarrow> string \<Rightarrow> SQLiteStore \<Rightarrow> error option \<times> SQLiteStore" where
  [store_defs]: "sql_Destroy d uid s =
     exec_update d ''destroy'' ''object not found: '' uid not_destroyed
       (\<lambda>r. r\<lparr>State := StateDestroyed, Material := Some []\<rparr>) s"

definition sql_Register :: "driver \<Rightarrow> draw \<Rightarrow> KeyRecord \<Rightarrow> SQLiteStore \<Rightarrow> KeyRecord result \<times> SQLiteStore" where
  [store_defs]: "sql_Register D d rec s =
     (if ObjectType rec \<noteq> 1 \<and> sint (Length rec) < 0
      then (Inl (''invalid key length: '' @ fmt_d (sint (Length rec))), s)
      else let rec' = rec\<lparr>UID := d_uuid d, CreatedAt := d_now d, State := StatePreActive,
                          Version := (if Version rec = 0 then 1 else Version rec)\<rparr>
           in (case insert_key D (d_sql d 0) rec' s of
                 (Some e, s') \<Rightarrow> (Inl (''register: '' @ e), s')
               | (None, s') \<Rightarrow> (Inr rec', s')))"

definition sql_Revoke :: "draw \<Rightarrow> string \<Rightarrow> int \<Rightarrow> SQLiteStore \<Rightarrow> error option \<times> SQLiteStore" where
  [store_defs]: "sql_Revoke d uid reason s =
     exec_update d ''revoke'' ''object not found: '' uid not_destroyed
       (\<lambda>r. r\<lparr>State := StateRevoked, RevocationReason := reason\<rparr>) s"

text \<open>\<open>Rekey\<close>: the result of the final UPDATE is not examined.\<close>

definition sql_Rekey :: "driver \<Rightarrow> draw \<Rightarrow> string \<Rightarrow> SQLiteStore \<Rightarrow> KeyRecord result \<times> SQLiteStore" where
  [store_defs]: "sql_Rekey D d uid s =
     (case sql_Get D d uid s of
        None \<Rightarrow> (Inl (''object not found: '' @ uid), s)
      | Some rec \<Rightarrow>
          if sint (Length rec) \<le> 0 \<or> sint (Length rec) > MaxKeyLengthBits
          then (Inl (''invalid key length for rekey: '' @ fmt_d (sint (Length rec))), s)
          else case d_rand d (nat (sint (Length rec) sdiv 8)) of
            Inl e \<Rightarrow> (Inl (''generate key material: '' @ e), s)
          | Inr keyBytes \<Rightarrow>
              let newVersion = int64 (Version rec + 1)
              in (case d_sql d 1 of
                    Some e \<Rightarrow> (Inl (''rekey: '' @ e), s)
                  | None \<Rightarrow>
                      (Inr (rec\<lparr>Material := Some keyBytes, Version := newVersion\<rparr>),
                       s\<lparr>key_rows := update_rows uid not_destroyed
                         (\<lambda>r. r\<lparr>Material := Some keyBytes, Version := newVersion\<rparr>) (key_rows s)\<rparr>)))"

definition sql_Archive :: "draw \<Rightarrow> string \<Rightarrow> SQLiteStore \<Rightarrow> error option \<times> SQLiteStore" where
  [store_defs]: "sql_Archive d uid s =
     exec_update d ''archive'' ''object not found: '' uid not_destroyed (\<lambda>r. r\<lparr>State := StateArchived\<rparr>) s"

definition sql_Recover :: "draw \<Rightarrow> string \<Rightarrow> SQLiteStore \<Rightarrow> error option \<times> SQLiteStore" where
  [store_defs]: "sql_Recover d uid s =
     exec_update d ''recover'' ''object not found or not archived: '' uid
       (\<lambda>r. State r = StateArchived) (\<lambda>r. r\<lparr>State := StatePreActive\<rparr>) s"

definition sql_DeriveKey ::
  "driver \<Rightarrow> (slice \<Rightarrow> slice \<Rightarrow> string \<Rightarrow> nat \<Rightarrow> bytes result) \<Rightarrow> draw \<Rightarrow> string \<Rightarrow> slice \<Rightarrow> string \<Rightarrow> i32 \<Rightarrow>
   SQLiteStore \<Rightarrow> KeyRecord result \<times> SQLiteStore" where
  [store_defs]: "sql_DeriveKey D H d sourceUID derivationData name len s =
     (case sql_Get D d sourceUID s of
        None \<Rightarrow> (Inl (''source key not found: '' @ sourceUID), s)
      | Some src \<Rightarrow>
          let keyLen0 = sint len sdiv 8;
              keyLen = (if keyLen0 \<le> 0 then 32 else keyLen0)
          in if keyLen > MaxDerivedKeyBytes
             then (Inl (''derived key length '' @ fmt_d keyLen @ '' bytes exceeds maximum '' @ fmt_d MaxDerivedKeyBytes), s)
             else case H (Material src) derivationData ''kmip-derive'' (nat keyLen) of
               Inl e \<Rightarrow> (Inl (''HKDF derivation failed: '' @ e), s)
             | Inr derived \<Rightarrow>
                 let rec = \<lparr>UID = d_uuid d, Name = name, ObjectType = 2, Algorithm = Algorithm src,
                       Length = len, Material = Some derived, UsageMask = UsageMask src,
                       State = StatePreActive, RevocationReason = 0, Owner = Owner src,
                       CreatedAt = d_now d, Version = 1\<rparr>
                 in (case insert_key D (d_sql d 1) rec s of
                       (Some e, s') \<Rightarrow> (Inl (''insert derived key: '' @ e), s')
                     | (None, s') \<Rightarrow> (Inr rec, s')))"

definition sql_GetAttributes :: "driver \<Rightarrow> draw \<Rightarrow> string \<Rightarrow> SQLiteStore \<Rightarrow> KeyRecord option" where
  [store_defs]: "sql_GetAttributes D d uid s = sql_Get D d uid s"

definition sql_GetCustomAttributes ::
  "driver \<Rightarrow> draw \<Rightarrow> string \<Rightarrow> SQLiteStore \<Rightarrow> (string, string) gomap result" where
  [store_defs]: "sql_GetCustomAttributes D d uid s =
     (case sql_Get D d uid s of
        None \<Rightarrow> Inl (''object not found: '' @ uid)
      | Some _ \<Rightarrow>
          (case d_sql d 1 of
             Some e \<Rightarrow> Inl e
           | None \<Rightarrow> Inr (delivered d 2 (map (\<lambda>((u, n), v). (n, v)) (filter (\<lambda>((u, n), v). u = uid) (attr_rows s))))))"

definition sql_SetCustomAttribute ::
  "driver \<Rightarrow> draw \<Rightarrow> string \<Rightarrow> string \<Rightarrow> string \<Rightarrow> SQLiteStore \<Rightarrow> error option \<times> SQLiteStore" where
  [store_defs]: "sql_SetCustomAttribute D d uid name val s =
     (case sql_Get D d uid s of
        None \<Rightarrow> (Some (''object not found: '' @ uid), s)
      | Some _ \<Rightarrow>
          (case d_sql d 1 of
             Some e \<Rightarrow> (Some e, s)
           | None \<Rightarrow> (None, s\<lparr>attr_rows := AList.update (uid, name) val (attr_rows s)\<rparr>)))"

definition sql_DeleteCustomAttribute ::
  "driver \<Rightarrow> draw \<Rightarrow> string \<Rightarrow> string \<Rightarrow> SQLiteStore \<Rightarrow> error option \<times> SQLiteStore" where
  [store_defs]: "sql_DeleteCustomAttribute D d uid name s =
     (case sql_Get D d uid s of
        None \<Rightarrow> (Some (''object not found: '' @ uid), s)
      | Some _ \<Rightarrow>
          (case d_sql d 1 of
             Some e \<Rightarrow> (Some e, s)
           | None \<Rightarrow> (None, s\<lparr>attr_rows := AList.delete (uid, name) (attr_rows s)\<rparr>)))"

definition sql_Close :: "SQLiteStore \<Rightarrow> error option \<times> SQLiteStore" where
  [store_defs]: "sql_Close s = (None, s)"

definition sqlite_storage ::
  "driver \<Rightarrow> (slice \<Rightarrow> slice \<Rightarrow> string \<Rightarrow> nat \<Rightarrow> bytes result) \<Rightarrow> SQLiteStore Storage" where
  "sqlite_storage D H = \<lparr>Create = sql_Create D, Get = sql_Get D, Locate = sql_Locate, List = sql_List D,
     Activate = sql_Activate, Destroy = sql_Destroy, Register = sql_Register D, Revoke = sql_Revoke,
     GetAttributes = sql_GetAttributes D, Rekey = sql_Rekey D, Archive = sql_Archive,
     Recover = sql_Recover, DeriveKey = sql_DeriveKey D H,
     GetCustomAttributes = sql_GetCustomAttributes D, SetCustomAttribute = sql_SetCustomAttribute D,
     DeleteCustomAttribute = sql_DeleteCustomAttribute D, Close = sql_Close\<rparr>"

section \<open>Invariant and abstraction\<close>

definition sql_inv :: "SQLiteStore \<Rightarrow> bool" where
  "sql_inv s \<longleftrightarrow> distinct (map fst (key_rows s)) \<and> (\<forall>(k, r) \<in> set (key_rows s). UID r = k) \<and>
     distinct (map fst (attr_rows s))"

definition sql_abs :: "driver \<Rightarrow> SQLiteStore \<Rightarrow> vault" where
  "sql_abs D s = \<lparr>objs = (\<lambda>u. map_option (scan_row D) (map_of (key_rows s) u)),
     cattrs = (\<lambda>u n. map_of (attr_rows s) (u, n))\<rparr>"

definition sql_good :: "draw \<Rightarrow> bool" where
  "sql_good d \<longleftrightarrow> (\<forall>k. d_sql d k = None)"

lemma sql_goodD [simp]: "sql_good d \<Longrightarrow> d_sql d k = None"
  by (simp add: sql_good_def)

lemma scan_row_sel [simp]:
  "UID (scan_row D r) = UID r" "Name (scan_row D r) = Name r" "State (scan_row D r) = State r"
  "Length (scan_row D r) = Length r" "Version (scan_row D r) = Version r"
  "CreatedAt (scan_row D r) = CreatedAt r"
  by (simp_all add: scan_row_def)

lemma scan_row_stored: "stored r (scan_row D r)"
  unfolding stored_def scan_row_def by (rule exI[of _ "blob_read D (sl (Material r))"]) simp

lemma sql_abs_sel [simp]:
  "objs (sql_abs D s) u = map_option (scan_row D) (map_of (key_rows s) u)"
  "cattrs (sql_abs D s) u n = map_of (attr_rows s) (u, n)"
  by (simp_all add: sql_abs_def)

lemma live_sql: "live (sql_abs D s) u =
    (case map_of (key_rows s) u of None \<Rightarrow> None | Some r \<Rightarrow> if not_destroyed r then Some (scan_row D r) else None)"
  by (simp add: live_def not_destroyed_def split: option.split)

lemma sql_Get_live: "sql_Get D d u s = (case d_sql d 0 of None \<Rightarrow> live (sql_abs D s) u | Some _ \<Rightarrow> None)"
  by (simp add: sql_Get_def live_sql split: option.split)

lemma sql_Get_SomeD: "sql_Get D d u s = Some r \<Longrightarrow> live (sql_abs D s) u = Some r \<and> d_sql d 0 = None"
  by (simp add: sql_Get_live split: option.splits)

lemma sql_inv_uid: "sql_inv s \<Longrightarrow> map_of (key_rows s) u = Some r \<Longrightarrow> UID r = u"
  by (auto simp: sql_inv_def dest: map_of_SomeD)

section \<open>Insertions\<close>

lemma insert_key_ok:
  assumes "sql_inv s" "insert_key D err rec s = (None, s')"
  shows "sql_inv s' \<and> adds rec (sql_abs D s) (sql_abs D s')"
proof -
  from assms(2) have n: "map_of (key_rows s) (UID rec) = None"
    and s': "s' = s\<lparr>key_rows := key_rows s @ [(UID rec, rec)]\<rparr>"
    by (auto simp: insert_key_def split: option.splits if_splits)
  have "sql_inv s'"
    using assms(1) n by (auto simp: sql_inv_def s' map_of_eq_None_iff)
  moreover have "sql_abs D s' = (sql_abs D s)\<lparr>objs := (objs (sql_abs D s))(UID rec \<mapsto> scan_row D rec)\<rparr>"
    using n by (auto simp: sql_abs_def s' fun_eq_iff map_add_def split: option.split)
  ultimately show ?thesis
    using scan_row_stored[of rec D] by (auto simp: adds_def puts_def)
qed

lemma insert_key_err: "insert_key D err rec s = (Some e, s') \<Longrightarrow> s' = s"
  by (auto simp: insert_key_def split: option.splits if_splits)

section \<open>Updates\<close>

lemma map_of_update_rows:
  "map_of (update_rows uid cond f rows) u =
     map_option (\<lambda>r. if u = uid \<and> cond r then f r else r) (map_of rows u)"
  by (induction rows) (auto simp: update_rows_def)

lemma update_rows_keys [simp]: "map fst (update_rows uid cond f rows) = map fst rows"
  by (induction rows) (auto simp: update_rows_def)

lemma update_rows_set: "(k, r) \<in> set (update_rows uid cond f rows) \<Longrightarrow>
    (k, r) \<in> set rows \<or> (\<exists>r0. (k, r0) \<in> set rows \<and> r = f r0)"
  by (force simp: update_rows_def split: if_splits)

lemma rows_affected_0:
  assumes "distinct (map fst rows)"
  shows "rows_affected uid cond rows = 0 \<longleftrightarrow> (\<forall>r. map_of rows uid = Some r \<longrightarrow> \<not> cond r)"
  using assms by (auto simp: rows_affected_def filter_empty_conv)

lemma sql_inv_update:
  assumes "sql_inv s" "\<And>r. UID (f r) = UID r"
  shows "sql_inv (s\<lparr>key_rows := update_rows uid cond f (key_rows s)\<rparr>)"
proof -
  have "UID r = k" if m: "(k, r) \<in> set (update_rows uid cond f (key_rows s))" for k r
    using update_rows_set[OF m] assms by (auto simp: sql_inv_def)
  with assms(1) show ?thesis by (auto simp: sql_inv_def)
qed

lemma sql_abs_update:
  assumes "map_of (key_rows s) uid = Some r" "cond r"
  shows "sql_abs D (s\<lparr>key_rows := update_rows uid cond f (key_rows s)\<rparr>) =
    (sql_abs D s)\<lparr>objs := (objs (sql_abs D s))(uid \<mapsto> scan_row D (f r))\<rparr>"
  using assms by (auto simp: sql_abs_def fun_eq_iff map_of_update_rows option.map_ident)

lemma exec_update_err:
  assumes "sql_inv s" "\<And>r. UID (f r) = UID r" "exec_update d what missing uid cond f s = (Some e, s')"
  shows "sql_inv s' \<and> sql_abs D s' = sql_abs D s"
proof (cases "d_sql d 0")
  case (Some e')
  with assms(1,3) show ?thesis by (simp add: exec_update_def)
next
  case None
  with assms(3) have s': "s' = s\<lparr>key_rows := update_rows uid cond f (key_rows s)\<rparr>"
    and n: "rows_affected uid cond (key_rows s) = 0"
    by (auto simp: exec_update_def Let_def split: if_splits)
  from n assms(1) have "\<forall>r. map_of (key_rows s) uid = Some r \<longrightarrow> \<not> cond r"
    by (simp add: rows_affected_0 sql_inv_def)
  then have "sql_abs D s' = sql_abs D s"
    by (auto simp: sql_abs_def s' fun_eq_iff map_of_update_rows option.map_comp intro!: option.map_cong0 split: option.split)
  with sql_inv_update[OF assms(1,2)] s' show ?thesis by simp
qed

text \<open>\<open>F\<close> is the effect of the statement on the record as it is read.\<close>

lemma exec_update_ok:
  assumes "sql_inv s" "exec_update d what missing uid cond f s = (None, s')"
    and "\<And>r. UID (f r) = UID r" "\<And>r. scan_row D (f r) = F (scan_row D r)" "\<And>r. cond r \<Longrightarrow> not_destroyed r"
  shows "sql_inv s' \<and> updates uid F (sql_abs D s) (sql_abs D s')"
    and "\<exists>r. live (sql_abs D s) uid = Some (scan_row D r) \<and> cond r"
proof -
  from assms(2) have s': "s' = s\<lparr>key_rows := update_rows uid cond f (key_rows s)\<rparr>"
    and "rows_affected uid cond (key_rows s) \<noteq> 0"
    by (auto simp: exec_update_def Let_def split: if_splits option.splits)
  with assms(1) obtain r where r: "map_of (key_rows s) uid = Some r" "cond r"
    by (auto simp: rows_affected_0 sql_inv_def)
  with assms(5) have l: "live (sql_abs D s) uid = Some (scan_row D r)" by (simp add: live_sql)
  then show "\<exists>r. live (sql_abs D s) uid = Some (scan_row D r) \<and> cond r" using r(2) by blast
  from l show "sql_inv s' \<and> updates uid F (sql_abs D s) (sql_abs D s')"
    using sql_inv_update[OF assms(1,3)] sql_abs_update[where cond = cond, OF r] by (simp add: s' updates_def assms(4))
qed

lemma exec_update_total:
  assumes "sql_inv s" "sql_good d" "live (sql_abs D s) uid = Some r" "\<And>r. not_destroyed r \<Longrightarrow> cond r"
  shows "fst (exec_update d what missing uid cond f s) = None"
proof -
  from assms(3) obtain r0 where "map_of (key_rows s) uid = Some r0" "not_destroyed r0"
    by (auto simp: live_sql split: option.splits if_splits)
  then have "rows_affected uid cond (key_rows s) \<noteq> 0"
    using assms(1,4) by (auto simp: rows_affected_0 sql_inv_def)
  with assms(2) show ?thesis by (simp add: exec_update_def Let_def)
qed

section \<open>The operations\<close>

lemma sql_Create_ok:
  assumes "sql_inv s" "sql_Create D d name alg len usage own s = (Inr rec, s')"
  shows "sql_inv s' \<and> valid_length len \<and> adds rec (sql_abs D s) (sql_abs D s') \<and>
    (\<exists>b. d_rand d (key_size len) = Inr b \<and> rec = new_key d name alg len usage own b)"
  using assms(2) insert_key_ok[OF assms(1)]
  by (fastforce simp: sql_Create_def Let_def valid_length_def key_size_def new_key_def
      split: if_splits sum.splits prod.splits option.splits)

lemma sql_Create_err: "sql_Create D d name alg len usage own s = (Inl e, s') \<Longrightarrow> s' = s"
  by (auto simp: sql_Create_def Let_def split: if_splits sum.splits prod.splits option.splits dest: insert_key_err)

lemma sql_Create_total:
  "sql_good d \<Longrightarrow> objs (sql_abs D s) (d_uuid d) = None \<Longrightarrow> valid_length len \<Longrightarrow> d_rand d (key_size len) = Inr b \<Longrightarrow>
   \<exists>rec. fst (sql_Create D d name alg len usage own s) = Inr rec"
  by (auto simp: sql_Create_def insert_key_def Let_def valid_length_def key_size_def)

lemma sql_Register_ok:
  assumes "sql_inv s" "sql_Register D d r s = (Inr rec, s')"
  shows "sql_inv s' \<and> rec = registered d r \<and> adds rec (sql_abs D s) (sql_abs D s')"
  using assms(2) insert_key_ok[OF assms(1)]
  by (fastforce simp: sql_Register_def Let_def registered_def split: if_splits prod.splits option.splits)

lemma sql_Register_total:
  "sql_good d \<Longrightarrow> objs (sql_abs D s) (d_uuid d) = None \<Longrightarrow> Material r \<noteq> None \<Longrightarrow> 0 \<le> sint (Length r) \<Longrightarrow>
   \<exists>rec. fst (sql_Register D d r s) = Inr rec"
  by (auto simp: sql_Register_def insert_key_def Let_def)

lemma sql_Register_err: "sql_Register D d r s = (Inl e, s') \<Longrightarrow> s' = s"
  by (auto simp: sql_Register_def Let_def split: if_splits prod.splits option.splits dest: insert_key_err)

lemma sql_DeriveKey_ok:
  assumes "sql_inv s" "sql_DeriveKey D H d u dat name len s = (Inr rec, s')"
  shows "sql_inv s' \<and> adds rec (sql_abs D s) (sql_abs D s') \<and> derive_size len \<le> MaxDerivedKeyBytes \<and>
    (\<exists>r b. live (sql_abs D s) u = Some r \<and> H (Material r) dat ''kmip-derive'' (nat (derive_size len)) = Inr b \<and>
      rec = new_key d name (Algorithm r) len (UsageMask r) (Owner r) b)"
proof -
  from assms(2) obtain r b where r: "sql_Get D d u s = Some r" "derive_size len \<le> MaxDerivedKeyBytes"
      "H (Material r) dat ''kmip-derive'' (nat (derive_size len)) = Inr b"
      "rec = new_key d name (Algorithm r) len (UsageMask r) (Owner r) b"
      "insert_key D (d_sql d 1) rec s = (None, s')"
    by (auto simp: sql_DeriveKey_def Let_def derive_size_def new_key_def
        split: option.splits if_splits sum.splits prod.splits)
  with insert_key_ok[OF assms(1) r(5)] sql_Get_SomeD[OF r(1)] show ?thesis by blast
qed

lemma sql_DeriveKey_err: "sql_DeriveKey D H d u dat name len s = (Inl e, s') \<Longrightarrow> s' = s"
  by (auto simp: sql_DeriveKey_def Let_def split: option.splits if_splits sum.splits prod.splits dest: insert_key_err)

lemma sql_Rekey_err: "sql_Rekey D d u s = (Inl e, s') \<Longrightarrow> s' = s"
  by (auto simp: sql_Rekey_def Let_def split: option.splits if_splits sum.splits)

lemma sql_Rekey_ok:
  assumes "sql_inv s" "sql_Rekey D d u s = (Inr rec, s')"
  shows "sql_inv s' \<and> (\<exists>r b. live (sql_abs D s) u = Some r \<and> valid_length (Length r) \<and>
    d_rand d (key_size (Length r)) = Inr b \<and>
    rec = r\<lparr>Material := Some b, Version := int64 (Version r + 1)\<rparr> \<and> puts u rec (sql_abs D s) (sql_abs D s'))"
proof -
  from assms(2) obtain r b where r: "sql_Get D d u s = Some r" "valid_length (Length r)"
      "d_rand d (key_size (Length r)) = Inr b" "rec = r\<lparr>Material := Some b, Version := int64 (Version r + 1)\<rparr>"
      "s' = s\<lparr>key_rows := update_rows u not_destroyed (\<lambda>q. q\<lparr>Material := Some b, Version := int64 (Version r + 1)\<rparr>) (key_rows s)\<rparr>"
    by (auto simp: sql_Rekey_def Let_def valid_length_def key_size_def split: option.splits if_splits sum.splits)
  from sql_Get_SomeD[OF r(1)] obtain q where q: "map_of (key_rows s) u = Some q" "not_destroyed q" "r = scan_row D q"
    by (auto simp: live_sql split: option.splits if_splits)
  have "sql_abs D s' = (sql_abs D s)\<lparr>objs := (objs (sql_abs D s))(u \<mapsto> scan_row D (q\<lparr>Material := Some b, Version := int64 (Version r + 1)\<rparr>))\<rparr>"
    unfolding r(5) by (rule sql_abs_update[where cond = not_destroyed, OF q(1,2)])
  moreover have "stored rec (scan_row D (q\<lparr>Material := Some b, Version := int64 (Version r + 1)\<rparr>))"
    by (auto simp: r(4) q(3) stored_def scan_row_def intro!: exI[of _ "blob_read D b"])
  ultimately have "puts u rec (sql_abs D s) (sql_abs D s')" by (auto simp: puts_def)
  moreover have "sql_inv s'" unfolding r(5) by (rule sql_inv_update[OF assms(1)]) simp
  ultimately show ?thesis using r sql_Get_SomeD[OF r(1)] by blast
qed

lemma sql_SetCustomAttribute_err: "sql_SetCustomAttribute D d u n x s = (Some e, s') \<Longrightarrow> s' = s"
  by (auto simp: sql_SetCustomAttribute_def split: option.splits)

lemma sql_SetCustomAttribute_ok:
  "sql_inv s \<Longrightarrow> sql_SetCustomAttribute D d u n x s = (None, s') \<Longrightarrow>
   sql_inv s' \<and> live (sql_abs D s) u \<noteq> None \<and>
   sql_abs D s' = (sql_abs D s)\<lparr>cattrs := (cattrs (sql_abs D s))(u := (cattrs (sql_abs D s) u)(n \<mapsto> x))\<rparr>"
  by (auto simp: sql_SetCustomAttribute_def sql_inv_def sql_abs_def fun_eq_iff split: option.splits dest: sql_Get_SomeD)

lemma sql_DeleteCustomAttribute_err: "sql_DeleteCustomAttribute D d u n s = (Some e, s') \<Longrightarrow> s' = s"
  by (auto simp: sql_DeleteCustomAttribute_def split: option.splits)

lemma sql_DeleteCustomAttribute_ok:
  "sql_inv s \<Longrightarrow> sql_DeleteCustomAttribute D d u n s = (None, s') \<Longrightarrow>
   sql_inv s' \<and> live (sql_abs D s) u \<noteq> None \<and>
   sql_abs D s' = (sql_abs D s)\<lparr>cattrs := (cattrs (sql_abs D s))(u := (cattrs (sql_abs D s) u)(n := None))\<rparr>"
  by (auto simp: sql_DeleteCustomAttribute_def sql_inv_def sql_abs_def fun_eq_iff split: option.splits dest: sql_Get_SomeD)

section \<open>Queries\<close>

lemma draw_ok_perm:
  assumes "draw_ok d"
  shows "set (d_perm d xs) = set xs" "distinct (d_perm d xs) \<longleftrightarrow> distinct xs"
proof -
  have m: "mset (d_perm d xs) = mset xs" using assms by (simp add: draw_ok_def)
  from mset_eq_setD[OF m] show "set (d_perm d xs) = set xs" .
  from m show "distinct (d_perm d xs) \<longleftrightarrow> distinct xs" by (rule mset_eq_imp_distinct_iff)
qed

lemma delivered_good [simp]: "sql_good d \<Longrightarrow> delivered d k xs = xs"
  by (simp add: delivered_def)

lemma set_delivered: "x \<in> set (delivered d k xs) \<Longrightarrow> x \<in> set xs"
  by (auto simp: delivered_def split: option.splits dest: in_set_takeD)

lemma distinct_delivered: "distinct xs \<Longrightarrow> distinct (delivered d k xs)"
  by (simp add: delivered_def split: option.split)

lemma sql_Locate_sound:
  "u \<in> set (sql_Locate d name s) \<Longrightarrow> \<exists>r. live (sql_abs D s) u = Some r \<and> Name r = name"
  by (auto simp: sql_Locate_def live_sql split: option.splits dest!: set_delivered)

lemma sql_Locate_complete:
  assumes "draw_ok d" "sql_good d" "live (sql_abs D s) u = Some r" "Name r = name"
  shows "u \<in> set (sql_Locate d name s)"
  using assms draw_ok_perm(1)[OF assms(1)]
  by (auto simp: sql_Locate_def live_sql dest: map_of_Some_in_keys split: option.splits if_splits)

lemma sql_Locate_distinct: "sql_inv s \<Longrightarrow> draw_ok d \<Longrightarrow> distinct (sql_Locate d name s)"
  by (auto simp: sql_Locate_def sql_inv_def draw_ok_perm(2) intro!: distinct_delivered distinct_filter split: option.split)

lemma sql_List_sound:
  assumes "sql_inv s" "r \<in> set (sql_List D d s)"
  shows "live (sql_abs D s) (UID r) = Some r"
  using assms sql_inv_uid[OF assms(1)]
  by (fastforce simp: sql_List_def live_sql map_filter_def split: option.splits if_splits dest!: set_delivered)

lemma sql_List_complete:
  assumes "draw_ok d" "sql_good d" "live (sql_abs D s) u = Some r"
  shows "r \<in> set (sql_List D d s)"
proof -
  from assms(3) obtain q where q: "map_of (key_rows s) u = Some q" "not_destroyed q" "r = scan_row D q"
    by (auto simp: live_sql split: option.splits if_splits)
  then have "u \<in> set (d_perm d (map fst (key_rows s)))"
    using map_of_Some_in_keys[OF q(1)] by (simp add: draw_ok_perm(1)[OF assms(1)])
  with q assms(2) show ?thesis by (force simp: sql_List_def map_filter_def)
qed

lemma attrs_of_uid:
  "map_of (map (\<lambda>((u, n), v). (n, v)) (filter (\<lambda>((u, n), v). u = uid) rows)) n = map_of rows (uid, n)"
  by (induction rows) auto

lemma map_of_take: "map_of (take k xs) \<subseteq>\<^sub>m map_of xs"
  by (metis append_take_drop_id map_le_map_add map_of_append)

lemma sql_GetCustomAttributes_sound:
  assumes "sql_GetCustomAttributes D d u s = Inr al"
  shows "live (sql_abs D s) u \<noteq> None \<and> map_of al \<subseteq>\<^sub>m cattrs (sql_abs D s) u"
proof -
  let ?xs = "map (\<lambda>((u, n), v). (n, v)) (filter (\<lambda>((u', n), v). u' = u) (attr_rows s))"
  from assms have "sql_Get D d u s \<noteq> None" and al: "al = delivered d 2 ?xs"
    by (auto simp: sql_GetCustomAttributes_def split: option.splits)
  moreover have "map_of ?xs = cattrs (sql_abs D s) u" by (simp add: fun_eq_iff attrs_of_uid)
  ultimately show ?thesis
    using map_of_take[of "d_cut d" ?xs] by (auto simp: delivered_def al split: option.splits dest: sql_Get_SomeD)
qed

lemma sql_GetCustomAttributes_total:
  "sql_good d \<Longrightarrow> live (sql_abs D s) u \<noteq> None \<Longrightarrow>
   \<exists>al. sql_GetCustomAttributes D d u s = Inr al \<and> map_of al = cattrs (sql_abs D s) u"
  by (auto simp: sql_GetCustomAttributes_def sql_Get_live fun_eq_iff attrs_of_uid)

lemma sql_SetCustomAttribute_total:
  "sql_good d \<Longrightarrow> live (sql_abs D s) u \<noteq> None \<Longrightarrow> fst (sql_SetCustomAttribute D d u n x s) = None"
  by (auto simp: sql_SetCustomAttribute_def sql_Get_live)

section \<open>The store fulfils the storage contract\<close>

lemma sqlite_storage_sel [simp]:
  "Create (sqlite_storage D H) = sql_Create D" "Get (sqlite_storage D H) = sql_Get D"
  "Locate (sqlite_storage D H) = sql_Locate" "List (sqlite_storage D H) = sql_List D"
  "Activate (sqlite_storage D H) = sql_Activate" "Destroy (sqlite_storage D H) = sql_Destroy"
  "Register (sqlite_storage D H) = sql_Register D" "Revoke (sqlite_storage D H) = sql_Revoke"
  "GetAttributes (sqlite_storage D H) = sql_GetAttributes D" "Rekey (sqlite_storage D H) = sql_Rekey D"
  "Archive (sqlite_storage D H) = sql_Archive" "Recover (sqlite_storage D H) = sql_Recover"
  "DeriveKey (sqlite_storage D H) = sql_DeriveKey D H"
  "GetCustomAttributes (sqlite_storage D H) = sql_GetCustomAttributes D"
  "SetCustomAttribute (sqlite_storage D H) = sql_SetCustomAttribute D"
  "DeleteCustomAttribute (sqlite_storage D H) = sql_DeleteCustomAttribute D"
  by (simp_all add: sqlite_storage_def)

lemmas sql_updates = sql_Activate_def sql_Destroy_def sql_Revoke_def sql_Archive_def sql_Recover_def

lemma exec_update_live:
  assumes "sql_inv s" "exec_update d what missing u not_destroyed f s = (None, s')"
    and "\<And>r. UID (f r) = UID r" "\<And>r. scan_row D (f r) = F (scan_row D r)"
  shows "sql_inv s' \<and> updates u F (sql_abs D s) (sql_abs D s')"
  by (rule exec_update_ok(1)[OF assms]) simp

lemma sql_update_errs:
  assumes "sql_inv s"
  shows "sql_Activate d u s = (Some e, s') \<Longrightarrow> sql_inv s' \<and> sql_abs D s' = sql_abs D s"
    "sql_Destroy d u s = (Some e, s') \<Longrightarrow> sql_inv s' \<and> sql_abs D s' = sql_abs D s"
    "sql_Revoke d u k s = (Some e, s') \<Longrightarrow> sql_inv s' \<and> sql_abs D s' = sql_abs D s"
    "sql_Archive d u s = (Some e, s') \<Longrightarrow> sql_inv s' \<and> sql_abs D s' = sql_abs D s"
    "sql_Recover d u s = (Some e, s') \<Longrightarrow> sql_inv s' \<and> sql_abs D s' = sql_abs D s"
  unfolding sql_updates by (rule exec_update_err[OF assms]; simp)+

lemma sql_update_oks:
  assumes "sql_inv s"
  shows "sql_Activate d u s = (None, s') \<Longrightarrow>
      sql_inv s' \<and> updates u (\<lambda>r. r\<lparr>State := StateActive\<rparr>) (sql_abs D s) (sql_abs D s')"
    "sql_Revoke d u k s = (None, s') \<Longrightarrow>
      sql_inv s' \<and> updates u (\<lambda>r. r\<lparr>State := StateRevoked, RevocationReason := k\<rparr>) (sql_abs D s) (sql_abs D s')"
    "sql_Archive d u s = (None, s') \<Longrightarrow>
      sql_inv s' \<and> updates u (\<lambda>r. r\<lparr>State := StateArchived\<rparr>) (sql_abs D s) (sql_abs D s')"
  unfolding sql_updates by (erule exec_update_live[OF assms]; simp add: scan_row_def)+

lemma sql_Destroy_ok:
  assumes "sql_inv s" "sql_Destroy d u s = (None, s')"
  shows "sql_inv s' \<and> (\<exists>m. sl m = [] \<and> updates u (\<lambda>r. r\<lparr>Material := m, State := StateDestroyed\<rparr>) (sql_abs D s) (sql_abs D s'))"
proof -
  have "sql_inv s' \<and> updates u (\<lambda>r. r\<lparr>Material := blob_read D [], State := StateDestroyed\<rparr>) (sql_abs D s) (sql_abs D s')"
    using assms(2) unfolding sql_Destroy_def
    by (rule exec_update_live[OF assms(1)]) (simp_all add: scan_row_def)
  then show ?thesis by (metis sl_blob_read)
qed

lemma sql_Recover_ok:
  assumes "sql_inv s" "sql_Recover d u s = (None, s')"
  shows "sql_inv s' \<and> (\<exists>r. live (sql_abs D s) u = Some r \<and> State r = StateArchived) \<and>
    updates u (\<lambda>r. r\<lparr>State := StatePreActive\<rparr>) (sql_abs D s) (sql_abs D s')"
proof -
  have c: "State r = StateArchived \<Longrightarrow> not_destroyed r" for r by (simp add: not_destroyed_def go_const)
  note e = assms(2)[unfolded sql_Recover_def]
  have "sql_inv s' \<and> updates u (\<lambda>r. r\<lparr>State := StatePreActive\<rparr>) (sql_abs D s) (sql_abs D s')"
    by (rule exec_update_ok(1)[OF assms(1) e]) (simp_all add: scan_row_def c)
  moreover have "\<exists>r. live (sql_abs D s) u = Some (scan_row D r) \<and> State r = StateArchived"
    by (rule exec_update_ok(2)[OF assms(1) e, where F = "\<lambda>r. r\<lparr>State := StatePreActive\<rparr>"])
      (simp_all add: scan_row_def c)
  ultimately show ?thesis by (metis scan_row_sel(3))
qed

lemma sql_update_totals:
  assumes "sql_inv s" "sql_good d" "live (sql_abs D s) u = Some r"
  shows "fst (sql_Activate d u s) = None" "fst (sql_Destroy d u s) = None" "fst (sql_Revoke d u k s) = None"
  unfolding sql_updates by (rule exec_update_total[OF assms]; simp)+

interpretation sql: storage_contract "sqlite_storage D H" sql_inv "sql_abs D" sql_good H for D H
proof (unfold_locales, unfold sqlite_storage_sel)
  fix s d u r name
  assume i: "sql_inv s"
  show "sql_Get D d u s = Some r \<Longrightarrow> live (sql_abs D s) u = Some r" by (rule sql_Get_SomeD[THEN conjunct1])
  show "sql_good d \<Longrightarrow> sql_Get D d u s = live (sql_abs D s) u" by (simp add: sql_Get_live)
  show "objs (sql_abs D s) u = Some r \<Longrightarrow> UID r = u" using sql_inv_uid[OF i] by auto
  show "\<exists>al. sql_GetCustomAttributes D d u s = Inr al \<and> map_of al = cattrs (sql_abs D s) u"
    if "sql_good d" "live (sql_abs D s) u \<noteq> None" using that by (rule sql_GetCustomAttributes_total)
  show "sql_good d \<Longrightarrow> live (sql_abs D s) u \<noteq> None \<Longrightarrow> fst (sql_SetCustomAttribute D d u n x s) = None" for n x
    by (rule sql_SetCustomAttribute_total)
  show "sql_good d \<Longrightarrow> objs (sql_abs D s) (d_uuid d) = None \<Longrightarrow> valid_length len \<Longrightarrow> d_rand d (key_size len) = Inr b \<Longrightarrow>
    \<exists>rec. fst (sql_Create D d name alg len usage own s) = Inr rec" for alg len usage own b
    by (rule sql_Create_total)
  show "sql_good d \<Longrightarrow> objs (sql_abs D s) (d_uuid d) = None \<Longrightarrow> Material r \<noteq> None \<Longrightarrow> 0 \<le> sint (Length r) \<Longrightarrow>
    \<exists>rec. fst (sql_Register D d r s) = Inr rec" by (rule sql_Register_total)
qed (auto simp: sql_GetAttributes_def intro: sql_Locate_complete sql_Locate_distinct sql_List_complete sql_List_sound
    sql_update_totals dest: sql_Locate_sound sql_Create_ok sql_Create_err sql_Register_ok sql_Register_err
    sql_DeriveKey_ok sql_DeriveKey_err sql_Rekey_ok sql_Rekey_err sql_SetCustomAttribute_ok sql_SetCustomAttribute_err
    sql_DeleteCustomAttribute_ok sql_DeleteCustomAttribute_err sql_GetCustomAttributes_sound
    sql_update_errs sql_update_oks sql_Destroy_ok sql_Recover_ok)

end
