(* ===== verification/Kmiplib.thy ===== *)
theory Kmiplib
  imports Prelude
begin

text \<open>
  The library \<open>github.com/cyphera-labs/kmip-go\<close> (\<open>kmiplib\<close> in the sources) as a parameter.
  Encoded messages have an arbitrary type \<open>'w\<close> and decoded items an arbitrary type \<open>'i\<close>: the
  handler passes both to the library only. Library constants are known by name; their values are
  fields of the parameter. A reply is built as the tree of encoder calls (\<open>ttlv\<close>) and turned into
  a message by \<open>encode\<close>, which makes exactly those calls.
\<close>

section \<open>Names of the library constants\<close>

datatype libtag =
    TagAttribute | TagAttributeName | TagAttributeValue | TagBatchCount | TagBatchItem
  | TagCryptographicAlgorithm | TagCryptographicLength | TagDerivationData | TagDerivationParameters
  | TagKeyBlock | TagKeyFormatType | TagKeyMaterial | TagKeyValue | TagLeaseTime | TagNameType
  | TagNameValue | TagObjectType | TagOperation | TagProtocolVersion | TagProtocolVersionMajor
  | TagProtocolVersionMinor | TagRequestHeader | TagRequestMessage | TagRequestPayload
  | TagResponseHeader | TagResponseMessage | TagResponsePayload | TagResultMessage | TagResultReason
  | TagResultStatus | TagSymmetricKey | TagTemplateAttribute | TagUniqueIdentifier

datatype libcode =
    AlgorithmAES | AlgorithmECDSA | AlgorithmRSA
  | KeyFormatPKCS8 | KeyFormatRaw | KeyFormatX509 | NameTypeUninterpretedTextString
  | ObjectTypeCertificate | ObjectTypePrivateKey | ObjectTypePublicKey | ObjectTypeSymmetricKey
  | OperationActivate | OperationCheck | OperationCreate | OperationDestroy | OperationGet | OperationLocate
  | ResultStatusOperationFailed | ResultStatusSuccess
  | UsageMaskDecrypt | UsageMaskEncrypt | UsageMaskSign | UsageMaskVerify

section \<open>The library\<close>

record ('w, 'i) kmiplib =
  tag_of :: "libtag \<Rightarrow> int"
  code :: "libcode \<Rightarrow> int"
  DecodeTTLV :: "'w \<Rightarrow> nat \<Rightarrow> 'i result"
  Tag :: "'i \<Rightarrow> int"
  FindChild :: "'i \<Rightarrow> int \<Rightarrow> 'i option"
  FindChildren :: "'i \<Rightarrow> int \<Rightarrow> 'i list"
  IntValue :: "'i \<Rightarrow> i32"
  StringValue :: "'i \<Rightarrow> string"
  BytesValue :: "'i \<Rightarrow> slice"
  EncodeStructure :: "int \<Rightarrow> 'w list \<Rightarrow> 'w"
  EncodeEnum :: "int \<Rightarrow> int \<Rightarrow> 'w"
  EncodeInteger :: "int \<Rightarrow> i32 \<Rightarrow> 'w"
  EncodeTextString :: "int \<Rightarrow> string \<Rightarrow> 'w"
  EncodeByteString :: "int \<Rightarrow> slice \<Rightarrow> 'w"
  EncodeDateTime :: "int \<Rightarrow> int \<Rightarrow> 'w"

section \<open>Trees of encoder calls\<close>

datatype ttlv =
    Structure int "ttlv list"
  | Enumeration int int
  | Integer int i32
  | TextString int string
  | ByteString int slice
  | DateTime int int

primrec ttag :: "ttlv \<Rightarrow> int" where
  "ttag (Structure g _) = g"
| "ttag (Enumeration g _) = g"
| "ttag (Integer g _) = g"
| "ttag (TextString g _) = g"
| "ttag (ByteString g _) = g"
| "ttag (DateTime g _) = g"

fun encode :: "('w, 'i) kmiplib \<Rightarrow> ttlv \<Rightarrow> 'w" where
  "encode L (Structure g ts) = EncodeStructure L g (map (encode L) ts)"
| "encode L (Enumeration g v) = EncodeEnum L g v"
| "encode L (Integer g v) = EncodeInteger L g v"
| "encode L (TextString g s) = EncodeTextString L g s"
| "encode L (ByteString g b) = EncodeByteString L g b"
| "encode L (DateTime g t) = EncodeDateTime L g t"

text \<open>Children of a structure by tag, first match first.\<close>

fun tchild :: "ttlv \<Rightarrow> int \<Rightarrow> ttlv option" where
  "tchild (Structure _ ts) g = find (\<lambda>t. ttag t = g) ts"
| "tchild _ _ = None"

fun tchildren :: "ttlv \<Rightarrow> int \<Rightarrow> ttlv list" where
  "tchildren (Structure _ ts) g = filter (\<lambda>t. ttag t = g) ts"
| "tchildren _ _ = []"

section \<open>Documented behaviour\<close>

text \<open>
  The codec round trip: decoding an encoded tree that fits the wire format yields an item
  (\<open>item\<close> of the tree) whose accessors read the tree back. An enumeration or integer is read as
  the 32-bit value that was written.
\<close>

definition codec_ok :: "('w, 'i) kmiplib \<Rightarrow> (ttlv \<Rightarrow> 'i) \<Rightarrow> (ttlv \<Rightarrow> bool) \<Rightarrow> bool" where
  "codec_ok L item fits \<longleftrightarrow>
     (\<forall>t. fits t \<longrightarrow> DecodeTTLV L (encode L t) 0 = Inr (item t)) \<and>
     (\<forall>t. Tag L (item t) = ttag t) \<and>
     (\<forall>t g. FindChild L (item t) g = map_option item (tchild t g)) \<and>
     (\<forall>t g. FindChildren L (item t) g = map item (tchildren t g)) \<and>
     (\<forall>g v. IntValue L (item (Enumeration g v)) = word_of_int v) \<and>
     (\<forall>g v. IntValue L (item (Integer g v)) = v) \<and>
     (\<forall>g s. StringValue L (item (TextString g s)) = s) \<and>
     (\<forall>g b. sl (BytesValue L (item (ByteString g b))) = sl b)"

text \<open>
  The tags of the KMIP specification are pairwise different 24-bit numbers, and the codes of one
  enumeration are different 32-bit numbers.
\<close>

definition tags_ok :: "('w, 'i) kmiplib \<Rightarrow> bool" where
  "tags_ok L \<longleftrightarrow> (\<forall>a b. tag_of L a = tag_of L b \<longrightarrow> a = b)"

definition status_ok :: "('w, 'i) kmiplib \<Rightarrow> bool" where
  "status_ok L \<longleftrightarrow> code L ResultStatusSuccess \<noteq> code L ResultStatusOperationFailed \<and>
     (\<forall>c \<in> {ResultStatusSuccess, ResultStatusOperationFailed}. sint (word_of_int (code L c) :: i32) = code L c)"

lemma codec_okD:
  assumes "codec_ok L item fits"
  shows "fits t \<Longrightarrow> DecodeTTLV L (encode L t) 0 = Inr (item t)"
    "Tag L (item t) = ttag t"
    "FindChild L (item t) g = map_option item (tchild t g)"
    "FindChildren L (item t) g = map item (tchildren t g)"
    "IntValue L (item (Enumeration g v)) = word_of_int v"
    "IntValue L (item (Integer g w)) = w"
    "StringValue L (item (TextString g s)) = s"
    "sl (BytesValue L (item (ByteString g b))) = sl b"
  using assms by (auto simp: codec_ok_def)

lemma tags_okD: "tags_ok L \<Longrightarrow> tag_of L a = tag_of L b \<longleftrightarrow> a = b"
  by (auto simp: tags_ok_def)

section \<open>A concrete codec\<close>

text \<open>
  An instance that satisfies the documented behaviour, used to show that the hypotheses above can
  hold: messages are the trees themselves, and the constants are those of the KMIP 1.4
  specification.
\<close>

fun tree_tag :: "libtag \<Rightarrow> int" where
  "tree_tag TagAttribute = 0x420008" | "tree_tag TagAttributeName = 0x42000A"
| "tree_tag TagAttributeValue = 0x42000B" | "tree_tag TagBatchCount = 0x42000D"
| "tree_tag TagBatchItem = 0x42000F" | "tree_tag TagCryptographicAlgorithm = 0x420028"
| "tree_tag TagCryptographicLength = 0x42002A" | "tree_tag TagDerivationData = 0x420030"
| "tree_tag TagDerivationParameters = 0x420032" | "tree_tag TagKeyBlock = 0x420040"
| "tree_tag TagKeyFormatType = 0x420042" | "tree_tag TagKeyMaterial = 0x420043"
| "tree_tag TagKeyValue = 0x420045" | "tree_tag TagLeaseTime = 0x420049"
| "tree_tag TagNameType = 0x420054" | "tree_tag TagNameValue = 0x420055"
| "tree_tag TagObjectType = 0x420057" | "tree_tag TagOperation = 0x42005C"
| "tree_tag TagProtocolVersion = 0x420069" | "tree_tag TagProtocolVersionMajor = 0x42006A"
| "tree_tag TagProtocolVersionMinor = 0x42006B" | "tree_tag TagRequestHeader = 0x420077"
| "tree_tag TagRequestMessage = 0x420078" | "tree_tag TagRequestPayload = 0x420079"
| "tree_tag TagResponseHeader = 0x42007A" | "tree_tag TagResponseMessage = 0x42007B"
| "tree_tag TagResponsePayload = 0x42007C" | "tree_tag TagResultMessage = 0x42007D"
| "tree_tag TagResultReason = 0x42007E" | "tree_tag TagResultStatus = 0x42007F"
| "tree_tag TagSymmetricKey = 0x42008F" | "tree_tag TagTemplateAttribute = 0x420091"
| "tree_tag TagUniqueIdentifier = 0x420094"

fun tree_code :: "libcode \<Rightarrow> int" where
  "tree_code AlgorithmAES = 3" | "tree_code AlgorithmECDSA = 6" | "tree_code AlgorithmRSA = 4"
| "tree_code KeyFormatPKCS8 = 4" | "tree_code KeyFormatRaw = 1" | "tree_code KeyFormatX509 = 5"
| "tree_code NameTypeUninterpretedTextString = 1" | "tree_code ObjectTypeCertificate = 1"
| "tree_code ObjectTypePrivateKey = 4" | "tree_code ObjectTypePublicKey = 3"
| "tree_code ObjectTypeSymmetricKey = 2" | "tree_code OperationActivate = 18"
| "tree_code OperationCheck = 9" | "tree_code OperationCreate = 1" | "tree_code OperationDestroy = 20"
| "tree_code OperationGet = 10" | "tree_code OperationLocate = 8"
| "tree_code ResultStatusOperationFailed = 1" | "tree_code ResultStatusSuccess = 0"
| "tree_code UsageMaskDecrypt = 8" | "tree_code UsageMaskEncrypt = 4" | "tree_code UsageMaskSign = 1"
| "tree_code UsageMaskVerify = 2"

fun tree_int :: "ttlv \<Rightarrow> i32" where
  "tree_int (Enumeration _ v) = word_of_int v"
| "tree_int (Integer _ v) = v"
| "tree_int _ = 0"

fun tree_string :: "ttlv \<Rightarrow> string" where
  "tree_string (TextString _ s) = s"
| "tree_string _ = ''''"

fun tree_bytes :: "ttlv \<Rightarrow> slice" where
  "tree_bytes (ByteString _ b) = b"
| "tree_bytes _ = None"

definition treelib :: "(ttlv, ttlv) kmiplib" where
  "treelib = \<lparr>tag_of = tree_tag, code = tree_code, DecodeTTLV = (\<lambda>w _. Inr w), Tag = ttag,
     FindChild = tchild, FindChildren = tchildren, IntValue = tree_int, StringValue = tree_string,
     BytesValue = tree_bytes, EncodeStructure = Structure, EncodeEnum = Enumeration,
     EncodeInteger = Integer, EncodeTextString = TextString, EncodeByteString = ByteString,
     EncodeDateTime = DateTime\<rparr>"

lemma encode_treelib [simp]: "encode treelib t = t"
  by (induction t) (simp_all add: treelib_def map_idI)

lemma treelib_sel [simp]:
  "tag_of treelib = tree_tag" "code treelib = tree_code" "DecodeTTLV treelib w k = Inr w"
  "Tag treelib = ttag" "FindChild treelib = tchild" "FindChildren treelib = tchildren"
  "IntValue treelib = tree_int" "StringValue treelib = tree_string" "BytesValue treelib = tree_bytes"
  by (simp_all add: treelib_def)

lemma treelib_codec: "codec_ok treelib (\<lambda>t. t) (\<lambda>_. True)"
  by (simp add: codec_ok_def option.map_ident)

lemma treelib_tags: "tags_ok treelib"
proof -
  have "tree_tag a = tree_tag b \<longrightarrow> a = b" for a b
    by (cases a; cases b) simp_all
  then show ?thesis by (simp add: tags_ok_def)
qed

lemma treelib_status: "status_ok treelib"
  by (simp add: status_ok_def)

end
