(* ===== verification/Lifecycle.thy ===== *)
theory Lifecycle
  imports Storage_Contract Kmiplib
begin

text \<open>
  \<open>internal/kmip/handler.go\<close>, first part: the protocol constants the server declares itself, the
  names of the operations, and \<open>validateStateTransition\<close>, the table that says which operation is
  allowed on an object in which life-cycle state.
\<close>

section \<open>Constants\<close>

definition OperationCreateKeyPair :: int where [go_const]: "OperationCreateKeyPair = 0x00000002"
definition OperationRegister :: int where [go_const]: "OperationRegister = 0x00000003"
definition OperationReKey :: int where [go_const]: "OperationReKey = 0x00000004"
definition OperationGetAttributes :: int where [go_const]: "OperationGetAttributes = 0x0000000B"
definition OperationGetAttributeList :: int where [go_const]: "OperationGetAttributeList = 0x0000000C"
definition OperationRevoke :: int where [go_const]: "OperationRevoke = 0x00000013"
definition OperationQuery :: int where [go_const]: "OperationQuery = 0x00000018"
definition OperationDiscoverVersions :: int where [go_const]: "OperationDiscoverVersions = 0x0000001E"
definition OperationEncrypt :: int where [go_const]: "OperationEncrypt = 0x0000001F"
definition OperationDecrypt :: int where [go_const]: "OperationDecrypt = 0x00000020"
definition OperationSign :: int where [go_const]: "OperationSign = 0x00000021"
definition OperationSignatureVerify :: int where [go_const]: "OperationSignatureVerify = 0x00000022"
definition OperationMAC :: int where [go_const]: "OperationMAC = 0x00000023"

definition TagRevocationReason :: int where [go_const]: "TagRevocationReason = 0x420082"
definition TagPrivateKeyUniqueIdentifier :: int where [go_const]: "TagPrivateKeyUniqueIdentifier = 0x420066"
definition TagPublicKeyUniqueIdentifier :: int where [go_const]: "TagPublicKeyUniqueIdentifier = 0x42006F"
definition TagPublicKey :: int where [go_const]: "TagPublicKey = 0x42004E"
definition TagPrivateKey :: int where [go_const]: "TagPrivateKey = 0x42004D"
definition TagCertificate :: int where [go_const]: "TagCertificate = 0x420021"
definition TagCertificateType :: int where [go_const]: "TagCertificateType = 0x42001D"
definition TagCertificateValue :: int where [go_const]: "TagCertificateValue = 0x42001E"
definition TagData :: int where [go_const]: "TagData = 0x420033"
definition TagIVCounterNonce :: int where [go_const]: "TagIVCounterNonce = 0x420047"
definition TagSignatureData :: int where [go_const]: "TagSignatureData = 0x42004F"
definition TagMACData :: int where [go_const]: "TagMACData = 0x420051"
definition TagValidityIndicator :: int where [go_const]: "TagValidityIndicator = 0x420098"

definition OpAddAttribute :: int where [go_const]: "OpAddAttribute = 0x0000000D"
definition OpModifyAttribute :: int where [go_const]: "OpModifyAttribute = 0x0000000E"
definition OpDeleteAttribute :: int where [go_const]: "OpDeleteAttribute = 0x0000000F"
definition OpDeriveKey :: int where [go_const]: "OpDeriveKey = 0x00000005"
definition OpObtainLease :: int where [go_const]: "OpObtainLease = 0x00000010"
definition OpPoll :: int where [go_const]: "OpPoll = 0x0000001A"
definition OpArchive :: int where [go_const]: "OpArchive = 0x00000015"
definition OpRecover :: int where [go_const]: "OpRecover = 0x00000016"

definition ReasonItemNotFound :: int where [go_const]: "ReasonItemNotFound = 0x00000001"
definition ReasonResponseTooLarge :: int where [go_const]: "ReasonResponseTooLarge = 0x00000002"
definition ReasonInvalidMessage :: int where [go_const]: "ReasonInvalidMessage = 0x00000004"
definition ReasonOperationNotSupported :: int where [go_const]: "ReasonOperationNotSupported = 0x00000005"
definition ReasonMissingData :: int where [go_const]: "ReasonMissingData = 0x00000006"
definition ReasonInvalidField :: int where [go_const]: "ReasonInvalidField = 0x00000007"
definition ReasonFeatureNotSupported :: int where [go_const]: "ReasonFeatureNotSupported = 0x00000008"
definition ReasonCryptographicFailure :: int where [go_const]: "ReasonCryptographicFailure = 0x0000000A"
definition ReasonIllegalOperation :: int where [go_const]: "ReasonIllegalOperation = 0x0000000B"
definition ReasonGeneralFailure :: int where [go_const]: "ReasonGeneralFailure = 0x00000100"

definition supportedMajor :: int where [go_const]: "supportedMajor = 1"
definition supportedMinor :: int where [go_const]: "supportedMinor = 4"

section \<open>Operation names\<close>

definition operationName :: "('w, 'i) kmiplib \<Rightarrow> int \<Rightarrow> string" where
  "operationName L op =
     (if op = code L OperationCreate then ''Create''
      else if op = OperationCreateKeyPair then ''CreateKeyPair''
      else if op = code L OperationGet then ''Get''
      else if op = code L OperationLocate then ''Locate''
      else if op = code L OperationDestroy then ''Destroy''
      else if op = code L OperationActivate then ''Activate''
      else if op = code L OperationCheck then ''Check''
      else if op = OperationRegister then ''Register''
      else if op = OperationRevoke then ''Revoke''
      else if op = OperationReKey then ''ReKey''
      else if op = OperationGetAttributes then ''GetAttributes''
      else if op = OperationGetAttributeList then ''GetAttributeList''
      else if op = OperationQuery then ''Query''
      else if op = OperationDiscoverVersions then ''DiscoverVersions''
      else if op = OperationEncrypt then ''Encrypt''
      else if op = OperationDecrypt then ''Decrypt''
      else if op = OperationSign then ''Sign''
      else if op = OperationSignatureVerify then ''SignatureVerify''
      else if op = OperationMAC then ''MAC''
      else if op = OpAddAttribute then ''AddAttribute''
      else if op = OpModifyAttribute then ''ModifyAttribute''
      else if op = OpDeleteAttribute then ''DeleteAttribute''
      else if op = OpDeriveKey then ''DeriveKey''
      else if op = OpObtainLease then ''ObtainLease''
      else if op = OpPoll then ''Poll''
      else if op = OpArchive then ''Archive''
      else if op = OpRecover then ''Recover''
      else ''Unknown(0x'' @ fmt_X 8 op @ '')'')"

section \<open>The life-cycle table\<close>

definition validateStateTransition :: "KeyState \<Rightarrow> string \<Rightarrow> int \<times> string \<times> bool" where
  "validateStateTransition st operation =
     (if operation = ''Get'' then
        (if st \<in> {StatePreActive, StateActive, StateDeactivated, StateCompromised} then (0, '''', True)
         else (ReasonIllegalOperation, ''Get not allowed in state '' @ fmt_d st, False))
      else if operation = ''Activate'' then
        (if st = StatePreActive then (0, '''', True)
         else if st = StateActive then (ReasonIllegalOperation, ''object is already active'', False)
         else (ReasonIllegalOperation, ''Activate not allowed in state '' @ fmt_d st, False))
      else if operation = ''Revoke'' then
        (if st \<in> {StatePreActive, StateActive, StateDeactivated} then (0, '''', True)
         else (ReasonIllegalOperation, ''Revoke not allowed in state '' @ fmt_d st, False))
      else if operation = ''Destroy'' then
        (if st \<in> {StateDestroyed, StateDestroyedCompromised}
         then (ReasonIllegalOperation, ''object is already destroyed'', False)
         else (0, '''', True))
      else if operation = ''Archive'' then
        (if st = StateDeactivated then (0, '''', True)
         else (ReasonIllegalOperation, ''Archive only allowed from Deactivated, current: '' @ fmt_d st, False))
      else if operation = ''Recover'' then
        (if st = StateArchived then (0, '''', True)
         else (ReasonIllegalOperation, ''Recover only allowed from Archived, current: '' @ fmt_d st, False))
      else if operation = ''ReKey'' then
        (if st = StateActive then (0, '''', True)
         else (ReasonIllegalOperation, ''ReKey only allowed from Active, current: '' @ fmt_d st, False))
      else if operation \<in> {''Encrypt'', ''Decrypt'', ''Sign'', ''SignatureVerify'', ''MAC''} then
        (if st = StateActive then (0, '''', True)
         else (ReasonIllegalOperation, operation @ '' only allowed on Active keys, current: '' @ fmt_d st, False))
      else (0, '''', True))"

definition allowed :: "KeyState \<Rightarrow> string \<Rightarrow> bool" where
  "allowed st operation \<longleftrightarrow> snd (snd (validateStateTransition st operation))"

lemma allowed_simps [simp]:
  "allowed st ''Get'' \<longleftrightarrow> st \<in> {StatePreActive, StateActive, StateDeactivated, StateCompromised}"
  "allowed st ''Activate'' \<longleftrightarrow> st = StatePreActive"
  "allowed st ''Revoke'' \<longleftrightarrow> st \<in> {StatePreActive, StateActive, StateDeactivated}"
  "allowed st ''Destroy'' \<longleftrightarrow> st \<notin> {StateDestroyed, StateDestroyedCompromised}"
  "allowed st ''Archive'' \<longleftrightarrow> st = StateDeactivated"
  "allowed st ''Recover'' \<longleftrightarrow> st = StateArchived"
  "allowed st ''ReKey'' \<longleftrightarrow> st = StateActive"
  "allowed st ''Encrypt'' \<longleftrightarrow> st = StateActive"
  "allowed st ''Decrypt'' \<longleftrightarrow> st = StateActive"
  "allowed st ''Sign'' \<longleftrightarrow> st = StateActive"
  "allowed st ''SignatureVerify'' \<longleftrightarrow> st = StateActive"
  "allowed st ''MAC'' \<longleftrightarrow> st = StateActive"
  by (simp_all add: allowed_def validateStateTransition_def)

text \<open>Whatever the table refuses, it refuses with the reason \<open>ReasonIllegalOperation\<close>.\<close>

definition verdict_ok :: "int \<times> string \<times> bool \<Rightarrow> bool" where
  "verdict_ok p \<longleftrightarrow> snd (snd p) \<or> fst p = ReasonIllegalOperation"

lemma verdict_ok_if: "verdict_ok x \<Longrightarrow> verdict_ok y \<Longrightarrow> verdict_ok (if b then x else y)"
  by simp

lemma validateStateTransition_refused:
  assumes "\<not> allowed st operation"
  shows "fst (validateStateTransition st operation) = ReasonIllegalOperation"
proof -
  have "verdict_ok (validateStateTransition st operation)"
    unfolding validateStateTransition_def by (intro verdict_ok_if; simp add: verdict_ok_def)
  with assms show ?thesis by (simp add: verdict_ok_def allowed_def)
qed

end
