(* ===== verification/Crypto.thy ===== *)
theory Crypto
  imports Prelude
begin

text \<open>
  What the server uses of Go's \<open>crypto\<close> packages. The ciphers, hashes and signature schemes are
  functions of a parameter record; the checks of the standard library that decide which branch the
  server takes (AES key sizes, the GCM nonce size and the panic on another size) are written out.
  Randomised functions take the random source of the call's draw.
\<close>

type_synonym rng = "nat \<Rightarrow> bytes result"

datatype curve = P256 | P384 | P521

text \<open>
  The dynamic type of a parsed key, as the type switches see it; keys are carried as their encoding.
  \<open>PrivOther\<close> and \<open>PubOther\<close> stand for the other key types \<open>crypto/x509\<close> parses (Ed25519, ECDH).
\<close>

datatype privkey = PrivRSA bytes | PrivECDSA bytes | PrivOther bytes
datatype pubkey = PubRSA bytes | PubECDSA bytes | PubOther bytes

record crypto =
  rsa_GenerateKey :: "rng \<Rightarrow> int \<Rightarrow> bytes result"
  ecdsa_GenerateKey :: "curve \<Rightarrow> rng \<Rightarrow> bytes result"
  rsa_PublicKey :: "bytes \<Rightarrow> bytes"
  ecdsa_PublicKey :: "bytes \<Rightarrow> bytes"
  MarshalPKCS8PrivateKey :: "privkey \<Rightarrow> bytes result"
  MarshalPKIXPublicKey :: "pubkey \<Rightarrow> bytes result"
  ParsePKCS8PrivateKey :: "bytes \<Rightarrow> privkey result"
  ParsePKIXPublicKey :: "bytes \<Rightarrow> pubkey result"
  sha256_Sum256 :: "bytes \<Rightarrow> bytes"
  hmac_sha256 :: "bytes \<Rightarrow> bytes \<Rightarrow> bytes"
  rsa_SignPKCS1v15 :: "rng \<Rightarrow> bytes \<Rightarrow> bytes \<Rightarrow> bytes result"
  ecdsa_SignASN1 :: "rng \<Rightarrow> bytes \<Rightarrow> bytes \<Rightarrow> bytes result"
  rsa_VerifyPKCS1v15 :: "bytes \<Rightarrow> bytes \<Rightarrow> bytes \<Rightarrow> error option"
  ecdsa_VerifyASN1 :: "bytes \<Rightarrow> bytes \<Rightarrow> bytes \<Rightarrow> bool"
  gcm_seal :: "bytes \<Rightarrow> bytes \<Rightarrow> bytes \<Rightarrow> bytes"
  gcm_open :: "bytes \<Rightarrow> bytes \<Rightarrow> bytes \<Rightarrow> bytes option"

section \<open>AES-GCM\<close>

definition aes_NewCipher :: "bytes \<Rightarrow> bytes result" where
  "aes_NewCipher key = (if length key \<in> {16, 24, 32} then Inr key
     else Inl (''crypto/aes: invalid key size '' @ fmt_d (int (length key))))"

text \<open>\<open>cipher.NewGCM\<close> accepts every cipher with 16-byte blocks, which AES has.\<close>

definition cipher_NewGCM :: "bytes \<Rightarrow> bytes result" where
  "cipher_NewGCM block = Inr block"

definition gcm_NonceSize :: nat where
  "gcm_NonceSize = 12"

definition gcm_Seal :: "crypto \<Rightarrow> bytes \<Rightarrow> bytes \<Rightarrow> bytes \<Rightarrow> bytes" where
  "gcm_Seal C key nonce plaintext = gcm_seal C key nonce plaintext"

definition gcm_Open :: "crypto \<Rightarrow> bytes \<Rightarrow> bytes \<Rightarrow> bytes \<Rightarrow> bytes result outcome" where
  "gcm_Open C key nonce ciphertext =
     (if length nonce \<noteq> gcm_NonceSize then Panicked ''crypto/cipher: incorrect nonce length given to GCM''
      else Done (case gcm_open C key nonce ciphertext of
        None \<Rightarrow> Inl ''cipher: message authentication failed'' | Some p \<Rightarrow> Inr p))"

section \<open>Documented behaviour\<close>

text \<open>
  Opening what was sealed with the same key and nonce gives the plaintext back; a signature made
  with a private key verifies with its public key; parsing inverts marshalling.
\<close>

definition aead_ok :: "crypto \<Rightarrow> bool" where
  "aead_ok C \<longleftrightarrow> (\<forall>k n p. length n = gcm_NonceSize \<longrightarrow> gcm_open C k n (gcm_seal C k n p) = Some p)"

definition sigs_ok :: "crypto \<Rightarrow> bool" where
  "sigs_ok C \<longleftrightarrow>
     (\<forall>R k h s. rsa_SignPKCS1v15 C R k h = Inr s \<longrightarrow> rsa_VerifyPKCS1v15 C (rsa_PublicKey C k) h s = None) \<and>
     (\<forall>R k h s. ecdsa_SignASN1 C R k h = Inr s \<longrightarrow> ecdsa_VerifyASN1 C (ecdsa_PublicKey C k) h s) \<and>
     (\<forall>k b. MarshalPKCS8PrivateKey C k = Inr b \<longrightarrow> ParsePKCS8PrivateKey C b = Inr k) \<and>
     (\<forall>k b. MarshalPKIXPublicKey C k = Inr b \<longrightarrow> ParsePKIXPublicKey C b = Inr k)"

section \<open>A concrete instance\<close>

text \<open>
  An instance that satisfies the documented behaviour without being secure, used to show that the
  hypotheses can hold: sealing prefixes the nonce, a signature is the hash itself, a key is one
  byte for its kind followed by its encoding.
\<close>

fun plain_priv :: "privkey \<Rightarrow> bytes" where
  "plain_priv (PrivRSA b) = 0 # b" | "plain_priv (PrivECDSA b) = 1 # b" | "plain_priv (PrivOther b) = 2 # b"

fun plain_pub :: "pubkey \<Rightarrow> bytes" where
  "plain_pub (PubRSA b) = 0 # b" | "plain_pub (PubECDSA b) = 1 # b" | "plain_pub (PubOther b) = 2 # b"

definition plain_parse :: "(bytes \<Rightarrow> 'k) \<Rightarrow> (bytes \<Rightarrow> 'k) \<Rightarrow> (bytes \<Rightarrow> 'k) \<Rightarrow> bytes \<Rightarrow> 'k result" where
  "plain_parse f g h b = (case b of [] \<Rightarrow> Inl ''asn1: syntax error'' | k # r \<Rightarrow>
     Inr (if k = 0 then f r else if k = 1 then g r else h r))"

definition plaincrypto :: crypto where
  "plaincrypto = \<lparr>rsa_GenerateKey = (\<lambda>R n. R (nat (n div 8))), ecdsa_GenerateKey = (\<lambda>c R. R 32),
     rsa_PublicKey = (\<lambda>k. k), ecdsa_PublicKey = (\<lambda>k. k),
     MarshalPKCS8PrivateKey = (\<lambda>k. Inr (plain_priv k)), MarshalPKIXPublicKey = (\<lambda>k. Inr (plain_pub k)),
     ParsePKCS8PrivateKey = plain_parse PrivRSA PrivECDSA PrivOther,
     ParsePKIXPublicKey = plain_parse PubRSA PubECDSA PubOther,
     sha256_Sum256 = (\<lambda>b. take 32 (b @ replicate 32 0)), hmac_sha256 = (\<lambda>k b. take 32 (k @ b @ replicate 32 0)),
     rsa_SignPKCS1v15 = (\<lambda>R k h. Inr h), ecdsa_SignASN1 = (\<lambda>R k h. Inr h),
     rsa_VerifyPKCS1v15 = (\<lambda>k h s. if s = h then None else Some ''crypto/rsa: verification error''),
     ecdsa_VerifyASN1 = (\<lambda>k h s. s = h),
     gcm_seal = (\<lambda>k n p. n @ p), gcm_open = (\<lambda>k n c. if take 12 c = n then Some (drop 12 c) else None)\<rparr>"

lemma aead_okD: "aead_ok C \<Longrightarrow> length n = gcm_NonceSize \<Longrightarrow> gcm_open C k n (gcm_seal C k n p) = Some p"
  by (simp add: aead_ok_def)

lemma plaincrypto_aead: "aead_ok plaincrypto"
  by (simp add: aead_ok_def plaincrypto_def gcm_NonceSize_def)

lemma plain_parse_priv: "plain_parse PrivRSA PrivECDSA PrivOther (plain_priv k) = Inr k"
  by (cases k) (simp_all add: plain_parse_def)

lemma plain_parse_pub: "plain_parse PubRSA PubECDSA PubOther (plain_pub k) = Inr k"
  by (cases k) (simp_all add: plain_parse_def)

lemma plaincrypto_sigs: "sigs_ok plaincrypto"
  by (auto simp: sigs_ok_def plaincrypto_def plain_parse_priv plain_parse_pub)

text \<open>With the right nonce size \<open>gcm.Open\<close> returns; with any other it panics.\<close>

lemma gcm_Open_Done_iff: "(\<exists>r. gcm_Open C k n c = Done r) \<longleftrightarrow> length n = gcm_NonceSize"
  by (simp add: gcm_Open_def)

lemma gcm_Open_Seal: "aead_ok C \<Longrightarrow> length n = gcm_NonceSize \<Longrightarrow> gcm_Open C k n (gcm_Seal C k n p) = Done (Inr p)"
  by (simp add: gcm_Open_def gcm_Seal_def aead_okD)

end
