(* ===== verification/Audit_Log.thy ===== *)
theory Audit_Log
  imports Prelude
begin

text \<open>
  \<open>internal/audit/audit.go\<close>: the audit logger. Entries are sent to a buffered channel without
  blocking (dropped when it is full); a background goroutine moves them one by one into the table
  \<open>audit_log\<close>, whose rows are kept in the order of their identifiers.
\<close>

section \<open>State\<close>

record Entry =
  ID :: int
  Timestamp :: time
  Source :: string
  Operation :: string
  ClientID :: string
  ObjectUID :: string
  ObjectName :: string
  Status :: string
  Message :: string
  RemoteAddr :: string

record Logger =
  rows :: "Entry list"
  next_id :: int
  ch :: "Entry list"

definition zero_time :: time where
  "zero_time = -62135596800000000000"

definition channel_cap :: nat where
  "channel_cap = 256"

text \<open>
  \<open>NewLogger\<close> on a database that holds the entries of earlier runs; it returns nil where the table
  cannot be created.
\<close>

definition NewLogger :: "error option \<Rightarrow> Entry list \<Rightarrow> int \<Rightarrow> Logger option" where
  "NewLogger err old nid =
     (case err of Some _ \<Rightarrow> None | None \<Rightarrow> Some \<lparr>rows = old, next_id = nid, ch = []\<rparr>)"

section \<open>Operations\<close>

text \<open>\<open>Log\<close>: the time of the call is filled in where the entry has none.\<close>

definition Log :: "time \<Rightarrow> Entry \<Rightarrow> Logger \<Rightarrow> Logger" where
  "Log now entry a =
     (let e = (if Timestamp entry = zero_time then entry\<lparr>Timestamp := now\<rparr> else entry)
      in if length (ch a) < channel_cap then a\<lparr>ch := ch a @ [e]\<rparr> else a)"

text \<open>
  One round of \<open>writer\<close>: the oldest entry is taken from the channel and inserted; where the
  insertion fails (\<open>err\<close>) the entry is lost. The identifier column is AUTOINCREMENT.
\<close>

definition write_one :: "error option \<Rightarrow> Logger \<Rightarrow> Logger" where
  "write_one err a =
     (case ch a of
        [] \<Rightarrow> a
      | e # es \<Rightarrow>
          (case err of
             None \<Rightarrow> a\<lparr>rows := rows a @ [e\<lparr>ID := next_id a\<rparr>], next_id := next_id a + 1, ch := es\<rparr>
           | Some _ \<Rightarrow> a\<lparr>ch := es\<rparr>))"

text \<open>
  \<open>Close\<close> waits until the writer has drained the channel; \<open>errs k\<close> is the driver's answer to
  the \<open>k\<close>-th insertion.
\<close>

function drain :: "(nat \<Rightarrow> error option) \<Rightarrow> nat \<Rightarrow> Logger \<Rightarrow> Logger" where
  "drain errs k a = (if ch a = [] then a else drain errs (Suc k) (write_one (errs k) a))"
  by pat_completeness auto
termination
  by (relation "measure (\<lambda>(errs, k, a). length (ch a))")
    (auto simp: write_one_def neq_Nil_conv split: option.splits)

declare drain.simps [simp del]

definition audit_Close :: "(nat \<Rightarrow> error option) \<Rightarrow> Logger \<Rightarrow> Logger" where
  "audit_Close errs a = drain errs 0 a"

text \<open>
  \<open>Query\<close>: the WHERE clause is built from the filters that are not empty; the page is cut from
  the matching rows, newest first. In SQLite a negative LIMIT is no limit and a negative OFFSET
  is none. A failing count leaves the total at 0, a failing query returns nothing, and an
  iteration that fails ends the page early.
\<close>

definition where_clause :: "string \<Rightarrow> string \<Rightarrow> Entry \<Rightarrow> bool" where
  "where_clause op st e \<longleftrightarrow> (op \<noteq> '''' \<longrightarrow> Operation e = op) \<and> (st \<noteq> '''' \<longrightarrow> Status e = st)"

definition sql_page :: "int \<Rightarrow> int \<Rightarrow> 'a list \<Rightarrow> 'a list" where
  "sql_page limit offset xs =
     (let ys = drop (nat offset) xs in if limit < 0 then ys else take (nat limit) ys)"

definition Query :: "draw \<Rightarrow> int \<Rightarrow> int \<Rightarrow> string \<Rightarrow> string \<Rightarrow> Logger \<Rightarrow> Entry list \<times> int" where
  "Query d limit offset op st a =
     (let hits = filter (where_clause op st) (rows a);
          total = (case d_sql d 0 of None \<Rightarrow> int (length hits) | Some _ \<Rightarrow> 0)
      in case d_sql d 1 of
           Some _ \<Rightarrow> ([], 0)
         | None \<Rightarrow> (delivered d 2 (sql_page limit offset (rev hits)), total))"

section \<open>The logger as a bounded queue in front of a table\<close>

text \<open>Entries with the identifiers the table gives them.\<close>

fun numbered :: "int \<Rightarrow> Entry list \<Rightarrow> Entry list" where
  "numbered n [] = []"
| "numbered n (e # es) = e\<lparr>ID := n\<rparr> # numbered (n + 1) es"

text \<open>The entry as \<open>Log\<close> sends it.\<close>

definition stamped :: "time \<Rightarrow> Entry \<Rightarrow> Entry" where
  "stamped now e = (if Timestamp e = zero_time then e\<lparr>Timestamp := now\<rparr> else e)"

definition log_inv :: "Logger \<Rightarrow> bool" where
  "log_inv a \<longleftrightarrow> length (ch a) \<le> channel_cap \<and> sorted_wrt (<) (map ID (rows a)) \<and> (\<forall>e \<in> set (rows a). ID e < next_id a)"

lemma Log_eq: "Log now e a = (if length (ch a) < channel_cap then a\<lparr>ch := ch a @ [stamped now e]\<rparr> else a)"
  by (simp add: Log_def stamped_def Let_def)

lemma log_inv_new: "log_inv \<lparr>rows = [], next_id = n, ch = []\<rparr>"
  by (simp add: log_inv_def)

lemma log_inv_Log: "log_inv a \<Longrightarrow> log_inv (Log now e a)"
  by (simp add: log_inv_def Log_eq)

lemma log_inv_write_one: "log_inv a \<Longrightarrow> log_inv (write_one err a)"
  by (auto simp: log_inv_def write_one_def sorted_wrt_append less_Suc_eq split: list.split option.split)

lemma log_inv_drain: "log_inv a \<Longrightarrow> log_inv (drain errs k a)"
proof (induction errs k a rule: drain.induct)
  case (1 errs k a)
  then show ?case by (subst drain.simps) (simp add: log_inv_write_one)
qed

text \<open>After \<open>Close\<close> the channel is empty, whatever the driver reports.\<close>

lemma drain_empty: "ch (drain errs k a) = []"
proof (induction errs k a rule: drain.induct)
  case (1 errs k a)
  then show ?case by (subst drain.simps) simp
qed

lemma drain_rows:
  "rows (drain (\<lambda>_. None) k a) = rows a @ numbered (next_id a) (ch a) \<and>
     next_id (drain (\<lambda>_. None) k a) = next_id a + int (length (ch a))"
proof (induction "\<lambda>_ :: nat. None :: error option" k a rule: drain.induct)
  case (1 k a)
  then show ?case
    by (subst (1 2) drain.simps) (cases "ch a"; simp add: write_one_def)
qed

text \<open>The rows only grow: nothing the logger does removes or changes an entry it has written.\<close>

lemma drain_prefix: "\<exists>es. rows (drain errs k a) = rows a @ es"
proof (induction errs k a rule: drain.induct)
  case (1 errs k a)
  then show ?case
    by (subst drain.simps) (cases "ch a"; fastforce simp: write_one_def split: option.splits)
qed

lemma fold_Log_room:
  assumes "length (ch a) + length es \<le> channel_cap"
  shows "fold (\<lambda>(t, e). Log t e) es a = a\<lparr>ch := ch a @ map (\<lambda>(t, e). stamped t e) es\<rparr>"
  using assms
proof (induction es arbitrary: a)
  case (Cons x es)
  then show ?case by (cases x) (simp add: Log_eq)
qed simp

section \<open>Paging\<close>

text \<open>The matching entries, newest first: the reference the pages are cut from.\<close>

definition hits :: "string \<Rightarrow> string \<Rightarrow> Logger \<Rightarrow> Entry list" where
  "hits op st a = rev (filter (where_clause op st) (rows a))"

lemma Query_good:
  "(\<And>k. d_sql d k = None) \<Longrightarrow>
   Query d limit offset op st a = (sql_page limit offset (hits op st a), int (length (hits op st a)))"
  by (simp add: Query_def hits_def Let_def delivered_def)

lemma sql_page_nth:
  assumes "0 \<le> limit" "0 \<le> offset" "k < length (sql_page limit offset xs)"
  shows "sql_page limit offset xs ! k = xs ! (nat offset + k)"
  using assms by (auto simp: sql_page_def Let_def)

lemma pages_cover:
  assumes "0 < n"
  shows "concat (map (\<lambda>k. sql_page (int n) (int (k * n)) xs) [0..<m]) = take (m * n) xs"
proof (induction m)
  case (Suc m)
  have "take (n + m * n) xs = take (m * n) xs @ take n (drop (m * n) xs)"
    by (subst add.commute) (rule take_add)
  with Suc assms show ?case by (simp add: sql_page_def nat_mult_distrib)
qed simp

lemma hits_newest_first: "log_inv a \<Longrightarrow> sorted_wrt (>) (map ID (hits op st a))"
  by (auto simp: hits_def log_inv_def rev_map sorted_wrt_rev sorted_wrt_map intro: sorted_wrt_filter)

section \<open>Properties\<close>

text \<open>
  C38. Nothing is lost while the channel has room: entries logged one after the other, at most 256
  with those still queued, are all in the table after \<open>Close\<close>, behind the older ones, in the order
  of their calls and with consecutive identifiers.
\<close>

theorem audit_complete:
  assumes "length (ch a) + length es \<le> channel_cap"
  shows "rows (audit_Close (\<lambda>_. None) (fold (\<lambda>(t, e). Log t e) es a)) =
    rows a @ numbered (next_id a) (ch a @ map (\<lambda>(t, e). stamped t e) es)"
  using drain_rows[of 0 "fold (\<lambda>(t, e). Log t e) es a"] by (simp add: audit_Close_def fold_Log_room[OF assms])

theorem audit_complete_witness:
  "rows (audit_Close (\<lambda>_. None) (fold (\<lambda>(t, e). Log t e)
     [(3, \<lparr>ID = 0, Timestamp = zero_time, Source = ''kmip'', Operation = ''Get'', ClientID = '''', ObjectUID = '''',
       ObjectName = '''', Status = ''success'', Message = '''', RemoteAddr = ''''\<rparr>)] \<lparr>rows = [], next_id = 1, ch = []\<rparr>)) =
   [\<lparr>ID = 1, Timestamp = 3, Source = ''kmip'', Operation = ''Get'', ClientID = '''', ObjectUID = '''',
       ObjectName = '''', Status = ''success'', Message = '''', RemoteAddr = ''''\<rparr>]"
  by (subst audit_complete) (simp_all add: channel_cap_def stamped_def)

text \<open>
  \<open>Log\<close> never blocks and never lets the queue grow beyond 256 entries: with room the entry is
  appended, without it the entry is dropped and the logger stays as it was. \<open>Close\<close> always ends with
  an empty channel, keeps every row that was written, and identifiers stay strictly increasing,
  whatever errors the driver reports.
\<close>

theorem audit_bounded:
  assumes "log_inv a"
  shows "(length (ch a) < 256 \<longrightarrow> ch (Log now e a) = ch a @ [stamped now e]) \<and>
    (length (ch a) \<ge> 256 \<longrightarrow> Log now e a = a) \<and> length (ch (Log now e a)) \<le> 256 \<and>
    ch (audit_Close errs a) = [] \<and> (\<exists>es'. rows (audit_Close errs a) = rows a @ es') \<and>
    log_inv (Log now e a) \<and> log_inv (audit_Close errs a)"
  using assms drain_prefix[of errs 0 a] log_inv_drain[OF assms, of errs 0] log_inv_Log[OF assms]
  by (auto simp: Log_eq channel_cap_def audit_Close_def drain_empty log_inv_def)

theorem audit_bounded_witness:
  "log_inv \<lparr>rows = [], next_id = 1, ch = []\<rparr> \<and> ch (audit_Close (\<lambda>_. Some ''disk full'') \<lparr>rows = [], next_id = 1, ch = []\<rparr>) = []"
  using audit_bounded[OF log_inv_new[of 1]] log_inv_new[of 1] by blast

text \<open>
  Paging through the audit log: with a page size \<open>n\<close> the pages \<open>Query\<close> returns at the offsets
  0, n, 2n, ... are, one after the other, the entries that match the filters, newest first, and each
  call reports their number.
\<close>

theorem query_pages:
  assumes "\<And>k. d_sql d k = None" "0 < n" "length (hits op st a) \<le> m * n" "log_inv a"
  shows "concat (map (\<lambda>k. fst (Query d (int n) (int (k * n)) op st a)) [0..<m]) = hits op st a \<and>
    (\<forall>k. snd (Query d (int n) (int (k * n)) op st a) = int (length (hits op st a))) \<and>
    sorted_wrt (>) (map ID (hits op st a)) \<and>
    set (hits op st a) = {e \<in> set (rows a). (op \<noteq> '''' \<longrightarrow> Operation e = op) \<and> (st \<noteq> '''' \<longrightarrow> Status e = st)}"
  using pages_cover[OF assms(2), of "hits op st a" m] assms(3) hits_newest_first[OF assms(4), of op st]
  by (simp add: Query_good[OF assms(1)]) (auto simp: hits_def where_clause_def)

theorem query_pages_witness:
  "concat (map (\<lambda>k. fst (Query \<lparr>d_uuid = '''', d_rand = (\<lambda>_. Inl ''''), d_now = 0, d_perm = id, d_sql = (\<lambda>_. None), d_cut = 0\<rparr>
     10 (int (k * 10)) '''' '''' \<lparr>rows = [], next_id = 1, ch = []\<rparr>)) [0..<1]) = hits '''' '''' \<lparr>rows = [], next_id = 1, ch = []\<rparr>"
  using query_pages[of "\<lparr>d_uuid = '''', d_rand = (\<lambda>_. Inl ''''), d_now = 0, d_perm = id, d_sql = (\<lambda>_. None), d_cut = 0\<rparr>" 10
      "''''" "''''" "\<lparr>rows = [], next_id = 1, ch = []\<rparr>" 1] log_inv_new[of 1]
  by (simp add: hits_def)

end
