(* ===== verification/Connections.thy ===== *)
theory Connections
  imports Prelude
begin

text \<open>
  \<open>internal/kmip/connections.go\<close>: the table of active KMIP connections. Every method runs under
  the tracker's mutex and is one step. Times are those of the call.
\<close>

record ConnectionInfo =
  conn_ID :: string
  ClientCN :: string
  ConnRemoteAddr :: string
  ConnectedAt :: time
  Operations :: int
  LastOp :: string
  LastOpAt :: time

record ConnectionTracker =
  conns :: "(string, ConnectionInfo) gomap"

section \<open>Operations\<close>

definition NewConnectionTracker :: ConnectionTracker where
  "NewConnectionTracker = \<lparr>conns = []\<rparr>"

definition tracker_Add :: "time \<Rightarrow> string \<Rightarrow> string \<Rightarrow> string \<Rightarrow> ConnectionTracker \<Rightarrow> ConnectionTracker" where
  "tracker_Add now i cn addr ct =
     ct\<lparr>conns := AList.update i \<lparr>conn_ID = i, ClientCN = cn, ConnRemoteAddr = addr, ConnectedAt = now,
        Operations = 0, LastOp = '''', LastOpAt = -62135596800000000000\<rparr> (conns ct)\<rparr>"

definition tracker_Remove :: "string \<Rightarrow> ConnectionTracker \<Rightarrow> ConnectionTracker" where
  "tracker_Remove i ct = ct\<lparr>conns := AList.delete i (conns ct)\<rparr>"

definition tracker_RecordOp :: "time \<Rightarrow> string \<Rightarrow> string \<Rightarrow> ConnectionTracker \<Rightarrow> ConnectionTracker" where
  "tracker_RecordOp now i operation ct =
     (case map_of (conns ct) i of
        None \<Rightarrow> ct
      | Some info \<Rightarrow> ct\<lparr>conns := AList.update i
          (info\<lparr>Operations := int64 (Operations info + 1), LastOp := operation, LastOpAt := now\<rparr>) (conns ct)\<rparr>)"

definition tracker_List :: "draw \<Rightarrow> ConnectionTracker \<Rightarrow> ConnectionInfo list" where
  "tracker_List d ct = List.map_filter (map_of (conns ct)) (d_perm d (map fst (conns ct)))"

definition tracker_Count :: "ConnectionTracker \<Rightarrow> int" where
  "tracker_Count ct = int (length (conns ct))"

section \<open>The contract of a connection table\<close>

text \<open>
  What the server and the REST API rely on: connections appear with \<open>Add\<close>, disappear with
  \<open>Remove\<close>, are counted and listed exactly while they are there, and \<open>RecordOp\<close> touches the one
  connection it names. \<open>look\<close> is the connection with a given identifier.
\<close>

locale connection_table =
  fixes inv :: "'t \<Rightarrow> bool" and look :: "'t \<Rightarrow> string \<rightharpoonup> ConnectionInfo" and new :: 't
    and add :: "time \<Rightarrow> string \<Rightarrow> string \<Rightarrow> string \<Rightarrow> 't \<Rightarrow> 't" and remove :: "string \<Rightarrow> 't \<Rightarrow> 't"
    and record_op :: "time \<Rightarrow> string \<Rightarrow> string \<Rightarrow> 't \<Rightarrow> 't" and count :: "'t \<Rightarrow> int"
  assumes inv_new: "inv new" and look_new: "look new = Map.empty"
    and inv_add: "inv t \<Longrightarrow> inv (add now i cn ra t)"
    and look_add: "inv t \<Longrightarrow> \<exists>c. look (add now i cn ra t) = (look t)(i \<mapsto> c) \<and> conn_ID c = i \<and> ClientCN c = cn \<and>
      ConnRemoteAddr c = ra \<and> ConnectedAt c = now \<and> Operations c = 0"
    and inv_remove: "inv t \<Longrightarrow> inv (remove i t)"
    and look_remove: "inv t \<Longrightarrow> look (remove i t) = (look t)(i := None)"
    and inv_record: "inv t \<Longrightarrow> inv (record_op now i opn t)"
    and look_record: "inv t \<Longrightarrow> look (record_op now i opn t) = (case look t i of None \<Rightarrow> look t
      | Some c \<Rightarrow> (look t)(i \<mapsto> c\<lparr>Operations := int64 (Operations c + 1), LastOp := opn, LastOpAt := now\<rparr>))"
    and count_card: "inv t \<Longrightarrow> count t = int (card (dom (look t)))"
begin

text \<open>The operations of one connection, in order.\<close>

definition record_all :: "string \<Rightarrow> (time \<times> string) list \<Rightarrow> 't \<Rightarrow> 't" where
  "record_all i ops = fold (\<lambda>(now, opn). record_op now i opn) ops"

lemma inv_record_all: "inv t \<Longrightarrow> inv (record_all i ops t)"
  by (induction ops arbitrary: t) (auto simp: record_all_def inv_record)

lemma record_all_look:
  assumes "inv t" "look t i = Some c" "int64 (Operations c) = Operations c"
  shows "\<exists>c'. look (record_all i ops t) i = Some c' \<and> Operations c' = int64 (Operations c + int (length ops)) \<and>
    conn_ID c' = conn_ID c \<and> ClientCN c' = ClientCN c \<and>
    (ops \<noteq> [] \<longrightarrow> LastOp c' = snd (last ops) \<and> LastOpAt c' = fst (last ops))"
  using assms
proof (induction ops arbitrary: t c)
  case Nil
  then show ?case by (simp add: record_all_def)
next
  case (Cons x ops)
  obtain now opn where x: "x = (now, opn)" by (cases x)
  let ?c = "c\<lparr>Operations := int64 (Operations c + 1), LastOp := opn, LastOpAt := now\<rparr>"
  have l: "look (record_op now i opn t) i = Some ?c" using Cons.prems by (simp add: look_record)
  have w: "int64 (Operations ?c) = Operations ?c" using int64_add[of "Operations c + 1" 0] by simp
  from Cons.IH[OF inv_record[OF Cons.prems(1)] l w] obtain c' where c':
    "look (record_all i ops (record_op now i opn t)) i = Some c'"
    "Operations c' = int64 (Operations c + (1 + int (length ops)))"
    "conn_ID c' = conn_ID c" "ClientCN c' = ClientCN c"
    "ops \<noteq> [] \<longrightarrow> LastOp c' = snd (last ops) \<and> LastOpAt c' = fst (last ops)" by (auto simp: add.assoc)
  show ?case
  proof (cases "ops = []")
    case True
    with l show ?thesis by (simp add: record_all_def x)
  next
    case False
    with c' show ?thesis by (simp add: record_all_def x)
  qed
qed

text \<open>A connection is listed from its \<open>Add\<close> to its \<open>Remove\<close>; the others are left alone.\<close>

lemma session:
  assumes "inv t" "look t i = None"
  shows "look (remove i (record_all i ops (add now i cn ra t))) = look t"
proof -
  have o: "look (record_all i ops t') j = look t' j" if "inv t'" "j \<noteq> i" for t' j
    using that
  proof (induction ops arbitrary: t')
    case (Cons x ops)
    obtain now opn where x: "x = (now, opn)" by (cases x)
    have "look (record_all i ops (record_op now i opn t')) j = look (record_op now i opn t') j"
      by (rule Cons.IH[OF inv_record[OF Cons.prems(1)] Cons.prems(2)])
    with Cons.prems show ?case by (simp add: record_all_def x look_record split: option.split)
  qed (simp add: record_all_def)
  have a: "inv (add now i cn ra t)" using assms(1) by (rule inv_add)
  from look_add[OF assms(1)] obtain c where c: "look (add now i cn ra t) = (look t)(i \<mapsto> c)" by metis
  show ?thesis
    using assms(2) o[OF a] c by (auto simp: look_remove[OF inv_record_all[OF a]] fun_eq_iff)
qed

end

definition tracker_inv :: "ConnectionTracker \<Rightarrow> bool" where
  "tracker_inv ct \<longleftrightarrow> distinct (map fst (conns ct))"

definition tracker_look :: "ConnectionTracker \<Rightarrow> string \<rightharpoonup> ConnectionInfo" where
  "tracker_look ct = map_of (conns ct)"

lemma tracker_Count_card: "tracker_inv t \<Longrightarrow> tracker_Count t = int (card (dom (tracker_look t)))"
  using distinct_card[of "map fst (conns t)"]
  by (simp add: tracker_inv_def tracker_Count_def tracker_look_def dom_map_of_conv_image_fst)

interpretation tracker: connection_table tracker_inv tracker_look NewConnectionTracker tracker_Add
  tracker_Remove tracker_RecordOp tracker_Count
  by unfold_locales
    (auto simp: tracker_inv_def tracker_look_def NewConnectionTracker_def tracker_Add_def tracker_Remove_def
      tracker_RecordOp_def tracker_Count_card split: option.split)

section \<open>Properties\<close>

definition record_ops :: "string \<Rightarrow> (time \<times> string) list \<Rightarrow> ConnectionTracker \<Rightarrow> ConnectionTracker" where
  "record_ops i ops = fold (\<lambda>(now, opn). tracker_RecordOp now i opn) ops"

lemma record_ops_all: "record_ops i ops = tracker.record_all i ops"
  by (simp add: record_ops_def tracker.record_all_def)

text \<open>
  The life of a connection: after \<open>Add\<close> it is listed with its client and address; every recorded
  operation counts up (modulo the 64-bit wrap-around) and is remembered as the last one; after
  \<open>Remove\<close> the table is what it was before, all other connections untouched throughout.
\<close>

theorem connection_life:
  assumes "tracker_inv ct" "tracker_look ct i = None" "ops \<noteq> []"
  shows "(\<exists>c. tracker_look (record_ops i ops (tracker_Add now i cn ra ct)) i = Some c \<and> conn_ID c = i \<and> ClientCN c = cn \<and>
      Operations c = int64 (int (length ops)) \<and> LastOp c = snd (last ops) \<and> LastOpAt c = fst (last ops)) \<and>
    tracker_Count (tracker_Add now i cn ra ct) = tracker_Count ct + 1 \<and>
    tracker_look (tracker_Remove i (record_ops i ops (tracker_Add now i cn ra ct))) = tracker_look ct"
proof (intro conjI)
  from tracker.look_add[OF assms(1)] obtain c where c: "tracker_look (tracker_Add now i cn ra ct) = (tracker_look ct)(i \<mapsto> c)"
    "conn_ID c = i" "ClientCN c = cn" "Operations c = 0" by metis
  have "int64 (Operations c) = Operations c" by (simp add: c(4) int64_def)
  have l: "tracker_look (tracker_Add now i cn ra ct) i = Some c" using c(1) by simp
  from tracker.record_all_look[OF tracker.inv_add[OF assms(1)] l \<open>int64 (Operations c) = Operations c\<close>, of ops] c assms(3)
  show "\<exists>c. tracker_look (record_ops i ops (tracker_Add now i cn ra ct)) i = Some c \<and> conn_ID c = i \<and> ClientCN c = cn \<and>
      Operations c = int64 (int (length ops)) \<and> LastOp c = snd (last ops) \<and> LastOpAt c = fst (last ops)"
    by (auto simp: record_ops_all)
  have "finite (dom (tracker_look ct))" by (simp add: tracker_look_def finite_dom_map_of)
  with c(1) assms(1,2) show "tracker_Count (tracker_Add now i cn ra ct) = tracker_Count ct + 1"
    by (simp add: tracker_Count_card tracker.inv_add domIff)
  show "tracker_look (tracker_Remove i (record_ops i ops (tracker_Add now i cn ra ct))) = tracker_look ct"
    unfolding record_ops_all by (rule tracker.session[OF assms(1,2)])
qed

theorem connection_life_witness:
  "tracker_Count (tracker_Add 5 ''c1'' ''alice'' ''10.0.0.1'' NewConnectionTracker) = 1 \<and>
   tracker_look (tracker_Remove ''c1'' (record_ops ''c1'' [(6, ''Get'')] (tracker_Add 5 ''c1'' ''alice'' ''10.0.0.1'' NewConnectionTracker))) =
     tracker_look NewConnectionTracker"
  using connection_life[OF tracker.inv_new, of "''c1''" "[(6, ''Get'')]" 5 "''alice''" "''10.0.0.1''"]
  by (simp add: tracker.look_new) (simp add: tracker_Count_def NewConnectionTracker_def)

end
