(* ===== verification/Kmip_Handler.thy ===== *)
theory Kmip_Handler
  imports Lifecycle Crypto Audit_Log Connections
begin

unbundle bit_operations_syntax

text \<open>
  \<open>internal/kmip/handler.go\<close>, second part: the response builders and the 27 operation handlers.
  The state of a handler (\<open>hstate\<close>) is what the struct \<open>Handler\<close> points to: the store, the audit
  logger and the connection tracker (nil when \<open>None\<close>), and the number of draws made so far from
  the outside world. A handler returns the tree of the batch item it builds, or the message of a
  panic, with the new state. The library, the methods of the store, the crypto packages and the
  outside world are the parameter \<open>deps\<close>.
\<close>

section \<open>State and parameters\<close>

record 's hstate =
  hstore :: 's
  haudit :: "Logger option"
  htracker :: "ConnectionTracker option"
  htick :: nat

record ('w, 'i, 's) deps =
  lib :: "('w, 'i) kmiplib"
  stor :: "'s Storage"
  cry :: crypto
  outside :: world

text \<open>
  \<open>NewHandler\<close>; \<open>n\<close> draws were made before, by earlier runs on the same database.
\<close>

definition NewHandler :: "nat \<Rightarrow> 's \<Rightarrow> Logger option \<Rightarrow> ConnectionTracker option \<Rightarrow> 's hstate" where
  "NewHandler n store auditLog tracker = \<lparr>hstore = store, haudit = auditLog, htracker = tracker, htick = n\<rparr>"

type_synonym 's reply = "ttlv outcome \<times> 's hstate"

text \<open>A call into the store that may change it, and one that only reads it: each uses the next draw.\<close>

definition call :: "('w, 'i, 's) deps \<Rightarrow> (draw \<Rightarrow> 's \<Rightarrow> 'r \<times> 's) \<Rightarrow> 's hstate \<Rightarrow> 'r \<times> 's hstate" where
  "call X f h = (let (r, s) = f (outside X (htick h)) (hstore h) in (r, h\<lparr>hstore := s, htick := Suc (htick h)\<rparr>))"

definition query :: "('w, 'i, 's) deps \<Rightarrow> (draw \<Rightarrow> 's \<Rightarrow> 'r) \<Rightarrow> 's hstate \<Rightarrow> 'r \<times> 's hstate" where
  "query X f h = (f (outside X (htick h)) (hstore h), h\<lparr>htick := Suc (htick h)\<rparr>)"

text \<open>A draw used for something else than the store: key generation, nonces, signatures, the clock.\<close>

definition sample :: "('w, 'i, 's) deps \<Rightarrow> 's hstate \<Rightarrow> draw \<times> 's hstate" where
  "sample X h = (outside X (htick h), h\<lparr>htick := Suc (htick h)\<rparr>)"

section \<open>Response builders\<close>

definition buildBatchItemSuccess :: "('w, 'i) kmiplib \<Rightarrow> int \<Rightarrow> ttlv list \<Rightarrow> ttlv" where
  "buildBatchItemSuccess L operation payloadChildren =
     Structure (tag_of L TagBatchItem)
       ([Enumeration (tag_of L TagOperation) operation,
         Enumeration (tag_of L TagResultStatus) (code L ResultStatusSuccess)] @
        (if length payloadChildren > 0
         then [Structure (tag_of L TagResponsePayload) payloadChildren] else []))"

definition buildBatchItemError :: "('w, 'i) kmiplib \<Rightarrow> int \<Rightarrow> int \<Rightarrow> string \<Rightarrow> ttlv" where
  "buildBatchItemError L operation reason message =
     (let children = [Enumeration (tag_of L TagResultStatus) (code L ResultStatusOperationFailed),
                      Enumeration (tag_of L TagResultReason) reason,
                      TextString (tag_of L TagResultMessage) message]
      in Structure (tag_of L TagBatchItem)
           (if operation \<noteq> 0 then Enumeration (tag_of L TagOperation) operation # children else children))"

definition buildBatchResponse :: "('w, 'i) kmiplib \<Rightarrow> int \<Rightarrow> ttlv list \<Rightarrow> ttlv" where
  "buildBatchResponse L batchCount batchItems =
     Structure (tag_of L TagResponseMessage)
       (Structure (tag_of L TagResponseHeader)
          [Structure (tag_of L TagProtocolVersion)
             [Integer (tag_of L TagProtocolVersionMajor) (word_of_int supportedMajor),
              Integer (tag_of L TagProtocolVersionMinor) (word_of_int supportedMinor)],
           Integer (tag_of L TagBatchCount) (word_of_int batchCount)] # batchItems)"

definition buildErrorResponse :: "('w, 'i) kmiplib \<Rightarrow> int \<Rightarrow> int \<Rightarrow> string \<Rightarrow> ttlv" where
  "buildErrorResponse L operation reason message =
     buildBatchResponse L 1 [buildBatchItemError L operation reason message]"

section \<open>Guards shared by the handlers\<close>

text \<open>
  The early returns that open the handlers: a missing payload, a missing child of an item, an
  object that is not found, a state the operation is not allowed in. \<open>k\<close> is the rest of the handler.
\<close>

definition failure :: "('w, 'i, 's) deps \<Rightarrow> int \<Rightarrow> int \<Rightarrow> string \<Rightarrow> 's hstate \<Rightarrow> 's reply" where
  "failure X op reason message h = (Done (buildBatchItemError (lib X) op reason message), h)"

definition success :: "('w, 'i, 's) deps \<Rightarrow> int \<Rightarrow> ttlv list \<Rightarrow> 's hstate \<Rightarrow> 's reply" where
  "success X op children h = (Done (buildBatchItemSuccess (lib X) op children), h)"

definition need_payload :: "('w, 'i, 's) deps \<Rightarrow> int \<Rightarrow> 'i option \<Rightarrow> 's hstate \<Rightarrow> ('i \<Rightarrow> 's reply) \<Rightarrow> 's reply" where
  "need_payload X op payload h k =
     (case payload of
        None \<Rightarrow> failure X op ReasonMissingData ''missing request payload'' h
      | Some p \<Rightarrow> k p)"

definition need_child ::
  "('w, 'i, 's) deps \<Rightarrow> int \<Rightarrow> 'i \<Rightarrow> int \<Rightarrow> string \<Rightarrow> 's hstate \<Rightarrow> ('i \<Rightarrow> 's reply) \<Rightarrow> 's reply" where
  "need_child X op item tag what h k =
     (case FindChild (lib X) item tag of
        None \<Rightarrow> failure X op ReasonMissingData (''missing '' @ what) h
      | Some c \<Rightarrow> k c)"

definition need_uid :: "('w, 'i, 's) deps \<Rightarrow> int \<Rightarrow> 'i \<Rightarrow> 's hstate \<Rightarrow> (string \<Rightarrow> 's reply) \<Rightarrow> 's reply" where
  "need_uid X op payload h k =
     need_child X op payload (tag_of (lib X) TagUniqueIdentifier) ''UniqueIdentifier'' h
       (\<lambda>uidItem. k (StringValue (lib X) uidItem))"

definition need_object ::
  "('w, 'i, 's) deps \<Rightarrow> int \<Rightarrow> string \<Rightarrow> 's hstate \<Rightarrow> (KeyRecord \<Rightarrow> 's hstate \<Rightarrow> 's reply) \<Rightarrow> 's reply" where
  "need_object X op uid h k =
     (case query X (\<lambda>d. Get (stor X) d uid) h of
        (None, h') \<Rightarrow> failure X op ReasonItemNotFound (''object not found: '' @ uid) h'
      | (Some rec, h') \<Rightarrow> k rec h')"

definition need_state ::
  "('w, 'i, 's) deps \<Rightarrow> int \<Rightarrow> KeyState \<Rightarrow> string \<Rightarrow> 's hstate \<Rightarrow> 's reply \<Rightarrow> 's reply" where
  "need_state X op st operation h k =
     (case validateStateTransition st operation of
        (reason, msg, valid) \<Rightarrow> if \<not> valid then failure X op reason msg h else k)"

text \<open>An error the store or a crypto function returned, or the value to go on with.\<close>

definition on_error ::
  "('w, 'i, 's) deps \<Rightarrow> int \<Rightarrow> int \<Rightarrow> string \<Rightarrow> 'a result \<Rightarrow> 's hstate \<Rightarrow> ('a \<Rightarrow> 's reply) \<Rightarrow> 's reply" where
  "on_error X op reason prefix r h k =
     (case r of Inl e \<Rightarrow> failure X op reason (prefix @ e) h | Inr v \<Rightarrow> k v)"

definition reply_uid ::
  "('w, 'i, 's) deps \<Rightarrow> int \<Rightarrow> string \<Rightarrow> error option \<times> 's hstate \<Rightarrow> 's reply" where
  "reply_uid X op uid r =
     (case r of
        (Some e, h) \<Rightarrow> failure X op ReasonGeneralFailure e h
      | (None, h) \<Rightarrow> success X op [TextString (tag_of (lib X) TagUniqueIdentifier) uid] h)"

lemmas guard_defs = failure_def success_def need_payload_def need_child_def need_uid_def
  need_object_def need_state_def on_error_def reply_uid_def

section \<open>Template attributes\<close>

text \<open>
  The loops over the attributes of a \<open>TemplateAttribute\<close>. \<open>tmpl\<close> holds the local variables they
  assign; an attribute without name or value is skipped, a later attribute overrides an earlier one.
\<close>

record tmpl =
  t_name :: string
  t_algorithm :: int
  t_length :: i32
  t_usageMask :: int

definition attr_name_value :: "('w, 'i) kmiplib \<Rightarrow> 'i \<Rightarrow> tmpl \<Rightarrow> tmpl" where
  "attr_name_value L attrValue t =
     (case FindChild L attrValue (tag_of L TagNameValue) of
        None \<Rightarrow> t | Some nv \<Rightarrow> t\<lparr>t_name := StringValue L nv\<rparr>)"

definition tmpl_loop :: "('w, 'i) kmiplib \<Rightarrow> (string \<Rightarrow> 'i \<Rightarrow> tmpl \<Rightarrow> tmpl) \<Rightarrow> 'i \<Rightarrow> tmpl \<Rightarrow> tmpl" where
  "tmpl_loop L body payload t0 =
     (case FindChild L payload (tag_of L TagTemplateAttribute) of
        None \<Rightarrow> t0
      | Some tp \<Rightarrow> foldl (\<lambda>t attr.
          case (FindChild L attr (tag_of L TagAttributeName), FindChild L attr (tag_of L TagAttributeValue)) of
            (Some attrName, Some attrValue) \<Rightarrow> body (StringValue L attrName) attrValue t
          | _ \<Rightarrow> t) t0 (FindChildren L tp (tag_of L TagAttribute)))"

definition create_body :: "('w, 'i) kmiplib \<Rightarrow> string \<Rightarrow> 'i \<Rightarrow> tmpl \<Rightarrow> tmpl" where
  "create_body L an av t =
     (if an = ''Name'' then attr_name_value L av t
      else if an = ''Cryptographic Algorithm'' then t\<lparr>t_algorithm := sint (IntValue L av)\<rparr>
      else if an = ''Cryptographic Length'' then t\<lparr>t_length := IntValue L av\<rparr>
      else if an = ''Cryptographic Usage Mask'' then t\<lparr>t_usageMask := sint (IntValue L av)\<rparr>
      else t)"

definition register_body :: "('w, 'i) kmiplib \<Rightarrow> string \<Rightarrow> 'i \<Rightarrow> tmpl \<Rightarrow> tmpl" where
  "register_body L an av t =
     (if an = ''Name'' then attr_name_value L av t
      else if an = ''Cryptographic Usage Mask'' then t\<lparr>t_usageMask := sint (IntValue L av)\<rparr>
      else t)"

definition derive_body :: "('w, 'i) kmiplib \<Rightarrow> string \<Rightarrow> 'i \<Rightarrow> tmpl \<Rightarrow> tmpl" where
  "derive_body L an av t =
     (if an = ''Cryptographic Length'' then t\<lparr>t_length := IntValue L av\<rparr>
      else if an = ''Name'' then attr_name_value L av t
      else t)"

section \<open>Operation handlers\<close>

definition handleCreate :: "('w, 'i, 's) deps \<Rightarrow> int \<Rightarrow> 'i option \<Rightarrow> string \<Rightarrow> 's hstate \<Rightarrow> 's reply" where
  [handler_defs]: "handleCreate X op payload clientCN h =
     need_payload X op payload h (\<lambda>p.
       let L = lib X;
           t = tmpl_loop L (create_body L) p
             \<lparr>t_name = '''', t_algorithm = code L AlgorithmAES, t_length = 256,
              t_usageMask = code L UsageMaskEncrypt OR code L UsageMaskDecrypt\<rparr>;
           (r, h1) = call X (\<lambda>d. Create (stor X) d (t_name t) (t_algorithm t) (t_length t) (t_usageMask t) clientCN) h
       in on_error X op ReasonGeneralFailure '''' r h1 (\<lambda>rec.
            success X op [Enumeration (tag_of L TagObjectType) (ObjectType rec),
              TextString (tag_of L TagUniqueIdentifier) (UID rec)] h1))"

text \<open>The curve and the effective length of an ECDSA key pair.\<close>

definition ec_curve :: "i32 \<Rightarrow> curve \<times> i32" where
  "ec_curve len = (if len = 256 then (P256, len) else if len = 384 then (P384, len)
     else if len = 521 then (P521, len) else (P256, 256))"

text \<open>The last part of \<open>handleCreateKeyPair\<close>: both halves are registered, the private key first.\<close>

definition register_pair ::
  "('w, 'i, 's) deps \<Rightarrow> int \<Rightarrow> string \<Rightarrow> int \<Rightarrow> i32 \<Rightarrow> int \<Rightarrow> bytes \<Rightarrow> bytes \<Rightarrow> 's hstate \<Rightarrow> 's reply" where
  [handler_defs]: "register_pair X op name algorithm len usageMask privDER pubDER h =
     (let privRec = zero_KeyRecord\<lparr>ObjectType := code (lib X) ObjectTypePrivateKey, Name := name,
            Algorithm := algorithm, Length := len, Material := Some privDER, UsageMask := usageMask\<rparr>;
          (r1, h1) = call X (\<lambda>d. Register (stor X) d privRec) h
      in on_error X op ReasonGeneralFailure '''' r1 h1 (\<lambda>privRec'.
           let pubRec = zero_KeyRecord\<lparr>ObjectType := code (lib X) ObjectTypePublicKey, Name := name,
                 Algorithm := algorithm, Length := len, Material := Some pubDER, UsageMask := usageMask\<rparr>;
               (r2, h2) = call X (\<lambda>d. Register (stor X) d pubRec) h1
           in on_error X op ReasonGeneralFailure '''' r2 h2 (\<lambda>pubRec'.
                success X op [TextString TagPrivateKeyUniqueIdentifier (UID privRec'),
                  TextString TagPublicKeyUniqueIdentifier (UID pubRec')] h2)))"

definition handleCreateKeyPair :: "('w, 'i, 's) deps \<Rightarrow> int \<Rightarrow> 'i option \<Rightarrow> 's hstate \<Rightarrow> 's reply" where
  [handler_defs]: "handleCreateKeyPair X op payload h =
     need_payload X op payload h (\<lambda>p.
       let L = lib X; C = cry X;
           t = tmpl_loop L (create_body L) p
             \<lparr>t_name = '''', t_algorithm = code L AlgorithmRSA, t_length = 2048,
              t_usageMask = code L UsageMaskSign OR code L UsageMaskVerify\<rparr>
       in if t_algorithm t = code L AlgorithmRSA then
            (let (d, h1) = sample X h in
             on_error X op ReasonCryptographicFailure ''RSA keygen: ''
               (rsa_GenerateKey C (d_rand d) (sint (t_length t))) h1 (\<lambda>privKey.
             on_error X op ReasonCryptographicFailure '''' (MarshalPKCS8PrivateKey C (PrivRSA privKey)) h1 (\<lambda>privDER.
             on_error X op ReasonCryptographicFailure '''' (MarshalPKIXPublicKey C (PubRSA (rsa_PublicKey C privKey))) h1 (\<lambda>pubDER.
             register_pair X op (t_name t) (t_algorithm t) (t_length t) (t_usageMask t) privDER pubDER h1))))
          else if t_algorithm t = code L AlgorithmECDSA then
            (let (d, h1) = sample X h; (curve, len) = ec_curve (t_length t) in
             on_error X op ReasonCryptographicFailure ''EC keygen: ''
               (ecdsa_GenerateKey C curve (d_rand d)) h1 (\<lambda>privKey.
             on_error X op ReasonCryptographicFailure '''' (MarshalPKCS8PrivateKey C (PrivECDSA privKey)) h1 (\<lambda>privDER.
             on_error X op ReasonCryptographicFailure '''' (MarshalPKIXPublicKey C (PubECDSA (ecdsa_PublicKey C privKey))) h1 (\<lambda>pubDER.
             register_pair X op (t_name t) (t_algorithm t) len (t_usageMask t) privDER pubDER h1))))
          else failure X op ReasonInvalidField (''unsupported algorithm: 0x'' @ fmt_X 8 (t_algorithm t)) h)"

text \<open>The object structure of a \<open>Get\<close> response, by object type.\<close>

definition key_block :: "('w, 'i) kmiplib \<Rightarrow> int \<Rightarrow> KeyRecord \<Rightarrow> ttlv" where
  "key_block L format rec =
     Structure (tag_of L TagKeyBlock)
       [Enumeration (tag_of L TagKeyFormatType) format,
        Structure (tag_of L TagKeyValue) [ByteString (tag_of L TagKeyMaterial) (Material rec)],
        Enumeration (tag_of L TagCryptographicAlgorithm) (Algorithm rec),
        Integer (tag_of L TagCryptographicLength) (Length rec)]"

definition object_data :: "('w, 'i) kmiplib \<Rightarrow> KeyRecord \<Rightarrow> ttlv" where
  "object_data L rec =
     (if ObjectType rec = code L ObjectTypePublicKey
      then Structure TagPublicKey [key_block L (code L KeyFormatX509) rec]
      else if ObjectType rec = code L ObjectTypePrivateKey
      then Structure TagPrivateKey [key_block L (code L KeyFormatPKCS8) rec]
      else if ObjectType rec = code L ObjectTypeCertificate
      then Structure TagCertificate [Enumeration TagCertificateType 1, ByteString TagCertificateValue (Material rec)]
      else Structure (tag_of L TagSymmetricKey) [key_block L (code L KeyFormatRaw) rec])"

definition handleGet :: "('w, 'i, 's) deps \<Rightarrow> int \<Rightarrow> 'i option \<Rightarrow> 's hstate \<Rightarrow> 's reply" where
  [handler_defs]: "handleGet X op payload h =
     need_payload X op payload h (\<lambda>p.
     need_uid X op p h (\<lambda>uid.
     need_object X op uid h (\<lambda>rec h1.
     need_state X op (State rec) ''Get'' h1 (
       success X op [Enumeration (tag_of (lib X) TagObjectType) (ObjectType rec),
         TextString (tag_of (lib X) TagUniqueIdentifier) (UID rec), object_data (lib X) rec] h1))))"

definition locate_name :: "('w, 'i) kmiplib \<Rightarrow> 'i option \<Rightarrow> string" where
  "locate_name L payload =
     (case payload of None \<Rightarrow> '''' | Some p \<Rightarrow>
       (case FindChild L p (tag_of L TagAttribute) of None \<Rightarrow> '''' | Some attr \<Rightarrow>
         (case FindChild L attr (tag_of L TagAttributeValue) of None \<Rightarrow> '''' | Some av \<Rightarrow>
           (case FindChild L av (tag_of L TagNameValue) of None \<Rightarrow> '''' | Some nv \<Rightarrow> StringValue L nv))))"

definition handleLocate :: "('w, 'i, 's) deps \<Rightarrow> int \<Rightarrow> 'i option \<Rightarrow> 's hstate \<Rightarrow> 's reply" where
  [handler_defs]: "handleLocate X op payload h =
     (let (uids, h1) = query X (\<lambda>d. Locate (stor X) d (locate_name (lib X) payload)) h
      in success X op (map (TextString (tag_of (lib X) TagUniqueIdentifier)) uids) h1)"

definition handleDestroy :: "('w, 'i, 's) deps \<Rightarrow> int \<Rightarrow> 'i option \<Rightarrow> 's hstate \<Rightarrow> 's reply" where
  [handler_defs]: "handleDestroy X op payload h =
     need_payload X op payload h (\<lambda>p.
     need_uid X op p h (\<lambda>uid.
     need_object X op uid h (\<lambda>rec h1.
     need_state X op (State rec) ''Destroy'' h1 (
     reply_uid X op uid (call X (\<lambda>d. Destroy (stor X) d uid) h1)))))"

definition handleActivate :: "('w, 'i, 's) deps \<Rightarrow> int \<Rightarrow> 'i option \<Rightarrow> 's hstate \<Rightarrow> 's reply" where
  [handler_defs]: "handleActivate X op payload h =
     need_payload X op payload h (\<lambda>p.
     need_uid X op p h (\<lambda>uid.
     need_object X op uid h (\<lambda>rec h1.
     need_state X op (State rec) ''Activate'' h1 (
     reply_uid X op uid (call X (\<lambda>d. Activate (stor X) d uid) h1)))))"

definition handleCheck :: "('w, 'i, 's) deps \<Rightarrow> int \<Rightarrow> 'i option \<Rightarrow> 's hstate \<Rightarrow> 's reply" where
  [handler_defs]: "handleCheck X op payload h =
     need_payload X op payload h (\<lambda>p.
     need_uid X op p h (\<lambda>uid.
     need_object X op uid h (\<lambda>rec h1.
       success X op [TextString (tag_of (lib X) TagUniqueIdentifier) (UID rec)] h1)))"

text \<open>The key wrapper of a \<open>Register\<close> payload and the fields read from its key block.\<close>

record regobj =
  r_material :: slice
  r_algorithm :: int
  r_length :: i32

definition register_wrapper :: "('w, 'i) kmiplib \<Rightarrow> int \<Rightarrow> 'i \<Rightarrow> 'i option" where
  "register_wrapper L objectType p =
     (if objectType = code L ObjectTypePublicKey then FindChild L p TagPublicKey
      else if objectType = code L ObjectTypePrivateKey then FindChild L p TagPrivateKey
      else if objectType = code L ObjectTypeCertificate then None
      else FindChild L p (tag_of L TagSymmetricKey))"

definition register_cert :: "('w, 'i) kmiplib \<Rightarrow> int \<Rightarrow> 'i \<Rightarrow> slice" where
  "register_cert L objectType p =
     (if objectType = code L ObjectTypePublicKey \<or> objectType = code L ObjectTypePrivateKey then None
      else if objectType = code L ObjectTypeCertificate then
        (case FindChild L p TagCertificate of None \<Rightarrow> None | Some ci \<Rightarrow>
          (case FindChild L ci TagCertificateValue of None \<Rightarrow> None | Some cv \<Rightarrow> BytesValue L cv))
      else None)"

definition register_block :: "('w, 'i) kmiplib \<Rightarrow> 'i \<Rightarrow> regobj \<Rightarrow> regobj" where
  "register_block L wrapper o0 =
     (case FindChild L wrapper (tag_of L TagKeyBlock) of
        None \<Rightarrow> o0
      | Some kb \<Rightarrow>
          let o1 = (case FindChild L kb (tag_of L TagCryptographicAlgorithm) of
                      None \<Rightarrow> o0 | Some ai \<Rightarrow> o0\<lparr>r_algorithm := sint (IntValue L ai)\<rparr>);
              o2 = (case FindChild L kb (tag_of L TagCryptographicLength) of
                      None \<Rightarrow> o1 | Some li \<Rightarrow> o1\<lparr>r_length := IntValue L li\<rparr>)
          in (case FindChild L kb (tag_of L TagKeyValue) of
                None \<Rightarrow> o2
              | Some kv \<Rightarrow> (case FindChild L kv (tag_of L TagKeyMaterial) of
                   None \<Rightarrow> o2 | Some km \<Rightarrow> o2\<lparr>r_material := BytesValue L km\<rparr>)))"

definition handleRegister :: "('w, 'i, 's) deps \<Rightarrow> int \<Rightarrow> 'i option \<Rightarrow> 's hstate \<Rightarrow> 's reply" where
  [handler_defs]: "handleRegister X op payload h =
     need_payload X op payload h (\<lambda>p.
       let L = lib X;
           objectType = (case FindChild L p (tag_of L TagObjectType) of
             None \<Rightarrow> code L ObjectTypeSymmetricKey | Some ot \<Rightarrow> sint (IntValue L ot));
           o0 = \<lparr>r_material = register_cert L objectType p, r_algorithm = code L AlgorithmAES, r_length = 256\<rparr>;
           ob = (case register_wrapper L objectType p of None \<Rightarrow> o0 | Some w \<Rightarrow> register_block L w o0)
       in if r_material ob = None then failure X op ReasonMissingData ''missing key material'' h
          else
            let t = tmpl_loop L (register_body L) p
                  \<lparr>t_name = '''', t_algorithm = r_algorithm ob, t_length = r_length ob,
                   t_usageMask = code L UsageMaskEncrypt OR code L UsageMaskDecrypt\<rparr>;
                rec = zero_KeyRecord\<lparr>ObjectType := objectType, Name := t_name t, Algorithm := r_algorithm ob,
                  Length := r_length ob, Material := r_material ob, UsageMask := t_usageMask t\<rparr>;
                (r, h1) = call X (\<lambda>d. Register (stor X) d rec) h
            in on_error X op ReasonGeneralFailure '''' r h1 (\<lambda>rec'.
                 success X op [TextString (tag_of L TagUniqueIdentifier) (UID rec')] h1))"

definition revocation_code :: "('w, 'i) kmiplib \<Rightarrow> 'i \<Rightarrow> int" where
  "revocation_code L p =
     (case FindChild L p TagRevocationReason of None \<Rightarrow> 0 | Some rr \<Rightarrow>
       (case FindChild L rr 0x420083 of None \<Rightarrow> 0 | Some c \<Rightarrow> sint (IntValue L c)))"

definition handleRevoke :: "('w, 'i, 's) deps \<Rightarrow> int \<Rightarrow> 'i option \<Rightarrow> 's hstate \<Rightarrow> 's reply" where
  [handler_defs]: "handleRevoke X op payload h =
     need_payload X op payload h (\<lambda>p.
     need_uid X op p h (\<lambda>uid.
     need_object X op uid h (\<lambda>rec h1.
     need_state X op (State rec) ''Revoke'' h1 (
     reply_uid X op uid (call X (\<lambda>d. Revoke (stor X) d uid (revocation_code (lib X) p)) h1)))))"

definition attribute :: "('w, 'i) kmiplib \<Rightarrow> string \<Rightarrow> ttlv \<Rightarrow> ttlv" where
  "attribute L name v = Structure (tag_of L TagAttribute) [TextString (tag_of L TagAttributeName) name, v]"

definition handleGetAttributes :: "('w, 'i, 's) deps \<Rightarrow> int \<Rightarrow> 'i option \<Rightarrow> 's hstate \<Rightarrow> 's reply" where
  [handler_defs]: "handleGetAttributes X op payload h =
     need_payload X op payload h (\<lambda>p.
     need_uid X op p h (\<lambda>uid.
       let L = lib X; av = tag_of L TagAttributeValue in
       (case query X (\<lambda>d. GetAttributes (stor X) d uid) h of
          (None, h1) \<Rightarrow> failure X op ReasonItemNotFound (''object not found: '' @ uid) h1
        | (Some rec, h1) \<Rightarrow>
            success X op
              [TextString (tag_of L TagUniqueIdentifier) (UID rec),
               attribute L ''Name'' (Structure av [TextString (tag_of L TagNameValue) (Name rec),
                 Enumeration (tag_of L TagNameType) (code L NameTypeUninterpretedTextString)]),
               attribute L ''Object Type'' (Enumeration av (ObjectType rec)),
               attribute L ''Cryptographic Algorithm'' (Enumeration av (Algorithm rec)),
               attribute L ''Cryptographic Length'' (Integer av (Length rec)),
               attribute L ''Cryptographic Usage Mask'' (Integer av (word_of_int (UsageMask rec))),
               attribute L ''State'' (Enumeration av (State rec)),
               attribute L ''Initial Date'' (DateTime av (time_Unix (CreatedAt rec)))] h1)))"

definition query_operations :: "('w, 'i) kmiplib \<Rightarrow> int list" where
  "query_operations L =
     [code L OperationCreate, OperationCreateKeyPair, OperationRegister, OperationReKey, OpDeriveKey,
      code L OperationLocate, code L OperationCheck, code L OperationGet, OperationGetAttributes,
      OperationGetAttributeList, OpAddAttribute, OpModifyAttribute, OpDeleteAttribute, OpObtainLease,
      code L OperationActivate, OperationRevoke, code L OperationDestroy, OpArchive, OpRecover,
      OperationQuery, OpPoll, OperationDiscoverVersions, OperationEncrypt, OperationDecrypt,
      OperationSign, OperationSignatureVerify, OperationMAC]"

definition query_types :: "('w, 'i) kmiplib \<Rightarrow> int list" where
  "query_types L = [code L ObjectTypeCertificate, code L ObjectTypeSymmetricKey,
     code L ObjectTypePublicKey, code L ObjectTypePrivateKey]"

definition handleQuery :: "('w, 'i, 's) deps \<Rightarrow> int \<Rightarrow> 'i option \<Rightarrow> 's hstate \<Rightarrow> 's reply" where
  [handler_defs]: "handleQuery X op payload h =
     success X op (map (Enumeration (tag_of (lib X) TagOperation)) (query_operations (lib X)) @
       map (Enumeration (tag_of (lib X) TagObjectType)) (query_types (lib X))) h"

definition handleDiscoverVersions :: "('w, 'i, 's) deps \<Rightarrow> int \<Rightarrow> 'i option \<Rightarrow> 's hstate \<Rightarrow> 's reply" where
  [handler_defs]: "handleDiscoverVersions X op payload h =
     success X op [Structure (tag_of (lib X) TagProtocolVersion)
       [Integer (tag_of (lib X) TagProtocolVersionMajor) (word_of_int supportedMajor),
        Integer (tag_of (lib X) TagProtocolVersionMinor) (word_of_int supportedMinor)]] h"

text \<open>
  \<open>rand.Read(nonce)\<close> with its error ignored: where it fails the buffer keeps its zero bytes.
\<close>

definition fresh_nonce :: "draw \<Rightarrow> nat \<Rightarrow> bytes" where
  "fresh_nonce d n = (case d_rand d n of Inl _ \<Rightarrow> replicate n 0 | Inr b \<Rightarrow> b)"

definition handleEncrypt :: "('w, 'i, 's) deps \<Rightarrow> int \<Rightarrow> 'i option \<Rightarrow> 's hstate \<Rightarrow> 's reply" where
  [handler_defs]: "handleEncrypt X op payload h =
     need_payload X op payload h (\<lambda>p.
     need_uid X op p h (\<lambda>uid.
     need_child X op p TagData ''Data'' h (\<lambda>dataItem.
     need_object X op uid h (\<lambda>rec h1.
     need_state X op (State rec) ''Encrypt'' h1 (
       if ObjectType rec \<noteq> code (lib X) ObjectTypeSymmetricKey
       then failure X op ReasonInvalidField ''encrypt requires a symmetric key'' h1
       else
         on_error X op ReasonCryptographicFailure '''' (aes_NewCipher (sl (Material rec))) h1 (\<lambda>block.
         on_error X op ReasonCryptographicFailure '''' (cipher_NewGCM block) h1 (\<lambda>gcm.
           let (d, h2) = sample X h1;
               nonce = fresh_nonce d gcm_NonceSize;
               ciphertext = gcm_Seal (cry X) gcm nonce (sl (BytesValue (lib X) dataItem))
           in success X op [TextString (tag_of (lib X) TagUniqueIdentifier) (UID rec),
                ByteString TagData (Some ciphertext), ByteString TagIVCounterNonce (Some nonce)] h2)))))))"

definition handleDecrypt :: "('w, 'i, 's) deps \<Rightarrow> int \<Rightarrow> 'i option \<Rightarrow> 's hstate \<Rightarrow> 's reply" where
  [handler_defs]: "handleDecrypt X op payload h =
     need_payload X op payload h (\<lambda>p.
     need_uid X op p h (\<lambda>uid.
     need_child X op p TagData ''Data'' h (\<lambda>dataItem.
     need_child X op p TagIVCounterNonce ''IVCounterNonce'' h (\<lambda>nonceItem.
     let nonce = sl (BytesValue (lib X) nonceItem) in
     need_object X op uid h (\<lambda>rec h1.
     need_state X op (State rec) ''Decrypt'' h1 (
       if ObjectType rec \<noteq> code (lib X) ObjectTypeSymmetricKey
       then failure X op ReasonInvalidField ''decrypt requires a symmetric key'' h1
       else
         on_error X op ReasonCryptographicFailure '''' (aes_NewCipher (sl (Material rec))) h1 (\<lambda>block.
         on_error X op ReasonCryptographicFailure '''' (cipher_NewGCM block) h1 (\<lambda>gcm.
           if length nonce \<noteq> gcm_NonceSize
           then failure X op ReasonInvalidField (''invalid nonce length: got '' @ fmt_d (int (length nonce)) @
                  '', expected '' @ fmt_d (int gcm_NonceSize)) h1
           else
             (case gcm_Open (cry X) gcm nonce (sl (BytesValue (lib X) dataItem)) of
                Panicked m \<Rightarrow> (Panicked m, h1)
              | Done r \<Rightarrow>
                  on_error X op ReasonCryptographicFailure ''decryption failed: '' r h1 (\<lambda>plaintext.
                    success X op [TextString (tag_of (lib X) TagUniqueIdentifier) (UID rec),
                      ByteString TagData (Some plaintext)] h1))))))))))"

definition sign_with :: "crypto \<Rightarrow> draw \<Rightarrow> privkey \<Rightarrow> bytes \<Rightarrow> bytes result option" where
  "sign_with C d key hash =
     (case key of
        PrivRSA k \<Rightarrow> Some (rsa_SignPKCS1v15 C (d_rand d) k hash)
      | PrivECDSA k \<Rightarrow> Some (ecdsa_SignASN1 C (d_rand d) k hash)
      | PrivOther _ \<Rightarrow> None)"

definition handleSign :: "('w, 'i, 's) deps \<Rightarrow> int \<Rightarrow> 'i option \<Rightarrow> 's hstate \<Rightarrow> 's reply" where
  [handler_defs]: "handleSign X op payload h =
     need_payload X op payload h (\<lambda>p.
     need_uid X op p h (\<lambda>uid.
     need_child X op p TagData ''Data'' h (\<lambda>dataItem.
     need_object X op uid h (\<lambda>rec h1.
     need_state X op (State rec) ''Sign'' h1 (
       if ObjectType rec \<noteq> code (lib X) ObjectTypePrivateKey
       then failure X op ReasonInvalidField ''sign requires a private key'' h1
       else
         on_error X op ReasonCryptographicFailure '''' (ParsePKCS8PrivateKey (cry X) (sl (Material rec))) h1 (\<lambda>privKey.
           let hash = sha256_Sum256 (cry X) (sl (BytesValue (lib X) dataItem));
               (d, h2) = sample X h1
           in case sign_with (cry X) d privKey hash of
                None \<Rightarrow> failure X op ReasonCryptographicFailure ''unsupported key type'' h2
              | Some r \<Rightarrow> on_error X op ReasonCryptographicFailure '''' r h2 (\<lambda>signature.
                  success X op [TextString (tag_of (lib X) TagUniqueIdentifier) (UID rec),
                    ByteString TagSignatureData (Some signature)] h2)))))))"

definition verify_with :: "crypto \<Rightarrow> pubkey \<Rightarrow> bytes \<Rightarrow> bytes \<Rightarrow> bool option" where
  "verify_with C key hash sig =
     (case key of
        PubRSA k \<Rightarrow> Some (rsa_VerifyPKCS1v15 C k hash sig = None)
      | PubECDSA k \<Rightarrow> Some (ecdsa_VerifyASN1 C k hash sig)
      | PubOther _ \<Rightarrow> None)"

definition handleSignatureVerify :: "('w, 'i, 's) deps \<Rightarrow> int \<Rightarrow> 'i option \<Rightarrow> 's hstate \<Rightarrow> 's reply" where
  [handler_defs]: "handleSignatureVerify X op payload h =
     need_payload X op payload h (\<lambda>p.
     need_uid X op p h (\<lambda>uid.
     need_child X op p TagData ''Data'' h (\<lambda>dataItem.
     need_child X op p TagSignatureData ''SignatureData'' h (\<lambda>sigItem.
     need_object X op uid h (\<lambda>rec h1.
     need_state X op (State rec) ''SignatureVerify'' h1 (
       if ObjectType rec \<noteq> code (lib X) ObjectTypePublicKey
       then failure X op ReasonInvalidField ''verify requires a public key'' h1
       else
         on_error X op ReasonCryptographicFailure '''' (ParsePKIXPublicKey (cry X) (sl (Material rec))) h1 (\<lambda>pubKey.
           let hash = sha256_Sum256 (cry X) (sl (BytesValue (lib X) dataItem)) in
           (case verify_with (cry X) pubKey hash (sl (BytesValue (lib X) sigItem)) of
              None \<Rightarrow> failure X op ReasonCryptographicFailure ''unsupported key type'' h1
            | Some good \<Rightarrow>
                success X op [TextString (tag_of (lib X) TagUniqueIdentifier) (UID rec),
                  Enumeration TagValidityIndicator (if good then 0 else 1)] h1))))))))"

definition handleMAC :: "('w, 'i, 's) deps \<Rightarrow> int \<Rightarrow> 'i option \<Rightarrow> 's hstate \<Rightarrow> 's reply" where
  [handler_defs]: "handleMAC X op payload h =
     need_payload X op payload h (\<lambda>p.
     need_uid X op p h (\<lambda>uid.
     need_child X op p TagData ''Data'' h (\<lambda>dataItem.
     need_object X op uid h (\<lambda>rec h1.
     need_state X op (State rec) ''MAC'' h1 (
       if ObjectType rec \<noteq> code (lib X) ObjectTypeSymmetricKey
       then failure X op ReasonInvalidField ''MAC requires a symmetric key'' h1
       else success X op [TextString (tag_of (lib X) TagUniqueIdentifier) (UID rec),
              ByteString TagMACData (Some (hmac_sha256 (cry X) (sl (Material rec)) (sl (BytesValue (lib X) dataItem))))] h1)))))"

definition handleReKey :: "('w, 'i, 's) deps \<Rightarrow> int \<Rightarrow> 'i option \<Rightarrow> 's hstate \<Rightarrow> 's reply" where
  [handler_defs]: "handleReKey X op payload h =
     need_payload X op payload h (\<lambda>p.
     need_uid X op p h (\<lambda>uid.
     need_object X op uid h (\<lambda>rec h1.
     need_state X op (State rec) ''ReKey'' h1 (
       let (r, h2) = call X (\<lambda>d. Rekey (stor X) d uid) h1
       in on_error X op ReasonGeneralFailure '''' r h2 (\<lambda>rec'.
            success X op [TextString (tag_of (lib X) TagUniqueIdentifier) (UID rec')] h2)))))"

definition handleGetAttributeList :: "('w, 'i, 's) deps \<Rightarrow> int \<Rightarrow> 'i option \<Rightarrow> 's hstate \<Rightarrow> 's reply" where
  [handler_defs]: "handleGetAttributeList X op payload h =
     need_payload X op payload h (\<lambda>p.
     need_uid X op p h (\<lambda>uid.
     need_object X op uid h (\<lambda>rec h1.
       success X op (TextString (tag_of (lib X) TagUniqueIdentifier) uid #
         map (TextString (tag_of (lib X) TagAttributeName))
           [''Object Type'', ''Name'', ''Cryptographic Algorithm'', ''Cryptographic Length'',
            ''Cryptographic Usage Mask'', ''State'']) h1)))"

definition handleAddAttribute :: "('w, 'i, 's) deps \<Rightarrow> int \<Rightarrow> 'i option \<Rightarrow> 's hstate \<Rightarrow> 's reply" where
  [handler_defs]: "handleAddAttribute X op payload h =
     need_payload X op payload h (\<lambda>p.
     need_uid X op p h (\<lambda>uid.
     need_child X op p (tag_of (lib X) TagAttribute) ''Attribute'' h (\<lambda>attr.
       (case (FindChild (lib X) attr (tag_of (lib X) TagAttributeName),
              FindChild (lib X) attr (tag_of (lib X) TagAttributeValue)) of
          (Some nameItem, Some valueItem) \<Rightarrow>
            reply_uid X op uid (call X (\<lambda>d. SetCustomAttribute (stor X) d uid
              (StringValue (lib X) nameItem) (StringValue (lib X) valueItem)) h)
        | _ \<Rightarrow> failure X op ReasonMissingData ''missing attribute name or value'' h))))"

definition handleModifyAttribute :: "('w, 'i, 's) deps \<Rightarrow> int \<Rightarrow> 'i option \<Rightarrow> 's hstate \<Rightarrow> 's reply" where
  [handler_defs]: "handleModifyAttribute X op payload h = handleAddAttribute X op payload h"

definition handleDeleteAttribute :: "('w, 'i, 's) deps \<Rightarrow> int \<Rightarrow> 'i option \<Rightarrow> 's hstate \<Rightarrow> 's reply" where
  [handler_defs]: "handleDeleteAttribute X op payload h =
     need_payload X op payload h (\<lambda>p.
     need_uid X op p h (\<lambda>uid.
     need_child X op p (tag_of (lib X) TagAttribute) ''Attribute'' h (\<lambda>attr.
     need_child X op attr (tag_of (lib X) TagAttributeName) ''attribute name'' h (\<lambda>nameItem.
       reply_uid X op uid (call X (\<lambda>d. DeleteCustomAttribute (stor X) d uid
         (StringValue (lib X) nameItem)) h)))))"

definition derivation_data :: "('w, 'i) kmiplib \<Rightarrow> 'i \<Rightarrow> slice" where
  "derivation_data L p =
     (case FindChild L p (tag_of L TagDerivationParameters) of None \<Rightarrow> None | Some dp \<Rightarrow>
       (case FindChild L dp (tag_of L TagDerivationData) of None \<Rightarrow> None | Some dd \<Rightarrow> BytesValue L dd))"

definition handleDeriveKey :: "('w, 'i, 's) deps \<Rightarrow> int \<Rightarrow> 'i option \<Rightarrow> 's hstate \<Rightarrow> 's reply" where
  [handler_defs]: "handleDeriveKey X op payload h =
     need_payload X op payload h (\<lambda>p.
     need_uid X op p h (\<lambda>uid.
       let L = lib X;
           t = tmpl_loop L (derive_body L) p
             \<lparr>t_name = '''', t_algorithm = 0, t_length = 256, t_usageMask = 0\<rparr>;
           (r, h1) = call X (\<lambda>d. DeriveKey (stor X) d uid (derivation_data L p) (t_name t) (t_length t)) h
       in on_error X op ReasonGeneralFailure '''' r h1 (\<lambda>rec.
            success X op [TextString (tag_of L TagUniqueIdentifier) (UID rec)] h1)))"

definition handleObtainLease :: "('w, 'i, 's) deps \<Rightarrow> int \<Rightarrow> 'i option \<Rightarrow> 's hstate \<Rightarrow> 's reply" where
  [handler_defs]: "handleObtainLease X op payload h =
     need_payload X op payload h (\<lambda>p.
     need_uid X op p h (\<lambda>uid.
     need_object X op uid h (\<lambda>rec h1.
       success X op [TextString (tag_of (lib X) TagUniqueIdentifier) uid,
         Integer (tag_of (lib X) TagLeaseTime) 3600] h1)))"

definition handlePoll :: "('w, 'i, 's) deps \<Rightarrow> int \<Rightarrow> 'i option \<Rightarrow> 's hstate \<Rightarrow> 's reply" where
  [handler_defs]: "handlePoll X op payload h = success X op [] h"

definition handleArchive :: "('w, 'i, 's) deps \<Rightarrow> int \<Rightarrow> 'i option \<Rightarrow> 's hstate \<Rightarrow> 's reply" where
  [handler_defs]: "handleArchive X op payload h =
     need_payload X op payload h (\<lambda>p.
     need_uid X op p h (\<lambda>uid.
     need_object X op uid h (\<lambda>rec h1.
     need_state X op (State rec) ''Archive'' h1 (
     reply_uid X op uid (call X (\<lambda>d. Archive (stor X) d uid) h1)))))"

definition handleRecover :: "('w, 'i, 's) deps \<Rightarrow> int \<Rightarrow> 'i option \<Rightarrow> 's hstate \<Rightarrow> 's reply" where
  [handler_defs]: "handleRecover X op payload h =
     need_payload X op payload h (\<lambda>p.
     need_uid X op p h (\<lambda>uid.
     need_object X op uid h (\<lambda>rec h1.
     need_state X op (State rec) ''Recover'' h1 (
     reply_uid X op uid (call X (\<lambda>d. Recover (stor X) d uid) h1)))))"

end
