(* ===== verification/Kmip_Dispatch.thy ===== *)
theory Kmip_Dispatch
  imports Kmip_Handler
begin

text \<open>
  \<open>internal/kmip/handler.go\<close>, third part: \<open>logOperation\<close>, the dispatch of a batch item with its
  audit entry (\<open>processBatchItem\<close>), and \<open>HandleRequest\<close>.
\<close>

definition logOperation ::
  "('w, 'i, 's) deps \<Rightarrow> string \<Rightarrow> string \<Rightarrow> string \<Rightarrow> string \<Rightarrow> string \<Rightarrow> string \<Rightarrow> string \<Rightarrow> string \<Rightarrow>
   's hstate \<Rightarrow> 's hstate" where
  "logOperation X source operation clientID objectUID objectName status message remoteAddr h =
     (case haudit h of
        None \<Rightarrow> h
      | Some a \<Rightarrow>
          let (d, h1) = sample X h
          in h1\<lparr>haudit := Some (Log (d_now d) \<lparr>ID = 0, Timestamp = d_now d, Source = source,
               Operation = operation, ClientID = clientID, ObjectUID = objectUID,
               ObjectName = objectName, Status = status, Message = message,
               RemoteAddr = remoteAddr\<rparr> a)\<rparr>)"

definition recordOp :: "('w, 'i, 's) deps \<Rightarrow> string \<Rightarrow> string \<Rightarrow> 's hstate \<Rightarrow> 's hstate" where
  "recordOp X connID opName h =
     (case htracker h of
        None \<Rightarrow> h
      | Some ct \<Rightarrow>
          let (d, h1) = sample X h
          in h1\<lparr>htracker := Some (tracker_RecordOp (d_now d) connID opName ct)\<rparr>)"

text \<open>The switch of \<open>processBatchItem\<close> over the operation code.\<close>

definition dispatch :: "('w, 'i, 's) deps \<Rightarrow> int \<Rightarrow> 'i option \<Rightarrow> string \<Rightarrow> 's hstate \<Rightarrow> 's reply" where
  "dispatch X operation payload clientCN h =
     (let L = lib X in
      if operation = code L OperationCreate then handleCreate X operation payload clientCN h
      else if operation = OperationCreateKeyPair then handleCreateKeyPair X operation payload h
      else if operation = code L OperationGet then handleGet X operation payload h
      else if operation = code L OperationLocate then handleLocate X operation payload h
      else if operation = code L OperationDestroy then handleDestroy X operation payload h
      else if operation = code L OperationActivate then handleActivate X operation payload h
      else if operation = code L OperationCheck then handleCheck X operation payload h
      else if operation = OperationRegister then handleRegister X operation payload h
      else if operation = OperationRevoke then handleRevoke X operation payload h
      else if operation = OperationGetAttributes then handleGetAttributes X operation payload h
      else if operation = OperationQuery then handleQuery X operation payload h
      else if operation = OperationDiscoverVersions then handleDiscoverVersions X operation payload h
      else if operation = OperationEncrypt then handleEncrypt X operation payload h
      else if operation = OperationDecrypt then handleDecrypt X operation payload h
      else if operation = OperationSign then handleSign X operation payload h
      else if operation = OperationSignatureVerify then handleSignatureVerify X operation payload h
      else if operation = OperationMAC then handleMAC X operation payload h
      else if operation = OperationReKey then handleReKey X operation payload h
      else if operation = OperationGetAttributeList then handleGetAttributeList X operation payload h
      else if operation = OpAddAttribute then handleAddAttribute X operation payload h
      else if operation = OpModifyAttribute then handleModifyAttribute X operation payload h
      else if operation = OpDeleteAttribute then handleDeleteAttribute X operation payload h
      else if operation = OpDeriveKey then handleDeriveKey X operation payload h
      else if operation = OpObtainLease then handleObtainLease X operation payload h
      else if operation = OpPoll then handlePoll X operation payload h
      else if operation = OpArchive then handleArchive X operation payload h
      else if operation = OpRecover then handleRecover X operation payload h
      else failure X operation ReasonOperationNotSupported (''unsupported: 0x'' @ fmt_X 8 operation) h)"

text \<open>
  Status, message and object of the audit entry, read back from the encoded response.
\<close>

definition audit_view :: "('w, 'i) kmiplib \<Rightarrow> 'w \<Rightarrow> string \<Rightarrow> string \<times> string \<times> string" where
  "audit_view L response requestUID =
     (case DecodeTTLV L response 0 of
        Inl _ \<Rightarrow> (''success'', '''', requestUID)
      | Inr respItem \<Rightarrow>
          let (status, message) =
                (case FindChild L respItem (tag_of L TagResultStatus) of
                   None \<Rightarrow> (''success'', '''')
                 | Some rs \<Rightarrow>
                     if sint (IntValue L rs) \<noteq> code L ResultStatusSuccess then
                       (''failure'', case FindChild L respItem (tag_of L TagResultMessage) of
                          None \<Rightarrow> '''' | Some rm \<Rightarrow> StringValue L rm)
                     else (''success'', ''''));
              uid =
                (if requestUID = '''' then
                   (case FindChild L respItem (tag_of L TagResponsePayload) of
                      None \<Rightarrow> requestUID
                    | Some rp \<Rightarrow>
                        (case FindChild L rp (tag_of L TagUniqueIdentifier) of
                           None \<Rightarrow> requestUID | Some u \<Rightarrow> StringValue L u))
                 else requestUID)
          in (status, message, uid))"

definition request_uid :: "('w, 'i) kmiplib \<Rightarrow> 'i option \<Rightarrow> string" where
  "request_uid L payload =
     (case payload of None \<Rightarrow> '''' | Some p \<Rightarrow>
       (case FindChild L p (tag_of L TagUniqueIdentifier) of None \<Rightarrow> '''' | Some u \<Rightarrow> StringValue L u))"

definition processBatchItem ::
  "('w, 'i, 's) deps \<Rightarrow> 'i \<Rightarrow> string \<Rightarrow> string \<Rightarrow> string \<Rightarrow> 's hstate \<Rightarrow> 's reply" where
  "processBatchItem X batchItem clientCN remoteAddr connID h =
     (let L = lib X in
      case FindChild L batchItem (tag_of L TagOperation) of
        None \<Rightarrow> failure X 0 ReasonInvalidMessage ''no Operation in BatchItem'' h
      | Some opItem \<Rightarrow>
          let operation = sint (IntValue L opItem);
              opName = operationName L operation;
              payload = FindChild L batchItem (tag_of L TagRequestPayload);
              (out, h1) = dispatch X operation payload clientCN h
          in case out of
               Panicked m \<Rightarrow> (Panicked m, h1)
             | Done response \<Rightarrow>
                 let (status, message, uid) = audit_view L (encode L response) (request_uid L payload);
                     h2 = logOperation X ''kmip'' opName clientCN uid '''' status message remoteAddr h1;
                     h3 = recordOp X connID opName h2
                 in (Done response, h3))"

text \<open>The loop over the batch items, in order; a panic unwinds it.\<close>

fun processBatch ::
  "('w, 'i, 's) deps \<Rightarrow> 'i list \<Rightarrow> string \<Rightarrow> string \<Rightarrow> string \<Rightarrow> 's hstate \<Rightarrow> ttlv list outcome \<times> 's hstate" where
  "processBatch X [] clientCN remoteAddr connID h = (Done [], h)"
| "processBatch X (bi # bis) clientCN remoteAddr connID h =
     (case processBatchItem X bi clientCN remoteAddr connID h of
        (Panicked m, h1) \<Rightarrow> (Panicked m, h1)
      | (Done r, h1) \<Rightarrow>
          (case processBatch X bis clientCN remoteAddr connID h1 of
             (Panicked m, h2) \<Rightarrow> (Panicked m, h2)
           | (Done rs, h2) \<Rightarrow> (Done (r # rs), h2)))"

text \<open>The protocol version a request announces: \<open>None\<close> when it names no major version.\<close>

definition request_version :: "('w, 'i) kmiplib \<Rightarrow> 'i \<Rightarrow> (int \<times> int) option" where
  "request_version L msg =
     (case FindChild L msg (tag_of L TagRequestHeader) of None \<Rightarrow> None | Some hdr \<Rightarrow>
       (case FindChild L hdr (tag_of L TagProtocolVersion) of None \<Rightarrow> None | Some pv \<Rightarrow>
         (case FindChild L pv (tag_of L TagProtocolVersionMajor) of None \<Rightarrow> None | Some majorItem \<Rightarrow>
           Some (sint (IntValue L majorItem),
             case FindChild L pv (tag_of L TagProtocolVersionMinor) of
               None \<Rightarrow> 0 | Some minorItem \<Rightarrow> sint (IntValue L minorItem)))))"

definition version_unsupported :: "int \<times> int \<Rightarrow> bool" where
  "version_unsupported v \<longleftrightarrow> fst v > supportedMajor \<or> (fst v = supportedMajor \<and> snd v > supportedMinor)"

definition maxBatchItems :: nat where
  "maxBatchItems = 100"

definition HandleRequest ::
  "('w, 'i, 's) deps \<Rightarrow> 'w \<Rightarrow> string \<Rightarrow> string \<Rightarrow> string \<Rightarrow> 's hstate \<Rightarrow> 'w outcome \<times> 's hstate" where
  "HandleRequest X data clientCN remoteAddr connID h =
     (let L = lib X;
          reject = (\<lambda>reason message h. (Done (encode L (buildErrorResponse L 0 reason message)), h))
      in case DecodeTTLV L data 0 of
           Inl err \<Rightarrow>
             reject ReasonInvalidMessage (''decode failed: '' @ err)
               (logOperation X ''kmip'' ''Decode'' clientCN '''' '''' ''failure'' (''decode failed: '' @ err) remoteAddr h)
         | Inr msg \<Rightarrow>
             if Tag L msg \<noteq> tag_of L TagRequestMessage
             then reject ReasonInvalidMessage (''expected RequestMessage, got 0x'' @ fmt_X 6 (Tag L msg)) h
             else case (case request_version L msg of Some v \<Rightarrow> if version_unsupported v then Some v else None | None \<Rightarrow> None) of
               Some (major, minor) \<Rightarrow>
                 reject ReasonFeatureNotSupported (''unsupported version '' @ fmt_d major @ ''.'' @ fmt_d minor @
                   ''; server supports '' @ fmt_d supportedMajor @ ''.'' @ fmt_d supportedMinor) h
             | None \<Rightarrow>
                 let batchItems = FindChildren L msg (tag_of L TagBatchItem) in
                 if length batchItems = 0 then reject ReasonInvalidMessage ''no BatchItem in request'' h
                 else if length batchItems > maxBatchItems
                 then reject ReasonResponseTooLarge (''batch too large: '' @ fmt_d (int (length batchItems)) @
                        '' items (max '' @ fmt_d (int maxBatchItems) @ '')'') h
                 else (case processBatch X batchItems clientCN remoteAddr connID h of
                         (Panicked m, h1) \<Rightarrow> (Panicked m, h1)
                       | (Done rs, h1) \<Rightarrow> (Done (encode L (buildBatchResponse L (int (length rs)) rs)), h1)))"

lemma need_object_split:
  "need_object X op uid h k = (case query X (\<lambda>d. Get (stor X) d uid) h of (r, h1) \<Rightarrow>
     (case r of None \<Rightarrow> failure X op ReasonItemNotFound (''object not found: '' @ uid) h1 | Some rec \<Rightarrow> k rec h1))"
  by (simp add: need_object_def split: prod.split option.split)

section \<open>Which requests reach the handlers\<close>

lemma logOperation_frame [simp]:
  "hstore (logOperation X src opn cid uid nm st msg ra h) = hstore h"
  "htracker (logOperation X src opn cid uid nm st msg ra h) = htracker h"
  "htick h \<le> htick (logOperation X src opn cid uid nm st msg ra h)"
  by (simp_all add: logOperation_def sample_def split: option.split)

lemma recordOp_frame [simp]:
  "hstore (recordOp X conn opn h) = hstore h" "haudit (recordOp X conn opn h) = haudit h"
  "htick h \<le> htick (recordOp X conn opn h)"
  by (simp_all add: recordOp_def sample_def split: option.split)

text \<open>
  The batch of a request that passes every check of \<open>HandleRequest\<close>: it decodes to a request
  message of a supported version (or of none) with one to a hundred items.
\<close>

definition accepted_batch :: "('w, 'i) kmiplib \<Rightarrow> 'w \<Rightarrow> 'i list option" where
  "accepted_batch L data =
     (case DecodeTTLV L data 0 of
        Inl _ \<Rightarrow> None
      | Inr msg \<Rightarrow>
          let bis = FindChildren L msg (tag_of L TagBatchItem) in
          if Tag L msg = tag_of L TagRequestMessage \<and>
             (case request_version L msg of None \<Rightarrow> True | Some v \<Rightarrow> \<not> version_unsupported v) \<and>
             0 < length bis \<and> length bis \<le> maxBatchItems
          then Some bis else None)"

lemma HandleRequest_accepted:
  assumes "accepted_batch (lib X) data = Some bis"
  shows "HandleRequest X data cn ra conn h =
    (case processBatch X bis cn ra conn h of
       (Panicked m, h1) \<Rightarrow> (Panicked m, h1)
     | (Done rs, h1) \<Rightarrow> (Done (encode (lib X) (buildBatchResponse (lib X) (int (length rs)) rs)), h1))"
  using assms by (auto simp: HandleRequest_def accepted_batch_def Let_def
      split: sum.splits if_splits option.splits)

definition refusal :: "('w, 'i) kmiplib \<Rightarrow> 's hstate \<Rightarrow> 'w outcome \<times> 's hstate \<Rightarrow> bool" where
  "refusal L h r \<longleftrightarrow> (\<exists>reason message. fst r = Done (encode L (buildErrorResponse L 0 reason message))) \<and>
     hstore (snd r) = hstore h \<and> htick h \<le> htick (snd r)"

lemma refusal_if: "(b \<Longrightarrow> refusal L h x) \<Longrightarrow> (\<not> b \<Longrightarrow> refusal L h y) \<Longrightarrow> refusal L h (if b then x else y)"
  by simp

lemma refusal_intro:
  "hstore h' = hstore h \<Longrightarrow> htick h \<le> htick h' \<Longrightarrow>
   refusal L h (Done (encode L (buildErrorResponse L 0 reason message)), h')"
  by (auto simp: refusal_def)

lemma HandleRequest_rejected:
  assumes "accepted_batch (lib X) data = None"
  shows "refusal (lib X) h (HandleRequest X data cn ra conn h)"
proof (cases "DecodeTTLV (lib X) data 0")
  case (Inl e)
  then show ?thesis by (simp add: HandleRequest_def Let_def refusal_intro)
next
  case (Inr m)
  from Inr assms show ?thesis
    unfolding HandleRequest_def Let_def accepted_batch_def
    by (auto split: option.split if_splits intro!: refusal_if refusal_intro)
qed

text \<open>
  What \<open>processBatchItem\<close> does around the dispatched handler: nothing to the store; the clock of
  draws only moves on.
\<close>

lemma processBatchItem_split:
  "processBatchItem X bi cn ra conn h =
     (case FindChild (lib X) bi (tag_of (lib X) TagOperation) of
        None \<Rightarrow> failure X 0 ReasonInvalidMessage ''no Operation in BatchItem'' h
      | Some opItem \<Rightarrow>
          (case dispatch X (sint (IntValue (lib X) opItem)) (FindChild (lib X) bi (tag_of (lib X) TagRequestPayload)) cn h of
             (Panicked m, h1) \<Rightarrow> (Panicked m, h1)
           | (Done t, h1) \<Rightarrow>
               (case audit_view (lib X) (encode (lib X) t)
                       (request_uid (lib X) (FindChild (lib X) bi (tag_of (lib X) TagRequestPayload))) of
                  (st, msg, uid) \<Rightarrow>
                    (Done t, recordOp X conn (operationName (lib X) (sint (IntValue (lib X) opItem)))
                       (logOperation X ''kmip'' (operationName (lib X) (sint (IntValue (lib X) opItem)))
                          cn uid '''' st msg ra h1)))))"
  by (simp add: processBatchItem_def Let_def split: option.split prod.split outcome.split)

lemma tick_log_record:
  "htick h \<le> htick (recordOp X conn o1 (logOperation X s0 o2 c0 u n0 st m ra h))"
  by (rule order_trans[OF logOperation_frame(3) recordOp_frame(3)])

section \<open>The announced operations\<close>

lemma dispatch_unknown:
  "op \<notin> set (query_operations (lib X)) \<Longrightarrow>
   dispatch X op payload cn h = failure X op ReasonOperationNotSupported (''unsupported: 0x'' @ fmt_X 8 op) h"
  by (simp add: query_operations_def dispatch_def)

lemma operationName_unknown:
  "op \<notin> set (query_operations L) \<Longrightarrow> operationName L op = ''Unknown(0x'' @ fmt_X 8 op @ '')''"
  by (simp add: query_operations_def operationName_def)

lemma hd_if: "(b \<Longrightarrow> hd x \<noteq> c) \<Longrightarrow> (\<not> b \<Longrightarrow> hd y \<noteq> c) \<Longrightarrow> hd (if b then x else y) \<noteq> c"
  by simp

lemma operationName_known:
  assumes "op \<in> set (query_operations L)"
  shows "hd (operationName L op) \<noteq> CHR ''U''"
  unfolding operationName_def
  by (intro hd_if; use assms in \<open>simp add: query_operations_def\<close>)

end
