(* ===== verification/Kmip_Steps.thy ===== *)
theory Kmip_Steps
  imports Kmip_Dispatch
begin

text \<open>
  The abstract specification of what KMIP requests may do to the managed objects: \<open>kmip_step\<close>, a
  step relation on the vault with one rule per kind of change, and the proof, for every store that
  fulfils the storage contract, that each handler and each request makes only such steps.
\<close>

section \<open>The life cycle as a step relation\<close>

inductive kmip_step :: "vault \<Rightarrow> vault \<Rightarrow> bool" where
  add: "objs v (UID r) = None \<Longrightarrow> State r = StatePreActive \<Longrightarrow>
    kmip_step v (v\<lparr>objs := (objs v)(UID r \<mapsto> r)\<rparr>)"
| activate: "objs v u = Some r \<Longrightarrow> State r = StatePreActive \<Longrightarrow>
    kmip_step v (v\<lparr>objs := (objs v)(u \<mapsto> r\<lparr>State := StateActive\<rparr>)\<rparr>)"
| revoke: "objs v u = Some r \<Longrightarrow> State r \<in> {StatePreActive, StateActive, StateDeactivated} \<Longrightarrow>
    kmip_step v (v\<lparr>objs := (objs v)(u \<mapsto> r\<lparr>State := StateRevoked, RevocationReason := k\<rparr>)\<rparr>)"
| destroy: "objs v u = Some r \<Longrightarrow> State r \<notin> {StateDestroyed, StateDestroyedCompromised} \<Longrightarrow> sl m = [] \<Longrightarrow>
    kmip_step v (v\<lparr>objs := (objs v)(u \<mapsto> r\<lparr>Material := m, State := StateDestroyed\<rparr>)\<rparr>)"
| archive: "objs v u = Some r \<Longrightarrow> State r = StateDeactivated \<Longrightarrow>
    kmip_step v (v\<lparr>objs := (objs v)(u \<mapsto> r\<lparr>State := StateArchived\<rparr>)\<rparr>)"
| recover: "objs v u = Some r \<Longrightarrow> State r = StateArchived \<Longrightarrow>
    kmip_step v (v\<lparr>objs := (objs v)(u \<mapsto> r\<lparr>State := StatePreActive\<rparr>)\<rparr>)"
| rekey: "objs v u = Some r \<Longrightarrow> State r = StateActive \<Longrightarrow> valid_length (Length r) \<Longrightarrow>
    kmip_step v (v\<lparr>objs := (objs v)(u \<mapsto> r\<lparr>Version := int64 (Version r + 1), Material := m\<rparr>)\<rparr>)"
| set_attr: "live v u \<noteq> None \<Longrightarrow>
    kmip_step v (v\<lparr>cattrs := (cattrs v)(u := (cattrs v u)(n \<mapsto> x))\<rparr>)"
| delete_attr: "live v u \<noteq> None \<Longrightarrow>
    kmip_step v (v\<lparr>cattrs := (cattrs v)(u := (cattrs v u)(n := None))\<rparr>)"

section \<open>The handler's invariant\<close>

text \<open>
  \<open>hinv\<close>: the store's own invariant holds and every identifier in the vault was drawn earlier.
  With identifiers that do not repeat (\<open>fresh_world\<close>) a new object never replaces an old one.
\<close>

definition fresh_world :: "world \<Rightarrow> bool" where
  "fresh_world E \<longleftrightarrow> (\<forall>j k. d_uuid (E j) = d_uuid (E k) \<longrightarrow> j = k)"

definition hinv :: "('s \<Rightarrow> bool) \<Rightarrow> ('s \<Rightarrow> vault) \<Rightarrow> world \<Rightarrow> 's hstate \<Rightarrow> bool" where
  "hinv I A E h \<longleftrightarrow> I (hstore h) \<and>
     (\<forall>u. objs (A (hstore h)) u \<noteq> None \<longrightarrow> (\<exists>k < htick h. u = d_uuid (E k)))"

text \<open>
  A handler is safe from a state when it keeps the invariant and changes the vault by life-cycle
  steps only.
\<close>

definition safe :: "('s \<Rightarrow> bool) \<Rightarrow> ('s \<Rightarrow> vault) \<Rightarrow> world \<Rightarrow> 's hstate \<Rightarrow> 'r \<times> 's hstate \<Rightarrow> bool" where
  "safe I A E h r \<longleftrightarrow> (hinv I A E h \<longrightarrow>
     hinv I A E (snd r) \<and> kmip_step\<^sup>*\<^sup>* (A (hstore h)) (A (hstore (snd r))))"

definition effect :: "('s \<Rightarrow> bool) \<Rightarrow> ('s \<Rightarrow> vault) \<Rightarrow> draw \<Rightarrow> 's \<Rightarrow> 's \<Rightarrow> bool" where
  "effect I A d s s' \<longleftrightarrow> I s' \<and> (A s' = A s \<or> kmip_step (A s) (A s')) \<and>
     (\<forall>u. objs (A s') u \<noteq> None \<longrightarrow> objs (A s) u \<noteq> None \<or> u = d_uuid d)"

lemma hinv_tick: "hinv I A E h \<Longrightarrow> hinv I A E (h\<lparr>htick := Suc (htick h)\<rparr>)"
  by (auto simp: hinv_def less_Suc_eq)

lemma hinv_store: "hinv I A E h \<Longrightarrow> I (hstore h)"
  by (simp add: hinv_def)

lemma hinv_tick_store: "hinv I A E (h\<lparr>htick := t\<rparr>) \<Longrightarrow> I (hstore h)"
  by (simp add: hinv_def)

lemma hinv_fresh:
  "fresh_world E \<Longrightarrow> hinv I A E h \<Longrightarrow> objs (A (hstore h)) (d_uuid (E (htick h))) = None"
  unfolding hinv_def fresh_world_def by (metis less_irrefl)

lemma safe_same: "hstore (snd r) = hstore h \<Longrightarrow> htick h \<le> htick (snd r) \<Longrightarrow> safe I A E h r"
  unfolding safe_def hinv_def by (metis less_le_trans rtranclp.rtrancl_refl)

lemma safe_trans: "safe I A E h (x, h1) \<Longrightarrow> safe I A E h1 r \<Longrightarrow> safe I A E h r"
  by (auto simp: safe_def)

lemma safe_call:
  assumes "\<And>r s'. hinv I A (outside X) h \<Longrightarrow> f (outside X (htick h)) (hstore h) = (r, s') \<Longrightarrow>
    effect I A (outside X (htick h)) (hstore h) s'"
  shows "safe I A (outside X) h (call X f h)"
proof -
  obtain r s' where f: "f (outside X (htick h)) (hstore h) = (r, s')"
    by (cases "f (outside X (htick h)) (hstore h)")
  show ?thesis
  proof (unfold safe_def, intro impI)
    assume i: "hinv I A (outside X) h"
    from assms[OF i f] have e: "effect I A (outside X (htick h)) (hstore h) s'" .
    have "\<exists>k < Suc (htick h). u = d_uuid (outside X k)" if "objs (A s') u \<noteq> None" for u
      using that e i by (fastforce simp: effect_def hinv_def less_Suc_eq)
    with e show "hinv I A (outside X) (snd (call X f h)) \<and>
        kmip_step\<^sup>*\<^sup>* (A (hstore h)) (A (hstore (snd (call X f h))))"
      by (auto simp: call_def f hinv_def effect_def)
  qed
qed

section \<open>Guards are safe\<close>

lemma safe_failure [simp]: "safe I A E h (failure X op reason msg h)"
  by (rule safe_same) (simp_all add: failure_def)

lemma safe_success [simp]: "safe I A E h (success X op kids h)"
  by (rule safe_same) (simp_all add: success_def)

lemma safe_payload: "(\<And>p. safe I A E h (k p)) \<Longrightarrow> safe I A E h (need_payload X op payload h k)"
  by (simp add: need_payload_def split: option.split)

lemma safe_child: "(\<And>c. safe I A E h (k c)) \<Longrightarrow> safe I A E h (need_child X op item tag what h k)"
  by (simp add: need_child_def split: option.split)

lemma safe_uid: "(\<And>u. safe I A E h (k u)) \<Longrightarrow> safe I A E h (need_uid X op p h k)"
  unfolding need_uid_def by (rule safe_child)

lemma safe_on_error: "(\<And>v. r = Inr v \<Longrightarrow> safe I A E h (k v)) \<Longrightarrow> safe I A E h (on_error X op reason pre r h k)"
  by (simp add: on_error_def split: sum.split)

lemma safe_state:
  "(allowed st operation \<Longrightarrow> safe I A E h k) \<Longrightarrow> safe I A E h (need_state X op st operation h k)"
  by (cases "validateStateTransition st operation") (simp add: need_state_def allowed_def)

lemma safe_reply_uid: "safe I A E h r \<Longrightarrow> safe I A E h (reply_uid X op uid r)"
  by (cases r) (auto simp: reply_uid_def safe_def failure_def success_def split: option.splits)

lemma safe_then: "safe I A E h c \<Longrightarrow> (\<And>r h1. c = (r, h1) \<Longrightarrow> safe I A E h1 (k r h1)) \<Longrightarrow>
    safe I A E h (case c of (r, h1) \<Rightarrow> k r h1)"
  by (cases c) (auto intro: safe_trans)

lemma safe_query: "(\<And>r h1. h1 = h\<lparr>htick := Suc (htick h)\<rparr> \<Longrightarrow> r = f (outside X (htick h)) (hstore h) \<Longrightarrow>
    safe I A E h1 (k r h1)) \<Longrightarrow> safe I A E h (case query X f h of (r, h1) \<Rightarrow> k r h1)"
  by (rule safe_then) (auto simp: query_def intro: safe_same)

lemma safe_sample: "(\<And>d h1. safe I A E h1 (k d h1)) \<Longrightarrow> safe I A E h (case sample X h of (d, h1) \<Rightarrow> k d h1)"
  by (rule safe_then) (auto simp: sample_def intro: safe_same)

lemma safe_sample_same: "sample X h = (d, h1) \<Longrightarrow> safe I A E h1 r \<Longrightarrow> safe I A E h r"
  by (rule safe_trans[of I A E h d h1]) (auto simp: sample_def intro: safe_same)

lemma safe_if: "(b \<Longrightarrow> safe I A E h x) \<Longrightarrow> (\<not> b \<Longrightarrow> safe I A E h y) \<Longrightarrow> safe I A E h (if b then x else y)"
  by simp

lemma safe_prod: "(\<And>a b. c = (a, b) \<Longrightarrow> safe I A E h (k a b)) \<Longrightarrow> safe I A E h (case c of (a, b) \<Rightarrow> k a b)"
  by (cases c) simp

section \<open>Every handler is safe, for every store that fulfils the contract\<close>

lemma effect_same: "I s' \<Longrightarrow> A s' = A s \<Longrightarrow> effect I A d s s'"
  by (simp add: effect_def)

lemma effect_add:
  assumes "I s'" "adds r (A s) (A s')" "UID r = d_uuid d" "State r = StatePreActive" "objs (A s) (d_uuid d) = None"
  shows "effect I A d s s'"
proof -
  from assms(2) obtain m where "A s' = (A s)\<lparr>objs := (objs (A s))(UID r \<mapsto> r\<lparr>Material := m\<rparr>)\<rparr>"
    unfolding adds_def by (rule putsE)
  with assms kmip_step.add[of "A s" "r\<lparr>Material := m\<rparr>"] show ?thesis by (auto simp: effect_def)
qed

lemma effect_update:
  assumes "I s'" "updates u f (A s) (A s')"
    and "\<And>r. live (A s) u = Some r \<Longrightarrow> kmip_step (A s) ((A s)\<lparr>objs := (objs (A s))(u \<mapsto> f r)\<rparr>)"
  shows "effect I A d s s'"
proof -
  from assms(2) obtain r where r: "live (A s) u = Some r" "A s' = (A s)\<lparr>objs := (objs (A s))(u \<mapsto> f r)\<rparr>"
    by (auto simp: updates_def)
  with assms(1) assms(3)[OF r(1)] live_SomeD[OF r(1)] show ?thesis
    by (auto simp: effect_def)
qed

context storage_contract
begin

lemma safe_object:
  assumes "stor X = S"
    and "\<And>rec h1. h1 = h\<lparr>htick := Suc (htick h)\<rparr> \<Longrightarrow>
      (hinv sinv sabs (outside X) h1 \<Longrightarrow> live (sabs (hstore h1)) uid = Some rec) \<Longrightarrow>
      safe sinv sabs (outside X) h1 (k rec h1)"
  shows "safe sinv sabs (outside X) h (need_object X op uid h k)"
  unfolding need_object_split
proof (rule safe_query)
  fix r h1
  assume h1: "h1 = h\<lparr>htick := Suc (htick h)\<rparr>" and r: "r = Get (stor X) (outside X (htick h)) uid (hstore h)"
  show "safe sinv sabs (outside X) h1 (case r of
      None \<Rightarrow> failure X op ReasonItemNotFound (''object not found: '' @ uid) h1 | Some rec \<Rightarrow> k rec h1)"
  proof (cases r)
    case None
    then show ?thesis by simp
  next
    case (Some rec)
    have "live (sabs (hstore h1)) uid = Some rec" if "hinv sinv sabs (outside X) h1"
      using that get_sound[of "hstore h"] r[symmetric] Some assms(1) by (simp add: h1 hinv_def)
    with Some assms(2)[OF h1] show ?thesis by simp
  qed
qed

lemma effect_create:
  assumes "sinv s" "Create S d name alg len usage own s = (r, s')" "objs (sabs s) (d_uuid d) = None"
  shows "effect sinv sabs d s s'"
proof (cases r)
  case (Inl e)
  with assms create_err show ?thesis by (blast intro: effect_same)
next
  case (Inr rec)
  with assms(2) create_ok[OF assms(1)] obtain b where
    "sinv s'" "adds rec (sabs s) (sabs s')" "rec = new_key d name alg len usage own b" by blast
  then show ?thesis using assms(3) by (intro effect_add[where r = rec]) simp_all
qed

lemma effect_register:
  assumes "sinv s" "Register S d r0 s = (r, s')" "objs (sabs s) (d_uuid d) = None"
  shows "effect sinv sabs d s s'"
proof (cases r)
  case (Inl e)
  with assms register_err show ?thesis by (blast intro: effect_same)
next
  case (Inr rec)
  with assms(2) register_ok[OF assms(1)] have
    "sinv s'" "adds rec (sabs s) (sabs s')" "rec = registered d r0" by blast+
  then show ?thesis using assms(3) by (intro effect_add[where r = rec]) simp_all
qed

lemma effect_derive:
  assumes "sinv s" "DeriveKey S d u dat name len s = (r, s')" "objs (sabs s) (d_uuid d) = None"
  shows "effect sinv sabs d s s'"
proof (cases r)
  case (Inl e)
  with assms derive_err show ?thesis by (blast intro: effect_same)
next
  case (Inr rec)
  from derive_ok[OF assms(1) assms(2)[unfolded Inr]] obtain q :: KeyRecord and b where
    "sinv s'" "adds rec (sabs s) (sabs s')" "rec = new_key d name (Algorithm q) len (UsageMask q) (Owner q) b"
    by blast
  then show ?thesis using assms(3) by (intro effect_add[where r = rec]) simp_all
qed

lemma effect_activate:
  assumes "sinv s" "Activate S d u s = (e, s')" "live (sabs s) u = Some r" "State r = StatePreActive"
  shows "effect sinv sabs d s s'"
proof (cases e)
  case None
  from activate_ok[OF assms(1) assms(2)[unfolded None]] assms(3,4) show ?thesis
    by (elim conjE effect_update) (auto intro!: kmip_step.activate simp: live_Some_iff)
qed (use assms activate_err in \<open>blast intro: effect_same\<close>)

lemma effect_revoke:
  assumes "sinv s" "Revoke S d u k s = (e, s')" "live (sabs s) u = Some r"
    and "State r \<in> {StatePreActive, StateActive, StateDeactivated}"
  shows "effect sinv sabs d s s'"
proof (cases e)
  case None
  from revoke_ok[OF assms(1) assms(2)[unfolded None]] assms(3,4) show ?thesis
    by (elim conjE effect_update) (auto intro!: kmip_step.revoke simp: live_Some_iff)
qed (use assms revoke_err in \<open>blast intro: effect_same\<close>)

lemma effect_destroy:
  assumes "sinv s" "Destroy S d u s = (e, s')" "live (sabs s) u = Some r"
    and "State r \<notin> {StateDestroyed, StateDestroyedCompromised}"
  shows "effect sinv sabs d s s'"
proof (cases e)
  case None
  from destroy_ok[OF assms(1) assms(2)[unfolded None]] obtain m where
    "sinv s'" "sl m = []" "updates u (\<lambda>r. r\<lparr>Material := m, State := StateDestroyed\<rparr>) (sabs s) (sabs s')" by blast
  then show ?thesis using assms(3,4)
    by (elim effect_update) (auto intro!: kmip_step.destroy simp: live_Some_iff)
qed (use assms destroy_err in \<open>blast intro: effect_same\<close>)

lemma effect_archive:
  assumes "sinv s" "Archive S d u s = (e, s')" "live (sabs s) u = Some r" "State r = StateDeactivated"
  shows "effect sinv sabs d s s'"
proof (cases e)
  case None
  from archive_ok[OF assms(1) assms(2)[unfolded None]] assms(3,4) show ?thesis
    by (elim conjE effect_update) (auto intro!: kmip_step.archive simp: live_Some_iff)
qed (use assms archive_err in \<open>blast intro: effect_same\<close>)

lemma effect_recover:
  assumes "sinv s" "Recover S d u s = (e, s')"
  shows "effect sinv sabs d s s'"
proof (cases e)
  case None
  from recover_ok[OF assms(1) assms(2)[unfolded None]] show ?thesis
    by (elim conjE effect_update) (auto intro!: kmip_step.recover simp: live_Some_iff)
qed (use assms recover_err in \<open>blast intro: effect_same\<close>)

lemma effect_rekey:
  assumes "sinv s" "Rekey S d u s = (e, s')" "live (sabs s) u = Some r" "State r = StateActive"
  shows "effect sinv sabs d s s'"
proof (cases e)
  case (Inl x)
  with assms rekey_err show ?thesis by (blast intro: effect_same)
next
  case (Inr rec)
  from rekey_ok[OF assms(1) assms(2)[unfolded Inr]] assms(3) obtain b where "sinv s'" and l: "valid_length (Length r)"
    and p: "puts u (r\<lparr>Material := Some b, Version := int64 (Version r + 1)\<rparr>) (sabs s) (sabs s')" by auto
  from p obtain m where
    "sabs s' = (sabs s)\<lparr>objs := (objs (sabs s))(u \<mapsto> r\<lparr>Version := int64 (Version r + 1), Material := m\<rparr>)\<rparr>"
    by (rule putsE) simp
  with kmip_step.rekey[of "sabs s" u r m] live_SomeD[OF assms(3)] assms(4) l \<open>sinv s'\<close> show ?thesis
    by (auto simp: effect_def)
qed

lemma effect_set_attr:
  assumes "sinv s" "SetCustomAttribute S d u n x s = (e, s')"
  shows "effect sinv sabs d s s'"
proof (cases e)
  case None
  from set_attr_ok[OF assms(1) assms(2)[unfolded None]] show ?thesis
    by (auto simp: effect_def intro!: kmip_step.set_attr)
qed (use assms set_attr_err in \<open>blast intro: effect_same\<close>)

lemma effect_delete_attr:
  assumes "sinv s" "DeleteCustomAttribute S d u n s = (e, s')"
  shows "effect sinv sabs d s s'"
proof (cases e)
  case None
  from delete_attr_ok[OF assms(1) assms(2)[unfolded None]] show ?thesis
    by (auto simp: effect_def intro!: kmip_step.delete_attr)
qed (use assms delete_attr_err in \<open>blast intro: effect_same\<close>)

end

lemmas safe_guards = safe_payload safe_child safe_uid safe_on_error safe_state safe_reply_uid
  safe_failure safe_success safe_sample safe_query

context storage_contract
begin

lemma safe_create_call:
  assumes "stor X = S" "fresh_world (outside X)"
  shows "safe sinv sabs (outside X) h (call X (\<lambda>d. Create (stor X) d name alg len usage own) h)"
  unfolding assms(1) by (rule safe_call) (rule effect_create[OF hinv_store _ hinv_fresh[OF assms(2)]])

lemma safe_register_call:
  assumes "stor X = S" "fresh_world (outside X)"
  shows "safe sinv sabs (outside X) h (call X (\<lambda>d. Register (stor X) d rec) h)"
  unfolding assms(1) by (rule safe_call) (rule effect_register[OF hinv_store _ hinv_fresh[OF assms(2)]])

lemma safe_derive_call:
  assumes "stor X = S" "fresh_world (outside X)"
  shows "safe sinv sabs (outside X) h (call X (\<lambda>d. DeriveKey (stor X) d u dat name len) h)"
  unfolding assms(1) by (rule safe_call) (rule effect_derive[OF hinv_store _ hinv_fresh[OF assms(2)]])

lemma safe_handleCreate:
  "stor X = S \<Longrightarrow> fresh_world (outside X) \<Longrightarrow> safe sinv sabs (outside X) h (handleCreate X op payload cn h)"
  unfolding handleCreate_def Let_def
  by (intro safe_payload safe_then safe_create_call safe_on_error safe_success)

lemma safe_register_pair:
  "stor X = S \<Longrightarrow> fresh_world (outside X) \<Longrightarrow>
   safe sinv sabs (outside X) h (register_pair X op name alg len usage priv pub h)"
  unfolding register_pair_def Let_def
  by (intro safe_then safe_register_call safe_on_error safe_success)

lemma safe_handleCreateKeyPair:
  assumes "stor X = S" "fresh_world (outside X)"
  shows "safe sinv sabs (outside X) h (handleCreateKeyPair X op payload h)"
proof -
  obtain d h1 where d: "sample X h = (d, h1)" by (cases "sample X h")
  show ?thesis
    unfolding handleCreateKeyPair_def Let_def d prod.case
    by (intro safe_payload safe_if safe_sample_same[OF d] safe_prod safe_on_error
        safe_register_pair[OF assms] safe_failure)
qed

lemma safe_handleRegister:
  "stor X = S \<Longrightarrow> fresh_world (outside X) \<Longrightarrow> safe sinv sabs (outside X) h (handleRegister X op payload h)"
  unfolding handleRegister_def Let_def if_distrib
  by (intro safe_payload) (auto intro!: safe_then safe_register_call safe_on_error)

lemma safe_handleDeriveKey:
  "stor X = S \<Longrightarrow> fresh_world (outside X) \<Longrightarrow> safe sinv sabs (outside X) h (handleDeriveKey X op payload h)"
  unfolding handleDeriveKey_def Let_def
  by (intro safe_payload safe_uid safe_then safe_derive_call safe_on_error safe_success)

text \<open>The handlers that check the life-cycle table and then change one object.\<close>

lemma safe_handleDestroy:
  assumes "stor X = S"
  shows "safe sinv sabs (outside X) h (handleDestroy X op payload h)"
  unfolding handleDestroy_def
  by (intro safe_payload safe_uid safe_object assms safe_state safe_reply_uid safe_call)
    (auto simp: assms dest: hinv_tick_store intro: effect_destroy)

lemma safe_handleActivate:
  assumes "stor X = S"
  shows "safe sinv sabs (outside X) h (handleActivate X op payload h)"
  unfolding handleActivate_def
  by (intro safe_payload safe_uid safe_object assms safe_state safe_reply_uid safe_call)
    (auto simp: assms dest: hinv_tick_store intro: effect_activate)

lemma safe_handleRevoke:
  assumes "stor X = S"
  shows "safe sinv sabs (outside X) h (handleRevoke X op payload h)"
  unfolding handleRevoke_def
  by (intro safe_payload safe_uid safe_object assms safe_state safe_reply_uid safe_call)
    (auto simp: assms dest: hinv_tick_store intro: effect_revoke)

lemma safe_handleArchive:
  assumes "stor X = S"
  shows "safe sinv sabs (outside X) h (handleArchive X op payload h)"
  unfolding handleArchive_def
  by (intro safe_payload safe_uid safe_object assms safe_state safe_reply_uid safe_call)
    (auto simp: assms dest: hinv_tick_store intro: effect_archive)

lemma safe_handleRecover:
  assumes "stor X = S"
  shows "safe sinv sabs (outside X) h (handleRecover X op payload h)"
  unfolding handleRecover_def
  by (intro safe_payload safe_uid safe_object assms safe_state safe_reply_uid safe_call)
    (auto simp: assms dest: hinv_tick_store intro: effect_recover)

lemma safe_handleReKey:
  assumes "stor X = S"
  shows "safe sinv sabs (outside X) h (handleReKey X op payload h)"
  unfolding handleReKey_def Let_def
  by (intro safe_payload safe_uid safe_object assms safe_state safe_then safe_on_error safe_success safe_call)
    (auto simp: assms dest: hinv_tick_store intro: effect_rekey)

end

text \<open>The handlers that only read the store.\<close>

context storage_contract
begin

lemma safe_handleGet: "stor X = S \<Longrightarrow> safe sinv sabs (outside X) h (handleGet X op payload h)"
  unfolding handleGet_def by (intro safe_payload safe_uid safe_object safe_state safe_success)

lemma safe_handleCheck: "stor X = S \<Longrightarrow> safe sinv sabs (outside X) h (handleCheck X op payload h)"
  unfolding handleCheck_def by (intro safe_payload safe_uid safe_object safe_success)

lemma safe_handleLocate: "safe sinv sabs (outside X) h (handleLocate X op payload h)"
  unfolding handleLocate_def Let_def by (intro safe_query safe_success)

lemma safe_handleGetAttributes: "safe sinv sabs (outside X) h (handleGetAttributes X op payload h)"
  unfolding handleGetAttributes_def Let_def
  by (intro safe_payload safe_uid) (auto simp: query_def failure_def success_def intro!: safe_same split: option.split)

lemma safe_handleQuery: "safe sinv sabs (outside X) h (handleQuery X op payload h)"
  by (simp add: handleQuery_def)

lemma safe_handleDiscoverVersions: "safe sinv sabs (outside X) h (handleDiscoverVersions X op payload h)"
  by (simp add: handleDiscoverVersions_def)

lemma safe_handlePoll: "safe sinv sabs (outside X) h (handlePoll X op payload h)"
  by (simp add: handlePoll_def)

lemma safe_handleObtainLease: "stor X = S \<Longrightarrow> safe sinv sabs (outside X) h (handleObtainLease X op payload h)"
  unfolding handleObtainLease_def by (intro safe_payload safe_uid safe_object safe_success)

lemma safe_handleGetAttributeList:
  "stor X = S \<Longrightarrow> safe sinv sabs (outside X) h (handleGetAttributeList X op payload h)"
  unfolding handleGetAttributeList_def by (intro safe_payload safe_uid safe_object safe_success)

lemma safe_handleEncrypt: "stor X = S \<Longrightarrow> safe sinv sabs (outside X) h (handleEncrypt X op payload h)"
  unfolding handleEncrypt_def Let_def
  by (intro safe_payload safe_uid safe_child safe_object safe_state safe_if safe_on_error safe_sample
      safe_success safe_failure)

lemma safe_handleMAC: "stor X = S \<Longrightarrow> safe sinv sabs (outside X) h (handleMAC X op payload h)"
  unfolding handleMAC_def
  by (intro safe_payload safe_uid safe_child safe_object safe_state safe_if safe_success safe_failure)

lemma safe_handleSign: "stor X = S \<Longrightarrow> safe sinv sabs (outside X) h (handleSign X op payload h)"
  unfolding handleSign_def Let_def
  by (intro safe_payload safe_uid safe_child safe_object safe_state safe_if safe_on_error safe_sample
      safe_failure) (auto split: option.split intro!: safe_on_error)

lemma safe_handleSignatureVerify:
  "stor X = S \<Longrightarrow> safe sinv sabs (outside X) h (handleSignatureVerify X op payload h)"
  unfolding handleSignatureVerify_def Let_def
  by (intro safe_payload safe_uid safe_child safe_object safe_state safe_if safe_on_error safe_failure)
    (auto split: option.split)

lemma safe_handleDecrypt: "stor X = S \<Longrightarrow> safe sinv sabs (outside X) h (handleDecrypt X op payload h)"
  unfolding handleDecrypt_def Let_def
  by (intro safe_payload safe_uid safe_child safe_object safe_state safe_if safe_on_error safe_failure)
    (auto simp: gcm_Open_def intro!: safe_on_error split: option.split)

lemma safe_handleAddAttribute: "stor X = S \<Longrightarrow> safe sinv sabs (outside X) h (handleAddAttribute X op payload h)"
  unfolding handleAddAttribute_def
  by (intro safe_payload safe_uid safe_child)
    (auto split: option.split intro!: safe_reply_uid safe_call intro: effect_set_attr dest: hinv_store)

lemma safe_handleModifyAttribute:
  "stor X = S \<Longrightarrow> safe sinv sabs (outside X) h (handleModifyAttribute X op payload h)"
  unfolding handleModifyAttribute_def by (rule safe_handleAddAttribute)

lemma safe_handleDeleteAttribute:
  "stor X = S \<Longrightarrow> safe sinv sabs (outside X) h (handleDeleteAttribute X op payload h)"
  unfolding handleDeleteAttribute_def
  by (intro safe_payload safe_uid safe_child safe_reply_uid safe_call)
    (auto intro: effect_delete_attr dest: hinv_store)

lemmas safe_handlers = safe_handleCreate safe_handleCreateKeyPair safe_handleGet safe_handleLocate
  safe_handleDestroy safe_handleActivate safe_handleCheck safe_handleRegister safe_handleRevoke
  safe_handleGetAttributes safe_handleQuery safe_handleDiscoverVersions safe_handleEncrypt
  safe_handleDecrypt safe_handleSign safe_handleSignatureVerify safe_handleMAC safe_handleReKey
  safe_handleGetAttributeList safe_handleAddAttribute safe_handleModifyAttribute
  safe_handleDeleteAttribute safe_handleDeriveKey safe_handleObtainLease safe_handlePoll
  safe_handleArchive safe_handleRecover

lemma safe_dispatch:
  assumes "stor X = S" "fresh_world (outside X)"
  shows "safe sinv sabs (outside X) h (dispatch X operation payload cn h)"
  unfolding dispatch_def Let_def by (intro safe_if safe_handlers assms safe_failure)

end

section \<open>Items, batches and requests are safe\<close>

context storage_contract
begin

lemma safe_processBatchItem:
  assumes "stor X = S" "fresh_world (outside X)"
  shows "safe sinv sabs (outside X) h (processBatchItem X bi cn ra conn h)"
proof (cases "FindChild (lib X) bi (tag_of (lib X) TagOperation)")
  case None
  then show ?thesis by (simp add: processBatchItem_split)
next
  case (Some opItem)
  obtain out h1 where d: "dispatch X (sint (IntValue (lib X) opItem))
      (FindChild (lib X) bi (tag_of (lib X) TagRequestPayload)) cn h = (out, h1)" by fastforce
  with safe_dispatch[OF assms] have "safe sinv sabs (outside X) h (out, h1)" by metis
  then show ?thesis
    by (rule safe_trans) (cases out, auto simp: processBatchItem_split Some d
        split: prod.split intro!: safe_same tick_log_record)
qed

lemma safe_processBatch:
  assumes "stor X = S" "fresh_world (outside X)"
  shows "safe sinv sabs (outside X) h (processBatch X bis cn ra conn h)"
proof (induction bis arbitrary: h)
  case Nil
  then show ?case by (simp add: safe_same)
next
  case (Cons bi bis)
  obtain o1 h1 where p: "processBatchItem X bi cn ra conn h = (o1, h1)" by fastforce
  obtain o2 h2 where q: "processBatch X bis cn ra conn h1 = (o2, h2)" by fastforce
  have s: "safe sinv sabs (outside X) h (o1, h1)" using safe_processBatchItem[OF assms] p by metis
  moreover have "safe sinv sabs (outside X) h1 (o2, h2)" using Cons.IH q by metis
  ultimately show ?case
    by (cases o1; cases o2) (auto simp: p q safe_def)
qed

lemma safe_HandleRequest:
  assumes "stor X = S" "fresh_world (outside X)"
  shows "safe sinv sabs (outside X) h (HandleRequest X msg cn ra conn h)"
proof (cases "accepted_batch (lib X) msg")
  case None
  from HandleRequest_rejected[OF this] show ?thesis by (simp add: safe_same refusal_def)
next
  case (Some bis)
  obtain out h1 where p: "processBatch X bis cn ra conn h = (out, h1)" by fastforce
  with safe_processBatch[OF assms, of h bis cn ra conn] show ?thesis
    by (cases out) (simp_all add: HandleRequest_accepted[OF Some] safe_def)
qed

end

end
