(* ===== verification/Step_Invariants.thy ===== *)
theory Step_Invariants
  imports Kmip_Steps
begin

text \<open>
  What holds along every sequence of life-cycle steps: objects are never removed and never change
  their identity, the life cycle only moves forward, destroyed objects are final and carry no
  material, compromised objects never come back into use. Each fact is proved for one step by case
  analysis on the step relation and lifted to runs by rule induction.
\<close>

inductive_cases stepE: "kmip_step v v'"

section \<open>Identity\<close>

text \<open>The fields no request changes once an object exists.\<close>

definition same_identity :: "KeyRecord \<Rightarrow> KeyRecord \<Rightarrow> bool" where
  "same_identity r r' \<longleftrightarrow> UID r' = UID r \<and> Name r' = Name r \<and> ObjectType r' = ObjectType r \<and>
     Algorithm r' = Algorithm r \<and> Length r' = Length r \<and> UsageMask r' = UsageMask r \<and>
     Owner r' = Owner r \<and> CreatedAt r' = CreatedAt r"

lemma same_identity_refl [simp]: "same_identity r r"
  by (simp add: same_identity_def)

lemma same_identity_trans: "same_identity r r' \<Longrightarrow> same_identity r' r'' \<Longrightarrow> same_identity r r''"
  by (simp add: same_identity_def)

text \<open>
  A relation between the earlier and the later record of one object that every single step keeps
  holds along every run.
\<close>

lemma steps_object:
  assumes refl: "\<And>r. P r r" and trans: "\<And>r r' r''. P r r' \<Longrightarrow> P r' r'' \<Longrightarrow> P r r''"
    and step: "\<And>v v' r. kmip_step v v' \<Longrightarrow> objs v u = Some r \<Longrightarrow> \<exists>r'. objs v' u = Some r' \<and> P r r'"
    and run: "kmip_step\<^sup>*\<^sup>* v v'" and r: "objs v u = Some r"
  shows "\<exists>r'. objs v' u = Some r' \<and> P r r'"
  using run
proof induction
  case base
  with refl r show ?case by blast
next
  case (step v1 v2)
  with assms(3) trans show ?case by meson
qed

lemma step_identity:
  "kmip_step v v' \<Longrightarrow> objs v u = Some r \<Longrightarrow> \<exists>r'. objs v' u = Some r' \<and> same_identity r r'"
  by (auto elim!: stepE simp: same_identity_def)

lemma steps_identity:
  "kmip_step\<^sup>*\<^sup>* v v' \<Longrightarrow> objs v u = Some r \<Longrightarrow> \<exists>r'. objs v' u = Some r' \<and> same_identity r r'"
  by (rule steps_object[where P = same_identity]) (auto intro: same_identity_trans step_identity)

section \<open>The life cycle moves forward\<close>

text \<open>
  The states a KMIP request can bring about, in the order of the life cycle. \<open>proper\<close>: every
  object is in one of them, and a destroyed one has no material left.
\<close>

fun rank_list :: "KeyState list \<Rightarrow> KeyState \<Rightarrow> nat" where
  "rank_list [] st = 0"
| "rank_list (x # xs) st = (if st = x then 0 else Suc (rank_list xs st))"

definition state_rank :: "KeyState \<Rightarrow> nat" where
  "state_rank = rank_list [StatePreActive, StateActive, StateRevoked, StateDestroyed]"

definition kmip_states :: "KeyState set" where
  "kmip_states = {StatePreActive, StateActive, StateRevoked, StateDestroyed}"

definition proper :: "vault \<Rightarrow> bool" where
  "proper v \<longleftrightarrow> (\<forall>u r. objs v u = Some r \<longrightarrow> State r \<in> kmip_states \<and> (State r = StateDestroyed \<longrightarrow> sl (Material r) = []))"

lemma state_rank_simps [simp]:
  "state_rank StatePreActive = 0" "state_rank StateActive = 1" "state_rank StateRevoked = 2"
  "state_rank StateDestroyed = 3"
  by (simp_all add: state_rank_def go_const)

lemma kmip_states_cases [consumes 1]:
  assumes "st \<in> kmip_states"
  obtains "st = StatePreActive" | "st = StateActive" | "st = StateRevoked" | "st = StateDestroyed"
  using assms by (auto simp: kmip_states_def)

lemma state_distinct [simp]:
  "StatePreActive \<noteq> StateDestroyed" "StateActive \<noteq> StateDestroyed" "StateRevoked \<noteq> StateDestroyed"
  "StateArchived \<noteq> StateDestroyed" "StateDeactivated \<noteq> StateDestroyed"
  "StateDeactivated \<notin> kmip_states" "StateArchived \<notin> kmip_states"
  "StatePreActive \<in> kmip_states" "StateActive \<in> kmip_states" "StateRevoked \<in> kmip_states" "StateDestroyed \<in> kmip_states"
  by (simp_all add: go_const kmip_states_def)

lemmas state_distinct_sym [simp] = state_distinct(1-5)[symmetric]

lemma proper_empty [simp]: "proper \<lparr>objs = Map.empty, cattrs = a\<rparr>"
  by (simp add: proper_def)

lemma proper_state: "proper v \<Longrightarrow> objs v u = Some r \<Longrightarrow> State r \<in> kmip_states"
  by (auto simp: proper_def)

lemma proper_upd:
  "proper v \<Longrightarrow> State r \<in> kmip_states \<Longrightarrow> (State r = StateDestroyed \<Longrightarrow> sl (Material r) = []) \<Longrightarrow>
   proper (v\<lparr>objs := (objs v)(u \<mapsto> r)\<rparr>)"
  by (auto simp: proper_def)

lemma proper_cattrs [simp]: "proper (v\<lparr>cattrs := a\<rparr>) = proper v"
  by (simp add: proper_def)

lemma state_rank_le: "st \<in> kmip_states \<Longrightarrow> state_rank st \<le> 3"
  by (auto elim: kmip_states_cases)

lemma step_proper: "kmip_step v v' \<Longrightarrow> proper v \<Longrightarrow> proper v'"
  by (induction rule: kmip_step.induct) (auto intro!: proper_upd dest: proper_state)

lemma steps_proper: "kmip_step\<^sup>*\<^sup>* v v' \<Longrightarrow> proper v \<Longrightarrow> proper v'"
  by (induction rule: rtranclp_induct) (auto intro: step_proper)

lemma step_forward:
  assumes "kmip_step v v'" "proper v" "objs v u = Some r"
  shows "\<exists>r'. objs v' u = Some r' \<and> state_rank (State r) \<le> state_rank (State r')"
  using assms
  by (cases rule: kmip_step.cases) (auto dest: proper_state intro: state_rank_le)

lemma steps_forward:
  assumes "kmip_step\<^sup>*\<^sup>* v v'" "proper v" "objs v u = Some r"
  shows "\<exists>r'. objs v' u = Some r' \<and> state_rank (State r) \<le> state_rank (State r')"
  using assms(1)
proof induction
  case base
  with assms(3) show ?case by simp
next
  case (step v1 v2)
  then show ?case using step_forward[OF step(2) steps_proper[OF step(1) assms(2)]] by (meson order_trans)
qed

section \<open>Destroyed and compromised objects\<close>

lemma step_destroyed:
  "kmip_step v v' \<Longrightarrow> objs v u = Some r \<Longrightarrow> State r = StateDestroyed \<Longrightarrow> objs v' u = Some r"
  by (cases rule: kmip_step.cases) (auto simp: go_const)

lemma steps_destroyed:
  assumes "kmip_step\<^sup>*\<^sup>* v v'" "objs v u = Some r" "State r = StateDestroyed"
  shows "objs v' u = Some r"
  using assms(1) by induction (auto simp: assms intro: step_destroyed)

text \<open>A compromised object stays exactly as it is until it is destroyed.\<close>

definition retired :: "KeyRecord \<Rightarrow> KeyRecord \<Rightarrow> bool" where
  "retired r r' \<longleftrightarrow> r' = r \<or> State r' = StateDestroyed"

lemma step_compromised:
  "kmip_step v v' \<Longrightarrow> objs v u = Some r \<Longrightarrow> State r = StateRevoked \<Longrightarrow>
   \<exists>r'. objs v' u = Some r' \<and> retired r r'"
  by (cases rule: kmip_step.cases) (auto simp: go_const retired_def)

lemma steps_compromised:
  assumes "kmip_step\<^sup>*\<^sup>* v v'" "objs v u = Some r" "State r = StateRevoked"
  shows "\<exists>r'. objs v' u = Some r' \<and> retired r r'"
  using assms(1)
proof induction
  case base
  then show ?case by (simp add: assms retired_def)
next
  case (step v1 v2)
  then show ?case using assms(2,3) step_compromised[of v1 v2 u r] step_destroyed[of v1 v2 u]
    by (auto simp: retired_def)
qed

text \<open>The material of an object changes only by rekeying it while active or by destroying it.\<close>

lemma step_material:
  assumes "kmip_step v v'" "objs v u = Some r" "objs v' u = Some r'" "Material r' \<noteq> Material r"
  shows "State r' = StateDestroyed \<or>
    (State r = StateActive \<and> State r' = StateActive \<and> valid_length (Length r) \<and> Version r' = int64 (Version r + 1))"
  using assms by (cases rule: kmip_step.cases) (auto split: if_splits)

section \<open>Runs of the server\<close>

text \<open>
  \<open>serves X h h'\<close>: the handler went from \<open>h\<close> to \<open>h'\<close> by answering some requests, one after the
  other, whatever their bytes, clients and connections.
\<close>

inductive serves :: "('w, 'i, 's) deps \<Rightarrow> 's hstate \<Rightarrow> 's hstate \<Rightarrow> bool" for X h where
  idle: "serves X h h"
| request: "serves X h h1 \<Longrightarrow> serves X h (snd (HandleRequest X msg cn ra conn h1))"

inductive_cases servesE: "serves X h h'"

lemma serves_trans: "serves X h1 h2 \<Longrightarrow> serves X h h1 \<Longrightarrow> serves X h h2"
  by (induction rule: serves.induct) (auto intro: serves.request)

context storage_contract
begin

lemma serves_safe:
  assumes "serves X h h'" "stor X = S" "fresh_world (outside X)" "hinv sinv sabs (outside X) h"
  shows "hinv sinv sabs (outside X) h' \<and> kmip_step\<^sup>*\<^sup>* (sabs (hstore h)) (sabs (hstore h'))"
  using assms(1)
proof induction
  case idle
  then show ?case by (simp add: assms(4))
next
  case (request h1 msg cn ra conn)
  with safe_HandleRequest[OF assms(2,3), of h1 msg cn ra conn] show ?case
    by (auto simp: safe_def)
qed

lemma serves_steps:
  "serves X h h' \<Longrightarrow> stor X = S \<Longrightarrow> fresh_world (outside X) \<Longrightarrow> hinv sinv sabs (outside X) h \<Longrightarrow>
   kmip_step\<^sup>*\<^sup>* (sabs (hstore h)) (sabs (hstore h'))"
  using serves_safe by blast

lemma serves_inv:
  "serves X h h' \<Longrightarrow> stor X = S \<Longrightarrow> fresh_world (outside X) \<Longrightarrow> hinv sinv sabs (outside X) h \<Longrightarrow>
   hinv sinv sabs (outside X) h'"
  using serves_safe by blast

end

section \<open>Archiving is out of reach\<close>

text \<open>
  No step ends in the state \<open>Deactivated\<close>, so from a proper vault the archive handler always
  refuses: it answers with an error item and leaves the store alone.
\<close>

definition refused :: "('w, 'i, 's) deps \<Rightarrow> int \<Rightarrow> 's hstate \<Rightarrow> 's reply \<Rightarrow> bool" where
  "refused X op h r \<longleftrightarrow> (\<exists>reason message. fst r = Done (buildBatchItemError (lib X) op reason message)) \<and>
     hstore (snd r) = hstore h"

lemma refused_failure: "hstore h' = hstore h \<Longrightarrow> refused X op h (failure X op reason message h')"
  by (auto simp: refused_def failure_def)

context storage_contract
begin

lemma refused_unless:
  assumes "stor X = S" "hinv sinv sabs (outside X) h"
    and "\<And>uid r. live (sabs (hstore h)) uid = Some r \<Longrightarrow> \<not> allowed (State r) operation"
  shows "refused X op h (need_payload X op payload h (\<lambda>p. need_uid X op p h (\<lambda>uid.
    need_object X op uid h (\<lambda>rec h1. need_state X op (State rec) operation h1 (k p uid rec h1)))))"
proof -
  have "\<not> allowed (State r) operation" if "Get (stor X) d uid (hstore h) = Some r" for d uid r
    using assms(3) get_sound[OF hinv_store[OF assms(2)]] that unfolding assms(1) by blast
  then show ?thesis
    by (auto simp: need_payload_def need_uid_def need_child_def need_object_def need_state_def query_def
        allowed_def intro!: refused_failure split: option.split prod.split) (metis snd_conv)
qed

lemma archive_refused:
  assumes "stor X = S" "hinv sinv sabs (outside X) h" "proper (sabs (hstore h))"
  shows "refused X op h (handleArchive X op payload h)" "refused X op h (handleRecover X op payload h)"
  unfolding handleArchive_def handleRecover_def
  by (rule refused_unless[OF assms(1,2)], use proper_state[OF assms(3)] in \<open>force simp: live_Some_iff\<close>)+

end

end
