(* ===== verification/Kmip_Replies.thy ===== *)
theory Kmip_Replies
  imports Kmip_Dispatch
begin

text \<open>
  The replies of the handlers: whatever the request, the store, the random source and the crypto
  functions return, a dispatched operation does not panic and answers with one success item or one
  error item for its operation code; a batch has one such item for each item of the request, in
  order; and the audit entry of an item says what the item says.
\<close>

section \<open>Every operation answers\<close>

definition answer_tree :: "('w, 'i) kmiplib \<Rightarrow> int \<Rightarrow> ttlv \<Rightarrow> bool" where
  "answer_tree L op t \<longleftrightarrow> (\<exists>kids. t = buildBatchItemSuccess L op kids) \<or>
     (\<exists>reason message. t = buildBatchItemError L op reason message)"

text \<open>
  \<open>answers X op h r\<close>: the handler returned such an item, left the audit log and the connection
  table of \<open>h\<close> to \<open>processBatchItem\<close>, and only moved on in the sequence of draws.
\<close>

definition answers :: "('w, 'i, 's) deps \<Rightarrow> int \<Rightarrow> 's hstate \<Rightarrow> 's reply \<Rightarrow> bool" where
  "answers X op h r \<longleftrightarrow> (\<exists>t. fst r = Done t \<and> answer_tree (lib X) op t) \<and>
     haudit (snd r) = haudit h \<and> htracker (snd r) = htracker h \<and> htick h \<le> htick (snd r)"

lemma answer_success: "answer_tree L op (buildBatchItemSuccess L op kids)"
  by (auto simp: answer_tree_def)

lemma answer_error: "answer_tree L op (buildBatchItemError L op reason message)"
  by (auto simp: answer_tree_def)

lemma ans_failure [simp]: "answers X op h (failure X op reason message h)"
  by (simp add: answers_def failure_def answer_error)

lemma ans_success [simp]: "answers X op h (success X op kids h)"
  by (simp add: answers_def success_def answer_success)

lemma ans_tick: "answers X op (h\<lparr>htick := Suc (htick h)\<rparr>) r \<Longrightarrow> answers X op h r"
  by (simp add: answers_def)

lemma ans_query: "(\<And>r h1. answers X op h1 (k r h1)) \<Longrightarrow> answers X op h (case query X f h of (r, h1) \<Rightarrow> k r h1)"
  by (simp add: query_def) (metis ans_tick)

lemma ans_sample: "(\<And>d h1. answers X op h1 (k d h1)) \<Longrightarrow> answers X op h (case sample X h of (d, h1) \<Rightarrow> k d h1)"
  by (simp add: sample_def) (metis ans_tick)

lemma ans_call: "(\<And>r h1. answers X op h1 (k r h1)) \<Longrightarrow> answers X op h (case call X f h of (r, h1) \<Rightarrow> k r h1)"
proof -
  assume k: "\<And>r h1. answers X op h1 (k r h1)"
  obtain r s where f: "f (outside X (htick h)) (hstore h) = (r, s)" by fastforce
  from k[of "h\<lparr>hstore := s, htick := Suc (htick h)\<rparr>" r] show ?thesis by (simp add: call_def f answers_def)
qed

lemma ans_if: "answers X op h x \<Longrightarrow> answers X op h y \<Longrightarrow> answers X op h (if b then x else y)"
  by simp

lemma ans_curve: "(\<And>a b. answers X op h (k a b)) \<Longrightarrow> answers X op h (case ec_curve len of (a, b) \<Rightarrow> k a b)"
  by (cases "ec_curve len") simp

lemma ans_option: "answers X op h x \<Longrightarrow> (\<And>a. answers X op h (k a)) \<Longrightarrow>
    answers X op h (case c of None \<Rightarrow> x | Some a \<Rightarrow> k a)"
  by (cases c) simp_all

lemma ans_payload: "(\<And>p. answers X op h (k p)) \<Longrightarrow> answers X op h (need_payload X op payload h k)"
  by (simp add: need_payload_def split: option.split)

lemma ans_child: "(\<And>c. answers X op h (k c)) \<Longrightarrow> answers X op h (need_child X op item tag what h k)"
  by (simp add: need_child_def split: option.split)

lemma ans_uid: "(\<And>u. answers X op h (k u)) \<Longrightarrow> answers X op h (need_uid X op p h k)"
  unfolding need_uid_def by (rule ans_child)

lemma ans_object: "(\<And>rec h1. answers X op h1 (k rec h1)) \<Longrightarrow> answers X op h (need_object X op uid h k)"
  unfolding need_object_split by (intro ans_query ans_option ans_failure)

lemma ans_state: "answers X op h k \<Longrightarrow> answers X op h (need_state X op st operation h k)"
  by (simp add: need_state_def split: prod.split)

lemma ans_on_error: "(\<And>v. answers X op h (k v)) \<Longrightarrow> answers X op h (on_error X op reason pre r h k)"
  by (simp add: on_error_def split: sum.split)

lemma ans_reply_uid: "answers X op h (reply_uid X op uid (call X f h))"
proof -
  have "reply_uid X op uid c = (case c of (r, h1) \<Rightarrow> (case r of
      None \<Rightarrow> success X op [TextString (tag_of (lib X) TagUniqueIdentifier) uid] h1
    | Some e \<Rightarrow> failure X op ReasonGeneralFailure e h1))" for c
    by (simp add: reply_uid_def split: prod.split option.split)
  then show ?thesis by (auto intro!: ans_call ans_option)
qed

lemmas ans_rules = ans_failure ans_success ans_if ans_payload ans_child ans_uid ans_object ans_state
  ans_on_error ans_reply_uid ans_query ans_sample ans_call ans_curve ans_option

lemma ans_register_pair: "answers X op h (register_pair X op name alg len usage priv pub h)"
  unfolding register_pair_def Let_def by (intro ans_rules)

lemma ans_handleCreateKeyPair: "answers X op h (handleCreateKeyPair X op payload h)"
  unfolding handleCreateKeyPair_def Let_def by (intro ans_rules ans_register_pair)

lemma ans_handleRegister: "answers X op h (handleRegister X op payload h)"
  unfolding handleRegister_def Let_def by (intro ans_payload ans_if ans_failure ans_call ans_on_error ans_success)

lemma ans_handleGetAttributes: "answers X op h (handleGetAttributes X op payload h)"
  unfolding handleGetAttributes_def Let_def
  by (intro ans_payload ans_uid)
    (auto simp: query_def answers_def failure_def success_def answer_success answer_error split: option.split)

lemma ans_handleAddAttribute: "answers X op h (handleAddAttribute X op payload h)"
  unfolding handleAddAttribute_def
  by (intro ans_payload ans_uid ans_child) (auto split: option.split intro: ans_reply_uid)

lemma ans_handleModifyAttribute: "answers X op h (handleModifyAttribute X op payload h)"
  unfolding handleModifyAttribute_def by (rule ans_handleAddAttribute)

lemma ans_handleSign: "answers X op h (handleSign X op payload h)"
  unfolding handleSign_def Let_def
  by (intro ans_payload ans_uid ans_child ans_object ans_state ans_if ans_failure ans_on_error ans_sample
      ans_option ans_success)

lemma ans_handleSignatureVerify: "answers X op h (handleSignatureVerify X op payload h)"
  unfolding handleSignatureVerify_def Let_def
  by (intro ans_payload ans_uid ans_child ans_object ans_state ans_if ans_failure ans_on_error ans_option ans_success)

text \<open>
  The nonce of \<open>Decrypt\<close> comes from the client: the length check in front of \<open>gcm.Open\<close> is what
  keeps the handler from panicking.
\<close>

lemma ans_handleDecrypt: "answers X op h (handleDecrypt X op payload h)"
  unfolding handleDecrypt_def Let_def
  by (intro ans_payload ans_uid ans_child ans_object ans_state ans_on_error)
    (auto simp: gcm_Open_def split: option.split intro!: ans_on_error)

lemma ans_simple:
  "answers X op h (handleCreate X op payload cn h)" "answers X op h (handleGet X op payload h)"
  "answers X op h (handleLocate X op payload h)" "answers X op h (handleDestroy X op payload h)"
  "answers X op h (handleActivate X op payload h)" "answers X op h (handleCheck X op payload h)"
  "answers X op h (handleRevoke X op payload h)" "answers X op h (handleQuery X op payload h)"
  "answers X op h (handleDiscoverVersions X op payload h)" "answers X op h (handleEncrypt X op payload h)"
  "answers X op h (handleMAC X op payload h)" "answers X op h (handleReKey X op payload h)"
  "answers X op h (handleGetAttributeList X op payload h)" "answers X op h (handleDeleteAttribute X op payload h)"
  "answers X op h (handleDeriveKey X op payload h)" "answers X op h (handleObtainLease X op payload h)"
  "answers X op h (handlePoll X op payload h)" "answers X op h (handleArchive X op payload h)"
  "answers X op h (handleRecover X op payload h)"
  unfolding handler_defs Let_def by (intro ans_rules)+

lemmas ans_handlers = ans_simple ans_handleCreateKeyPair ans_handleRegister ans_handleGetAttributes
  ans_handleAddAttribute ans_handleModifyAttribute ans_handleSign ans_handleSignatureVerify ans_handleDecrypt

lemma ans_dispatch: "answers X op h (dispatch X op payload cn h)"
  unfolding dispatch_def Let_def by (intro ans_if ans_handlers ans_failure)

section \<open>Batches\<close>

text \<open>The operation code a batch item is answered under: 0 where it names none.\<close>

definition item_operation :: "('w, 'i) kmiplib \<Rightarrow> 'i \<Rightarrow> int" where
  "item_operation L bi = (case FindChild L bi (tag_of L TagOperation) of None \<Rightarrow> 0 | Some o1 \<Rightarrow> sint (IntValue L o1))"

lemma processBatchItem_answer:
  obtains t where "fst (processBatchItem X bi cn ra conn h) = Done t"
    "answer_tree (lib X) (item_operation (lib X) bi) t"
proof (cases "FindChild (lib X) bi (tag_of (lib X) TagOperation)")
  case None
  then show ?thesis using that by (simp add: processBatchItem_split item_operation_def failure_def answer_error)
next
  case (Some o1)
  let ?op = "sint (IntValue (lib X) o1)" and ?p = "FindChild (lib X) bi (tag_of (lib X) TagRequestPayload)"
  obtain out h1 where d: "dispatch X ?op ?p cn h = (out, h1)" by fastforce
  with ans_dispatch[of X ?op h ?p cn] obtain t where "out = Done t" "answer_tree (lib X) ?op t"
    by (auto simp: answers_def)
  with that show ?thesis
    by (simp add: processBatchItem_split item_operation_def Some d case_prod_beta)
qed

lemma processBatch_answers:
  "\<exists>ts h'. processBatch X bis cn ra conn h = (Done ts, h') \<and>
     list_all2 (\<lambda>bi t. answer_tree (lib X) (item_operation (lib X) bi) t) bis ts"
proof (induction bis arbitrary: h)
  case Nil
  then show ?case by simp
next
  case (Cons bi bis)
  obtain t h1 where p: "processBatchItem X bi cn ra conn h = (Done t, h1)"
    "answer_tree (lib X) (item_operation (lib X) bi) t"
    using processBatchItem_answer[of X bi cn ra conn h] by (metis prod.collapse)
  moreover obtain ts h2 where "processBatch X bis cn ra conn h1 = (Done ts, h2)"
    "list_all2 (\<lambda>bi t. answer_tree (lib X) (item_operation (lib X) bi) t) bis ts"
    using Cons.IH by blast
  ultimately show ?case by simp
qed

section \<open>What the audit entry says\<close>

text \<open>
  The status of an item, as a client reads it: \<open>buildBatchItemSuccess\<close> and
  \<open>buildBatchItemError\<close> are told apart by their result status.
\<close>

definition item_message :: "('w, 'i) kmiplib \<Rightarrow> ttlv \<Rightarrow> string option" where
  "item_message L t =
     (case tchild t (tag_of L TagResultStatus) of
        Some (Enumeration _ v) \<Rightarrow>
          if v = code L ResultStatusSuccess then None
          else (case tchild t (tag_of L TagResultMessage) of Some (TextString _ m) \<Rightarrow> Some m | _ \<Rightarrow> Some '''')
      | _ \<Rightarrow> None)"

definition payload_uid :: "('w, 'i) kmiplib \<Rightarrow> ttlv list \<Rightarrow> string option" where
  "payload_uid L kids = (case find (\<lambda>t. ttag t = tag_of L TagUniqueIdentifier) kids of
     Some (TextString _ u) \<Rightarrow> Some u | _ \<Rightarrow> None)"

lemma tchild_success [simp]:
  assumes "tags_ok L"
  shows "tchild (buildBatchItemSuccess L op kids) (tag_of L TagResultStatus) =
      Some (Enumeration (tag_of L TagResultStatus) (code L ResultStatusSuccess))"
    "tchild (buildBatchItemSuccess L op kids) (tag_of L TagResponsePayload) =
      (if kids = [] then None else Some (Structure (tag_of L TagResponsePayload) kids))"
  using tags_okD[OF assms] by (simp_all add: buildBatchItemSuccess_def)

lemma tchild_error [simp]:
  assumes "tags_ok L"
  shows "tchild (buildBatchItemError L op reason message) (tag_of L TagResultStatus) =
      Some (Enumeration (tag_of L TagResultStatus) (code L ResultStatusOperationFailed))"
    "tchild (buildBatchItemError L op reason message) (tag_of L TagResultMessage) =
      Some (TextString (tag_of L TagResultMessage) message)"
    "tchild (buildBatchItemError L op reason message) (tag_of L TagResponsePayload) = None"
  using tags_okD[OF assms] by (simp_all add: buildBatchItemError_def Let_def)

lemma audit_view_error:
  assumes "codec_ok L item fits" "tags_ok L" "status_ok L" "fits (buildBatchItemError L op reason message)"
  shows "audit_view L (encode L (buildBatchItemError L op reason message)) uid = (''failure'', message, uid)"
  using assms(3) by (auto simp: audit_view_def codec_okD[OF assms(1)] assms(2,4) status_ok_def Let_def)

lemma audit_view_success:
  assumes "codec_ok L item fits" "tags_ok L" "status_ok L" "fits (buildBatchItemSuccess L op kids)"
  shows "\<exists>u. audit_view L (encode L (buildBatchItemSuccess L op kids)) uid = (''success'', '''', u) \<and> (uid \<noteq> '''' \<longrightarrow> u = uid)"
  using assms(3) by (auto simp: audit_view_def codec_okD[OF assms(1)] assms(2,4) status_ok_def Let_def)

lemma item_message_success [simp]:
  "tags_ok L \<Longrightarrow> item_message L (buildBatchItemSuccess L op kids) = None"
  by (simp add: item_message_def)

lemma item_message_error [simp]:
  "tags_ok L \<Longrightarrow> status_ok L \<Longrightarrow> item_message L (buildBatchItemError L op reason message) = Some message"
  by (simp add: item_message_def status_ok_def)

text \<open>For every answer the entry's status and message are those of the item.\<close>

lemma audit_view_answer:
  assumes "codec_ok L item fits" "tags_ok L" "status_ok L" "answer_tree L op t" "fits t"
  shows "\<exists>u. audit_view L (encode L t) uid =
      (case item_message L t of None \<Rightarrow> (''success'', '''', u) | Some m \<Rightarrow> (''failure'', m, u)) \<and>
    (uid \<noteq> '''' \<longrightarrow> u = uid)"
  using assms(4,5) audit_view_error[OF assms(1-3)] audit_view_success[OF assms(1-3)]
  by (auto simp: answer_tree_def assms(2,3))

text \<open>\<open>reports L cn ra bi t e\<close>: the entry \<open>e\<close> reports the answer \<open>t\<close> to the batch item \<open>bi\<close>.\<close>

definition reports :: "('w, 'i) kmiplib \<Rightarrow> string \<Rightarrow> string \<Rightarrow> 'i \<Rightarrow> ttlv \<Rightarrow> Entry \<Rightarrow> bool" where
  "reports L cn ra bi t e \<longleftrightarrow> Source e = ''kmip'' \<and> ClientID e = cn \<and> RemoteAddr e = ra \<and>
     Operation e = operationName L (item_operation L bi) \<and>
     (Status e, Message e) = (case item_message L t of None \<Rightarrow> (''success'', '''') | Some m \<Rightarrow> (''failure'', m)) \<and>
     (request_uid L (FindChild L bi (tag_of L TagRequestPayload)) \<noteq> '''' \<longrightarrow>
        ObjectUID e = request_uid L (FindChild L bi (tag_of L TagRequestPayload)))"

definition log_entry :: "Entry \<Rightarrow> Logger \<Rightarrow> Logger" where
  "log_entry e = Log (Timestamp e) e"

lemma logOperation_entry:
  "haudit h = Some a \<Longrightarrow> haudit (logOperation X src opn cid uid nm st msg ra h) = Some (log_entry
     \<lparr>ID = 0, Timestamp = d_now (outside X (htick h)), Source = src, Operation = opn, ClientID = cid,
      ObjectUID = uid, ObjectName = nm, Status = st, Message = msg, RemoteAddr = ra\<rparr> a)"
  by (simp add: logOperation_def sample_def log_entry_def)

lemma processBatchItem_audited:
  assumes "codec_ok (lib X) item fits" "tags_ok (lib X)" "status_ok (lib X)" "haudit h = Some a"
    and "FindChild (lib X) bi (tag_of (lib X) TagOperation) = Some o1"
    and "processBatchItem X bi cn ra conn h = (Done t, h')" "fits t"
  shows "\<exists>e. haudit h' = Some (log_entry e a) \<and> reports (lib X) cn ra bi t e"
proof -
  let ?op = "sint (IntValue (lib X) o1)" and ?p = "FindChild (lib X) bi (tag_of (lib X) TagRequestPayload)"
  obtain out h1 where d: "dispatch X ?op ?p cn h = (out, h1)" by fastforce
  with assms(5,6) have o: "out = Done t"
    by (cases out) (auto simp: processBatchItem_split split: prod.splits)
  from ans_dispatch[of X ?op h ?p cn] d o assms(4) have a: "answer_tree (lib X) ?op t" "haudit h1 = Some a"
    by (auto simp: answers_def)
  from audit_view_answer[OF assms(1-3) a(1) assms(7), of "request_uid (lib X) ?p"] obtain u where
    u: "audit_view (lib X) (encode (lib X) t) (request_uid (lib X) ?p) =
      (case item_message (lib X) t of None \<Rightarrow> (''success'', '''', u) | Some m \<Rightarrow> (''failure'', m, u))"
      "request_uid (lib X) ?p \<noteq> '''' \<longrightarrow> u = request_uid (lib X) ?p" by blast
  have i: "item_operation (lib X) bi = ?op" by (simp add: item_operation_def assms(5))
  show ?thesis
  proof (cases "item_message (lib X) t")
    case None
    with assms(6) u show ?thesis
      by (auto simp: processBatchItem_split assms(5) d o logOperation_entry[OF a(2)] reports_def i)
  next
    case (Some m)
    with assms(6) u show ?thesis
      by (auto simp: processBatchItem_split assms(5) d o logOperation_entry[OF a(2)] reports_def i)
  qed
qed

text \<open>The entries of a batch are logged in the order of its items.\<close>

lemma processBatch_audited:
  assumes "codec_ok (lib X) item fits" "tags_ok (lib X)" "status_ok (lib X)"
    and "haudit h = Some a" "processBatch X bis cn ra conn h = (Done ts, h')"
    and "\<forall>bi \<in> set bis. FindChild (lib X) bi (tag_of (lib X) TagOperation) \<noteq> None" "\<forall>t \<in> set ts. fits t"
  shows "\<exists>es. haudit h' = Some (fold log_entry es a) \<and> length es = length bis \<and>
    (\<forall>k < length bis. reports (lib X) cn ra (bis ! k) (ts ! k) (es ! k))"
  using assms(4-)
proof (induction bis arbitrary: h a ts)
  case Nil
  then show ?case by auto
next
  case (Cons bi bis)
  obtain t h1 where p: "processBatchItem X bi cn ra conn h = (Done t, h1)"
    using processBatchItem_answer[of X bi cn ra conn h] by (metis prod.collapse)
  obtain ts1 where q: "processBatch X bis cn ra conn h1 = (Done ts1, h')" "ts = t # ts1"
    using Cons.prems(2) by (auto simp: p split: prod.splits outcome.splits)
  obtain e where e: "haudit h1 = Some (log_entry e a)" "reports (lib X) cn ra bi t e"
    using processBatchItem_audited[OF assms(1-3) Cons.prems(1) _ p] Cons.prems(3,4) q(2) by auto
  obtain es where es: "haudit h' = Some (fold log_entry es (log_entry e a))" "length es = length bis"
    "\<forall>k < length bis. reports (lib X) cn ra (bis ! k) (ts1 ! k) (es ! k)"
    using Cons.IH[OF e(1) q(1)] Cons.prems(3,4) q(2) by auto
  have "reports (lib X) cn ra ((bi # bis) ! k) (ts ! k) ((e # es) ! k)" if "k < length (bi # bis)" for k
    using that e(2) es(3) q(2) by (cases k) auto
  with es show ?case by (intro exI[of _ "e # es"]) simp
qed

section \<open>The connection table and the draws\<close>

text \<open>
  A request touches the connection table only by recording operations of its own connection, at most
  one per batch item, and the sequence of draws only moves on.
\<close>

definition records :: "string \<Rightarrow> nat \<Rightarrow> 's hstate \<Rightarrow> 's hstate \<Rightarrow> bool" where
  "records conn n h h' \<longleftrightarrow> htick h \<le> htick h' \<and>
     (\<exists>ops. length ops \<le> n \<and> htracker h' = map_option (record_ops conn ops) (htracker h))"

lemma record_ops_Nil [simp]: "record_ops i [] = id"
  by (simp add: record_ops_def)

lemma record_ops_append: "record_ops i (xs @ ys) = record_ops i ys \<circ> record_ops i xs"
  by (simp add: record_ops_def)

lemma records_same: "htracker h' = htracker h \<Longrightarrow> htick h \<le> htick h' \<Longrightarrow> records conn n h h'"
  by (auto simp: records_def option.map_id intro!: exI[of _ "[]"])

lemma records_trans: "records conn m h h1 \<Longrightarrow> records conn n h1 h2 \<Longrightarrow> records conn (m + n) h h2"
  unfolding records_def
  by (elim conjE exE) (rule conjI, simp, rule_tac x = "ops @ opsa" in exI, simp add: record_ops_append option.map_comp o_def)

lemma records_recordOp: "records conn 1 h (recordOp X conn opn h)"
proof (cases "htracker h")
  case None
  then show ?thesis by (simp add: records_def recordOp_def) (auto intro: exI[of _ "[]"])
next
  case (Some ct)
  then show ?thesis
    by (simp add: records_def recordOp_def sample_def)
      (rule exI[of _ "[(d_now (outside X (htick h)), opn)]"], simp add: record_ops_def)
qed

lemma records_processBatchItem: "records conn 1 h (snd (processBatchItem X bi cn ra conn h))"
proof (cases "FindChild (lib X) bi (tag_of (lib X) TagOperation)")
  case None
  then show ?thesis by (simp add: processBatchItem_split failure_def records_same)
next
  case (Some o1)
  let ?op = "sint (IntValue (lib X) o1)" and ?p = "FindChild (lib X) bi (tag_of (lib X) TagRequestPayload)"
  obtain out h1 where d: "dispatch X ?op ?p cn h = (out, h1)" by fastforce
  with ans_dispatch[of X ?op h ?p cn] obtain t where t: "out = Done t" "htracker h1 = htracker h" "htick h \<le> htick h1"
    by (auto simp: answers_def)
  have "records conn 1 h (recordOp X conn opn (logOperation X s0 o2 c0 u n0 st m ra h1))" for opn s0 o2 c0 u n0 st m
    using records_trans[OF records_same[of "logOperation X s0 o2 c0 u n0 st m ra h1" h conn 0] records_recordOp] t order_trans
    by fastforce
  with t(1) d Some show ?thesis by (simp add: processBatchItem_split split: prod.split)
qed

lemma records_processBatch: "records conn (length bis) h (snd (processBatch X bis cn ra conn h))"
proof (induction bis arbitrary: h)
  case Nil
  then show ?case by (simp add: records_same)
next
  case (Cons bi bis)
  obtain t h1 where p: "processBatchItem X bi cn ra conn h = (Done t, h1)"
    using processBatchItem_answer[of X bi cn ra conn h] by (metis prod.collapse)
  obtain ts h2 where q: "processBatch X bis cn ra conn h1 = (Done ts, h2)" using processBatch_answers by blast
  from records_trans[of conn 1 h h1 "length bis" h2] records_processBatchItem[of conn h X bi cn ra] Cons.IH[of h1] p q
  show ?case by simp
qed

lemma records_HandleRequest: "records conn maxBatchItems h (snd (HandleRequest X msg cn ra conn h))"
proof (cases "accepted_batch (lib X) msg")
  case None
  then have "htracker (snd (HandleRequest X msg cn ra conn h)) = htracker h" "htick h \<le> htick (snd (HandleRequest X msg cn ra conn h))"
    by (auto simp: HandleRequest_def accepted_batch_def Let_def split: sum.splits option.splits if_splits)
  then show ?thesis by (rule records_same)
next
  case (Some bis)
  then have "length bis \<le> maxBatchItems" by (auto simp: accepted_batch_def Let_def split: sum.splits if_splits)
  obtain ts h2 where q: "processBatch X bis cn ra conn h = (Done ts, h2)" using processBatch_answers by blast
  from records_processBatch[of conn bis h X cn ra] q \<open>length bis \<le> _\<close> show ?thesis
    by (auto simp: HandleRequest_accepted[OF Some] records_def intro: order_trans)
qed

lemma HandleRequest_Done: obtains out h' where "HandleRequest X msg cn ra conn h = (Done out, h')"
proof (cases "accepted_batch (lib X) msg")
  case None
  from HandleRequest_rejected[OF this, of h cn ra conn] that show thesis
    by (cases "HandleRequest X msg cn ra conn h") (auto simp: refusal_def)
next
  case (Some bis)
  from processBatch_answers[of X bis cn ra conn h] that show thesis
    by (auto simp: HandleRequest_accepted[OF Some])
qed

end
