(* ===== verification/Handler_Behaviour.thy ===== *)
theory Handler_Behaviour
  imports Step_Invariants Kmip_Replies
begin

text \<open>
  What single operations do, on every store that fulfils the contract: the replies of \<open>Get\<close> and
  of the life-cycle operations on every branch, the round trips of \<open>Encrypt\<close>/\<open>Decrypt\<close> and of
  \<open>Sign\<close>/\<open>SignatureVerify\<close>, and what \<open>Create\<close>, \<open>DeriveKey\<close>, \<open>ReKey\<close> and the attribute
  operations leave in the store.
\<close>

definition tick :: "'s hstate \<Rightarrow> 's hstate" where
  "tick h = h\<lparr>htick := Suc (htick h)\<rparr>"

lemma tick_sel [simp]:
  "hstore (tick h) = hstore h" "haudit (tick h) = haudit h" "htracker (tick h) = htracker h"
  "htick (tick h) = Suc (htick h)"
  by (simp_all add: tick_def)

definition uid_of :: "('w, 'i) kmiplib \<Rightarrow> 'i \<Rightarrow> string option" where
  "uid_of L p = map_option (StringValue L) (FindChild L p (tag_of L TagUniqueIdentifier))"

lemma need_uid_Some [simp]: "uid_of (lib X) p = Some u \<Longrightarrow> need_uid X op p h k = k u"
  by (auto simp: uid_of_def need_uid_def need_child_def)

lemma need_child_Some [simp]: "FindChild (lib X) item tag = Some c \<Longrightarrow> need_child X op item tag what h k = k c"
  by (simp add: need_child_def)

lemma need_payload_Some [simp]: "need_payload X op (Some p) h k = k p"
  by (simp add: need_payload_def)

lemma need_state_allowed [simp]: "allowed st operation \<Longrightarrow> need_state X op st operation h k = k"
  by (auto simp: need_state_def allowed_def split: prod.split)

lemma need_state_refused [simp]:
  "\<not> allowed st operation \<Longrightarrow> need_state X op st operation h k =
     failure X op ReasonIllegalOperation (fst (snd (validateStateTransition st operation))) h"
  using validateStateTransition_refused[of st operation]
  by (auto simp: need_state_def allowed_def split: prod.split)

lemma on_error_simps [simp]:
  "on_error X op reason pre (Inr v) h k = k v"
  "on_error X op reason pre (Inl e) h k = failure X op reason (pre @ e) h"
  by (simp_all add: on_error_def)

lemma reply_uid_simps [simp]:
  "reply_uid X op uid (None, h) = success X op [TextString (tag_of (lib X) TagUniqueIdentifier) uid] h"
  "reply_uid X op uid (Some e, h) = failure X op ReasonGeneralFailure e h"
  by (simp_all add: reply_uid_def)

lemma sample_tick: "sample X h = (outside X (htick h), tick h)"
  by (simp add: sample_def tick_def)

text \<open>The store call of a handler, written with \<open>tick\<close>.\<close>

lemma call_tick: "call X f h = (fst (f (outside X (htick h)) (hstore h)),
    (tick h)\<lparr>hstore := snd (f (outside X (htick h)) (hstore h))\<rparr>)"
  by (simp add: call_def tick_def case_prod_beta)

section \<open>Lookups\<close>

context storage_contract
begin

lemma need_object_live:
  assumes "stor X = S" "sinv (hstore h)" "ok (outside X (htick h))"
  shows "need_object X op uid h k =
    (case live (sabs (hstore h)) uid of
       None \<Rightarrow> failure X op ReasonItemNotFound (''object not found: '' @ uid) (tick h)
     | Some r \<Rightarrow> k r (tick h))"
  using get_complete[OF assms(2,3), of uid]
  by (simp add: need_object_def query_def assms(1) tick_def split: option.split)

lemma handleGet_spec:
  assumes "stor X = S" "sinv (hstore h)" "ok (outside X (htick h))" "uid_of (lib X) p = Some uid"
  shows "handleGet X op (Some p) h =
    (case live (sabs (hstore h)) uid of
       None \<Rightarrow> failure X op ReasonItemNotFound (''object not found: '' @ uid) (tick h)
     | Some r \<Rightarrow>
         if State r \<in> {StatePreActive, StateActive, StateDeactivated, StateCompromised}
         then success X op [Enumeration (tag_of (lib X) TagObjectType) (ObjectType r),
           TextString (tag_of (lib X) TagUniqueIdentifier) uid, object_data (lib X) r] (tick h)
         else failure X op ReasonIllegalOperation (''Get not allowed in state '' @ fmt_d (State r)) (tick h))"
proof (cases "live (sabs (hstore h)) uid")
  case None
  then show ?thesis by (simp add: handleGet_def assms(4) need_object_live[OF assms(1-3)])
next
  case (Some r)
  then have "UID r = uid" using uid_key[OF assms(2)] live_SomeD by blast
  with Some show ?thesis
    by (cases "allowed (State r) ''Get''")
      (simp_all add: handleGet_def assms(4) need_object_live[OF assms(1-3)] validateStateTransition_def)
qed

end

section \<open>Life-cycle operations\<close>

text \<open>
  The common shape of the handlers that check the life-cycle table and then change one object:
  their reply on every branch, and what they do to the vault (\<open>R\<close>) where the table allows it.
\<close>

definition change_handler ::
  "('w, 'i, 's) deps \<Rightarrow> int \<Rightarrow> 'i option \<Rightarrow> string \<Rightarrow> ('i \<Rightarrow> draw \<Rightarrow> string \<Rightarrow> 's \<Rightarrow> error option \<times> 's) \<Rightarrow>
   's hstate \<Rightarrow> 's reply" where
  "change_handler X op payload operation f h =
     need_payload X op payload h (\<lambda>p.
     need_uid X op p h (\<lambda>uid.
     need_object X op uid h (\<lambda>rec h1.
     need_state X op (State rec) operation h1 (
     reply_uid X op uid (call X (\<lambda>d. f p d uid) h1)))))"

lemma change_handlers:
  "handleActivate X op payload h = change_handler X op payload ''Activate'' (\<lambda>_. Activate (stor X)) h"
  "handleDestroy X op payload h = change_handler X op payload ''Destroy'' (\<lambda>_. Destroy (stor X)) h"
  "handleRevoke X op payload h = change_handler X op payload ''Revoke''
     (\<lambda>p d uid. Revoke (stor X) d uid (revocation_code (lib X) p)) h"
  by (simp_all add: handleActivate_def handleDestroy_def handleRevoke_def change_handler_def)

text \<open>The reply such a handler owes its client, given what the vault holds.\<close>

definition change_reply :: "('w, 'i) kmiplib \<Rightarrow> int \<Rightarrow> string \<Rightarrow> string \<Rightarrow> KeyRecord option \<Rightarrow> ttlv" where
  "change_reply L op operation uid found =
     (case found of
        None \<Rightarrow> buildBatchItemError L op ReasonItemNotFound (''object not found: '' @ uid)
      | Some r \<Rightarrow>
          if allowed (State r) operation
          then buildBatchItemSuccess L op [TextString (tag_of L TagUniqueIdentifier) uid]
          else buildBatchItemError L op ReasonIllegalOperation (fst (snd (validateStateTransition (State r) operation))))"

definition change_effect :: "string \<Rightarrow> string \<Rightarrow> (KeyRecord \<Rightarrow> KeyRecord) \<Rightarrow> vault \<Rightarrow> vault" where
  "change_effect operation uid f v =
     (case live v uid of
        None \<Rightarrow> v
      | Some r \<Rightarrow> if allowed (State r) operation then v\<lparr>objs := (objs v)(uid \<mapsto> f r)\<rparr> else v)"

context storage_contract
begin

lemma change_handler_spec:
  assumes "stor X = S" "sinv (hstore h)" "ok (outside X (htick h))" "uid_of (lib X) p = Some uid"
    and eff: "\<And>r. live (sabs (hstore h)) uid = Some r \<Longrightarrow> allowed (State r) operation \<Longrightarrow>
      \<exists>s'. f p (outside X (Suc (htick h))) uid (hstore h) = (None, s') \<and> updates uid g (sabs (hstore h)) (sabs s')"
  shows "fst (change_handler X op (Some p) operation f h) =
      Done (change_reply (lib X) op operation uid (live (sabs (hstore h)) uid)) \<and>
    sabs (hstore (snd (change_handler X op (Some p) operation f h))) =
      change_effect operation uid g (sabs (hstore h))"
proof (cases "live (sabs (hstore h)) uid")
  case None
  then show ?thesis
    by (simp add: change_handler_def assms(4) need_object_live[OF assms(1-3)] change_reply_def change_effect_def failure_def)
next
  case (Some r)
  show ?thesis
  proof (cases "allowed (State r) operation")
    case True
    from eff[OF Some True] obtain s' where
      "f p (outside X (Suc (htick h))) uid (hstore h) = (None, s')" "updates uid g (sabs (hstore h)) (sabs s')" by blast
    with Some True show ?thesis
      by (simp add: change_handler_def assms(4) need_object_live[OF assms(1-3)] change_reply_def change_effect_def
          call_tick success_def updates_def)
  next
    case False
    with Some show ?thesis
      by (simp add: change_handler_def assms(4) need_object_live[OF assms(1-3)] change_reply_def change_effect_def
          failure_def)
  qed
qed

lemma activate_effect:
  assumes "sinv s" "ok d" "live (sabs s) u = Some r"
  shows "\<exists>s'. Activate S d u s = (None, s') \<and> updates u (\<lambda>r. r\<lparr>State := StateActive\<rparr>) (sabs s) (sabs s')"
  using activate_total[OF assms] activate_ok[OF assms(1), of d u] by (cases "Activate S d u s") auto

lemma revoke_effect:
  assumes "sinv s" "ok d" "live (sabs s) u = Some r"
  shows "\<exists>s'. Revoke S d u k s = (None, s') \<and>
    updates u (\<lambda>r. r\<lparr>State := StateRevoked, RevocationReason := k\<rparr>) (sabs s) (sabs s')"
  using revoke_total[OF assms, of k] revoke_ok[OF assms(1), of d u k] by (cases "Revoke S d u k s") auto

lemma destroy_effect:
  assumes "sinv s" "ok d" "live (sabs s) u = Some r"
  shows "\<exists>m s'. Destroy S d u s = (None, s') \<and> sl m = [] \<and>
    updates u (\<lambda>r. r\<lparr>Material := m, State := StateDestroyed\<rparr>) (sabs s) (sabs s')"
  using destroy_total[OF assms] destroy_ok[OF assms(1), of d u] by (cases "Destroy S d u s") auto

end

section \<open>Encryption and signatures\<close>

text \<open>The payload of a request that hands the children of an earlier reply back to the server.\<close>

definition bytes_of :: "('w, 'i) kmiplib \<Rightarrow> 'i \<Rightarrow> int \<Rightarrow> bytes option" where
  "bytes_of L p g = map_option (\<lambda>c. sl (BytesValue L c)) (FindChild L p g)"

lemma bytes_of_Some: "bytes_of L p g = Some b \<longleftrightarrow> (\<exists>c. FindChild L p g = Some c \<and> sl (BytesValue L c) = b)"
  by (auto simp: bytes_of_def)

lemma fresh_nonce_length: "draw_ok d \<Longrightarrow> length (fresh_nonce d n) = n"
  by (auto simp: fresh_nonce_def draw_ok_def split: sum.split)

context storage_contract
begin

lemma handleEncrypt_ok:
  assumes "stor X = S" "sinv (hstore h)" "ok (outside X (htick h))" "uid_of (lib X) p = Some uid"
    and "bytes_of (lib X) p TagData = Some plain" "live (sabs (hstore h)) uid = Some r"
    and "State r = StateActive" "ObjectType r = code (lib X) ObjectTypeSymmetricKey"
    and "length (sl (Material r)) \<in> {16, 24, 32}"
  shows "handleEncrypt X op (Some p) h = success X op
    [TextString (tag_of (lib X) TagUniqueIdentifier) uid,
     ByteString TagData (Some (gcm_Seal (cry X) (sl (Material r))
       (fresh_nonce (outside X (Suc (htick h))) gcm_NonceSize) plain)),
     ByteString TagIVCounterNonce (Some (fresh_nonce (outside X (Suc (htick h))) gcm_NonceSize))] (tick (tick h))"
  using assms(5-9) uid_key[OF assms(2)] live_SomeD[OF assms(6)]
  by (auto simp: handleEncrypt_def assms(4) need_object_live[OF assms(1-3)] bytes_of_Some aes_NewCipher_def Let_def
      cipher_NewGCM_def sample_tick)

lemma handleDecrypt_ok:
  assumes "stor X = S" "sinv (hstore h)" "ok (outside X (htick h))" "uid_of (lib X) p = Some uid"
    and "bytes_of (lib X) p TagData = Some ct" "bytes_of (lib X) p TagIVCounterNonce = Some nonce"
    and "live (sabs (hstore h)) uid = Some r"
    and "State r = StateActive" "ObjectType r = code (lib X) ObjectTypeSymmetricKey"
    and "length (sl (Material r)) \<in> {16, 24, 32}"
    and "gcm_Open (cry X) (sl (Material r)) nonce ct = Done (Inr plain)"
  shows "handleDecrypt X op (Some p) h = success X op
    [TextString (tag_of (lib X) TagUniqueIdentifier) uid, ByteString TagData (Some plain)] (tick h)"
proof -
  have "length nonce = gcm_NonceSize" using gcm_Open_Done_iff assms(11) by blast
  with assms(5-11) uid_key[OF assms(2)] live_SomeD[OF assms(7)] show ?thesis
    by (auto simp: handleDecrypt_def assms(4) need_object_live[OF assms(1-3)] bytes_of_Some aes_NewCipher_def Let_def
        cipher_NewGCM_def)
qed

lemma handleSign_ok:
  assumes "stor X = S" "sinv (hstore h)" "ok (outside X (htick h))" "uid_of (lib X) p = Some uid"
    and "bytes_of (lib X) p TagData = Some text" "live (sabs (hstore h)) uid = Some r"
    and "State r = StateActive" "ObjectType r = code (lib X) ObjectTypePrivateKey"
    and "ParsePKCS8PrivateKey (cry X) (sl (Material r)) = Inr k"
    and "sign_with (cry X) (outside X (Suc (htick h))) k (sha256_Sum256 (cry X) text) = Some (Inr sig)"
  shows "handleSign X op (Some p) h = success X op
    [TextString (tag_of (lib X) TagUniqueIdentifier) uid, ByteString TagSignatureData (Some sig)] (tick (tick h))"
  using assms(5-10) uid_key[OF assms(2)] live_SomeD[OF assms(6)]
  by (auto simp: handleSign_def assms(4) need_object_live[OF assms(1-3)] bytes_of_Some sample_tick)

lemma handleSignatureVerify_ok:
  assumes "stor X = S" "sinv (hstore h)" "ok (outside X (htick h))" "uid_of (lib X) p = Some uid"
    and "bytes_of (lib X) p TagData = Some text" "bytes_of (lib X) p TagSignatureData = Some sig"
    and "live (sabs (hstore h)) uid = Some r"
    and "State r = StateActive" "ObjectType r = code (lib X) ObjectTypePublicKey"
    and "ParsePKIXPublicKey (cry X) (sl (Material r)) = Inr k"
    and "verify_with (cry X) k (sha256_Sum256 (cry X) text) sig = Some good"
  shows "handleSignatureVerify X op (Some p) h = success X op
    [TextString (tag_of (lib X) TagUniqueIdentifier) uid, Enumeration TagValidityIndicator (if good then 0 else 1)] (tick h)"
  using assms(5-11) uid_key[OF assms(2)] live_SomeD[OF assms(7)]
  by (auto simp: handleSignatureVerify_def assms(4) need_object_live[OF assms(1-3)] bytes_of_Some)

end

text \<open>The public half of a key pair, and that its signatures verify.\<close>

fun public_half :: "crypto \<Rightarrow> privkey \<Rightarrow> pubkey option" where
  "public_half C (PrivRSA k) = Some (PubRSA (rsa_PublicKey C k))"
| "public_half C (PrivECDSA k) = Some (PubECDSA (ecdsa_PublicKey C k))"
| "public_half C (PrivOther k) = None"

lemma sign_verify:
  "sigs_ok C \<Longrightarrow> sign_with C d k hash = Some (Inr sig) \<Longrightarrow> public_half C k = Some pk \<Longrightarrow>
   verify_with C pk hash sig = Some True"
  by (cases k) (auto simp: sign_with_def verify_with_def sigs_ok_def)

section \<open>Refusals\<close>

lemma refused_child:
  "(\<And>c. refused X op h (k c)) \<Longrightarrow> refused X op h (need_child X op item tag what h k)"
  by (simp add: need_child_def refused_failure split: option.split)

lemma refused_uid:
  "(\<And>u. uid_of (lib X) p = Some u \<Longrightarrow> refused X op h (k u)) \<Longrightarrow> refused X op h (need_uid X op p h k)"
  by (auto simp: need_uid_def need_child_def uid_of_def refused_failure split: option.split)

lemma refused_state:
  "\<not> allowed st operation \<Longrightarrow> hstore h' = hstore h \<Longrightarrow> refused X op h (need_state X op st operation h' k)"
  by (simp add: refused_failure)

context storage_contract
begin

lemma refused_object:
  assumes "stor X = S" "sinv (hstore h)"
    and "\<And>r. live (sabs (hstore h)) uid = Some r \<Longrightarrow> refused X op h (k r (tick h))"
  shows "refused X op h (need_object X op uid h k)"
  using assms(3) get_sound[OF assms(2)]
  by (auto simp: need_object_def query_def assms(1) tick_def refused_failure split: option.split)

text \<open>The operations that use key material are refused unless the object is active.\<close>

lemma crypto_refused:
  assumes "stor X = S" "sinv (hstore h)" "uid_of (lib X) p = Some uid"
    and "\<And>r. live (sabs (hstore h)) uid = Some r \<Longrightarrow> State r \<noteq> StateActive"
  shows "refused X op h (handleEncrypt X op (Some p) h)" "refused X op h (handleDecrypt X op (Some p) h)"
    "refused X op h (handleSign X op (Some p) h)" "refused X op h (handleSignatureVerify X op (Some p) h)"
    "refused X op h (handleMAC X op (Some p) h)" "refused X op h (handleReKey X op (Some p) h)"
  unfolding handleEncrypt_def handleDecrypt_def handleSign_def handleSignatureVerify_def handleMAC_def
    handleReKey_def need_payload_Some Let_def
  by (intro refused_uid refused_child refused_object[OF assms(1,2)] refused_state; use assms(3,4) in simp)+

end

section \<open>New objects\<close>

text \<open>The template of a \<open>Create\<close> request, with the defaults of the handler.\<close>

definition create_template :: "('w, 'i) kmiplib \<Rightarrow> 'i \<Rightarrow> tmpl" where
  "create_template L p = tmpl_loop L (create_body L) p
     \<lparr>t_name = '''', t_algorithm = code L AlgorithmAES, t_length = 256,
      t_usageMask = code L UsageMaskEncrypt OR code L UsageMaskDecrypt\<rparr>"

definition derive_template :: "('w, 'i) kmiplib \<Rightarrow> 'i \<Rightarrow> tmpl" where
  "derive_template L p = tmpl_loop L (derive_body L) p
     \<lparr>t_name = '''', t_algorithm = 0, t_length = 256, t_usageMask = 0\<rparr>"

context storage_contract
begin

lemma handleCreate_spec:
  assumes "stor X = S" "sinv (hstore h)" "ok (outside X (htick h))"
    and "objs (sabs (hstore h)) (d_uuid (outside X (htick h))) = None"
    and "d_rand (outside X (htick h)) (key_size (t_length (create_template (lib X) p))) = Inr b"
    and "valid_length (t_length (create_template (lib X) p))"
  obtains h' rec where "handleCreate X op (Some p) cn h = success X op
      [Enumeration (tag_of (lib X) TagObjectType) 2, TextString (tag_of (lib X) TagUniqueIdentifier) (UID rec)] h'"
    "rec = new_key (outside X (htick h)) (t_name (create_template (lib X) p)) (t_algorithm (create_template (lib X) p))
       (t_length (create_template (lib X) p)) (t_usageMask (create_template (lib X) p)) cn b"
    "adds rec (sabs (hstore h)) (sabs (hstore h'))"
proof -
  let ?t = "create_template (lib X) p" and ?d = "outside X (htick h)"
  let ?c = "Create S ?d (t_name ?t) (t_algorithm ?t) (t_length ?t) (t_usageMask ?t) cn (hstore h)"
  obtain rec s' where c: "?c = (Inr rec, s')"
    using create_total[OF assms(2,3,4,6,5)] by (metis prod.collapse)
  from create_ok[OF assms(2) c] assms(5) have r: "adds rec (sabs (hstore h)) (sabs s')"
    "rec = new_key ?d (t_name ?t) (t_algorithm ?t) (t_length ?t) (t_usageMask ?t) cn b" by auto
  show thesis
  proof (rule that[OF _ r(2)])
    show "adds rec (sabs (hstore h)) (sabs (hstore ((tick h)\<lparr>hstore := s'\<rparr>)))" using r(1) by simp
    show "handleCreate X op (Some p) cn h = success X op
      [Enumeration (tag_of (lib X) TagObjectType) 2, TextString (tag_of (lib X) TagUniqueIdentifier) (UID rec)]
      ((tick h)\<lparr>hstore := s'\<rparr>)"
      using c by (simp add: handleCreate_def Let_def create_template_def[symmetric] call_tick assms(1)) (simp add: r(2))
  qed
qed

lemma handleCreate_bad_length:
  assumes "stor X = S" "sinv (hstore h)" "\<not> valid_length (t_length (create_template (lib X) p))"
  shows "\<exists>message h'. handleCreate X op (Some p) cn h = failure X op ReasonGeneralFailure message h' \<and>
    sabs (hstore h') = sabs (hstore h)"
proof -
  let ?t = "create_template (lib X) p" and ?d = "outside X (htick h)"
  obtain r s' where c: "Create S ?d (t_name ?t) (t_algorithm ?t) (t_length ?t) (t_usageMask ?t) cn (hstore h) = (r, s')"
    by fastforce
  then obtain e where "r = Inl e" using create_ok[OF assms(2)] assms(3) by (cases r) blast+
  with c create_err[OF assms(2) c[unfolded \<open>r = Inl e\<close>]] show ?thesis
    by (intro exI[of _ e] exI[of _ "(tick h)\<lparr>hstore := s'\<rparr>"])
      (simp add: handleCreate_def Let_def create_template_def[symmetric] call_tick assms(1))
qed

end

text \<open>
  A reply of \<open>DeriveKey\<close> or \<open>ReKey\<close> is a success item only where the store did the work. An item
  is told apart by its shape: a success item has no result reason.
\<close>

lemma success_tree_not_error [simp]:
  "buildBatchItemSuccess L op kids \<noteq> buildBatchItemError L op' reason message"
  by (simp add: buildBatchItemSuccess_def buildBatchItemError_def Let_def)

lemma success_not_failure: "success X op kids h \<noteq> failure X op' reason message h'"
  by (simp add: success_def failure_def)

lemma success_state: "success X op kids h = success X op kids' h' \<Longrightarrow> h = h'"
  by (simp add: success_def)

lemmas success_failure [simp] = success_not_failure success_not_failure[symmetric]

context storage_contract
begin

lemma handleDeriveKey_success:
  assumes "stor X = S" "sinv (hstore h)" "uid_of (lib X) p = Some uid"
    and "handleDeriveKey X op (Some p) h = success X op kids h'"
  shows "\<exists>src b rec. live (sabs (hstore h)) uid = Some src \<and>
    derive_size (t_length (derive_template (lib X) p)) \<le> MaxDerivedKeyBytes \<and>
    H (Material src) (derivation_data (lib X) p) ''kmip-derive'' (nat (derive_size (t_length (derive_template (lib X) p)))) = Inr b \<and>
    rec = new_key (outside X (htick h)) (t_name (derive_template (lib X) p)) (Algorithm src)
      (t_length (derive_template (lib X) p)) (UsageMask src) (Owner src) b \<and>
    adds rec (sabs (hstore h)) (sabs (hstore h'))"
proof -
  let ?t = "derive_template (lib X) p" and ?d = "outside X (htick h)"
  obtain r s' where c: "DeriveKey S ?d uid (derivation_data (lib X) p) (t_name ?t) (t_length ?t) (hstore h) = (r, s')"
    by fastforce
  have e: "handleDeriveKey X op (Some p) h = on_error X op ReasonGeneralFailure '''' r ((tick h)\<lparr>hstore := s'\<rparr>) (\<lambda>rec.
      success X op [TextString (tag_of (lib X) TagUniqueIdentifier) (UID rec)] ((tick h)\<lparr>hstore := s'\<rparr>))"
    using c by (simp add: handleDeriveKey_def Let_def derive_template_def[symmetric] assms(1,3) call_tick)
  then obtain rec where "r = Inr rec" "h' = (tick h)\<lparr>hstore := s'\<rparr>"
    using assms(4) by (cases r) (auto dest: success_state)
  with derive_ok[OF assms(2), of ?d uid] c show ?thesis by fastforce
qed

lemma handleReKey_success:
  assumes "stor X = S" "sinv (hstore h)" "uid_of (lib X) p = Some uid"
    and "handleReKey X op (Some p) h = success X op kids h'"
  shows "\<exists>r b. live (sabs (hstore h)) uid = Some r \<and> State r = StateActive \<and> valid_length (Length r) \<and>
    d_rand (outside X (Suc (htick h))) (key_size (Length r)) = Inr b \<and>
    puts uid (r\<lparr>Material := Some b, Version := int64 (Version r + 1)\<rparr>) (sabs (hstore h)) (sabs (hstore h'))"
proof -
  let ?d = "outside X (Suc (htick h))"
  obtain r where g: "Get S (outside X (htick h)) uid (hstore h) = Some r"
    using assms(4)
    by (cases "Get S (outside X (htick h)) uid (hstore h)")
      (auto simp: handleReKey_def assms(1,3) need_object_def query_def)
  then have l: "live (sabs (hstore h)) uid = Some r" by (rule get_sound[OF assms(2)])
  obtain q s' where c: "Rekey S ?d uid (hstore h) = (q, s')" by fastforce
  have a: "State r = StateActive"
  proof (rule ccontr)
    assume "State r \<noteq> StateActive"
    then have "refused X op h (handleReKey X op (Some p) h)"
      using crypto_refused(6)[OF assms(1-3)] l by simp
    then show False
      using assms(4) by (auto simp: refused_def failure_def prod_eq_iff success_def)
  qed
  have "handleReKey X op (Some p) h = on_error X op ReasonGeneralFailure '''' q ((tick (tick h))\<lparr>hstore := s'\<rparr>) (\<lambda>rec'.
      success X op [TextString (tag_of (lib X) TagUniqueIdentifier) (UID rec')] ((tick (tick h))\<lparr>hstore := s'\<rparr>))"
    using c a g by (simp add: handleReKey_def Let_def assms(1,3) need_object_def query_def tick_def[of h, symmetric] call_tick)
  then obtain rec where "q = Inr rec" "h' = (tick (tick h))\<lparr>hstore := s'\<rparr>"
    using assms(4) by (cases q) (auto dest: success_state)
  with rekey_ok[OF assms(2), of ?d uid rec s'] c l a show ?thesis by fastforce
qed

end

end
