(* ===== verification/Encodings.thy ===== *)
theory Encodings
  imports Prelude
begin

text \<open>
  The text encodings the REST API uses: \<open>encoding/base64\<close> (the standard alphabet with padding),
  \<open>encoding/hex\<close>, \<open>strconv.Atoi\<close>, and the case mappings of \<open>strings\<close>, as the standard library
  documents them, with their round trips.
\<close>

section \<open>Hexadecimal\<close>

definition hex_digit :: "nat \<Rightarrow> char" where
  "hex_digit n = (if n < 10 then char_of (48 + n) else char_of (87 + n))"

definition hex_EncodeToString :: "bytes \<Rightarrow> string" where
  "hex_EncodeToString b = concat (map (\<lambda>x. [hex_digit (unat x div 16), hex_digit (unat x mod 16)]) b)"

definition hex_value :: "char \<Rightarrow> nat option" where
  "hex_value c = (let n = (of_char c :: nat) in
     if 48 \<le> n \<and> n \<le> 57 then Some (n - 48)
     else if 97 \<le> n \<and> n \<le> 102 then Some (n - 87)
     else if 65 \<le> n \<and> n \<le> 70 then Some (n - 55) else None)"

fun hex_DecodeString :: "string \<Rightarrow> bytes option" where
  "hex_DecodeString [] = Some []"
| "hex_DecodeString [_] = None"
| "hex_DecodeString (a # b # s) =
     (case (hex_value a, hex_value b, hex_DecodeString s) of
        (Some x, Some y, Some r) \<Rightarrow> Some (of_nat (16 * x + y) # r)
      | _ \<Rightarrow> None)"

section \<open>Base64\<close>

definition b64_char :: "nat \<Rightarrow> char" where
  "b64_char n = (if n < 26 then char_of (65 + n) else if n < 52 then char_of (71 + n)
     else if n < 62 then char_of (n - 4) else if n = 62 then CHR ''+'' else CHR ''/'')"

definition b64_value :: "char \<Rightarrow> nat option" where
  "b64_value c = (let n = (of_char c :: nat) in
     if 65 \<le> n \<and> n \<le> 90 then Some (n - 65)
     else if 97 \<le> n \<and> n \<le> 122 then Some (n - 71)
     else if 48 \<le> n \<and> n \<le> 57 then Some (n + 4)
     else if n = 43 then Some 62 else if n = 47 then Some 63 else None)"

text \<open>Three bytes and four digits, as numbers of 24 bits.\<close>

definition quantum :: "8 word \<Rightarrow> 8 word \<Rightarrow> 8 word \<Rightarrow> nat" where
  "quantum a b c = unat a * 65536 + unat b * 256 + unat c"

definition digits4 :: "nat \<Rightarrow> char \<times> char \<times> char \<times> char" where
  "digits4 n = (b64_char (n div 262144), b64_char (n div 4096 mod 64), b64_char (n div 64 mod 64), b64_char (n mod 64))"

fun base64_EncodeToString :: "bytes \<Rightarrow> string" where
  "base64_EncodeToString [] = []"
| "base64_EncodeToString [a] = (case digits4 (quantum a 0 0) of (w, x, _, _) \<Rightarrow> [w, x, CHR ''='', CHR ''=''])"
| "base64_EncodeToString [a, b] = (case digits4 (quantum a b 0) of (w, x, y, _) \<Rightarrow> [w, x, y, CHR ''=''])"
| "base64_EncodeToString (a # b # c # s) =
     (case digits4 (quantum a b c) of (w, x, y, z) \<Rightarrow> w # x # y # z # base64_EncodeToString s)"

definition value4 :: "char \<Rightarrow> char \<Rightarrow> char \<Rightarrow> char \<Rightarrow> nat option" where
  "value4 w x y z = (case (b64_value w, b64_value x, b64_value y, b64_value z) of
     (Some i, Some j, Some k, Some l) \<Rightarrow> Some (i * 262144 + j * 4096 + k * 64 + l) | _ \<Rightarrow> None)"

fun b64_quanta :: "string \<Rightarrow> bytes option" where
  "b64_quanta [] = Some []"
| "b64_quanta (w # x # y # z # s) =
     (if y = CHR ''='' \<and> z = CHR ''='' \<and> s = [] then
        map_option (\<lambda>n. [of_nat (n div 65536)]) (value4 w x CHR ''A'' CHR ''A'')
      else if z = CHR ''='' \<and> s = [] then
        map_option (\<lambda>n. [of_nat (n div 65536), of_nat (n div 256)]) (value4 w x y CHR ''A'')
      else
        (case (value4 w x y z, b64_quanta s) of
           (Some n, Some r) \<Rightarrow> Some (of_nat (n div 65536) # of_nat (n div 256) # of_nat n # r)
         | _ \<Rightarrow> None))"
| "b64_quanta _ = None"

text \<open>Line breaks are ignored wherever they stand; the bits a padded group has too many are ignored too.\<close>

definition base64_DecodeString :: "string \<Rightarrow> bytes option" where
  "base64_DecodeString s = b64_quanta (filter (\<lambda>c. c \<noteq> char_of (10 :: nat) \<and> c \<noteq> char_of (13 :: nat)) s)"

section \<open>Numbers and letters\<close>

definition digit_value :: "char \<Rightarrow> nat option" where
  "digit_value c = (let n = (of_char c :: nat) in if 48 \<le> n \<and> n \<le> 57 then Some (n - 48) else None)"

fun decimal :: "nat \<Rightarrow> string \<Rightarrow> nat option" where
  "decimal acc [] = Some acc"
| "decimal acc (c # s) = (case digit_value c of None \<Rightarrow> None | Some v \<Rightarrow> decimal (10 * acc + v) s)"

definition Atoi :: "string \<Rightarrow> int option" where
  "Atoi s =
     (let (neg, ds) = (case s of [] \<Rightarrow> (False, []) | c # t \<Rightarrow>
            if c = CHR ''-'' then (True, t) else if c = CHR ''+'' then (False, t) else (False, s))
      in if ds = [] then None
         else case decimal 0 ds of
           None \<Rightarrow> None
         | Some n \<Rightarrow> let v = (if neg then - int n else int n) in if - (2 ^ 63) \<le> v \<and> v < 2 ^ 63 then Some v else None)"

definition upper :: "char \<Rightarrow> char" where
  "upper c = (if 97 \<le> (of_char c :: nat) \<and> (of_char c :: nat) \<le> 122 then char_of (of_char c - 32 :: nat) else c)"

definition lower :: "char \<Rightarrow> char" where
  "lower c = (if 65 \<le> (of_char c :: nat) \<and> (of_char c :: nat) \<le> 90 then char_of (of_char c + 32 :: nat) else c)"

text \<open>
  \<open>strings.ToLower\<close> and \<open>strings.ToUpper\<close>, as far as the result is compared with words of ASCII
  letters other than \<open>i\<close> and \<open>k\<close> (lower case): only the letters of ASCII map to these, and to upper
  case also the two letters U+017F and U+0131.
\<close>

definition ToLower :: "string \<Rightarrow> string" where
  "ToLower s = map lower s"

fun ToUpper :: "string \<Rightarrow> string" where
  "ToUpper [] = []"
| "ToUpper [a] = [upper a]"
| "ToUpper (a # b # s) =
     (if a = char_of (197 :: nat) \<and> b = char_of (191 :: nat) then CHR ''S'' # ToUpper s
      else if a = char_of (196 :: nat) \<and> b = char_of (177 :: nat) then CHR ''I'' # ToUpper s
      else upper a # ToUpper (b # s))"

section \<open>Round trips\<close>

lemma hex_value_digit: "n < 16 \<Longrightarrow> hex_value (hex_digit n) = Some n"
  by (simp add: hex_value_def hex_digit_def Let_def take_bit_nat_eq_self)

lemma unat8: "unat (x :: 8 word) < 256"
  using unsigned_less[of x, where 'a = nat] by simp

theorem hex_round_trip: "hex_DecodeString (hex_EncodeToString b) = Some b"
proof (induction b)
  case (Cons x b)
  have "unat x div 16 < 16" using unat8[of x] by (simp add: less_mult_imp_div_less)
  moreover have "16 * (unat x div 16) + unat x mod 16 = unat x" by simp
  ultimately show ?case using Cons by (simp add: hex_EncodeToString_def hex_value_digit)
qed (simp add: hex_EncodeToString_def)

lemma hex_EncodeToString_inj: "hex_EncodeToString a = hex_EncodeToString b \<longleftrightarrow> a = b"
  by (metis hex_round_trip option.inject)

lemma b64_value_char: "n < 64 \<Longrightarrow> b64_value (b64_char n) = Some n"
  by (simp add: b64_value_def b64_char_def Let_def take_bit_nat_eq_self) arith

lemma b64_char_plain:
  assumes "n < 64"
  shows "b64_char n \<noteq> CHR ''=''" "b64_char n \<noteq> char_of (10 :: nat)" "b64_char n \<noteq> char_of (13 :: nat)"
proof -
  have "b64_value CHR ''='' = None" "b64_value (char_of (10 :: nat)) = None" "b64_value (char_of (13 :: nat)) = None"
    by (simp_all add: b64_value_def)
  with b64_value_char[OF assms] show "b64_char n \<noteq> CHR ''=''" "b64_char n \<noteq> char_of (10 :: nat)" "b64_char n \<noteq> char_of (13 :: nat)"
    by auto
qed

lemma split_24:
  assumes "n < (16777216 :: nat)"
  shows "n div 262144 < 64" "n div 262144 * 262144 + n div 4096 mod 64 * 4096 + n div 64 mod 64 * 64 + n mod 64 = n"
proof -
  show "n div 262144 < 64" using assms by (simp add: less_mult_imp_div_less)
  have a: "n div 64 = 64 * (n div 4096) + n div 64 mod 64" using div_mult_mod_eq[of "n div 64" 64] by (simp add: div_mult2_eq[symmetric])
  have b: "n div 4096 = 64 * (n div 262144) + n div 4096 mod 64" using div_mult_mod_eq[of "n div 4096" 64] by (simp add: div_mult2_eq[symmetric])
  have c: "n = 64 * (n div 64) + n mod 64" by simp
  show "n div 262144 * 262144 + n div 4096 mod 64 * 4096 + n div 64 mod 64 * 64 + n mod 64 = n"
    using a b c by linarith
qed

lemma quantum_bytes:
  "quantum a b c < 16777216" "quantum a b c div 65536 = unat a"
  "of_nat (quantum a b c div 256) = b" "of_nat (quantum a b c) = c"
proof -
  note u = unat8[of a] unat8[of b] unat8[of c]
  show "quantum a b c < 16777216" using u by (simp add: quantum_def)
  show "quantum a b c div 65536 = unat a" using u by (simp add: quantum_def)
  have d: "quantum a b c div 256 = unat a * 256 + unat b" using u by (simp add: quantum_def)
  have z: "(256 :: 8 word) = 0" "(65536 :: 8 word) = 0" by simp_all
  show "of_nat (quantum a b c div 256) = b" unfolding d by (simp add: z)
  show "of_nat (quantum a b c) = c" by (simp add: quantum_def z)
qed
text \<open>The digits of a 24-bit number read back, with the last ones replaced by padding where they are zero.\<close>

lemma value4_digits:
  assumes "n < 16777216" "digits4 n = (w, x, y, z)"
  shows "value4 w x y z = Some n" "n mod 64 = 0 \<Longrightarrow> value4 w x y CHR ''A'' = Some n"
    "n mod 4096 = 0 \<Longrightarrow> value4 w x CHR ''A'' CHR ''A'' = Some n"
proof -
  note s = split_24[OF assms(1)]
  have A: "b64_value CHR ''A'' = Some 0" by (simp add: b64_value_def)
  have d: "w = b64_char (n div 262144)" "x = b64_char (n div 4096 mod 64)" "y = b64_char (n div 64 mod 64)" "z = b64_char (n mod 64)"
    using assms(2) by (simp_all add: digits4_def)
  have v: "b64_value w = Some (n div 262144)" "b64_value x = Some (n div 4096 mod 64)"
    "b64_value y = Some (n div 64 mod 64)" "b64_value z = Some (n mod 64)"
    unfolding d using s(1) by (simp_all add: b64_value_char)
  show "value4 w x y z = Some n" using s(2) by (simp add: value4_def v)
  show "n mod 64 = 0 \<Longrightarrow> value4 w x y CHR ''A'' = Some n" using s(2) by (simp add: value4_def v A)
  assume m: "n mod 4096 = 0"
  then have "n mod 64 = 0" using mod_mod_cancel[of 64 4096 n] by simp
  moreover from m have "n div 64 mod 64 = 0" using mod_mult2_eq[of n 64 64] by simp
  ultimately show "value4 w x CHR ''A'' CHR ''A'' = Some n" using s(2) by (simp add: value4_def v A)
qed

lemma digits4_plain:
  assumes "n < 16777216" "digits4 n = (w, x, y, z)" "c \<in> {w, x, y, z}"
  shows "c \<noteq> CHR ''=''" "c \<noteq> char_of (10 :: nat)" "c \<noteq> char_of (13 :: nat)"
proof -
  have "i mod 64 < 64" for i :: nat by simp
  with assms(2,3) split_24(1)[OF assms(1)] obtain k where "k < 64" "c = b64_char k"
    unfolding digits4_def by blast
  with b64_char_plain[of k] show "c \<noteq> CHR ''=''" "c \<noteq> char_of (10 :: nat)" "c \<noteq> char_of (13 :: nat)" by simp_all
qed

lemma pad_plain: "CHR ''='' \<noteq> char_of (10 :: nat)" "CHR ''='' \<noteq> char_of (13 :: nat)"
  by code_simp+

lemma quanta_round_trip: "b64_quanta (base64_EncodeToString b) = Some b"
proof (induction b rule: base64_EncodeToString.induct)
  case (2 a)
  obtain w x y z where d: "digits4 (quantum a 0 0) = (w, x, y, z)" by (metis prod_cases4)
  have "quantum a 0 0 mod 4096 = 0" using mod_mult_self1_is_0 by (simp add: quantum_def mod_mult_left_eq)
  from value4_digits(3)[OF quantum_bytes(1) d this] d show ?case by (simp add: quantum_bytes(2))
next
  case (3 a b)
  obtain w x y z where d: "digits4 (quantum a b 0) = (w, x, y, z)" by (metis prod_cases4)
  have "quantum a b 0 mod 64 = 0" by (simp add: quantum_def mod_add_eq[symmetric])
  from value4_digits(2)[OF quantum_bytes(1) d this] digits4_plain(1)[OF quantum_bytes(1) d] d show ?case
    by (simp add: quantum_bytes)
next
  case (4 a b c s)
  obtain w x y z where d: "digits4 (quantum a b c) = (w, x, y, z)" by (metis prod_cases4)
  from value4_digits(1)[OF quantum_bytes(1) d] digits4_plain(1)[OF quantum_bytes(1) d] d 4 show ?case
    by (simp add: quantum_bytes)
qed simp

lemma base64_no_breaks:
  "filter (\<lambda>c. c \<noteq> char_of (10 :: nat) \<and> c \<noteq> char_of (13 :: nat)) (base64_EncodeToString b) = base64_EncodeToString b"
proof (induction b rule: base64_EncodeToString.induct)
  case (2 a)
  obtain w x y z where d: "digits4 (quantum a 0 0) = (w, x, y, z)" by (metis prod_cases4)
  with digits4_plain(2,3)[OF quantum_bytes(1) d] pad_plain show ?case by simp
next
  case (3 a b)
  obtain w x y z where d: "digits4 (quantum a b 0) = (w, x, y, z)" by (metis prod_cases4)
  with digits4_plain(2,3)[OF quantum_bytes(1) d] pad_plain show ?case by simp
next
  case (4 a b c s)
  obtain w x y z where d: "digits4 (quantum a b c) = (w, x, y, z)" by (metis prod_cases4)
  with digits4_plain(2,3)[OF quantum_bytes(1) d] 4 show ?case by simp
qed simp

theorem base64_round_trip: "base64_DecodeString (base64_EncodeToString b) = Some b"
  by (simp only: base64_DecodeString_def base64_no_breaks quanta_round_trip)

end
