(* ===== verification/Http.thy ===== *)
theory Http
  imports Encodings
begin

text \<open>
  The part of \<open>net/http\<close>, \<open>encoding/json\<close> and \<open>strings\<close> that the REST API
  and the dashboard authentication use. A request is what the handlers read of \<open>*http.Request\<close>; its
  path is cut into its unescaped segments, its body carries the JSON value the decoder finds at its
  beginning (\<open>None\<close> where there is none), the number of bytes read until that value ends, and the
  bytes themselves (or the error of reading them). A response is what a handler writes: the status, the
  headers, the cookies and the body. Strings are Go's: sequences of bytes in UTF-8.
\<close>

section \<open>JSON values\<close>

datatype json = JNull | JBool bool | JNumber int | JFraction string | JString string
  | JArray "json list" | JObject "(string \<times> json) list"

text \<open>
  The case folding of \<open>encoding/json\<close> when it looks for the field of a struct: letters of ASCII, and
  the two other characters (U+017F, U+212A) that fold to one.
\<close>

fun foldName :: "string \<Rightarrow> string" where
  "foldName (a # b # c # s) =
     (if a = char_of (197 :: nat) \<and> b = char_of (191 :: nat) then CHR ''S'' # foldName (c # s)
      else if a = char_of (226 :: nat) \<and> b = char_of (132 :: nat) \<and> c = char_of (170 :: nat) then CHR ''K'' # foldName s
      else upper a # foldName (b # c # s))"
| "foldName [a, b] = (if a = char_of (197 :: nat) \<and> b = char_of (191 :: nat) then ''S'' else [upper a, upper b])"
| "foldName [a] = [upper a]"
| "foldName [] = []"

text \<open>
  The types of the fields the request structs have, and what decoding stores in one. A value of
  another type is an error that \<open>Decode\<close> reports after it has gone through the whole object;
  \<open>null\<close> leaves the field alone. A struct is the association list of its fields.
\<close>

datatype field = FString string | FInt32 i32 | FInt int

fun set_field :: "field \<Rightarrow> json \<Rightarrow> field option" where
  "set_field f JNull = Some f"
| "set_field (FString _) (JString s) = Some (FString s)"
| "set_field (FInt32 _) (JNumber n) = (if - (2 ^ 31) \<le> n \<and> n < 2 ^ 31 then Some (FInt32 (word_of_int n)) else None)"
| "set_field (FInt _) (JNumber n) = (if - (2 ^ 63) \<le> n \<and> n < 2 ^ 63 then Some (FInt n) else None)"
| "set_field _ _ = None"

text \<open>The field a key of the object names: an exact match, or else the first one equal under folding.\<close>

definition field_for :: "(string \<times> field) list \<Rightarrow> string \<Rightarrow> string option" where
  "field_for st k = (if k \<in> fst ` set st then Some k
     else map_option fst (find (\<lambda>(n, _). foldName n = foldName k) st))"

fun decode_members :: "(string \<times> json) list \<Rightarrow> (string \<times> field) list \<Rightarrow> bool \<Rightarrow> (string \<times> field) list \<times> bool" where
  "decode_members [] st err = (st, err)"
| "decode_members ((k, v) # kvs) st err =
     (case field_for st k of
        None \<Rightarrow> decode_members kvs st err
      | Some n \<Rightarrow>
          (case set_field (the (map_of st n)) v of
             None \<Rightarrow> decode_members kvs st True
           | Some f \<Rightarrow> decode_members kvs (AList.update n f st) err))"

text \<open>\<open>json.NewDecoder(r.Body).Decode(&req)\<close>: the filled struct, or \<open>None\<close> for an error.\<close>

definition Decode :: "json option \<Rightarrow> (string \<times> field) list \<Rightarrow> (string \<times> field) list option" where
  "Decode body st =
     (case body of
        None \<Rightarrow> None
      | Some (JObject kvs) \<Rightarrow> (case decode_members kvs st False of (st', err) \<Rightarrow> if err then None else Some st')
      | Some JNull \<Rightarrow> Some st
      | Some _ \<Rightarrow> None)"

definition str_field :: "(string \<times> field) list \<Rightarrow> string \<Rightarrow> string" where
  "str_field st n = (case map_of st n of Some (FString s) \<Rightarrow> s | _ \<Rightarrow> '''')"

definition int32_field :: "(string \<times> field) list \<Rightarrow> string \<Rightarrow> i32" where
  "int32_field st n = (case map_of st n of Some (FInt32 i) \<Rightarrow> i | _ \<Rightarrow> 0)"

definition int_field :: "(string \<times> field) list \<Rightarrow> string \<Rightarrow> int" where
  "int_field st n = (case map_of st n of Some (FInt i) \<Rightarrow> i | _ \<Rightarrow> 0)"

section \<open>Strings\<close>

definition HasPrefix :: "string \<Rightarrow> string \<Rightarrow> bool" where
  "HasPrefix s p \<longleftrightarrow> take (length p) s = p"

definition TrimPrefix :: "string \<Rightarrow> string \<Rightarrow> string" where
  "TrimPrefix s p = (if HasPrefix s p then drop (length p) s else s)"

text \<open>\<open>addr[:strings.LastIndex(addr, c)]\<close> where the byte \<open>c\<close> occurs, else the whole string.\<close>

definition before_last :: "char \<Rightarrow> string \<Rightarrow> string" where
  "before_last c s = (if c \<in> set s then rev (tl (dropWhile (\<lambda>x. x \<noteq> c) (rev s))) else s)"

definition ConstantTimeCompare :: "string \<Rightarrow> string \<Rightarrow> int" where
  "ConstantTimeCompare x y = (if x = y then 1 else 0)"

section \<open>Requests and responses\<close>

record http_request =
  Method :: string
  Path :: "string list"
  Authorization :: string
  Cookies :: "(string \<times> string) list"
  RemoteIPPort :: string
  Body :: "json option"
  JsonEnd :: nat
  RawBody :: "bytes result"
  URLQuery :: "(string \<times> string) list"

record cookie =
  cookie_Name :: string
  cookie_Value :: string
  cookie_HttpOnly :: bool
  cookie_SameSiteStrict :: bool
  cookie_MaxAge :: int
  cookie_Secure :: bool

datatype payload = NoBody | Json json | Text string

record http_response =
  status :: int
  headers :: "(string \<times> string) list"
  set_cookies :: "cookie list"
  resp_body :: payload

text \<open>\<open>r.Cookie(name)\<close>: the first cookie of that name; \<open>r.URL.Query().Get(name)\<close>: the first value, or empty.\<close>

definition request_Cookie :: "http_request \<Rightarrow> string \<Rightarrow> string option" where
  "request_Cookie r name = map_of (Cookies r) name"

definition query_Get :: "http_request \<Rightarrow> string \<Rightarrow> string" where
  "query_Get r name = (case map_of (URLQuery r) name of None \<Rightarrow> '''' | Some v \<Rightarrow> v)"

text \<open>The JSON response of a status with further headers, as both packages write it.\<close>

definition json_response :: "int \<Rightarrow> (string \<times> string) list \<Rightarrow> cookie list \<Rightarrow> json \<Rightarrow> http_response" where
  "json_response st hs cs b = \<lparr>status = st, headers = (''Content-Type'', ''application/json'') # hs, set_cookies = cs, resp_body = Json b\<rparr>"

section \<open>Lemmas\<close>

lemma HasPrefix_append [simp]: "HasPrefix (p @ s) p"
  by (simp add: HasPrefix_def)

lemma TrimPrefix_append [simp]: "TrimPrefix (p @ s) p = s"
  by (simp add: TrimPrefix_def)

lemma TrimPrefix_changed: "p \<noteq> [] \<Longrightarrow> (TrimPrefix s p \<noteq> s \<and> TrimPrefix s p = t) \<longleftrightarrow> s = p @ t"
  unfolding TrimPrefix_def HasPrefix_def
  by (auto dest: arg_cong[of _ _ length]) (metis append_take_drop_id)

lemma ConstantTimeCompare_one [simp]: "ConstantTimeCompare x y = 1 \<longleftrightarrow> x = y"
  by (simp add: ConstantTimeCompare_def)

lemma before_last_append: "c \<notin> set p \<Longrightarrow> before_last c (a @ c # p) = a"
  by (simp add: before_last_def dropWhile_append3 dropWhile_append)

lemma json_response_sel [simp]:
  "status (json_response st hs cs b) = st" "set_cookies (json_response st hs cs b) = cs"
  "resp_body (json_response st hs cs b) = Json b"
  by (simp_all add: json_response_def)

end
