(* ===== verification/Dash_Auth.thy ===== *)
theory Dash_Auth
  imports Http
begin

text \<open>
  \<open>internal/dashauth/dashauth.go\<close>: the authentication of the dashboard and the REST API. The
  state \<open>DashAuth\<close> holds the API key, the sessions by token and the failed logins by address;
  each method that takes a lock or works on the session map is one step, and a handler is the
  sequence of its steps. Times are in nanoseconds; every reading of the clock is an argument.
\<close>

section \<open>State\<close>

definition second :: int where "second = 1000000000"
definition minute :: int where "minute = 60 * second"
definition sessionDuration :: int where [go_const]: "sessionDuration = 8 * 60 * minute"
definition maxLoginPerMin :: nat where [go_const]: "maxLoginPerMin = 5"
definition tokenBytes :: nat where [go_const]: "tokenBytes = 32"
definition cookieName :: string where "cookieName = ''cyphera_session''"

record Session =
  Token :: string
  SessionCreatedAt :: time
  ExpiresAt :: time
  RemoteIP :: string

record DashAuth =
  auth_apiKey :: string
  devMode :: bool
  auth_tls :: bool
  sessions :: "(string, Session) gomap"
  loginAttempts :: "(string, time list) gomap"

definition NewDashAuth :: "string \<Rightarrow> bool \<Rightarrow> DashAuth" where
  "NewDashAuth key tls = \<lparr>auth_apiKey = key, devMode = False, auth_tls = tls, sessions = [], loginAttempts = []\<rparr>"

definition NewDevMode :: DashAuth where
  "NewDevMode = \<lparr>auth_apiKey = '''', devMode = True, auth_tls = False, sessions = [], loginAttempts = []\<rparr>"

definition IsDevMode :: "DashAuth \<Rightarrow> bool" where
  "IsDevMode d \<longleftrightarrow> devMode d \<or> auth_apiKey d = ''''"

section \<open>Sessions\<close>

definition createSession :: "draw \<Rightarrow> string \<Rightarrow> DashAuth \<Rightarrow> string outcome \<times> DashAuth" where
  "createSession w ip d =
     (case d_rand w tokenBytes of
        Inl e \<Rightarrow> (Panicked (''crypto/rand.Read failed: '' @ e), d)
      | Inr tokenBuf \<Rightarrow>
          let token = hex_EncodeToString tokenBuf; now = d_now w
          in (Done token, d\<lparr>sessions := AList.update token \<lparr>Token = token, SessionCreatedAt = now,
                ExpiresAt = now + sessionDuration, RemoteIP = ip\<rparr> (sessions d)\<rparr>))"

definition validSession :: "time \<Rightarrow> string \<Rightarrow> DashAuth \<Rightarrow> bool \<times> DashAuth" where
  "validSession now token d =
     (case map_of (sessions d) token of
        None \<Rightarrow> (False, d)
      | Some sess \<Rightarrow>
          if now > ExpiresAt sess then (False, d\<lparr>sessions := AList.delete token (sessions d)\<rparr>)
          else (True, d))"

section \<open>Login rate limiting\<close>

definition attempts_of :: "DashAuth \<Rightarrow> string \<Rightarrow> time list" where
  "attempts_of d ip = (case map_of (loginAttempts d) ip of None \<Rightarrow> [] | Some xs \<Rightarrow> xs)"

definition allowLogin :: "time \<Rightarrow> string \<Rightarrow> DashAuth \<Rightarrow> bool \<times> DashAuth" where
  "allowLogin now ip d =
     (let cutoff = now - minute; recent = filter (\<lambda>a. a > cutoff) (attempts_of d ip)
      in (length recent < maxLoginPerMin, d\<lparr>loginAttempts := AList.update ip recent (loginAttempts d)\<rparr>))"

definition recordFailedLogin :: "time \<Rightarrow> string \<Rightarrow> DashAuth \<Rightarrow> DashAuth" where
  "recordFailedLogin now ip d =
     d\<lparr>loginAttempts := AList.update ip (attempts_of d ip @ [now]) (loginAttempts d)\<rparr>"

text \<open>One tick of \<open>cleanupLoop\<close>.\<close>

definition cleanupTick :: "time \<Rightarrow> DashAuth \<Rightarrow> DashAuth" where
  "cleanupTick now d =
     (let cutoff = now - minute
      in d\<lparr>sessions := filter (\<lambda>(_, sess). \<not> now > ExpiresAt sess) (sessions d),
           loginAttempts := filter (\<lambda>(_, recent). length recent \<noteq> 0)
             (map (\<lambda>(ip, attempts). (ip, filter (\<lambda>a. a > cutoff) attempts)) (loginAttempts d))\<rparr>)"

definition extractIP :: "http_request \<Rightarrow> string" where
  "extractIP r = before_last CHR '':'' (RemoteIPPort r)"

section \<open>Endpoints\<close>

definition error_body :: "string \<Rightarrow> json" where
  "error_body msg = JObject [(''error'', JString msg)]"

definition session_cookie :: "bool \<Rightarrow> string \<Rightarrow> cookie" where
  "session_cookie tls token = \<lparr>cookie_Name = cookieName, cookie_Value = token, cookie_HttpOnly = True,
     cookie_SameSiteStrict = True, cookie_MaxAge = sessionDuration div second, cookie_Secure = tls\<rparr>"

definition handleLogin :: "time \<Rightarrow> draw \<Rightarrow> http_request \<Rightarrow> DashAuth \<Rightarrow> http_response outcome \<times> DashAuth" where
  "handleLogin now w r d =
     (if IsDevMode d then
        (Done (json_response 200 [] [] (JObject [(''dev_mode'', JBool True), (''ok'', JBool True)])), d)
      else
        let ip = extractIP r; (allowed, d1) = allowLogin now ip d
        in if \<not> allowed then
             (Done (json_response 429 [(''Retry-After'', ''60'')] [] (error_body ''too many login attempts'')), d1)
           else
             case Decode (Body r) [(''api_key'', FString '''')] of
               None \<Rightarrow> (Done (json_response 400 [] [] (error_body ''invalid request'')), d1)
             | Some req \<Rightarrow>
                 if ConstantTimeCompare (str_field req ''api_key'') (auth_apiKey d1) \<noteq> 1 then
                   (Done (json_response 401 [] [] (error_body ''invalid API key'')), recordFailedLogin (d_now w) ip d1)
                 else
                   case createSession w ip d1 of
                     (Panicked m, d2) \<Rightarrow> (Panicked m, d2)
                   | (Done token, d2) \<Rightarrow>
                       (Done (json_response 200 [] [session_cookie (auth_tls d2) token] (JObject [(''ok'', JBool True)])), d2))"

definition handleLogout :: "http_request \<Rightarrow> DashAuth \<Rightarrow> http_response \<times> DashAuth" where
  "handleLogout r d =
     (let d1 = (case request_Cookie r cookieName of
                  None \<Rightarrow> d | Some v \<Rightarrow> d\<lparr>sessions := AList.delete v (sessions d)\<rparr>)
      in (json_response 200 [] [\<lparr>cookie_Name = cookieName, cookie_Value = '''', cookie_HttpOnly = True,
            cookie_SameSiteStrict = False, cookie_MaxAge = -1, cookie_Secure = False\<rparr>]
            (JObject [(''ok'', JString ''logged out'')]), d1))"

definition auth_handleStatus :: "time \<Rightarrow> http_request \<Rightarrow> DashAuth \<Rightarrow> http_response \<times> DashAuth" where
  "auth_handleStatus now r d =
     (if IsDevMode d then
        (json_response 200 [] [] (JObject [(''authenticated'', JBool True), (''dev_mode'', JBool True)]), d)
      else
        let (authenticated, d1) = (case request_Cookie r cookieName of
              None \<Rightarrow> (False, d) | Some v \<Rightarrow> validSession now v d)
        in (json_response 200 [] [] (JObject [(''authenticated'', JBool authenticated), (''dev_mode'', JBool False)]), d1))"

text \<open>
  The middleware: \<open>next\<close> is the protected handler, which works on a state of its own. A bearer
  token is checked first, then the session cookie.
\<close>

definition bearer_ok :: "http_request \<Rightarrow> DashAuth \<Rightarrow> bool" where
  "bearer_ok r d =
     (let auth = Authorization r; token = TrimPrefix auth ''Bearer ''
      in auth \<noteq> '''' \<and> token \<noteq> auth \<and> ConstantTimeCompare token (auth_apiKey d) = 1)"

definition unauthorized :: http_response where
  "unauthorized = json_response 401 [] [] (error_body ''unauthorized'')"

definition RequireAPIAuth ::
  "(http_request \<Rightarrow> 's \<Rightarrow> http_response outcome \<times> 's) \<Rightarrow> time \<Rightarrow> http_request \<Rightarrow> DashAuth \<times> 's \<Rightarrow>
    http_response outcome \<times> DashAuth \<times> 's" where
  "RequireAPIAuth next now r st =
     (case st of (d, s) \<Rightarrow>
        if IsDevMode d \<or> bearer_ok r d then (let (resp, s') = next r s in (resp, d, s'))
        else
          case request_Cookie r cookieName of
            None \<Rightarrow> (Done unauthorized, d, s)
          | Some v \<Rightarrow>
              let (ok, d1) = validSession now v d
              in if ok then (let (resp, s') = next r s in (resp, d1, s')) else (Done unauthorized, d1, s))"

section \<open>Histories\<close>

text \<open>
  What reaches the authentication while the server runs, one request after the other: the calls of
  the three endpoints, protected requests, and the ticks of the cleanup.
\<close>

datatype auth_event = Login time draw http_request | Logout http_request | AskStatus time http_request
  | Access time http_request | Cleanup time

definition access_check :: "time \<Rightarrow> http_request \<Rightarrow> DashAuth \<Rightarrow> DashAuth" where
  "access_check now r d = fst (snd (RequireAPIAuth (\<lambda>r s. (Done unauthorized, s)) now r (d, ())))"

fun auth_step :: "auth_event \<Rightarrow> DashAuth \<Rightarrow> DashAuth" where
  "auth_step (Login now w r) d = snd (handleLogin now w r d)"
| "auth_step (Logout r) d = snd (handleLogout r d)"
| "auth_step (AskStatus now r) d = snd (auth_handleStatus now r d)"
| "auth_step (Access now r) d = access_check now r d"
| "auth_step (Cleanup now) d = cleanupTick now d"

definition auth_run :: "auth_event list \<Rightarrow> DashAuth \<Rightarrow> DashAuth" where
  "auth_run evs d = fold auth_step evs d"

lemma auth_run_simps [simp]:
  "auth_run [] d = d" "auth_run (e # evs) d = auth_run evs (auth_step e d)"
  "auth_run (es @ fs) d = auth_run fs (auth_run es d)"
  by (simp_all add: auth_run_def)

definition auth_inv :: "DashAuth \<Rightarrow> bool" where
  "auth_inv d \<longleftrightarrow> distinct (map fst (sessions d)) \<and> distinct (map fst (loginAttempts d)) \<and>
     (\<forall>tok s. map_of (sessions d) tok = Some s \<longrightarrow> Token s = tok \<and> ExpiresAt s = SessionCreatedAt s + sessionDuration)"

text \<open>What one request that shows a valid API key to the login endpoint leaves in the session map.\<close>

definition right_key :: "http_request \<Rightarrow> DashAuth \<Rightarrow> bool" where
  "right_key r d \<longleftrightarrow> (\<exists>req. Decode (Body r) [(''api_key'', FString '''')] = Some req \<and> str_field req ''api_key'' = auth_apiKey d)"

definition new_session :: "draw \<Rightarrow> http_request \<Rightarrow> bytes \<Rightarrow> Session" where
  "new_session w r b = \<lparr>Token = hex_EncodeToString b, SessionCreatedAt = d_now w, ExpiresAt = d_now w + sessionDuration, RemoteIP = extractIP r\<rparr>"

lemma allowLogin_sel [simp]:
  "sessions (snd (allowLogin now ip d)) = sessions d" "auth_apiKey (snd (allowLogin now ip d)) = auth_apiKey d"
  "IsDevMode (snd (allowLogin now ip d)) = IsDevMode d" "auth_tls (snd (allowLogin now ip d)) = auth_tls d"
  by (simp_all add: allowLogin_def Let_def IsDevMode_def)

lemma recordFailedLogin_sel [simp]:
  "sessions (recordFailedLogin now ip d) = sessions d" "auth_apiKey (recordFailedLogin now ip d) = auth_apiKey d"
  "IsDevMode (recordFailedLogin now ip d) = IsDevMode d"
  by (simp_all add: recordFailedLogin_def IsDevMode_def)

lemma validSession_sel [simp]:
  "auth_apiKey (snd (validSession now tok d)) = auth_apiKey d" "IsDevMode (snd (validSession now tok d)) = IsDevMode d"
  "loginAttempts (snd (validSession now tok d)) = loginAttempts d"
  by (simp_all add: validSession_def IsDevMode_def split: option.split)

lemma validSession_iff:
  "fst (validSession now tok d) \<longleftrightarrow> (\<exists>s. map_of (sessions d) tok = Some s \<and> now \<le> ExpiresAt s)"
  by (auto simp: validSession_def split: option.split)

lemma validSession_kept:
  "map_of (sessions (snd (validSession now tok d))) k = Some s \<Longrightarrow> map_of (sessions d) k = Some s"
  by (auto simp: validSession_def split: option.splits if_splits)

lemma bearer_ok_iff: "bearer_ok r d \<longleftrightarrow> Authorization r = ''Bearer '' @ auth_apiKey d"
  unfolding bearer_ok_def Let_def ConstantTimeCompare_one
  using TrimPrefix_changed[of "''Bearer ''" "Authorization r" "auth_apiKey d"] by auto

text \<open>The outcomes of a login, one per branch.\<close>

lemma handleLogin_cases:
  obtains (dev) "IsDevMode d" "snd (handleLogin now w r d) = d" "\<And>x. fst (handleLogin now w r d) = Done x \<Longrightarrow> status x = 200 \<and> set_cookies x = []"
  | (limited) "\<not> IsDevMode d" "\<not> fst (allowLogin now (extractIP r) d)" "snd (handleLogin now w r d) = snd (allowLogin now (extractIP r) d)"
      "\<And>x. fst (handleLogin now w r d) = Done x \<Longrightarrow> status x = 429 \<and> set_cookies x = []"
  | (malformed) "\<not> IsDevMode d" "fst (allowLogin now (extractIP r) d)" "snd (handleLogin now w r d) = snd (allowLogin now (extractIP r) d)"
      "\<And>x. fst (handleLogin now w r d) = Done x \<Longrightarrow> status x = 400 \<and> set_cookies x = []"
  | (wrong) "\<not> IsDevMode d" "fst (allowLogin now (extractIP r) d)" "\<not> right_key r d"
      "snd (handleLogin now w r d) = recordFailedLogin (d_now w) (extractIP r) (snd (allowLogin now (extractIP r) d))"
      "\<exists>x. fst (handleLogin now w r d) = Done x \<and> status x = 401 \<and> set_cookies x = []"
  | (panic) "\<not> IsDevMode d" "fst (allowLogin now (extractIP r) d)" "snd (handleLogin now w r d) = snd (allowLogin now (extractIP r) d)"
      "\<exists>m. fst (handleLogin now w r d) = Panicked m"
  | (session) b where "\<not> IsDevMode d" "fst (allowLogin now (extractIP r) d)" "right_key r d" "d_rand w tokenBytes = Inr b"
      "snd (handleLogin now w r d) = (snd (allowLogin now (extractIP r) d))\<lparr>sessions := AList.update (hex_EncodeToString b) (new_session w r b) (sessions d)\<rparr>"
      "fst (handleLogin now w r d) = Done (json_response 200 [] [session_cookie (auth_tls d) (hex_EncodeToString b)] (JObject [(''ok'', JBool True)]))"
proof -
  obtain al d1 where a: "allowLogin now (extractIP r) d = (al, d1)" by (cases "allowLogin now (extractIP r) d")
  then have d1: "auth_apiKey d1 = auth_apiKey d" "sessions d1 = sessions d" "auth_tls d1 = auth_tls d"
    using allowLogin_sel[of now "extractIP r" d] by simp_all
  show thesis
  proof (cases "IsDevMode d \<or> \<not> al")
    case True
    then show thesis using dev limited a by (auto simp: handleLogin_def)
  next
    case False
    show thesis
    proof (cases "Decode (Body r) [(''api_key'', FString '''')]")
      case None
      with False malformed a show thesis by (auto simp: handleLogin_def)
    next
      case (Some req)
      show thesis
      proof (cases "str_field req ''api_key'' = auth_apiKey d")
        case True
        note g = Some False a d1 this
        show thesis
        proof (cases "d_rand w tokenBytes")
          case (Inl e)
          with g show thesis by (auto intro!: panic simp: handleLogin_def createSession_def)
        next
          case (Inr b)
          with g show thesis
            by (auto intro!: session[of b] simp: handleLogin_def createSession_def right_key_def new_session_def Let_def)
        qed
      next
        case wrong': False
        with Some False a d1 show thesis
          by (auto intro!: wrong simp: handleLogin_def right_key_def)
      qed
    qed
  qed
qed

section \<open>Invariant\<close>

lemma handleLogout_sessions:
  "map_of (sessions (snd (handleLogout r d))) = (case request_Cookie r cookieName of
     None \<Rightarrow> map_of (sessions d) | Some v \<Rightarrow> (map_of (sessions d))(v := None))"
  by (simp add: handleLogout_def Let_def split: option.split)

lemma access_check_cases: "access_check now r d = d \<or> (\<exists>v. access_check now r d = snd (validSession now v d))"
  by (auto simp: access_check_def RequireAPIAuth_def Let_def split_beta split: option.split)

lemma auth_handleStatus_cases: "snd (auth_handleStatus now r d) = d \<or> (\<exists>v. snd (auth_handleStatus now r d) = snd (validSession now v d))"
  by (auto simp: auth_handleStatus_def Let_def split_beta split: option.split)

text \<open>The key and the mode never change.\<close>

lemma auth_step_key [simp]: "auth_apiKey (auth_step e d) = auth_apiKey d \<and> IsDevMode (auth_step e d) = IsDevMode d"
proof (cases e)
  case (Login now w r)
  show ?thesis
    by (rule handleLogin_cases[of d now w r]) (simp_all add: Login, simp_all add: IsDevMode_def allowLogin_def Let_def)
next
  case (AskStatus now r)
  with auth_handleStatus_cases[of now r d] show ?thesis by auto
next
  case (Access now r)
  with access_check_cases[of now r d] show ?thesis by auto
qed (simp_all add: handleLogout_def cleanupTick_def IsDevMode_def Let_def split: option.split)

lemma auth_run_key [simp]: "auth_apiKey (auth_run evs d) = auth_apiKey d \<and> IsDevMode (auth_run evs d) = IsDevMode d"
  by (induction evs arbitrary: d) simp_all

text \<open>
  A session after a step was there before, or the step is a login with the right key that issued it;
  a logout with its token removes it.
\<close>

lemma auth_step_session:
  assumes "map_of (sessions (auth_step e d)) tok = Some s" "distinct (map fst (sessions d))"
  shows "(map_of (sessions d) tok = Some s \<and> (\<forall>r. e = Logout r \<longrightarrow> request_Cookie r cookieName \<noteq> Some tok)) \<or>
    (\<exists>now w r b. e = Login now w r \<and> right_key r d \<and> d_rand w tokenBytes = Inr b \<and> tok = hex_EncodeToString b \<and> s = new_session w r b)"
proof (cases e)
  case (Login now w r)
  show ?thesis
    using assms(1) Login by (cases rule: handleLogin_cases[of d now w r]) (auto split: if_splits)
next
  case (Logout r)
  with assms show ?thesis by (auto simp: handleLogout_sessions split: option.splits if_splits)
next
  case (AskStatus now r)
  with auth_handleStatus_cases[of now r d] assms(1) show ?thesis by (auto dest: validSession_kept)
next
  case (Access now r)
  with access_check_cases[of now r d] assms(1) show ?thesis by (auto dest: validSession_kept)
next
  case (Cleanup now)
  with assms show ?thesis
    by (auto simp: cleanupTick_def Let_def map_of_filter_values split: option.splits if_splits)
qed

lemma auth_step_distinct: "auth_inv d \<Longrightarrow> distinct (map fst (sessions (auth_step e d)))"
proof (cases e)
  case (Login now w r)
  assume "auth_inv d"
  then show ?thesis using Login by (cases rule: handleLogin_cases[of d now w r]) (simp_all add: auth_inv_def)
qed (auto simp: auth_inv_def handleLogout_def auth_handleStatus_def access_check_def RequireAPIAuth_def
    validSession_def cleanupTick_def Let_def split: option.split prod.split)

lemma allowLogin_distinct [simp]:
  "distinct (map fst (loginAttempts d)) \<Longrightarrow> distinct (map fst (loginAttempts (snd (allowLogin now ip d))))"
  by (simp add: allowLogin_def Let_def)

lemma fst_filter_values [simp]: "fst \<circ> (\<lambda>(ip, attempts). (ip, filter P attempts)) = fst"
  by (simp add: fun_eq_iff)

lemma auth_step_distinct_attempts: "auth_inv d \<Longrightarrow> distinct (map fst (loginAttempts (auth_step e d)))"
proof (cases e)
  case (Login now w r)
  assume "auth_inv d"
  then show ?thesis using Login
    by (cases rule: handleLogin_cases[of d now w r]) (simp_all add: auth_inv_def recordFailedLogin_def)
next
  case (Cleanup now)
  assume "auth_inv d"
  then show ?thesis using Cleanup
    by (auto simp: auth_inv_def cleanupTick_def Let_def intro!: distinct_keys_filter)
qed (auto simp: auth_inv_def handleLogout_def auth_handleStatus_def access_check_def RequireAPIAuth_def
    validSession_def Let_def split: option.split prod.split)

lemma auth_inv_step: "auth_inv d \<Longrightarrow> auth_inv (auth_step e d)"
  using auth_step_distinct[of d e] auth_step_distinct_attempts[of d e] auth_step_session[of e d]
  unfolding auth_inv_def new_session_def by fastforce

lemma auth_inv_run: "auth_inv d \<Longrightarrow> auth_inv (auth_run evs d)"
  by (induction evs arbitrary: d) (simp_all add: auth_inv_step)

lemma auth_inv_new [simp]: "auth_inv (NewDashAuth key tls)" "auth_inv NewDevMode"
  by (simp_all add: auth_inv_def NewDashAuth_def NewDevMode_def)

section \<open>Who gets through\<close>

definition authorised :: "time \<Rightarrow> http_request \<Rightarrow> DashAuth \<Rightarrow> bool" where
  "authorised now r d \<longleftrightarrow> IsDevMode d \<or> Authorization r = ''Bearer '' @ auth_apiKey d \<or>
     (\<exists>v s. request_Cookie r cookieName = Some v \<and> map_of (sessions d) v = Some s \<and> now \<le> ExpiresAt s)"

lemma RequireAPIAuth_eq:
  "RequireAPIAuth nxt now r (d, s) =
     (if authorised now r d then (fst (nxt r s), access_check now r d, snd (nxt r s))
      else (Done unauthorized, access_check now r d, s))"
proof -
  have v: "validSession now v d = (True, d)" if "map_of (sessions d) v = Some x" "now \<le> ExpiresAt x" for v x
    using that by (simp add: validSession_def)
  have n: "\<not> fst (validSession now v d)" if "\<And>x. map_of (sessions d) v = Some x \<Longrightarrow> \<not> now \<le> ExpiresAt x" for v
    using that by (auto simp: validSession_iff)
  show ?thesis
    using n by (auto simp: authorised_def RequireAPIAuth_def access_check_def bearer_ok_iff split_beta Let_def v split: option.split)
qed

lemma access_check_sessions:
  "map_of (sessions (access_check now r d)) tok = Some s \<longleftrightarrow>
    map_of (sessions d) tok = Some s \<and>
    (ExpiresAt s < now \<longrightarrow> IsDevMode d \<or> bearer_ok r d \<or> request_Cookie r cookieName \<noteq> Some tok)"
  by (auto simp: access_check_def RequireAPIAuth_def validSession_def Let_def split: option.splits if_splits)

text \<open>
  C29. The gate in front of the REST API: in production a protected handler runs exactly when the
  request carries the API key as its bearer token or the token of a session that has not expired;
  otherwise the answer is 401 and the protected state is untouched. The check itself changes the
  session map at most by dropping the expired session it was shown.
\<close>

theorem api_auth_gate:
  assumes "\<not> IsDevMode d"
  shows "(let (resp, d', s') = RequireAPIAuth nxt now r (d, s);
              bearer = (Authorization r = ''Bearer '' @ auth_apiKey d);
              session = (\<exists>v x. request_Cookie r cookieName = Some v \<and> map_of (sessions d) v = Some x \<and> now \<le> ExpiresAt x)
          in (if bearer \<or> session then (resp, s') = nxt r s else resp = Done unauthorized \<and> s' = s) \<and>
             (\<forall>tok x. map_of (sessions d) tok = Some x \<and> now \<le> ExpiresAt x \<longrightarrow> map_of (sessions d') tok = Some x) \<and>
             (\<forall>tok x. map_of (sessions d') tok = Some x \<longrightarrow> map_of (sessions d) tok = Some x))"
  using assms unfolding RequireAPIAuth_eq Let_def
  by (auto simp: authorised_def access_check_sessions)

definition demo_request_with :: "string \<Rightarrow> string \<Rightarrow> http_request" where
  "demo_request_with auth tok = \<lparr>Method = ''POST'', Path = [''auth'', ''login''], Authorization = auth,
     Cookies = [(cookieName, tok)], RemoteIPPort = ''10.0.0.1:555'', Body = Some (JObject [(''API_Key'', JString ''sesame'')]),
     JsonEnd = 20, RawBody = Inr [], URLQuery = []\<rparr>"

theorem api_auth_gate_witness:
  "\<not> IsDevMode (NewDashAuth ''sesame'' True) \<and>
   (let (resp, d', s') = RequireAPIAuth (\<lambda>r n. (Done unauthorized, Suc n)) 5 (demo_request_with ''Bearer sesame'' ''x'') (NewDashAuth ''sesame'' True, 7)
    in s' = 8) \<and>
   (let (resp, d', s') = RequireAPIAuth (\<lambda>r n. (Done unauthorized, Suc n)) 5 (demo_request_with ''Bearer guess'' ''x'') (NewDashAuth ''sesame'' True, 7)
    in s' = 7)"
proof -
  have n: "\<not> IsDevMode (NewDashAuth ''sesame'' True)" by (simp add: IsDevMode_def NewDashAuth_def)
  show ?thesis
    using n api_auth_gate[OF n, of "\<lambda>r n. (Done unauthorized, Suc n)" 5 "demo_request_with ''Bearer sesame'' ''x''" 7]
      api_auth_gate[OF n, of "\<lambda>r n. (Done unauthorized, Suc n)" 5 "demo_request_with ''Bearer guess'' ''x''" 7]
    by (simp add: Let_def split_beta demo_request_with_def NewDashAuth_def)
qed

text \<open>The login that issued a session, in the history that leads to it.\<close>

lemma session_issued:
  assumes "map_of (sessions (auth_run evs (NewDashAuth key tls))) tok = Some s"
  shows "\<exists>pre t w r b post. evs = pre @ Login t w r # post \<and> right_key r (auth_run pre (NewDashAuth key tls)) \<and>
    d_rand w tokenBytes = Inr b \<and> tok = hex_EncodeToString b \<and> s = new_session w r b \<and>
    (\<forall>r'. Logout r' \<in> set post \<longrightarrow> request_Cookie r' cookieName \<noteq> Some tok)"
  using assms
proof (induction evs rule: rev_induct)
  case Nil
  then show ?case by (simp add: NewDashAuth_def)
next
  case (snoc e evs)
  let ?d = "auth_run evs (NewDashAuth key tls)"
  from auth_inv_run[OF auth_inv_new(1)] have "distinct (map fst (sessions ?d))" by (simp add: auth_inv_def)
  from auth_step_session[OF _ this, of e tok s] snoc.prems
  consider (old) "map_of (sessions ?d) tok = Some s" "\<forall>r. e = Logout r \<longrightarrow> request_Cookie r cookieName \<noteq> Some tok"
    | (new) t w r b where "e = Login t w r" "right_key r ?d" "d_rand w tokenBytes = Inr b" "tok = hex_EncodeToString b" "s = new_session w r b"
    by auto
  then show ?case
  proof cases
    case old
    from snoc.IH[OF old(1)] obtain pre t w r b post where h: "evs = pre @ Login t w r # post"
      "right_key r (auth_run pre (NewDashAuth key tls))" "d_rand w tokenBytes = Inr b" "tok = hex_EncodeToString b" "s = new_session w r b"
      "\<forall>r'. Logout r' \<in> set post \<longrightarrow> request_Cookie r' cookieName \<noteq> Some tok" by blast
    then show ?thesis using old(2)
      by (intro exI[of _ pre] exI[of _ t] exI[of _ w] exI[of _ r] exI[of _ b] exI[of _ "post @ [e]"]) auto
  next
    case new
    then show ?thesis by (intro exI[of _ evs] exI[of _ t] exI[of _ w] exI[of _ r] exI[of _ b] exI[of _ "[]"]) simp
  qed
qed

text \<open>
  C30. Where a session comes from: in every history of a production server, a token that
  \<open>validSession\<close> accepts was issued by a login that presented the API key, at most eight hours before,
  and no logout with that token came after that login.
\<close>

theorem session_origin:
  assumes "fst (validSession now tok (auth_run evs (NewDashAuth key tls)))"
  shows "\<exists>pre t w r b post. evs = pre @ Login t w r # post \<and> right_key r (auth_run pre (NewDashAuth key tls)) \<and>
    auth_apiKey (auth_run pre (NewDashAuth key tls)) = key \<and>
    d_rand w tokenBytes = Inr b \<and> tok = hex_EncodeToString b \<and> now \<le> d_now w + sessionDuration \<and>
    (\<forall>r'. Logout r' \<in> set post \<longrightarrow> request_Cookie r' cookieName \<noteq> Some tok)"
proof -
  from assms obtain s where s: "map_of (sessions (auth_run evs (NewDashAuth key tls))) tok = Some s" and e: "now \<le> ExpiresAt s"
    by (auto simp: validSession_iff)
  have k: "auth_apiKey (auth_run pre (NewDashAuth key tls)) = key" for pre by simp (simp add: NewDashAuth_def)
  have x: "s = new_session w r b \<Longrightarrow> now \<le> d_now w + sessionDuration" for w r b using e by (simp add: new_session_def)
  from session_issued[OF s] k x show ?thesis by blast
qed

definition demo_sample :: "time \<Rightarrow> draw" where
  "demo_sample t = \<lparr>d_uuid = '''', d_rand = (\<lambda>n. Inr (replicate n 171)), d_now = t, d_perm = (\<lambda>xs. xs), d_sql = (\<lambda>_. None), d_cut = 0\<rparr>"

definition demo_token :: string where
  "demo_token = hex_EncodeToString (replicate 32 171)"

lemma demo_decode: "Decode (Body (demo_request_with a t)) [(''api_key'', FString '''')] = Some [(''api_key'', FString ''sesame'')]"
  unfolding demo_request_with_def http_request.simps by code_simp

lemma demo_ip: "extractIP (demo_request_with a t) = ''10.0.0.1''"
  by (simp add: extractIP_def demo_request_with_def before_last_def)

lemma demo_login:
  "handleLogin t0 (demo_sample t) (demo_request_with a tk) (NewDashAuth ''sesame'' True) =
     (Done (json_response 200 [] [session_cookie True demo_token] (JObject [(''ok'', JBool True)])),
      \<lparr>auth_apiKey = ''sesame'', devMode = False, auth_tls = True,
       sessions = [(demo_token, \<lparr>Token = demo_token, SessionCreatedAt = t, ExpiresAt = t + sessionDuration, RemoteIP = ''10.0.0.1''\<rparr>)],
       loginAttempts = [(''10.0.0.1'', [])]\<rparr>)"
  by (simp add: handleLogin_def demo_decode demo_ip allowLogin_def createSession_def NewDashAuth_def IsDevMode_def demo_sample_def
      attempts_of_def str_field_def demo_token_def tokenBytes_def maxLoginPerMin_def Let_def)

theorem session_origin_witness:
  "\<exists>pre t w r b post. [Login 1 (demo_sample 2) (demo_request_with '''' ''''), Cleanup 9] = pre @ Login t w r # post \<and>
    right_key r (auth_run pre (NewDashAuth ''sesame'' True)) \<and> demo_token = hex_EncodeToString b \<and> 10 \<le> d_now w + sessionDuration"
proof -
  have "fst (validSession 10 demo_token (auth_run [Login 1 (demo_sample 2) (demo_request_with '''' ''''), Cleanup 9] (NewDashAuth ''sesame'' True)))"
    by (simp add: demo_login cleanupTick_def validSession_def sessionDuration_def minute_def second_def)
  from session_origin[OF this] show ?thesis by blast
qed

text \<open>
  Login, use, logout: a login that answers with a cookie opens the gate to every request that
  shows the cookie for the next eight hours; after a logout with that cookie the gate is closed to it
  again, unless the request carries the API key itself.
\<close>

theorem login_use_logout:
  assumes "handleLogin now w r d = (Done resp, d1)" "set_cookies resp = [c]"
    and "request_Cookie r' (cookie_Name c) = Some (cookie_Value c)" "now' \<le> d_now w + sessionDuration"
    and "Authorization r' \<noteq> ''Bearer '' @ auth_apiKey d"
  shows "right_key r d \<and> cookie_HttpOnly c \<and> cookie_SameSiteStrict c \<and> cookie_Secure c = auth_tls d \<and>
    fst (RequireAPIAuth nxt now' r' (d1, s)) = fst (nxt r' s) \<and>
    RequireAPIAuth nxt now' r' (snd (handleLogout r' d1), s) = (Done unauthorized, snd (handleLogout r' d1), s)"
proof (rule handleLogin_cases[of d now w r])
  fix b
  assume h: "\<not> IsDevMode d" "right_key r d" "d_rand w tokenBytes = Inr b"
    "snd (handleLogin now w r d) = (snd (allowLogin now (extractIP r) d))\<lparr>sessions := AList.update (hex_EncodeToString b) (new_session w r b) (sessions d)\<rparr>"
    "fst (handleLogin now w r d) = Done (json_response 200 [] [session_cookie (auth_tls d) (hex_EncodeToString b)] (JObject [(''ok'', JBool True)]))"
  from h(5) assms(1,2) have c: "c = session_cookie (auth_tls d) (hex_EncodeToString b)" by auto
  with assms(3) have t: "request_Cookie r' cookieName = Some (hex_EncodeToString b)" by (simp add: session_cookie_def)
  have d1: "auth_apiKey d1 = auth_apiKey d" "\<not> IsDevMode d1"
    using auth_step_key[of "Login now w r" d] assms(1) h(1) by simp_all
  from assms(1) h(4) have "map_of (sessions d1) (hex_EncodeToString b) = Some (new_session w r b)" by simp
  with t assms(4) have "authorised now' r' d1" by (auto simp: authorised_def new_session_def)
  then have "fst (RequireAPIAuth nxt now' r' (d1, s)) = fst (nxt r' s)" by (simp add: RequireAPIAuth_eq)
  moreover have o: "\<not> IsDevMode (snd (handleLogout r' d1))" "\<not> bearer_ok r' (snd (handleLogout r' d1))"
    "map_of (sessions (snd (handleLogout r' d1))) (hex_EncodeToString b) = None"
    using auth_step_key[of "Logout r'" d1] d1 assms(5) t by (simp_all add: bearer_ok_iff handleLogout_sessions)
  then have "RequireAPIAuth nxt now' r' (snd (handleLogout r' d1), s) = (Done unauthorized, snd (handleLogout r' d1), s)"
    using t by (simp add: RequireAPIAuth_def validSession_def)
  ultimately show ?thesis using h(2) c by (simp add: session_cookie_def)
qed (use assms(1,2) in auto)

theorem login_use_logout_witness:
  "handleLogin 1 (demo_sample 2) (demo_request_with '''' demo_token) (NewDashAuth ''sesame'' True) =
     (Done (json_response 200 [] [session_cookie True demo_token] (JObject [(''ok'', JBool True)])),
      snd (handleLogin 1 (demo_sample 2) (demo_request_with '''' demo_token) (NewDashAuth ''sesame'' True))) \<and>
   fst (RequireAPIAuth (\<lambda>r s. (Panicked s, s)) 9 (demo_request_with '''' demo_token)
     (snd (handleLogin 1 (demo_sample 2) (demo_request_with '''' demo_token) (NewDashAuth ''sesame'' True)), ''in'')) = Panicked ''in''"
proof -
  have h: "handleLogin 1 (demo_sample 2) (demo_request_with '''' demo_token) (NewDashAuth ''sesame'' True) =
     (Done (json_response 200 [] [session_cookie True demo_token] (JObject [(''ok'', JBool True)])),
      snd (handleLogin 1 (demo_sample 2) (demo_request_with '''' demo_token) (NewDashAuth ''sesame'' True)))"
    by (simp add: demo_login)
  have p: "set_cookies (json_response 200 [] [session_cookie True demo_token] (JObject [(''ok'', JBool True)])) = [session_cookie True demo_token]"
    "request_Cookie (demo_request_with '''' demo_token) (cookie_Name (session_cookie True demo_token)) = Some (cookie_Value (session_cookie True demo_token))"
    "9 \<le> d_now (demo_sample 2) + sessionDuration" "Authorization (demo_request_with '''' demo_token) \<noteq> ''Bearer '' @ auth_apiKey (NewDashAuth ''sesame'' True)"
    by (simp_all add: request_Cookie_def demo_request_with_def session_cookie_def demo_sample_def sessionDuration_def minute_def second_def)
  show ?thesis using h login_use_logout[OF h p, of "\<lambda>r s. (Panicked s, s)" "''in''"] by simp
qed

section \<open>The login rate limit\<close>

text \<open>The times at which logins from an address failed, in a history that starts in \<open>d\<close>.\<close>

definition login_failed :: "string \<Rightarrow> auth_event \<Rightarrow> DashAuth \<Rightarrow> time list" where
  "login_failed ip e d =
     (case e of
        Login now w r \<Rightarrow>
          (case fst (handleLogin now w r d) of
             Done resp \<Rightarrow> if status resp = 401 \<and> extractIP r = ip then [d_now w] else []
           | Panicked _ \<Rightarrow> [])
      | _ \<Rightarrow> [])"

fun failures :: "string \<Rightarrow> auth_event list \<Rightarrow> DashAuth \<Rightarrow> time list" where
  "failures ip [] d = []"
| "failures ip (e # evs) d = login_failed ip e d @ failures ip evs (auth_step e d)"

text \<open>The clock does not run backwards.\<close>

fun clock_ok :: "time \<Rightarrow> auth_event list \<Rightarrow> bool" where
  "clock_ok t [] \<longleftrightarrow> True"
| "clock_ok t (Login now w r # evs) \<longleftrightarrow> t \<le> now \<and> now \<le> d_now w \<and> clock_ok (d_now w) evs"
| "clock_ok t (Logout r # evs) \<longleftrightarrow> clock_ok t evs"
| "clock_ok t (AskStatus now r # evs) \<longleftrightarrow> t \<le> now \<and> clock_ok now evs"
| "clock_ok t (Access now r # evs) \<longleftrightarrow> t \<le> now \<and> clock_ok now evs"
| "clock_ok t (Cleanup now # evs) \<longleftrightarrow> t \<le> now \<and> clock_ok now evs"

definition window :: "time \<Rightarrow> time list \<Rightarrow> time list" where
  "window w xs = filter (\<lambda>x. w - minute < x \<and> x \<le> w) xs"

text \<open>
  \<open>tracks\<close>: the attempts kept for an address are the failures of the last minute, as seen at time
  \<open>t\<close> or later, and no window of one minute holds more than five of them.
\<close>

definition tracks :: "string \<Rightarrow> time \<Rightarrow> time list \<Rightarrow> DashAuth \<Rightarrow> bool" where
  "tracks ip t hist d \<longleftrightarrow>
     (\<forall>c \<ge> t - minute. filter (\<lambda>a. a > c) (attempts_of d ip) = filter (\<lambda>a. a > c) hist) \<and>
     (\<forall>w. length (window w hist) \<le> maxLoginPerMin)"

lemma tracks_later: "tracks ip t hist d \<Longrightarrow> t \<le> t' \<Longrightarrow> attempts_of d' ip = attempts_of d ip \<Longrightarrow> tracks ip t' hist d'"
  by (simp add: tracks_def)

lemma attempts_allow: "attempts_of (snd (allowLogin now ip' d)) ip =
    (if ip = ip' then filter (\<lambda>a. a > now - minute) (attempts_of d ip) else attempts_of d ip)"
  by (simp add: attempts_of_def allowLogin_def Let_def)

lemma attempts_record: "attempts_of (recordFailedLogin now ip' d) ip =
    (if ip = ip' then attempts_of d ip @ [now] else attempts_of d ip)"
  by (simp add: attempts_of_def recordFailedLogin_def)

lemma filter_above: "c' \<le> c \<Longrightarrow> filter (\<lambda>a. a > c) (filter (\<lambda>a. a > c') xs) = filter (\<lambda>a. a > (c :: int)) xs"
  by (auto intro: filter_cong)

lemma tracks_allow: "tracks ip t hist d \<Longrightarrow> t \<le> now \<Longrightarrow> now \<le> t' \<Longrightarrow> tracks ip t' hist (snd (allowLogin now ip' d))"
  by (auto simp: tracks_def attempts_allow simp del: filter_filter simp: filter_above)

text \<open>An allowed attempt that fails is one more in a window that held at most four.\<close>

lemma tracks_failed:
  assumes "tracks ip t hist d" "t \<le> now" "now \<le> t'" "fst (allowLogin now ip d)"
  shows "tracks ip t' (hist @ [t']) (recordFailedLogin t' ip (snd (allowLogin now ip d)))"
  unfolding tracks_def
proof (intro conjI allI impI)
  fix c assume "t' - minute \<le> c"
  with assms show "filter (\<lambda>a. a > c) (attempts_of (recordFailedLogin t' ip (snd (allowLogin now ip d))) ip) = filter (\<lambda>a. a > c) (hist @ [t'])"
    by (simp add: attempts_record attempts_allow filter_above tracks_def del: filter_filter)
next
  fix w
  have "length (filter (\<lambda>a. a > now - minute) hist) < maxLoginPerMin"
    using assms by (simp add: tracks_def allowLogin_def Let_def)
  moreover have "length (window w hist) \<le> length (filter (\<lambda>a. a > now - minute) hist)" if "t' \<le> w"
    unfolding window_def using that assms(3) by (induction hist) auto
  ultimately show "length (window w (hist @ [t'])) \<le> maxLoginPerMin"
    using assms(1) by (auto simp: tracks_def window_def)
qed

lemma attempts_cleanup: "distinct (map fst (loginAttempts d)) \<Longrightarrow>
    attempts_of (cleanupTick now d) ip = filter (\<lambda>a. a > now - minute) (attempts_of d ip)"
proof -
  assume "distinct (map fst (loginAttempts d))"
  then have "distinct (map fst (map (\<lambda>(i, xs). (i, filter (\<lambda>a. a > now - minute) xs)) (loginAttempts d)))" by simp
  note m = map_of_filter_values[OF this, of "\<lambda>xs. length xs \<noteq> 0" ip]
  have "map_of (map (\<lambda>(i, xs). (i, filter P xs)) al) k = map_option (filter P) (map_of al k)" for P :: "int \<Rightarrow> bool" and al and k :: string
    by (induction al) auto
  with m show ?thesis
    by (auto simp: attempts_of_def cleanupTick_def Let_def split: option.splits)
qed

lemma tracks_step:
  assumes "tracks ip t hist d" "auth_inv d" "clock_ok t (e # evs)"
  shows "\<exists>t'. clock_ok t' evs \<and> tracks ip t' (hist @ login_failed ip e d) (auth_step e d)"
proof (cases e)
  case (Login now w r)
  with assms(3) have c: "t \<le> now" "now \<le> d_now w" "clock_ok (d_now w) evs" by simp_all
  have tr: "tracks ip (d_now w) (hist @ login_failed ip e d) (snd (handleLogin now w r d))"
  proof (rule handleLogin_cases[of d now w r])
    assume w: "fst (allowLogin now (extractIP r) d)" "snd (handleLogin now w r d) = recordFailedLogin (d_now w) (extractIP r) (snd (allowLogin now (extractIP r) d))"
      "\<exists>x. fst (handleLogin now w r d) = Done x \<and> status x = 401 \<and> set_cookies x = []"
    show ?thesis
    proof (cases "extractIP r = ip")
      case True
      with w tracks_failed[OF assms(1) c(1,2)] Login show ?thesis by (auto simp: login_failed_def)
    next
      case False
      with w tracks_later[OF tracks_allow[OF assms(1) c(1,2), of "extractIP r"] order.refl] Login show ?thesis
        by (auto simp: login_failed_def attempts_record)
    qed
  qed (use Login tracks_allow[OF assms(1) c(1,2), of "extractIP r"] tracks_later[OF assms(1), of "d_now w" d] c in
      \<open>auto simp: login_failed_def intro: tracks_later[OF _ order.refl] simp: attempts_of_def split: outcome.splits\<close>)
  with Login c(3) show ?thesis by auto
next
  case (Logout r)
  with assms show ?thesis
    by (intro exI[of _ t]) (auto simp: login_failed_def handleLogout_def attempts_of_def Let_def split: option.splits intro: tracks_later)
next
  case (AskStatus now r)
  with assms auth_handleStatus_cases[of now r d] show ?thesis
    by (intro exI[of _ now]) (auto simp: login_failed_def attempts_of_def intro!: tracks_later[OF assms(1)])
next
  case (Access now r)
  with assms access_check_cases[of now r d] show ?thesis
    by (intro exI[of _ now]) (auto simp: login_failed_def attempts_of_def intro!: tracks_later[OF assms(1)])
next
  case (Cleanup now)
  with assms show ?thesis
    by (intro exI[of _ now])
      (auto simp: login_failed_def tracks_def auth_inv_def attempts_cleanup filter_above simp del: filter_filter)
qed

lemma tracks_run:
  assumes "tracks ip t hist d" "auth_inv d" "clock_ok t evs"
  shows "length (window w (hist @ failures ip evs d)) \<le> maxLoginPerMin"
  using assms
proof (induction evs arbitrary: t hist d)
  case Nil
  then show ?case by (simp add: tracks_def)
next
  case (Cons e evs)
  from tracks_step[OF Cons.prems] obtain t' where
    "clock_ok t' evs" "tracks ip t' (hist @ login_failed ip e d) (auth_step e d)" by blast
  from Cons.IH[OF this(2) auth_inv_step[OF Cons.prems(2)] this(1)] show ?case by simp
qed

text \<open>
  C31. The login rate limit: when requests are handled one after the other, at most five logins from
  one address are tried against the API key and fail in any window of one minute, whatever else
  happens in between.
\<close>

theorem login_rate_limited:
  assumes "clock_ok t evs"
  shows "length (window w (failures ip evs (NewDashAuth key tls))) \<le> 5"
proof -
  have "tracks ip t [] (NewDashAuth key tls)"
    by (simp add: tracks_def attempts_of_def NewDashAuth_def window_def)
  from tracks_run[OF this auth_inv_new(1) assms, of w] show ?thesis by (simp add: maxLoginPerMin_def)
qed

definition demo_guesses :: "nat \<Rightarrow> auth_event list" where
  "demo_guesses n = map (\<lambda>i. Login (int i) (demo_sample (int i)) (demo_request_with '''' '''')) [0..<n]"

lemma demo_guess:
  "handleLogin t0 (demo_sample t) (demo_request_with a tk) ((NewDashAuth ''other'' True)\<lparr>loginAttempts := al\<rparr>) =
    (let recent = filter (\<lambda>a. a > t0 - minute) (case map_of al ''10.0.0.1'' of None \<Rightarrow> [] | Some xs \<Rightarrow> xs) in
     if length recent < 5
     then (Done (json_response 401 [] [] (error_body ''invalid API key'')),
           (NewDashAuth ''other'' True)\<lparr>loginAttempts := AList.update ''10.0.0.1'' (recent @ [t]) (AList.update ''10.0.0.1'' recent al)\<rparr>)
     else (Done (json_response 429 [(''Retry-After'', ''60'')] [] (error_body ''too many login attempts'')),
           (NewDashAuth ''other'' True)\<lparr>loginAttempts := AList.update ''10.0.0.1'' recent al\<rparr>))"
  by (simp add: handleLogin_def demo_decode demo_ip allowLogin_def recordFailedLogin_def NewDashAuth_def IsDevMode_def demo_sample_def
      attempts_of_def str_field_def maxLoginPerMin_def ConstantTimeCompare_def Let_def)

lemma demo_sample_now [simp]: "d_now (demo_sample t) = t"
  by (simp add: demo_sample_def)

theorem login_rate_limited_witness:
  "clock_ok 0 (demo_guesses 7) \<and> length (window 6 (failures ''10.0.0.1'' (demo_guesses 7) (NewDashAuth ''other'' True))) \<le> 5 \<and>
   failures ''10.0.0.1'' (demo_guesses 7) (NewDashAuth ''other'' True) = [0, 1, 2, 3, 4]"
proof -
  have c: "clock_ok 0 (demo_guesses 7)" by (simp add: demo_guesses_def upt_rec)
  have "failures ''10.0.0.1'' (demo_guesses 7) ((NewDashAuth ''other'' True)\<lparr>loginAttempts := []\<rparr>) = [0, 1, 2, 3, 4]"
    by (simp add: demo_guesses_def upt_rec login_failed_def demo_guess demo_ip minute_def second_def Let_def)
  then have "failures ''10.0.0.1'' (demo_guesses 7) (NewDashAuth ''other'' True) = [0, 1, 2, 3, 4]"
    by (simp add: NewDashAuth_def)
  with c login_rate_limited[OF c, of 6 "''10.0.0.1''" "''other''" True] show ?thesis by blast
qed

text \<open>
  The handlers run concurrently and \<open>handleLogin\<close> takes the lock twice: once to check, once to
  record. \<open>allow_all\<close> is the schedule in which requests from one address pass the check before any of
  them records its failure.
\<close>

fun allow_all :: "time list \<Rightarrow> string \<Rightarrow> DashAuth \<Rightarrow> bool list \<times> DashAuth" where
  "allow_all [] ip d = ([], d)"
| "allow_all (t # ts) ip d =
     (let (ok, d1) = allowLogin t ip d; (oks, d2) = allow_all ts ip d1 in (ok # oks, d2))"

lemma allow_all_free:
  "attempts_of d ip = [] \<Longrightarrow> fst (allow_all ts ip d) = replicate (length ts) True \<and> attempts_of (snd (allow_all ts ip d)) ip = []"
proof (induction ts arbitrary: d)
  case (Cons t ts)
  have "fst (allowLogin t ip d)" using Cons.prems by (simp add: allowLogin_def maxLoginPerMin_def)
  moreover have "attempts_of (snd (allowLogin t ip d)) ip = []" using Cons.prems by (simp add: attempts_allow)
  ultimately show ?case using Cons.IH[of "snd (allowLogin t ip d)"] by (simp add: split_beta Let_def)
qed simp

lemma record_all_attempts: "attempts_of (fold (\<lambda>t. recordFailedLogin t ip) ts d) ip = attempts_of d ip @ ts"
  by (induction ts arbitrary: d) (simp_all add: attempts_record)

text \<open>
  The limit does not hold across concurrent requests: any number of logins from a fresh address
  can pass \<open>allowLogin\<close> before the first failure is recorded, so all of them are tried against the API
  key, and the recorded failures of the minute exceed the limit.
\<close>

theorem login_limit_race:
  assumes "attempts_of d ip = []"
  shows "fst (allow_all ts ip d) = replicate (length ts) True \<and>
    attempts_of (fold (\<lambda>t. recordFailedLogin t ip) ts (snd (allow_all ts ip d))) ip = ts"
  using allow_all_free[OF assms, of ts] by (simp add: record_all_attempts)

theorem login_limit_race_witness:
  "attempts_of (NewDashAuth ''k'' True) ''ip'' = [] \<and> fst (allow_all (replicate 50 3) ''ip'' (NewDashAuth ''k'' True)) = replicate 50 True"
proof -
  have "attempts_of (NewDashAuth ''k'' True) ''ip'' = []" by (simp add: attempts_of_def NewDashAuth_def)
  with login_limit_race[OF this, of "replicate 50 3"] show ?thesis by simp
qed

end
