(* ===== verification/Rest_Handlers.thy ===== *)
theory Rest_Handlers
  imports Kmip_Handler Dash_Auth
begin

unbundle bit_operations_syntax

text \<open>
  \<open>internal/api/api.go\<close>, the handlers of the REST API. They share the store, the audit logger and the
  connection tracker with the KMIP handlers (\<open>hstate\<close>). A handler returns the response it writes, or
  the message of a panic (which \<open>net/http\<close> recovers by closing the connection). JSON objects built
  from Go maps list their members in the order of their names. ChaCha20-Poly1305, PEM and X.509 parsing,
  the text form of times and the two conversions from floating point are fields of \<open>restlib\<close>.
\<close>

section \<open>State and parameters\<close>

record certificate =
  cert_CommonName :: string
  cert_Subject :: string
  cert_Issuer :: string
  cert_NotAfter :: time

record restlib =
  chacha_seal :: "bytes \<Rightarrow> bytes \<Rightarrow> bytes \<Rightarrow> bytes"
  chacha_open :: "bytes \<Rightarrow> bytes \<Rightarrow> bytes \<Rightarrow> bytes option"
  pem_Decode :: "bytes \<Rightarrow> (string \<times> bytes) option"
  ParseCertificate :: "bytes \<Rightarrow> certificate result"
  RFC3339 :: "time \<Rightarrow> string"
  RFC3339Nano :: "time \<Rightarrow> string"
  whole_seconds :: "int \<Rightarrow> int"
  refill :: "int \<Rightarrow> int"
  static_files :: "http_request \<Rightarrow> http_response"

record ('w, 'i, 's) API =
  deps_of :: "('w, 'i, 's) deps"
  weblib :: restlib
  api_apiKey :: string
  corsOrigin :: string
  certFile :: string
  keyFile :: string
  start :: time
  inventory :: "draw \<Rightarrow> 's \<Rightarrow> json result option"

type_synonym 's web = "http_response outcome \<times> 's hstate"

definition writeJSON :: "int \<Rightarrow> json \<Rightarrow> 's hstate \<Rightarrow> 's web" where
  "writeJSON st js h = (Done (json_response st [] [] js), h)"

definition writeError :: "int \<Rightarrow> string \<Rightarrow> 's hstate \<Rightarrow> 's web" where
  "writeError st message h = writeJSON st (error_body message) h"

text \<open>The client of an audit entry is the beginning of its bearer token.\<close>

definition logAudit ::
  "('w, 'i, 's) API \<Rightarrow> http_request \<Rightarrow> string \<Rightarrow> string \<Rightarrow> string \<Rightarrow> string \<Rightarrow> string \<Rightarrow> 's hstate \<Rightarrow> 's hstate" where
  "logAudit G r operation objectUID objectName st message h =
     (case haudit h of
        None \<Rightarrow> h
      | Some a \<Rightarrow>
          let token = TrimPrefix (Authorization r) ''Bearer '';
              clientID = (if api_apiKey G \<noteq> '''' \<and> length token \<ge> 8 then take 8 token @ ''...'' else '''');
              (d, h1) = sample (deps_of G) h
          in h1\<lparr>haudit := Some (Log (d_now d) \<lparr>ID = 0, Timestamp = d_now d, Source = ''rest'', Operation = operation,
               ClientID = clientID, ObjectUID = objectUID, ObjectName = objectName, Status = st, Message = message,
               RemoteAddr = RemoteIPPort r\<rparr> a)\<rparr>)"

definition stateString :: "KeyState \<Rightarrow> string" where
  "stateString s =
     (if s = StatePreActive then ''pre-active'' else if s = StateActive then ''active''
      else if s = StateDeactivated then ''deactivated'' else if s = StateCompromised then ''compromised''
      else if s = StateDestroyed then ''destroyed'' else if s = StateDestroyedCompromised then ''destroyed-compromised''
      else if s = StateArchived then ''archived'' else ''unknown'')"

definition resolveAlgorithm :: "string \<Rightarrow> int" where
  "resolveAlgorithm name =
     (let n = ToUpper name in
      if n \<in> {''AES'', ''''} then 0x3 else if n = ''RSA'' then 0x4 else if n \<in> {''EC'', ''ECDSA''} then 0x6
      else if n \<in> {''CHACHA20'', ''CHACHA20-POLY1305''} then 0x1E
      else if n \<in> {''DES'', ''3DES'', ''TRIPLEDES''} then -1 else 0x3)"

section \<open>Authenticated encryption\<close>

datatype aead = GCM bytes | ChaCha bytes

definition chacha_New :: "bytes \<Rightarrow> aead result" where
  "chacha_New key = (if length key = 32 then Inr (ChaCha key) else Inl ''chacha20poly1305: bad key length'')"

definition createAEADFromMaterial :: "slice \<Rightarrow> int \<Rightarrow> string \<Rightarrow> aead result" where
  "createAEADFromMaterial material algorithm meth =
     (let m = ToLower meth in
      if m = ''chacha20-poly1305'' \<or> algorithm = 0x1E then chacha_New (sl material)
      else case aes_NewCipher (sl material) of
        Inl err \<Rightarrow> Inl err
      | Inr block \<Rightarrow> (case cipher_NewGCM block of Inl err \<Rightarrow> Inl err | Inr g \<Rightarrow> Inr (GCM g)))"

definition createAEAD :: "KeyRecord \<Rightarrow> aead result" where
  "createAEAD rec = createAEADFromMaterial (Material rec) (Algorithm rec) ''''"

text \<open>Both ciphers use nonces of twelve bytes and panic on others.\<close>

definition aead_NonceSize :: nat where
  "aead_NonceSize = 12"

definition aead_Seal :: "crypto \<Rightarrow> restlib \<Rightarrow> aead \<Rightarrow> bytes \<Rightarrow> bytes \<Rightarrow> bytes" where
  "aead_Seal C R a nonce plaintext = (case a of GCM k \<Rightarrow> gcm_Seal C k nonce plaintext | ChaCha k \<Rightarrow> chacha_seal R k nonce plaintext)"

definition aead_Open :: "crypto \<Rightarrow> restlib \<Rightarrow> aead \<Rightarrow> bytes \<Rightarrow> bytes \<Rightarrow> bytes result outcome" where
  "aead_Open C R a nonce ciphertext =
     (case a of
        GCM k \<Rightarrow> gcm_Open C k nonce ciphertext
      | ChaCha k \<Rightarrow>
          if length nonce \<noteq> aead_NonceSize then Panicked ''chacha20poly1305: bad nonce length passed to Open''
          else Done (case chacha_open R k nonce ciphertext of
            None \<Rightarrow> Inl ''chacha20poly1305: message authentication failed'' | Some p \<Rightarrow> Inr p))"

section \<open>Early returns\<close>

definition need_json :: "http_request \<Rightarrow> (string \<times> field) list \<Rightarrow> 's hstate \<Rightarrow> ((string \<times> field) list \<Rightarrow> 's web) \<Rightarrow> 's web" where
  "need_json r shape h k = (case Decode (Body r) shape of None \<Rightarrow> writeError 400 ''invalid JSON body'' h | Some req \<Rightarrow> k req)"

definition need_base64 :: "string \<Rightarrow> string \<Rightarrow> 's hstate \<Rightarrow> (bytes \<Rightarrow> 's web) \<Rightarrow> 's web" where
  "need_base64 s what h k = (case base64_DecodeString s of None \<Rightarrow> writeError 400 (''invalid base64 '' @ what) h | Some b \<Rightarrow> k b)"

definition need_hex :: "string \<Rightarrow> 's hstate \<Rightarrow> (bytes \<Rightarrow> 's web) \<Rightarrow> 's web" where
  "need_hex s h k = (case hex_DecodeString s of None \<Rightarrow> writeError 400 ''invalid hex nonce'' h | Some b \<Rightarrow> k b)"

definition need_key ::
  "('w, 'i, 's) API \<Rightarrow> string \<Rightarrow> string \<Rightarrow> 's hstate \<Rightarrow> (KeyRecord \<Rightarrow> 's hstate \<Rightarrow> 's web) \<Rightarrow> 's web" where
  "need_key G uid what h k =
     (case query (deps_of G) (\<lambda>d. Get (stor (deps_of G)) d uid) h of
        (None, h1) \<Rightarrow> writeError 404 (what @ '' not found'') h1
      | (Some rec, h1) \<Rightarrow> k rec h1)"

definition web_error :: "int \<Rightarrow> string \<Rightarrow> 'a result \<Rightarrow> 's hstate \<Rightarrow> ('a \<Rightarrow> 's web) \<Rightarrow> 's web" where
  "web_error st pre x h k = (case x of Inl err \<Rightarrow> writeError st (pre @ err) h | Inr v \<Rightarrow> k v)"

definition need :: "bool \<Rightarrow> int \<Rightarrow> string \<Rightarrow> 's hstate \<Rightarrow> 's web \<Rightarrow> 's web" where
  "need b st message h k = (if \<not> b then writeError st message h else k)"

lemmas web_guards = writeJSON_def writeError_def need_json_def need_base64_def need_hex_def need_key_def web_error_def need_def

named_theorems rest_defs \<open>defining equations of the REST handlers\<close>

section \<open>Keys\<close>

definition key_item :: "restlib \<Rightarrow> KeyRecord \<Rightarrow> json" where
  "key_item R rec = JObject [(''uid'', JString (UID rec)), (''name'', JString (Name rec)),
     (''object_type'', JNumber (ObjectType rec)), (''algorithm'', JNumber (Algorithm rec)),
     (''length'', JNumber (sint (Length rec))), (''state'', JString (stateString (State rec))),
     (''usage_mask'', JNumber (UsageMask rec)), (''created_at'', JString (RFC3339 R (CreatedAt rec)))]"

definition handleListKeys :: "('w, 'i, 's) API \<Rightarrow> http_request \<Rightarrow> 's hstate \<Rightarrow> 's web" where
  [rest_defs]: "handleListKeys G r h =
     (let (records, h1) = query (deps_of G) (\<lambda>d. List (stor (deps_of G)) d) h;
          items = map (key_item (weblib G)) records;
          h2 = logAudit G r ''List'' '''' '''' ''success'' (fmt_d (int (length items)) @ '' keys'') h1
      in writeJSON 200 (JObject [(''keys'', JArray items), (''total'', JNumber (int (length items)))]) h2)"

text \<open>
  Both halves of a key pair, the private key registered first; errors of marshalling are ignored and
  leave the material nil.
\<close>

definition rest_key_pair ::
  "('w, 'i, 's) API \<Rightarrow> http_request \<Rightarrow> string \<Rightarrow> int \<Rightarrow> i32 \<Rightarrow> bytes result \<Rightarrow> bytes result \<Rightarrow> 's hstate \<Rightarrow> 's web" where
  [rest_defs]: "rest_key_pair G r name algorithm len priv pub h =
     (let L = lib (deps_of G); S = stor (deps_of G);
          der = (\<lambda>x. case x of Inl _ \<Rightarrow> None | Inr b \<Rightarrow> Some b);
          usageMask = code L UsageMaskSign OR code L UsageMaskVerify;
          half = (\<lambda>ty m. zero_KeyRecord\<lparr>ObjectType := ty, Name := name, Algorithm := algorithm, Length := len,
                    Material := m, UsageMask := usageMask\<rparr>);
          (r1, h1) = call (deps_of G) (\<lambda>d. Register S d (half (code L ObjectTypePrivateKey) (der priv))) h
      in web_error 500 '''' r1 h1 (\<lambda>privRec.
           let (r2, h2) = call (deps_of G) (\<lambda>d. Register S d (half (code L ObjectTypePublicKey) (der pub))) h1
           in web_error 500 '''' r2 h2 (\<lambda>pubRec.
                let h3 = logAudit G r ''CreateKeyPair'' (UID privRec) name ''success'' '''' h2
                in writeJSON 201 (JObject [(''algorithm'', JNumber algorithm),
                     (''created_at'', JString (RFC3339 (weblib G) (CreatedAt privRec))),
                     (''length'', JNumber (sint len)), (''name'', JString name),
                     (''private_key_uid'', JString (UID privRec)), (''public_key_uid'', JString (UID pubRec)),
                     (''state'', JString (stateString (State privRec)))]) h3)))"

definition rest_handleCreateKeyPair ::
  "('w, 'i, 's) API \<Rightarrow> http_request \<Rightarrow> string \<Rightarrow> string \<Rightarrow> i32 \<Rightarrow> 's hstate \<Rightarrow> 's web" where
  [rest_defs]: "rest_handleCreateKeyPair G r name keyType len h =
     (let L = lib (deps_of G); C = cry (deps_of G); (d, h1) = sample (deps_of G) h
      in if keyType = ''rsa'' then
           (let len = (if len = 0 then 2048 else len) in
            web_error 500 '''' (rsa_GenerateKey C (d_rand d) (sint len)) h1 (\<lambda>privKey.
              rest_key_pair G r name (code L AlgorithmRSA) len (MarshalPKCS8PrivateKey C (PrivRSA privKey))
                (MarshalPKIXPublicKey C (PubRSA (rsa_PublicKey C privKey))) h1))
         else
           (let (curve, len) = (if len = 384 then (P384, len) else if len = 521 then (P521, len) else (P256, 256)) in
            web_error 500 '''' (ecdsa_GenerateKey C curve (d_rand d)) h1 (\<lambda>privKey.
              rest_key_pair G r name (code L AlgorithmECDSA) len (MarshalPKCS8PrivateKey C (PrivECDSA privKey))
                (MarshalPKIXPublicKey C (PubECDSA (ecdsa_PublicKey C privKey))) h1)))"

definition handleCreateKey :: "('w, 'i, 's) API \<Rightarrow> http_request \<Rightarrow> 's hstate \<Rightarrow> 's web" where
  [rest_defs]: "handleCreateKey G r h =
     need_json r [(''name'', FString ''''), (''algorithm'', FString ''''), (''length'', FInt32 0), (''type'', FString '''')] h (\<lambda>req.
     let name = str_field req ''name''; L = lib (deps_of G);
         keyType = (let t = ToLower (str_field req ''type'') in if t = '''' then ''symmetric'' else t)
     in need (name \<noteq> '''') 400 ''name is required'' h (
        if keyType \<in> {''rsa'', ''ec''} then rest_handleCreateKeyPair G r name keyType (int32_field req ''length'') h
        else
          let algo = resolveAlgorithm (str_field req ''algorithm'') in
          need (\<not> algo < 0) 400 ''unsupported algorithm'' h (
            let len = (if int32_field req ''length'' = 0 then 256 else int32_field req ''length'');
                (x, h1) = call (deps_of G) (\<lambda>d. Create (stor (deps_of G)) d name algo len
                  (code L UsageMaskEncrypt OR code L UsageMaskDecrypt) ''rest'') h
            in case x of
                 Inl err \<Rightarrow> writeError 500 err (logAudit G r ''CreateKey'' '''' name ''failure'' err h1)
               | Inr rec \<Rightarrow>
                   writeJSON 201 (JObject [(''algorithm'', JNumber (Algorithm rec)),
                     (''created_at'', JString (RFC3339 (weblib G) (CreatedAt rec))), (''length'', JNumber (sint (Length rec))),
                     (''name'', JString (Name rec)), (''object_type'', JNumber (ObjectType rec)),
                     (''state'', JString (stateString (State rec))), (''uid'', JString (UID rec))])
                     (logAudit G r ''CreateKey'' (UID rec) name ''success'' '''' h1))))"

text \<open>\<open>io.ReadAll(io.LimitReader(r.Body, 1<<20))\<close>: a longer body is cut.\<close>

definition handleUploadCertificate :: "('w, 'i, 's) API \<Rightarrow> http_request \<Rightarrow> 's hstate \<Rightarrow> 's web" where
  [rest_defs]: "handleUploadCertificate G r h =
     (case (case RawBody r of Inl err \<Rightarrow> Inl err | Inr b \<Rightarrow> Inr (take (2 ^ 20) b)) of
        Inl _ \<Rightarrow> writeError 400 ''empty or invalid body'' h
      | Inr body \<Rightarrow>
          need (length body \<noteq> 0) 400 ''empty or invalid body'' h (
            let certDER = (case pem_Decode (weblib G) body of
                  Some (ty, b) \<Rightarrow> if ty = ''CERTIFICATE'' then b else body | None \<Rightarrow> body)
            in web_error 400 ''invalid certificate: '' (ParseCertificate (weblib G) certDER) h (\<lambda>cert.
                 let name = (if query_Get r ''name'' = '''' then cert_CommonName cert else query_Get r ''name'');
                     (x, h1) = call (deps_of G) (\<lambda>d. Register (stor (deps_of G)) d
                       (zero_KeyRecord\<lparr>ObjectType := code (lib (deps_of G)) ObjectTypeCertificate, Name := name, Material := Some certDER\<rparr>)) h
                 in web_error 500 '''' x h1 (\<lambda>rec.
                      writeJSON 201 (JObject [(''issuer'', JString (cert_Issuer cert)), (''name'', JString name),
                        (''not_after'', JString (RFC3339 (weblib G) (cert_NotAfter cert))),
                        (''subject'', JString (cert_Subject cert)), (''uid'', JString (UID rec))])
                        (logAudit G r ''UploadCertificate'' (UID rec) name ''success'' '''' h1)))))"

definition handleGetKey :: "('w, 'i, 's) API \<Rightarrow> string \<Rightarrow> http_request \<Rightarrow> 's hstate \<Rightarrow> 's web" where
  [rest_defs]: "handleGetKey G uid r h =
     need_key G uid ''key'' h (\<lambda>rec h1.
       writeJSON 200 (JObject [(''algorithm'', JNumber (Algorithm rec)),
         (''created_at'', JString (RFC3339 (weblib G) (CreatedAt rec))), (''length'', JNumber (sint (Length rec))),
         (''name'', JString (Name rec)), (''object_type'', JNumber (ObjectType rec)),
         (''state'', JString (stateString (State rec))), (''uid'', JString (UID rec)),
         (''usage_mask'', JNumber (UsageMask rec))])
         (logAudit G r ''Get'' (UID rec) (Name rec) ''success'' '''' h1))"

text \<open>The answer of the three handlers that change the state of a key: no check of its current state.\<close>

definition state_change ::
  "('w, 'i, 's) API \<Rightarrow> http_request \<Rightarrow> string \<Rightarrow> string \<Rightarrow> string \<Rightarrow> (draw \<Rightarrow> 's \<Rightarrow> error option \<times> 's) \<Rightarrow> 's hstate \<Rightarrow> 's web" where
  "state_change G r operation uid st f h =
     (case call (deps_of G) f h of
        (Some err, h1) \<Rightarrow> writeError 404 err h1
      | (None, h1) \<Rightarrow>
          writeJSON 200 (JObject [(''state'', JString st), (''uid'', JString uid)])
            (logAudit G r operation uid '''' ''success'' '''' h1))"

definition handleActivateKey :: "('w, 'i, 's) API \<Rightarrow> string \<Rightarrow> http_request \<Rightarrow> 's hstate \<Rightarrow> 's web" where
  [rest_defs]: "handleActivateKey G uid r h =
     state_change G r ''Activate'' uid ''active'' (\<lambda>d. Activate (stor (deps_of G)) d uid) h"

definition handleRevokeKey :: "('w, 'i, 's) API \<Rightarrow> string \<Rightarrow> http_request \<Rightarrow> 's hstate \<Rightarrow> 's web" where
  [rest_defs]: "handleRevokeKey G uid r h =
     need_json r [(''reason'', FInt 0)] h (\<lambda>req.
       state_change G r ''Revoke'' uid ''revoked'' (\<lambda>d. Revoke (stor (deps_of G)) d uid (int_field req ''reason'')) h)"

definition handleDestroyKey :: "('w, 'i, 's) API \<Rightarrow> string \<Rightarrow> http_request \<Rightarrow> 's hstate \<Rightarrow> 's web" where
  [rest_defs]: "handleDestroyKey G uid r h =
     state_change G r ''Destroy'' uid ''destroyed'' (\<lambda>d. Destroy (stor (deps_of G)) d uid) h"

section \<open>Cryptographic operations\<close>

definition handleEncryptKey :: "('w, 'i, 's) API \<Rightarrow> string \<Rightarrow> http_request \<Rightarrow> 's hstate \<Rightarrow> 's web" where
  [rest_defs]: "handleEncryptKey G uid r h =
     need_json r [(''data'', FString '''')] h (\<lambda>req.
     need_base64 (str_field req ''data'') ''data'' h (\<lambda>plaintext.
     need_key G uid ''key'' h (\<lambda>rec h1.
     need (ObjectType rec = code (lib (deps_of G)) ObjectTypeSymmetricKey) 400 ''encrypt requires a symmetric key'' h1 (
     need (State rec = StateActive) 409 ''key must be Active to encrypt'' h1 (
     web_error 500 '''' (createAEAD rec) h1 (\<lambda>a.
       let (d, h2) = sample (deps_of G) h1;
           nonce = fresh_nonce d aead_NonceSize;
           ciphertext = aead_Seal (cry (deps_of G)) (weblib G) a nonce plaintext
       in writeJSON 200 (JObject [(''data'', JString (base64_EncodeToString ciphertext)),
            (''nonce'', JString (hex_EncodeToString nonce))])
            (logAudit G r ''Encrypt'' uid (Name rec) ''success'' '''' h2)))))))"

text \<open>\<open>aead.Open\<close> gets the nonce as the client sent it.\<close>

definition open_with :: "('w, 'i, 's) API \<Rightarrow> string \<Rightarrow> aead \<Rightarrow> bytes \<Rightarrow> bytes \<Rightarrow> 's hstate \<Rightarrow> (bytes \<Rightarrow> 's web) \<Rightarrow> 's web" where
  "open_with G what a nonce ciphertext h k =
     (case aead_Open (cry (deps_of G)) (weblib G) a nonce ciphertext of
        Panicked m \<Rightarrow> (Panicked m, h)
      | Done x \<Rightarrow> web_error 400 (what @ '' failed: '') x h k)"

definition handleDecryptKey :: "('w, 'i, 's) API \<Rightarrow> string \<Rightarrow> http_request \<Rightarrow> 's hstate \<Rightarrow> 's web" where
  [rest_defs]: "handleDecryptKey G uid r h =
     need_json r [(''data'', FString ''''), (''nonce'', FString '''')] h (\<lambda>req.
     need_base64 (str_field req ''data'') ''data'' h (\<lambda>ciphertext.
     need_hex (str_field req ''nonce'') h (\<lambda>nonce.
     need_key G uid ''key'' h (\<lambda>rec h1.
     need (ObjectType rec = code (lib (deps_of G)) ObjectTypeSymmetricKey) 400 ''decrypt requires a symmetric key'' h1 (
     need (State rec = StateActive) 409 ''key must be Active to decrypt'' h1 (
     web_error 500 '''' (createAEAD rec) h1 (\<lambda>a.
     open_with G ''decryption'' a nonce ciphertext h1 (\<lambda>plaintext.
       writeJSON 200 (JObject [(''data'', JString (base64_EncodeToString plaintext))])
         (logAudit G r ''Decrypt'' uid (Name rec) ''success'' '''' h1)))))))))"

definition handleWrapKey :: "('w, 'i, 's) API \<Rightarrow> string \<Rightarrow> http_request \<Rightarrow> 's hstate \<Rightarrow> 's web" where
  [rest_defs]: "handleWrapKey G uid r h =
     need_json r [(''wrapping_key_uid'', FString ''''), (''method'', FString '''')] h (\<lambda>req.
     need (str_field req ''wrapping_key_uid'' \<noteq> '''') 400 ''wrapping_key_uid required'' h (
     need_key G uid ''target key'' h (\<lambda>targetRec h1.
     need_key G (str_field req ''wrapping_key_uid'') ''wrapping key'' h1 (\<lambda>wrapRec h2.
     need (ObjectType wrapRec = code (lib (deps_of G)) ObjectTypeSymmetricKey) 400 ''wrapping key must be symmetric'' h2 (
     web_error 500 '''' (createAEADFromMaterial (Material wrapRec) (Algorithm wrapRec) (str_field req ''method'')) h2 (\<lambda>a.
       let (d, h3) = sample (deps_of G) h2;
           nonce = fresh_nonce d aead_NonceSize;
           wrapped = aead_Seal (cry (deps_of G)) (weblib G) a nonce (sl (Material targetRec))
       in writeJSON 200 (JObject [(''nonce'', JString (hex_EncodeToString nonce)),
            (''wrapped_key'', JString (base64_EncodeToString wrapped))])
            (logAudit G r ''WrapKey'' uid (Name targetRec) ''success'' '''' h3)))))))"

definition unwrap_fields :: "(string \<times> field) list" where
  "unwrap_fields = [(''wrapping_key_uid'', FString ''''), (''wrapped_key'', FString ''''), (''nonce'', FString ''''),
     (''method'', FString ''''), (''name'', FString ''''), (''algorithm'', FString ''''), (''length'', FInt32 0)]"

definition handleUnwrapKey :: "('w, 'i, 's) API \<Rightarrow> http_request \<Rightarrow> 's hstate \<Rightarrow> 's web" where
  [rest_defs]: "handleUnwrapKey G r h =
     need_json r unwrap_fields h (\<lambda>req.
     need_base64 (str_field req ''wrapped_key'') ''wrapped_key'' h (\<lambda>wrappedKey.
     need_hex (str_field req ''nonce'') h (\<lambda>nonce.
     need_key G (str_field req ''wrapping_key_uid'') ''wrapping key'' h (\<lambda>wrapRec h1.
     web_error 500 '''' (createAEADFromMaterial (Material wrapRec) (Algorithm wrapRec) (str_field req ''method'')) h1 (\<lambda>a.
     open_with G ''unwrap'' a nonce wrappedKey h1 (\<lambda>keyMaterial.
       let name = (if str_field req ''name'' = '''' then ''unwrapped-key'' else str_field req ''name'');
           algo = resolveAlgorithm (str_field req ''algorithm'')
       in need (\<not> algo < 0) 400 ''unsupported algorithm'' h1 (
            let L = lib (deps_of G);
                len = (if int32_field req ''length'' = 0 then word_of_int (int (length keyMaterial) * 8) else int32_field req ''length'');
                (d, h2) = sample (deps_of G) h1;
                newRec = zero_KeyRecord\<lparr>Name := name, ObjectType := code L ObjectTypeSymmetricKey, Algorithm := algo,
                  Length := len, Material := (if keyMaterial = [] then None else Some keyMaterial),
                  UsageMask := code L UsageMaskEncrypt OR code L UsageMaskDecrypt,
                  State := StatePreActive, CreatedAt := d_now d\<rparr>;
                (x, h3) = call (deps_of G) (\<lambda>d. Register (stor (deps_of G)) d newRec) h2
            in web_error 500 '''' x h3 (\<lambda>registered.
                 writeJSON 201 (JObject [(''algorithm'', JNumber algo), (''length'', JNumber (sint len)),
                   (''name'', JString name), (''state'', JString (stateString (State registered))),
                   (''uid'', JString (UID registered))])
                   (logAudit G r ''UnwrapKey'' (UID registered) name ''success'' '''' h3)))))))))"

definition handleSignKey :: "('w, 'i, 's) API \<Rightarrow> string \<Rightarrow> http_request \<Rightarrow> 's hstate \<Rightarrow> 's web" where
  [rest_defs]: "handleSignKey G uid r h =
     need_json r [(''data'', FString '''')] h (\<lambda>req.
     need_base64 (str_field req ''data'') ''data'' h (\<lambda>dat.
     need_key G uid ''key'' h (\<lambda>rec h1.
     need (\<not> (State rec \<noteq> StateActive \<or> ObjectType rec \<noteq> code (lib (deps_of G)) ObjectTypePrivateKey)) 400
       ''sign requires an active private key'' h1 (
     web_error 500 '''' (ParsePKCS8PrivateKey (cry (deps_of G)) (sl (Material rec))) h1 (\<lambda>privKey.
       let hash = sha256_Sum256 (cry (deps_of G)) dat; (d, h2) = sample (deps_of G) h1
       in case sign_with (cry (deps_of G)) d privKey hash of
            None \<Rightarrow> writeError 400 ''unsupported key type'' h2
          | Some x \<Rightarrow> web_error 500 '''' x h2 (\<lambda>signature.
              writeJSON 200 (JObject [(''signature'', JString (base64_EncodeToString signature))])
                (logAudit G r ''Sign'' uid (Name rec) ''success'' '''' h2)))))))"

text \<open>\<open>valid\<close> starts as true and the type switch has no default.\<close>

definition handleVerifyKey :: "('w, 'i, 's) API \<Rightarrow> string \<Rightarrow> http_request \<Rightarrow> 's hstate \<Rightarrow> 's web" where
  [rest_defs]: "handleVerifyKey G uid r h =
     need_json r [(''data'', FString ''''), (''signature'', FString '''')] h (\<lambda>req.
     need_base64 (str_field req ''data'') ''data'' h (\<lambda>dat.
     need_base64 (str_field req ''signature'') ''signature'' h (\<lambda>sig.
     need_key G uid ''key'' h (\<lambda>rec h1.
     need (ObjectType rec = code (lib (deps_of G)) ObjectTypePublicKey) 400 ''verify requires a public key'' h1 (
     web_error 500 '''' (ParsePKIXPublicKey (cry (deps_of G)) (sl (Material rec))) h1 (\<lambda>pubKey.
       let hash = sha256_Sum256 (cry (deps_of G)) dat;
           valid = (case verify_with (cry (deps_of G)) pubKey hash sig of None \<Rightarrow> True | Some good \<Rightarrow> good)
       in writeJSON 200 (JObject [(''valid'', JBool valid)])
            (logAudit G r ''Verify'' uid (Name rec) ''success'' (''valid='' @ (if valid then ''true'' else ''false'')) h1)))))))"

definition handleMACKey :: "('w, 'i, 's) API \<Rightarrow> string \<Rightarrow> http_request \<Rightarrow> 's hstate \<Rightarrow> 's web" where
  [rest_defs]: "handleMACKey G uid r h =
     need_json r [(''data'', FString '''')] h (\<lambda>req.
     need_base64 (str_field req ''data'') ''data'' h (\<lambda>dat.
     need_key G uid ''key'' h (\<lambda>rec h1.
     need (\<not> (State rec \<noteq> StateActive \<or> ObjectType rec \<noteq> code (lib (deps_of G)) ObjectTypeSymmetricKey)) 400
       ''MAC requires an active symmetric key'' h1 (
       writeJSON 200 (JObject [(''mac'', JString (base64_EncodeToString (hmac_sha256 (cry (deps_of G)) (sl (Material rec)) dat)))])
         (logAudit G r ''MAC'' uid (Name rec) ''success'' '''' h1)))))"

definition handleRekeyKey :: "('w, 'i, 's) API \<Rightarrow> string \<Rightarrow> http_request \<Rightarrow> 's hstate \<Rightarrow> 's web" where
  [rest_defs]: "handleRekeyKey G uid r h =
     need_key G uid ''key'' h (\<lambda>existing h1.
     need (State existing = StateActive) 409 ''key must be Active to rekey'' h1 (
       let (x, h2) = call (deps_of G) (\<lambda>d. Rekey (stor (deps_of G)) d uid) h1
       in web_error 404 '''' x h2 (\<lambda>rec.
            writeJSON 200 (JObject [(''name'', JString (Name rec)), (''state'', JString (stateString (State rec))),
              (''uid'', JString (UID rec)), (''version'', JNumber (Version rec))])
              (logAudit G r ''Rekey'' uid (Name rec) ''success'' '''' h2))))"

section \<open>Audit, status and metrics\<close>

definition entry_json :: "restlib \<Rightarrow> Entry \<Rightarrow> json" where
  "entry_json R e = JObject [(''id'', JNumber (ID e)), (''timestamp'', JString (RFC3339Nano R (Timestamp e))),
     (''source'', JString (Source e)), (''operation'', JString (Operation e)), (''client_id'', JString (ClientID e)),
     (''object_uid'', JString (ObjectUID e)), (''object_name'', JString (ObjectName e)), (''status'', JString (Status e)),
     (''message'', JString (Message e)), (''remote_addr'', JString (RemoteAddr e))]"

text \<open>The limits of a page: \<open>limit\<close> is 50 unless a positive number is given, at most 1000.\<close>

definition page_limit :: "http_request \<Rightarrow> int" where
  "page_limit r =
     (let limit = (case Atoi (query_Get r ''limit'') of Some n \<Rightarrow> if query_Get r ''limit'' \<noteq> '''' \<and> n > 0 then n else 50 | None \<Rightarrow> 50)
      in if limit > 1000 then 1000 else limit)"

definition page_offset :: "http_request \<Rightarrow> int" where
  "page_offset r =
     (case Atoi (query_Get r ''offset'') of Some n \<Rightarrow> if query_Get r ''offset'' \<noteq> '''' \<and> n \<ge> 0 then n else 0 | None \<Rightarrow> 0)"

text \<open>A page without entries is a nil slice, which is written as \<open>null\<close>.\<close>

definition handleAuditLog :: "('w, 'i, 's) API \<Rightarrow> http_request \<Rightarrow> 's hstate \<Rightarrow> 's web" where
  [rest_defs]: "handleAuditLog G r h =
     (case haudit h of
        None \<Rightarrow> writeJSON 200 (JObject [(''entries'', JArray []), (''total'', JNumber 0)]) h
      | Some a \<Rightarrow>
          let limit = page_limit r; offset = page_offset r;
              (d, h1) = sample (deps_of G) h;
              (entries, total) = Query d limit offset (query_Get r ''operation'') (query_Get r ''status'') a
          in writeJSON 200 (JObject [(''entries'', if entries = [] then JNull else JArray (map (entry_json (weblib G)) entries)),
               (''limit'', JNumber limit), (''offset'', JNumber offset), (''total'', JNumber total)]) h1)"

definition conn_json :: "restlib \<Rightarrow> ConnectionInfo \<Rightarrow> json" where
  "conn_json R c = JObject [(''id'', JString (conn_ID c)), (''client_cn'', JString (ClientCN c)),
     (''remote_addr'', JString (ConnRemoteAddr c)), (''connected_at'', JString (RFC3339Nano R (ConnectedAt c))),
     (''operations'', JNumber (Operations c)), (''last_op'', JString (LastOp c)),
     (''last_op_at'', JString (RFC3339Nano R (LastOpAt c)))]"

definition handleConnections :: "('w, 'i, 's) API \<Rightarrow> http_request \<Rightarrow> 's hstate \<Rightarrow> 's web" where
  [rest_defs]: "handleConnections G r h =
     (let (d, h1) = sample (deps_of G) h;
          cs = (case htracker h1 of None \<Rightarrow> [] | Some t \<Rightarrow> tracker_List d t)
      in writeJSON 200 (JObject [(''connections'', JArray (map (conn_json (weblib G)) cs)), (''total'', JNumber (int (length cs)))]) h1)"

definition count_state :: "KeyState \<Rightarrow> KeyRecord list \<Rightarrow> int" where
  "count_state s recs = int (length (filter (\<lambda>r. State r = s) recs))"

definition conn_count :: "'s hstate \<Rightarrow> int" where
  "conn_count h = (case htracker h of None \<Rightarrow> 0 | Some t \<Rightarrow> tracker_Count t)"

text \<open>The map of counts has a member only for states that occur.\<close>

definition state_counts :: "KeyRecord list \<Rightarrow> json" where
  "state_counts recs =
     JObject (map (\<lambda>(k, n). (k, JNumber n)) (filter (\<lambda>(k, n). n \<noteq> 0)
       [(''active'', count_state StateActive recs), (''compromised'', count_state StateCompromised recs),
        (''deactivated'', count_state StateDeactivated recs), (''pre_active'', count_state StatePreActive recs)]) @
       [(''total'', JNumber (int (length recs)))])"

definition handleStatus :: "('w, 'i, 's) API \<Rightarrow> http_request \<Rightarrow> 's hstate \<Rightarrow> 's web" where
  [rest_defs]: "handleStatus G r h =
     (let (records, h1) = query (deps_of G) (\<lambda>d. List (stor (deps_of G)) d) h;
          connCount = conn_count h1;
          (d, h2) = sample (deps_of G) h1
      in writeJSON 200 (JObject [(''connections'', JNumber connCount), (''keys'', state_counts records),
           (''kmip'', JObject [(''port'', JNumber 5696), (''protocol'', JString ''1.4'')]), (''status'', JString ''ok''),
           (''uptime_seconds'', JNumber (whole_seconds (weblib G) (d_now d - start G))), (''version'', JString ''0.1.0'')]) h2)"

definition handleInventory :: "('w, 'i, 's) API \<Rightarrow> http_request \<Rightarrow> 's hstate \<Rightarrow> 's web" where
  [rest_defs]: "handleInventory G r h =
     (case query (deps_of G) (inventory G) h of
        (None, h1) \<Rightarrow> writeJSON 200 (JArray []) h1
      | (Some x, h1) \<Rightarrow> web_error 500 '''' x h1 (\<lambda>views. writeJSON 200 views h1))"

definition handleHealthz :: "http_request \<Rightarrow> 's hstate \<Rightarrow> 's web" where
  [rest_defs]: "handleHealthz r h = writeJSON 200 (JObject [(''status'', JString ''ok'')]) h"

definition gauge :: "string \<Rightarrow> string \<Rightarrow> int \<Rightarrow> string" where
  "gauge name what n = ''# HELP '' @ name @ '' '' @ what @ [CHR 0x0A] @ ''# TYPE '' @ name @ '' gauge'' @ [CHR 0x0A] @
     name @ '' '' @ fmt_d n @ [CHR 0x0A]"

definition handleMetrics :: "('w, 'i, 's) API \<Rightarrow> http_request \<Rightarrow> 's hstate \<Rightarrow> 's web" where
  [rest_defs]: "handleMetrics G r h =
     (let (records, h1) = query (deps_of G) (\<lambda>d. List (stor (deps_of G)) d) h
      in (Done \<lparr>status = 200, headers = [(''Content-Type'', ''text/plain; charset=utf-8'')], set_cookies = [],
            resp_body = Text (
              gauge ''open_kmip_keys_total'' ''Total managed keys'' (int (length records)) @
              gauge ''open_kmip_keys_active'' ''Active keys'' (count_state StateActive records) @
              gauge ''open_kmip_keys_pre_active'' ''Pre-active keys'' (count_state StatePreActive records) @
              gauge ''open_kmip_keys_revoked'' ''Revoked keys'' (count_state StateCompromised records) @
              gauge ''open_kmip_connections_active'' ''Active KMIP connections'' (conn_count h1))\<rparr>, h1))"

end
