(* ===== verification/Rest_Api.thy ===== *)
theory Rest_Api
  imports Rest_Handlers
begin

text \<open>
  \<open>internal/api/api.go\<close>, the server around the handlers: the rate limiter, the middleware, the routes
  and \<open>Serve\<close>. The state of the API adds the buckets of the rate limiter and the sessions of the
  dashboard to the state it shares with KMIP.
\<close>

section \<open>The rate limiter\<close>

record rateBucket =
  tokens :: int
  lastSeen :: time

type_synonym ipRateLimiter = "(string, rateBucket) gomap"

definition newIPRateLimiter :: ipRateLimiter where
  "newIPRateLimiter = []"

definition allow :: "restlib \<Rightarrow> time \<Rightarrow> string \<Rightarrow> ipRateLimiter \<Rightarrow> bool \<times> ipRateLimiter" where
  "allow R now ip rl =
     (case map_of rl ip of
        None \<Rightarrow> (True, AList.update ip \<lparr>tokens = 99, lastSeen = now\<rparr> rl)
      | Some b \<Rightarrow>
          let t = tokens b + refill R (now - lastSeen b);
              t = (if t > 100 then 100 else t)
          in if t \<le> 0 then (False, AList.update ip \<lparr>tokens = t, lastSeen = now\<rparr> rl)
             else (True, AList.update ip \<lparr>tokens = t - 1, lastSeen = now\<rparr> rl))"

section \<open>Routes\<close>

record 's api_state =
  api_h :: "'s hstate"
  limiter :: ipRateLimiter
  dashAuth :: DashAuth

definition NewAPI :: "string \<Rightarrow> bool \<Rightarrow> 's hstate \<Rightarrow> 's api_state" where
  "NewAPI key dev h = \<lparr>api_h = h, limiter = newIPRateLimiter,
     dashAuth = (if dev then NewDevMode else NewDashAuth key True)\<rparr>"

datatype endpoint = EListKeys | ECreateKey | EGetKey string | EActivateKey string | ERevokeKey string | EDestroyKey string
  | EEncryptKey string | EDecryptKey string | ESignKey string | EVerifyKey string | EMACKey string | ERekeyKey string
  | EWrapKey string | EUnwrapKey string | EUploadCertificate | EConnections | EStatus | EAuditLog | EInventory
  | EHealthz | EMetrics | ELogin | ELogout | EAuthStatus | EDashboard

text \<open>
  The patterns of the mux: a GET pattern also serves HEAD; \<open>{uid}\<close> matches one non-empty segment;
  everything else goes to the dashboard.
\<close>

fun key_action :: "string \<Rightarrow> string \<Rightarrow> endpoint" where
  "key_action uid a =
     (if uid = '''' then EDashboard
      else if a = ''activate'' then EActivateKey uid else if a = ''revoke'' then ERevokeKey uid
      else if a = ''encrypt'' then EEncryptKey uid else if a = ''decrypt'' then EDecryptKey uid
      else if a = ''sign'' then ESignKey uid else if a = ''verify'' then EVerifyKey uid
      else if a = ''mac'' then EMACKey uid else if a = ''rekey'' then ERekeyKey uid
      else if a = ''wrap'' then EWrapKey uid else if a = ''unwrap'' then EUnwrapKey uid else EDashboard)"

definition route :: "http_request \<Rightarrow> endpoint" where
  "route r =
     (let get = Method r \<in> {''GET'', ''HEAD''}; post = Method r = ''POST''
      in case Path r of
           [a] \<Rightarrow> if get \<and> a = ''healthz'' then EHealthz else if get \<and> a = ''metrics'' then EMetrics else EDashboard
         | [a, b] \<Rightarrow>
             if a = ''v1'' then
               (if b = ''keys'' then (if get then EListKeys else if post then ECreateKey else EDashboard)
                else if post \<and> b = ''certificates'' then EUploadCertificate
                else if get \<and> b = ''connections'' then EConnections else if get \<and> b = ''status'' then EStatus
                else if get \<and> b = ''audit'' then EAuditLog else if get \<and> b = ''inventory'' then EInventory else EDashboard)
             else if a = ''auth'' then
               (if post \<and> b = ''login'' then ELogin else if post \<and> b = ''logout'' then ELogout
                else if get \<and> b = ''status'' then EAuthStatus else EDashboard)
             else EDashboard
         | [a, b, uid] \<Rightarrow>
             if a = ''v1'' \<and> b = ''keys'' \<and> uid \<noteq> '''' then
               (if get then EGetKey uid else if Method r = ''DELETE'' then EDestroyKey uid else EDashboard)
             else EDashboard
         | [a, b, uid, c] \<Rightarrow> if a = ''v1'' \<and> b = ''keys'' \<and> post then key_action uid c else EDashboard
         | _ \<Rightarrow> EDashboard)"

definition protected :: "('w, 'i, 's) API \<Rightarrow> endpoint \<Rightarrow> (http_request \<Rightarrow> 's hstate \<Rightarrow> 's web) option" where
  "protected G e =
     (case e of
        EListKeys \<Rightarrow> Some (handleListKeys G) | ECreateKey \<Rightarrow> Some (handleCreateKey G)
      | EGetKey uid \<Rightarrow> Some (handleGetKey G uid) | EActivateKey uid \<Rightarrow> Some (handleActivateKey G uid)
      | ERevokeKey uid \<Rightarrow> Some (handleRevokeKey G uid) | EDestroyKey uid \<Rightarrow> Some (handleDestroyKey G uid)
      | EEncryptKey uid \<Rightarrow> Some (handleEncryptKey G uid) | EDecryptKey uid \<Rightarrow> Some (handleDecryptKey G uid)
      | ESignKey uid \<Rightarrow> Some (handleSignKey G uid) | EVerifyKey uid \<Rightarrow> Some (handleVerifyKey G uid)
      | EMACKey uid \<Rightarrow> Some (handleMACKey G uid) | ERekeyKey uid \<Rightarrow> Some (handleRekeyKey G uid)
      | EWrapKey uid \<Rightarrow> Some (handleWrapKey G uid) | EUnwrapKey uid \<Rightarrow> Some (handleUnwrapKey G)
      | EUploadCertificate \<Rightarrow> Some (handleUploadCertificate G) | EConnections \<Rightarrow> Some (handleConnections G)
      | EStatus \<Rightarrow> Some (handleStatus G) | EAuditLog \<Rightarrow> Some (handleAuditLog G) | EInventory \<Rightarrow> Some (handleInventory G)
      | _ \<Rightarrow> None)"

type_synonym 's answer = "http_response outcome \<times> 's api_state"

definition on_shared :: "'s web \<Rightarrow> 's api_state \<Rightarrow> 's answer" where
  "on_shared w st = (fst w, st\<lparr>api_h := snd w\<rparr>)"

definition on_auth :: "http_response outcome \<times> DashAuth \<Rightarrow> 's hstate \<Rightarrow> 's api_state \<Rightarrow> 's answer" where
  "on_auth w h st = (fst w, st\<lparr>dashAuth := snd w, api_h := h\<rparr>)"

text \<open>The mux with the authentication in front of the protected handlers.\<close>

definition serveMux :: "('w, 'i, 's) API \<Rightarrow> http_request \<Rightarrow> 's api_state \<Rightarrow> 's answer" where
  "serveMux G r st =
     (let X = deps_of G; e = route r
      in case protected G e of
           Some k \<Rightarrow>
             let (d, h1) = sample X (api_h st); (resp, da, h2) = RequireAPIAuth k (d_now d) r (dashAuth st, h1)
             in (resp, st\<lparr>dashAuth := da, api_h := h2\<rparr>)
         | None \<Rightarrow>
             (case e of
                EHealthz \<Rightarrow> on_shared (handleHealthz r (api_h st)) st
              | EMetrics \<Rightarrow> on_shared (handleMetrics G r (api_h st)) st
              | ELogin \<Rightarrow>
                  let (d1, h1) = sample X (api_h st); (d2, h2) = sample X h1
                  in on_auth (handleLogin (d_now d1) d2 r (dashAuth st)) h2 st
              | ELogout \<Rightarrow> on_auth (apfst Done (handleLogout r (dashAuth st))) (api_h st) st
              | EAuthStatus \<Rightarrow>
                  let (d, h1) = sample X (api_h st)
                  in on_auth (apfst Done (auth_handleStatus (d_now d) r (dashAuth st))) h1 st
              | _ \<Rightarrow> (Done (static_files (weblib G) r), st)))"

section \<open>Middleware\<close>

definition add_headers :: "(string \<times> string) list \<Rightarrow> http_response outcome \<Rightarrow> http_response outcome" where
  "add_headers hs x = (case x of Panicked m \<Rightarrow> Panicked m | Done resp \<Rightarrow> Done (resp\<lparr>headers := hs @ headers resp\<rparr>))"

definition cors_headers :: "('w, 'i, 's) API \<Rightarrow> (string \<times> string) list" where
  "cors_headers G = [(''Access-Control-Allow-Origin'', corsOrigin G),
     (''Access-Control-Allow-Methods'', ''GET, POST, PUT, DELETE, OPTIONS''),
     (''Access-Control-Allow-Headers'', ''Authorization, Content-Type'')]"

definition corsMiddleware ::
  "('w, 'i, 's) API \<Rightarrow> (http_request \<Rightarrow> 's api_state \<Rightarrow> 's answer) \<Rightarrow> http_request \<Rightarrow> 's api_state \<Rightarrow> 's answer" where
  "corsMiddleware G nxt r st =
     (if corsOrigin G \<noteq> '''' then
        if Method r = ''OPTIONS'' then (Done \<lparr>status = 204, headers = cors_headers G, set_cookies = [], resp_body = NoBody\<rparr>, st)
        else apfst (add_headers (cors_headers G)) (nxt r st)
      else nxt r st)"

definition maxRequestBodySize :: nat where [go_const]: "maxRequestBodySize = 2 ^ 20"

text \<open>With \<open>http.MaxBytesReader\<close> a JSON value that ends beyond the limit is not read.\<close>

definition limitBodyMiddleware ::
  "(http_request \<Rightarrow> 's api_state \<Rightarrow> 's answer) \<Rightarrow> http_request \<Rightarrow> 's api_state \<Rightarrow> 's answer" where
  "limitBodyMiddleware nxt r st = nxt (r\<lparr>Body := (if JsonEnd r > maxRequestBodySize then None else Body r)\<rparr>) st"

definition rateLimitMiddleware ::
  "('w, 'i, 's) API \<Rightarrow> (http_request \<Rightarrow> 's api_state \<Rightarrow> 's answer) \<Rightarrow> http_request \<Rightarrow> 's api_state \<Rightarrow> 's answer" where
  "rateLimitMiddleware G nxt r st =
     (let ip = before_last CHR '':'' (RemoteIPPort r);
          (d, h1) = sample (deps_of G) (api_h st);
          (allowed, rl) = allow (weblib G) (d_now d) ip (limiter st);
          st1 = st\<lparr>api_h := h1, limiter := rl\<rparr>
      in if \<not> allowed then
           (Done (json_response 429 [(''Retry-After'', ''5'')] [] (error_body ''rate limit exceeded'')),
            st1\<lparr>api_h := logAudit G r ''RATE_LIMITED'' '''' '''' ''failure'' ''too many requests'' h1\<rparr>)
         else nxt r st1)"

definition ServeHTTP :: "('w, 'i, 's) API \<Rightarrow> http_request \<Rightarrow> 's api_state \<Rightarrow> 's answer" where
  "ServeHTTP G = rateLimitMiddleware G (limitBodyMiddleware (corsMiddleware G (serveMux G)))"

text \<open>\<open>Serve\<close> refuses to start without TLS files; otherwise it serves with this handler.\<close>

definition api_Serve :: "('w, 'i, 's) API \<Rightarrow> (http_request \<Rightarrow> 's api_state \<Rightarrow> 's answer) result" where
  "api_Serve G = (if certFile G = '''' \<or> keyFile G = '''' then Inl ''TLS cert and key are required for REST API''
     else Inr (ServeHTTP G))"

end
