(* ===== verification/Rest_Steps.thy ===== *)
theory Rest_Steps
  imports Rest_Api Step_Invariants
begin

text \<open>
  What the REST API may do to the managed objects. Its handlers do not consult the life-cycle table, so
  the step relation \<open>vault_step\<close> extends that of KMIP: any live object may be activated, revoked or
  destroyed. Every REST handler, and every request to the API, makes only such steps, for every store
  that fulfils the storage contract; and these steps still keep identities and never bring a destroyed
  object back.
\<close>

section \<open>Steps of both front ends\<close>

inductive vault_step :: "vault \<Rightarrow> vault \<Rightarrow> bool" where
  life_cycle: "kmip_step v v' \<Longrightarrow> vault_step v v'"
| activate_any: "live v u = Some r \<Longrightarrow> vault_step v (v\<lparr>objs := (objs v)(u \<mapsto> r\<lparr>State := StateActive\<rparr>)\<rparr>)"
| revoke_any: "live v u = Some r \<Longrightarrow>
    vault_step v (v\<lparr>objs := (objs v)(u \<mapsto> r\<lparr>State := StateRevoked, RevocationReason := k\<rparr>)\<rparr>)"
| destroy_any: "live v u = Some r \<Longrightarrow> sl m = [] \<Longrightarrow>
    vault_step v (v\<lparr>objs := (objs v)(u \<mapsto> r\<lparr>Material := m, State := StateDestroyed\<rparr>)\<rparr>)"

inductive_cases vault_stepE: "vault_step v v'"

lemma kmip_vault_steps: "kmip_step\<^sup>*\<^sup>* v v' \<Longrightarrow> vault_step\<^sup>*\<^sup>* v v'"
  using rtranclp_mono[of kmip_step vault_step] vault_step.life_cycle by blast

text \<open>Along these steps, too: an object keeps its identity, and a destroyed one stays as it is.\<close>

definition later :: "KeyRecord \<Rightarrow> KeyRecord \<Rightarrow> bool" where
  "later r r' \<longleftrightarrow> same_identity r r' \<and> (State r = StateDestroyed \<longrightarrow> r' = r)"

lemma later_trans: "later r r' \<Longrightarrow> later r' r'' \<Longrightarrow> later r r''"
  by (auto simp: later_def intro: same_identity_trans)

lemma vault_step_later:
  assumes "vault_step v v'" "objs v u = Some r"
  shows "\<exists>r'. objs v' u = Some r' \<and> later r r'"
  using assms
proof (cases rule: vault_step.cases)
  case life_cycle
  with step_identity[of v v' u r] step_destroyed[of v v' u r] assms show ?thesis by (auto simp: later_def)
qed (auto simp: later_def same_identity_def live_Some_iff)

lemma vault_steps_later:
  assumes "vault_step\<^sup>*\<^sup>* v v'" "objs v u = Some r"
  shows "\<exists>r'. objs v' u = Some r' \<and> later r r'"
  using assms(1)
proof induction
  case base
  then show ?case by (simp add: assms(2) later_def)
next
  case (step v1 v2)
  then show ?case using vault_step_later later_trans by meson
qed

lemma vault_steps_proper: "vault_step\<^sup>*\<^sup>* v v' \<Longrightarrow> proper v \<Longrightarrow> proper v'"
proof (induction rule: rtranclp_induct)
  case (step v1 v2)
  then have p: "proper v1" by blast
  from step(2) show ?case
  proof (cases rule: vault_step.cases)
    case life_cycle
    with p show ?thesis by (blast intro: step_proper)
  qed (use p in \<open>auto simp: proper_def kmip_states_def live_Some_iff go_const\<close>)
qed simp

section \<open>Safe handlers\<close>

definition web_safe :: "('s \<Rightarrow> bool) \<Rightarrow> ('s \<Rightarrow> vault) \<Rightarrow> world \<Rightarrow> 's hstate \<Rightarrow> 'r \<times> 's hstate \<Rightarrow> bool" where
  "web_safe I A E h r \<longleftrightarrow> (hinv I A E h \<longrightarrow>
     hinv I A E (snd r) \<and> vault_step\<^sup>*\<^sup>* (A (hstore h)) (A (hstore (snd r))))"

lemma safe_web: "safe I A E h r \<Longrightarrow> web_safe I A E h r"
  by (auto simp: safe_def web_safe_def intro: kmip_vault_steps)

lemma web_same: "hstore (snd r) = hstore h \<Longrightarrow> htick h \<le> htick (snd r) \<Longrightarrow> web_safe I A E h r"
  by (intro safe_web safe_same)

lemma web_trans: "web_safe I A E h (x, h1) \<Longrightarrow> web_safe I A E h1 r \<Longrightarrow> web_safe I A E h r"
  by (auto simp: web_safe_def)

lemma logAudit_frame [simp]:
  "hstore (logAudit G r opn u nm st msg h) = hstore h" "htick h \<le> htick (logAudit G r opn u nm st msg h)"
  "htracker (logAudit G r opn u nm st msg h) = htracker h"
  by (simp_all add: logAudit_def sample_def Let_def split: option.split)

lemma web_json [simp]: "web_safe I A E h (writeJSON st js h)"
  by (rule web_same) (simp_all add: writeJSON_def)

lemma web_json_log [simp]: "web_safe I A E h (writeJSON st js (logAudit G r opn u nm st' msg h))"
  by (rule web_same) (simp_all add: writeJSON_def)

lemma web_err [simp]: "web_safe I A E h (writeError st msg h)" "web_safe I A E h (writeError st msg (logAudit G r opn u nm st' m' h))"
  by (simp_all add: writeError_def)

lemma web_need_json: "(\<And>req. web_safe I A E h (k req)) \<Longrightarrow> web_safe I A E h (need_json r shape h k)"
  by (simp add: need_json_def split: option.split)

lemma web_need_base64: "(\<And>b. web_safe I A E h (k b)) \<Longrightarrow> web_safe I A E h (need_base64 s what h k)"
  by (simp add: need_base64_def split: option.split)

lemma web_need_hex: "(\<And>b. web_safe I A E h (k b)) \<Longrightarrow> web_safe I A E h (need_hex s h k)"
  by (simp add: need_hex_def split: option.split)

lemma web_web_error: "(\<And>v. x = Inr v \<Longrightarrow> web_safe I A E h (k v)) \<Longrightarrow> web_safe I A E h (web_error st pre x h k)"
  by (simp add: web_error_def split: sum.split)

lemma web_need: "(b \<Longrightarrow> web_safe I A E h k) \<Longrightarrow> web_safe I A E h (need b st msg h k)"
  by (simp add: need_def)

lemma web_then: "web_safe I A E h c \<Longrightarrow> (\<And>r h1. c = (r, h1) \<Longrightarrow> web_safe I A E h1 (k r h1)) \<Longrightarrow>
    web_safe I A E h (case c of (r, h1) \<Rightarrow> k r h1)"
  by (cases c) (auto intro: web_trans)

lemma web_query: "(\<And>r h1. web_safe I A E h1 (k r h1)) \<Longrightarrow> web_safe I A E h (case query X f h of (r, h1) \<Rightarrow> k r h1)"
  by (rule web_then) (auto simp: query_def intro: web_same)

lemma web_sample: "(\<And>d h1. web_safe I A E h1 (k d h1)) \<Longrightarrow> web_safe I A E h (case sample X h of (d, h1) \<Rightarrow> k d h1)"
  by (rule web_then) (auto simp: sample_def intro: web_same)

lemma web_if: "(b \<Longrightarrow> web_safe I A E h x) \<Longrightarrow> (\<not> b \<Longrightarrow> web_safe I A E h y) \<Longrightarrow> web_safe I A E h (if b then x else y)"
  by simp

lemma web_option: "web_safe I A E h x \<Longrightarrow> (\<And>a. web_safe I A E h (k a)) \<Longrightarrow> web_safe I A E h (case c of None \<Rightarrow> x | Some a \<Rightarrow> k a)"
  by (cases c) simp_all

lemma web_sum: "(\<And>e. web_safe I A E h (f e)) \<Longrightarrow> (\<And>a. web_safe I A E h (k a)) \<Longrightarrow> web_safe I A E h (case c of Inl e \<Rightarrow> f e | Inr a \<Rightarrow> k a)"
  by (cases c) simp_all

lemma web_prod: "(\<And>a b. web_safe I A E h (k a b)) \<Longrightarrow> web_safe I A E h (case c of (a, b) \<Rightarrow> k a b)"
  by (cases c) simp

lemma web_open: "(\<And>b. web_safe I A E h (k b)) \<Longrightarrow> web_safe I A E h (open_with G what a nonce ct h k)"
  by (auto simp: open_with_def split: outcome.split intro: web_same intro!: web_web_error)

lemma web_need_key_any: "(\<And>rec h1. web_safe I A E h1 (k rec h1)) \<Longrightarrow> web_safe I A E h (need_key G uid what h k)"
proof -
  assume k: "\<And>rec h1. web_safe I A E h1 (k rec h1)"
  have "need_key G uid what h k = (case query (deps_of G) (\<lambda>d. Get (stor (deps_of G)) d uid) h of (x, h1) \<Rightarrow>
      (case x of None \<Rightarrow> writeError 404 (what @ '' not found'') h1 | Some rec \<Rightarrow> k rec h1))"
    by (simp add: need_key_def split: prod.split option.split)
  with k show ?thesis by (auto intro!: web_query web_option)
qed

lemmas web_rules = web_json web_json_log web_err web_need_json web_need_base64 web_need_hex web_web_error web_need
  web_query web_sample web_if web_option web_sum web_open web_need_key_any

lemma web_state_change:
  "web_safe I A E h (call (deps_of G) f h) \<Longrightarrow> web_safe I A E h (state_change G r opn uid st f h)"
  unfolding state_change_def
  by (cases "call (deps_of G) f h") (auto split: option.split elim!: web_trans)

text \<open>Calls whose effect is one step.\<close>

lemma web_call:
  assumes "\<And>s r s'. I s \<Longrightarrow> f (outside X (htick h)) s = (r, s') \<Longrightarrow>
    I s' \<and> (A s' = A s \<or> vault_step (A s) (A s')) \<and> (\<forall>u. objs (A s') u \<noteq> None \<longrightarrow> objs (A s) u \<noteq> None)"
  shows "web_safe I A (outside X) h (call X f h)"
proof -
  obtain r s' where f: "f (outside X (htick h)) (hstore h) = (r, s')" by fastforce
  from assms[OF _ f] show ?thesis
    unfolding web_safe_def hinv_def by (auto simp: call_def f less_Suc_eq)
qed

section \<open>Every handler is safe, for every store that fulfils the contract\<close>

context storage_contract
begin

lemma web_update_call:
  fixes f :: "draw \<Rightarrow> 's \<Rightarrow> error option \<times> 's"
  assumes ok: "\<And>s s'. sinv s \<Longrightarrow> f (outside X (htick h)) s = (None, s') \<Longrightarrow> sinv s' \<and> (\<exists>g. updates u g (sabs s) (sabs s') \<and>
      (\<forall>r. live (sabs s) u = Some r \<longrightarrow> vault_step (sabs s) ((sabs s)\<lparr>objs := (objs (sabs s))(u \<mapsto> g r)\<rparr>)))"
    and err: "\<And>s e s'. sinv s \<Longrightarrow> f (outside X (htick h)) s = (Some e, s') \<Longrightarrow> sinv s' \<and> sabs s' = sabs s"
  shows "web_safe sinv sabs (outside X) h (call X f h)"
proof (rule web_call)
  fix s e s'
  assume s: "sinv s" "f (outside X (htick h)) s = (e, s')"
  show "sinv s' \<and> (sabs s' = sabs s \<or> vault_step (sabs s) (sabs s')) \<and> (\<forall>u. objs (sabs s') u \<noteq> None \<longrightarrow> objs (sabs s) u \<noteq> None)"
  proof (cases e)
    case None
    from ok[OF s(1) s(2)[unfolded None]] show ?thesis by (auto simp: updates_def live_Some_iff split: if_splits)
  next
    case (Some x)
    from err[OF s(1) s(2)[unfolded Some]] show ?thesis by simp
  qed
qed

lemma web_activate_call:
  assumes "stor X = S"
  shows "web_safe sinv sabs (outside X) h (call X (\<lambda>d. Activate (stor X) d u) h)"
  unfolding assms by (rule web_update_call) (blast dest: activate_ok activate_err intro: vault_step.activate_any)+

lemma web_revoke_call:
  assumes "stor X = S"
  shows "web_safe sinv sabs (outside X) h (call X (\<lambda>d. Revoke (stor X) d u k) h)"
  unfolding assms by (rule web_update_call) (blast dest: revoke_ok revoke_err intro: vault_step.revoke_any)+

lemma web_destroy_call:
  assumes "stor X = S"
  shows "web_safe sinv sabs (outside X) h (call X (\<lambda>d. Destroy (stor X) d u) h)"
  unfolding assms
proof (rule web_update_call)
  fix s s'
  assume "sinv s" "Destroy S (outside X (htick h)) u s = (None, s')"
  from destroy_ok[OF this] obtain m where "sinv s'" "sl m = []"
    "updates u (\<lambda>r. r\<lparr>Material := m, State := StateDestroyed\<rparr>) (sabs s) (sabs s')" by blast
  then show "sinv s' \<and> (\<exists>g. updates u g (sabs s) (sabs s') \<and>
      (\<forall>r. live (sabs s) u = Some r \<longrightarrow> vault_step (sabs s) ((sabs s)\<lparr>objs := (objs (sabs s))(u \<mapsto> g r)\<rparr>)))"
    by (blast intro: vault_step.destroy_any)
qed (rule destroy_err)

lemma web_rekey_call:
  assumes "stor X = S" "hinv sinv sabs (outside X) h \<Longrightarrow> live (sabs (hstore h)) u = Some r" "State r = StateActive"
  shows "web_safe sinv sabs (outside X) h (call X (\<lambda>d. Rekey (stor X) d u) h)"
  unfolding assms(1) using assms(2,3) by (intro safe_web safe_call) (auto intro: effect_rekey hinv_store)

lemma web_need_key:
  assumes "stor (deps_of G) = S"
    and "\<And>rec h1. (hinv sinv sabs E h1 \<Longrightarrow> live (sabs (hstore h1)) uid = Some rec) \<Longrightarrow> web_safe sinv sabs E h1 (k rec h1)"
  shows "web_safe sinv sabs E h (need_key G uid what h k)"
proof -
  let ?h = "h\<lparr>htick := Suc (htick h)\<rparr>"
  have "web_safe sinv sabs E ?h (case Get S (outside (deps_of G) (htick h)) uid (hstore h) of
      None \<Rightarrow> writeError 404 (what @ '' not found'') ?h | Some rec \<Rightarrow> k rec ?h)"
    using assms(2)[of ?h] get_sound[of "hstore h"] by (auto simp: hinv_def split: option.split)
  then have "web_safe sinv sabs E ?h (need_key G uid what h k)"
    by (simp add: need_key_def query_def assms(1) split: option.split)
  then show ?thesis by (rule web_trans[rotated]) (rule web_same, simp_all)
qed


lemma web_create_call:
  "stor X = S \<Longrightarrow> fresh_world (outside X) \<Longrightarrow>
   web_safe sinv sabs (outside X) h (call X (\<lambda>d. Create (stor X) d name alg len usage own) h)"
  by (intro safe_web safe_create_call)

lemma web_register_call:
  "stor X = S \<Longrightarrow> fresh_world (outside X) \<Longrightarrow> web_safe sinv sabs (outside X) h (call X (\<lambda>d. Register (stor X) d rec) h)"
  by (intro safe_web safe_register_call)

lemma web_key_pair:
  "stor (deps_of G) = S \<Longrightarrow> fresh_world (outside (deps_of G)) \<Longrightarrow>
   web_safe sinv sabs (outside (deps_of G)) h (rest_key_pair G r name alg len priv pub h)"
  unfolding rest_key_pair_def Let_def by (intro web_then web_register_call web_rules)

lemma web_handleCreateKeyPair:
  "stor (deps_of G) = S \<Longrightarrow> fresh_world (outside (deps_of G)) \<Longrightarrow>
   web_safe sinv sabs (outside (deps_of G)) h (rest_handleCreateKeyPair G r name ty len h)"
  unfolding rest_handleCreateKeyPair_def Let_def
  by (intro web_sample web_if web_prod web_web_error web_key_pair)

lemma web_handleCreateKey:
  "stor (deps_of G) = S \<Longrightarrow> fresh_world (outside (deps_of G)) \<Longrightarrow>
   web_safe sinv sabs (outside (deps_of G)) h (handleCreateKey G r h)"
  unfolding handleCreateKey_def Let_def
  by (intro web_need_json web_need web_if web_handleCreateKeyPair web_then web_create_call web_sum web_err web_json_log)

lemma web_handleUploadCertificate:
  "stor (deps_of G) = S \<Longrightarrow> fresh_world (outside (deps_of G)) \<Longrightarrow>
   web_safe sinv sabs (outside (deps_of G)) h (handleUploadCertificate G r h)"
  unfolding handleUploadCertificate_def Let_def
  by (intro web_sum web_err web_need web_web_error web_then web_register_call web_json_log)

lemma web_handleUnwrapKey:
  "stor (deps_of G) = S \<Longrightarrow> fresh_world (outside (deps_of G)) \<Longrightarrow>
   web_safe sinv sabs (outside (deps_of G)) h (handleUnwrapKey G r h)"
  unfolding handleUnwrapKey_def Let_def
  by (intro web_need_json web_need_base64 web_need_hex web_need_key_any web_web_error web_open web_need
      web_sample web_then web_register_call web_json_log)

lemma web_handleRekeyKey:
  assumes "stor (deps_of G) = S"
  shows "web_safe sinv sabs (outside (deps_of G)) h (handleRekeyKey G uid r h)"
  unfolding handleRekeyKey_def Let_def
  by (rule web_need_key[OF assms]) (intro web_need web_then web_rekey_call[OF assms] web_web_error web_json_log)

lemma web_state_changes:
  assumes "stor (deps_of G) = S"
  shows "web_safe sinv sabs (outside (deps_of G)) h (handleActivateKey G uid r h)"
    "web_safe sinv sabs (outside (deps_of G)) h (handleRevokeKey G uid r h)"
    "web_safe sinv sabs (outside (deps_of G)) h (handleDestroyKey G uid r h)"
  unfolding handleActivateKey_def handleRevokeKey_def handleDestroyKey_def
  by (intro web_need_json web_state_change web_activate_call web_revoke_call web_destroy_call assms)+

lemma web_reading:
  "web_safe sinv sabs E h (handleListKeys G r h)" "web_safe sinv sabs E h (handleGetKey G uid r h)"
  "web_safe sinv sabs E h (handleEncryptKey G uid r h)" "web_safe sinv sabs E h (handleDecryptKey G uid r h)"
  "web_safe sinv sabs E h (handleWrapKey G uid r h)" "web_safe sinv sabs E h (handleSignKey G uid r h)"
  "web_safe sinv sabs E h (handleVerifyKey G uid r h)" "web_safe sinv sabs E h (handleMACKey G uid r h)"
  "web_safe sinv sabs E h (handleConnections G r h)" "web_safe sinv sabs E h (handleStatus G r h)"
  unfolding rest_defs Let_def by (intro web_rules)+

lemma web_handleAuditLog: "web_safe sinv sabs E h (handleAuditLog G r h)"
  unfolding handleAuditLog_def Let_def by (intro web_option web_json web_sample web_prod)

lemma web_handleMetrics: "web_safe sinv sabs E h (handleMetrics G r h)"
  unfolding handleMetrics_def Let_def by (intro web_query web_same) simp_all

lemma web_handleInventory: "web_safe sinv sabs E h (handleInventory G r h)"
proof -
  have "handleInventory G r h = (case query (deps_of G) (inventory G) h of (x, h1) \<Rightarrow> (case x of None \<Rightarrow> writeJSON 200 (JArray []) h1
      | Some y \<Rightarrow> web_error 500 [] y h1 (\<lambda>views. writeJSON 200 views h1)))"
    by (simp add: handleInventory_def split: prod.split option.split)
  then show ?thesis by (auto intro!: web_query web_option web_web_error)
qed

lemma web_protected:
  assumes "stor (deps_of G) = S" "fresh_world (outside (deps_of G))" "protected G e = Some k"
  shows "web_safe sinv sabs (outside (deps_of G)) h (k r h)"
  using assms(3)
  by (cases e) (auto simp: protected_def intro: web_reading web_handleAuditLog web_handleInventory
      web_state_changes[OF assms(1)] web_handleRekeyKey[OF assms(1)] web_handleUnwrapKey[OF assms(1,2)]
      web_handleUploadCertificate[OF assms(1,2)] web_handleCreateKey[OF assms(1,2)])

end

section \<open>Requests to the API\<close>

definition api_safe :: "('s \<Rightarrow> bool) \<Rightarrow> ('s \<Rightarrow> vault) \<Rightarrow> world \<Rightarrow> 's api_state \<Rightarrow> 's answer \<Rightarrow> bool" where
  "api_safe I A E st ans \<longleftrightarrow> web_safe I A E (api_h st) (fst ans, api_h (snd ans))"

lemma api_same: "hstore (api_h (snd ans)) = hstore (api_h st) \<Longrightarrow> htick (api_h st) \<le> htick (api_h (snd ans)) \<Longrightarrow> api_safe I A E st ans"
  unfolding api_safe_def by (rule web_same) simp_all

lemma api_trans:
  "hstore (api_h st1) = hstore (api_h st) \<Longrightarrow> htick (api_h st) \<le> htick (api_h st1) \<Longrightarrow> api_safe I A E st1 ans \<Longrightarrow> api_safe I A E st ans"
  unfolding api_safe_def by (rule web_trans[of I A E "api_h st" "()" "api_h st1"], rule web_same) simp_all

lemma api_cors: "api_safe I A E st (nxt r st) \<Longrightarrow> api_safe I A E st (corsMiddleware G nxt r st)"
  by (auto simp: corsMiddleware_def api_same) (simp add: api_safe_def web_safe_def)

lemma api_limitBody: "(\<And>r. api_safe I A E st (nxt r st)) \<Longrightarrow> api_safe I A E st (limitBodyMiddleware nxt r st)"
  by (simp add: limitBodyMiddleware_def)

lemma api_rateLimit:
  assumes "\<And>st1. api_safe I A E st1 (nxt r st1)"
  shows "api_safe I A E st (rateLimitMiddleware G nxt r st)"
proof -
  obtain d h1 where d: "sample (deps_of G) (api_h st) = (d, h1)" by fastforce
  obtain ok rl where a: "allow (weblib G) (d_now d) (before_last CHR '':'' (RemoteIPPort r)) (limiter st) = (ok, rl)" by fastforce
  have h1: "hstore h1 = hstore (api_h st)" "htick (api_h st) \<le> htick h1" using d by (auto simp: sample_def)
  show ?thesis
  proof (cases ok)
    case True
    with d a have "rateLimitMiddleware G nxt r st = nxt r (st\<lparr>api_h := h1, limiter := rl\<rparr>)"
      by (simp add: rateLimitMiddleware_def Let_def)
    with api_trans[OF _ _ assms] h1 show ?thesis by simp
  next
    case False
    with d a h1 show ?thesis
      by (intro api_same) (auto simp: rateLimitMiddleware_def Let_def intro: order_trans[OF _ logAudit_frame(2)])
  qed
qed

context storage_contract
begin

lemma api_serveMux:
  assumes "stor (deps_of G) = S" "fresh_world (outside (deps_of G))"
  shows "api_safe sinv sabs (outside (deps_of G)) st (serveMux G r st)"
proof (cases "protected G (route r)")
  case None
  then show ?thesis
    by (cases "route r")
      (auto simp: serveMux_def Let_def protected_def on_shared_def on_auth_def sample_def query_def handleHealthz_def
        handleMetrics_def writeJSON_def intro!: api_same)
next
  case (Some k)
  let ?d = "fst (sample (deps_of G) (api_h st))" and ?h1 = "snd (sample (deps_of G) (api_h st))"
  have k: "web_safe sinv sabs (outside (deps_of G)) ?h1 (k r ?h1)" by (rule web_protected[OF assms Some])
  have h1: "web_safe sinv sabs (outside (deps_of G)) (api_h st) (x, ?h1)" for x :: "http_response outcome"
    by (rule web_same) (simp_all add: sample_def)
  show ?thesis
  proof (cases "authorised (d_now ?d) r (dashAuth st)")
    case True
    with Some have "api_h (snd (serveMux G r st)) = snd (k r ?h1)"
      by (simp add: serveMux_def Let_def split_beta RequireAPIAuth_eq)
    with web_trans[OF h1 k] show ?thesis by (simp add: api_safe_def web_safe_def)
  next
    case False
    with Some have "api_h (snd (serveMux G r st)) = ?h1"
      by (simp add: serveMux_def Let_def split_beta RequireAPIAuth_eq)
    with h1 show ?thesis by (simp add: api_safe_def web_safe_def)
  qed
qed

lemma api_ServeHTTP:
  assumes "stor (deps_of G) = S" "fresh_world (outside (deps_of G))"
  shows "api_safe sinv sabs (outside (deps_of G)) st (ServeHTTP G r st)"
  unfolding ServeHTTP_def
  by (intro api_rateLimit api_limitBody api_cors api_serveMux assms)

end

section \<open>Both front ends together\<close>

text \<open>
  \<open>system\<close>: the states reached from one in which the API and the KMIP handlers share store, audit log
  and tracker, by requests to either of them in any order; \<open>background\<close> is what the goroutines of the
  audit log, of the connections and of the session cleanup do in between.
\<close>

inductive system :: "('w, 'i, 's) API \<Rightarrow> 's api_state \<Rightarrow> 's api_state \<Rightarrow> bool" for G st where
  start: "system G st st"
| kmip: "system G st st1 \<Longrightarrow> system G st (st1\<lparr>api_h := snd (HandleRequest (deps_of G) msg cn ra conn (api_h st1))\<rparr>)"
| http: "system G st st1 \<Longrightarrow> system G st (snd (ServeHTTP G r st1))"
| background: "system G st st1 \<Longrightarrow>
    system G st (st1\<lparr>api_h := (api_h st1)\<lparr>haudit := a, htracker := t\<rparr>, dashAuth := cleanupTick now (dashAuth st1)\<rparr>)"

inductive_cases systemE: "system G st st'"

context storage_contract
begin

lemma system_safe:
  assumes "system G st st'" "stor (deps_of G) = S" "fresh_world (outside (deps_of G))"
    and "hinv sinv sabs (outside (deps_of G)) (api_h st)"
  shows "hinv sinv sabs (outside (deps_of G)) (api_h st') \<and>
    vault_step\<^sup>*\<^sup>* (sabs (hstore (api_h st))) (sabs (hstore (api_h st')))"
  using assms(1)
proof induction
  case start
  then show ?case by (simp add: assms(4))
next
  case (kmip st1 msg cn ra conn)
  with safe_web[OF safe_HandleRequest[OF assms(2,3), of "api_h st1" msg cn ra conn]] show ?case
    by (auto simp: web_safe_def)
next
  case (http st1 r)
  with api_ServeHTTP[OF assms(2,3), of st1 r] show ?case by (auto simp: api_safe_def web_safe_def)
next
  case (background st1 a t now)
  then show ?case by (simp add: hinv_def)
qed

end

end
