(* ===== verification/Stores.thy ===== *)
theory Stores
  imports Memory_Store SQLite_Store Handler_Behaviour Rest_Steps
begin

text \<open>
  A value of the interface type \<open>storage.Storage\<close>: \<open>main.go\<close> builds one of the two stores and
  the handlers call its methods through the interface. \<open>store\<close> has one constructor per dynamic
  type and \<open>interface_storage\<close> is the method table with dynamic dispatch. It fulfils the storage
  contract because both stores do, so what is proved of the handlers (imported here, so that the
  interpretation carries their lemmas over) holds for either backend.
\<close>

datatype store = Mem MemoryStore | Sql SQLiteStore

section \<open>Dynamic dispatch\<close>

definition pick :: "(MemoryStore \<Rightarrow> 'r) \<Rightarrow> (SQLiteStore \<Rightarrow> 'r) \<Rightarrow> store \<Rightarrow> 'r" where
  "pick f g s = (case s of Mem m \<Rightarrow> f m | Sql q \<Rightarrow> g q)"

definition lift :: "(MemoryStore \<Rightarrow> 'r \<times> MemoryStore) \<Rightarrow> (SQLiteStore \<Rightarrow> 'r \<times> SQLiteStore) \<Rightarrow> store \<Rightarrow> 'r \<times> store" where
  "lift f g s = (case s of Mem m \<Rightarrow> (let (r, m') = f m in (r, Mem m')) | Sql q \<Rightarrow> (let (r, q') = g q in (r, Sql q')))"

definition interface_storage :: "driver \<Rightarrow> hkdf \<Rightarrow> store Storage" where
  "interface_storage D H = \<lparr>
     Create = (\<lambda>d n a l u w. lift (mem_Create d n a l u w) (sql_Create D d n a l u w)),
     Get = (\<lambda>d u. pick (mem_Get d u) (sql_Get D d u)),
     Locate = (\<lambda>d n. pick (mem_Locate d n) (sql_Locate d n)),
     List = (\<lambda>d. pick (mem_List d) (sql_List D d)),
     Activate = (\<lambda>d u. lift (mem_Activate d u) (sql_Activate d u)),
     Destroy = (\<lambda>d u. lift (mem_Destroy d u) (sql_Destroy d u)),
     Register = (\<lambda>d r. lift (mem_Register d r) (sql_Register D d r)),
     Revoke = (\<lambda>d u k. lift (mem_Revoke d u k) (sql_Revoke d u k)),
     GetAttributes = (\<lambda>d u. pick (mem_GetAttributes d u) (sql_GetAttributes D d u)),
     Rekey = (\<lambda>d u. lift (mem_Rekey d u) (sql_Rekey D d u)),
     Archive = (\<lambda>d u. lift (mem_Archive d u) (sql_Archive d u)),
     Recover = (\<lambda>d u. lift (mem_Recover d u) (sql_Recover d u)),
     DeriveKey = (\<lambda>d u dat n l. lift (mem_DeriveKey H d u dat n l) (sql_DeriveKey D H d u dat n l)),
     GetCustomAttributes = (\<lambda>d u. pick (mem_GetCustomAttributes d u) (sql_GetCustomAttributes D d u)),
     SetCustomAttribute = (\<lambda>d u n x. lift (mem_SetCustomAttribute d u n x) (sql_SetCustomAttribute D d u n x)),
     DeleteCustomAttribute = (\<lambda>d u n. lift (mem_DeleteCustomAttribute d u n) (sql_DeleteCustomAttribute D d u n)),
     Close = lift mem_Close sql_Close\<rparr>"

lemma interface_storage_sel [simp]:
  "Create (interface_storage D H) d n a l u w = lift (mem_Create d n a l u w) (sql_Create D d n a l u w)"
  "Get (interface_storage D H) d uid = pick (mem_Get d uid) (sql_Get D d uid)"
  "Locate (interface_storage D H) d n = pick (mem_Locate d n) (sql_Locate d n)"
  "List (interface_storage D H) d = pick (mem_List d) (sql_List D d)"
  "Activate (interface_storage D H) d uid = lift (mem_Activate d uid) (sql_Activate d uid)"
  "Destroy (interface_storage D H) d uid = lift (mem_Destroy d uid) (sql_Destroy d uid)"
  "Register (interface_storage D H) d r = lift (mem_Register d r) (sql_Register D d r)"
  "Revoke (interface_storage D H) d uid k = lift (mem_Revoke d uid k) (sql_Revoke d uid k)"
  "GetAttributes (interface_storage D H) d uid = pick (mem_GetAttributes d uid) (sql_GetAttributes D d uid)"
  "Rekey (interface_storage D H) d uid = lift (mem_Rekey d uid) (sql_Rekey D d uid)"
  "Archive (interface_storage D H) d uid = lift (mem_Archive d uid) (sql_Archive d uid)"
  "Recover (interface_storage D H) d uid = lift (mem_Recover d uid) (sql_Recover d uid)"
  "DeriveKey (interface_storage D H) d uid dat n l = lift (mem_DeriveKey H d uid dat n l) (sql_DeriveKey D H d uid dat n l)"
  "GetCustomAttributes (interface_storage D H) d uid = pick (mem_GetCustomAttributes d uid) (sql_GetCustomAttributes D d uid)"
  "SetCustomAttribute (interface_storage D H) d uid n x = lift (mem_SetCustomAttribute d uid n x) (sql_SetCustomAttribute D d uid n x)"
  "DeleteCustomAttribute (interface_storage D H) d uid n = lift (mem_DeleteCustomAttribute d uid n) (sql_DeleteCustomAttribute D d uid n)"
  by (simp_all add: interface_storage_def)

section \<open>The contract\<close>

fun store_inv :: "store \<Rightarrow> bool" where
  "store_inv (Mem m) = mem_inv m"
| "store_inv (Sql q) = sql_inv q"

fun store_abs :: "driver \<Rightarrow> store \<Rightarrow> vault" where
  "store_abs D (Mem m) = mem_abs m"
| "store_abs D (Sql q) = sql_abs D q"

lemma pick_simps [simp]: "pick f g (Mem m) = f m" "pick f g (Sql q) = g q"
  by (simp_all add: pick_def)

lemma liftE:
  assumes "lift f g s = (r, s')"
  obtains m m' where "s = Mem m" "s' = Mem m'" "f m = (r, m')"
  | q q' where "s = Sql q" "s' = Sql q'" "g q = (r, q')"
  using assms by (cases s) (auto simp: lift_def split: prod.splits)

lemma fst_lift [simp]: "fst (lift f g (Mem m)) = fst (f m)" "fst (lift f g (Sql q)) = fst (g q)"
  by (simp_all add: lift_def split: prod.split)

lemmas store_simps = store_inv.simps store_abs.simps pick_simps fst_lift

lemmas mem_laws = mem.create_err mem.create_ok mem.register_err mem.register_ok mem.activate_err mem.activate_ok
  mem.destroy_err mem.destroy_ok mem.revoke_err mem.revoke_ok mem.rekey_err mem.rekey_ok mem.archive_err
  mem.archive_ok mem.recover_err mem.recover_ok mem.derive_err mem.derive_ok mem.set_attr_err mem.set_attr_ok
  mem.delete_attr_err mem.delete_attr_ok

lemmas sql_laws = sql.create_err sql.create_ok sql.register_err sql.register_ok sql.activate_err sql.activate_ok
  sql.destroy_err sql.destroy_ok sql.revoke_err sql.revoke_ok sql.rekey_err sql.rekey_ok sql.archive_err
  sql.archive_ok sql.recover_err sql.recover_ok sql.derive_err sql.derive_ok sql.set_attr_err sql.set_attr_ok
  sql.delete_attr_err sql.delete_attr_ok

interpretation itf: storage_contract "interface_storage D H" store_inv "store_abs D" sql_good H for D H
proof (unfold_locales, unfold interface_storage_sel)
  fix s d u r name n x len b alg usage own
  assume i: "store_inv s"
  show "pick (mem_Get d u) (sql_Get D d u) s = Some r \<Longrightarrow> live (store_abs D s) u = Some r"
    by (insert i; cases s; simp only: store_simps; rule mem.get_sound[unfolded memory_storage_sel] sql.get_sound[unfolded sqlite_storage_sel];
      (assumption | rule TrueI))
  show "sql_good d \<Longrightarrow> pick (mem_Get d u) (sql_Get D d u) s = live (store_abs D s) u"
    by (insert i; cases s; simp only: store_simps; rule mem.get_complete[unfolded memory_storage_sel] sql.get_complete[unfolded sqlite_storage_sel];
      (assumption | rule TrueI))
  show "objs (store_abs D s) u = Some r \<Longrightarrow> UID r = u"
    by (insert i; cases s; simp only: store_simps; rule mem.uid_key[unfolded memory_storage_sel] sql.uid_key[unfolded sqlite_storage_sel];
      (assumption | rule TrueI))
  show "draw_ok d \<Longrightarrow> u \<in> set (pick (mem_Locate d name) (sql_Locate d name) s) \<Longrightarrow>
    \<exists>r. live (store_abs D s) u = Some r \<and> Name r = name"
    by (insert i; cases s; simp only: store_simps; rule mem.locate_sound[unfolded memory_storage_sel] sql.locate_sound[unfolded sqlite_storage_sel];
      (assumption | rule TrueI))
  show "draw_ok d \<Longrightarrow> sql_good d \<Longrightarrow> live (store_abs D s) u = Some r \<Longrightarrow> Name r = name \<Longrightarrow>
    u \<in> set (pick (mem_Locate d name) (sql_Locate d name) s)"
    by (insert i; cases s; simp only: store_simps; rule mem.locate_complete[unfolded memory_storage_sel] sql.locate_complete[unfolded sqlite_storage_sel];
      (assumption | rule TrueI))
  show "draw_ok d \<Longrightarrow> distinct (pick (mem_Locate d name) (sql_Locate d name) s)"
    by (insert i; cases s; simp only: store_simps; rule mem.locate_distinct[unfolded memory_storage_sel] sql.locate_distinct[unfolded sqlite_storage_sel];
      (assumption | rule TrueI))
  show "draw_ok d \<Longrightarrow> r \<in> set (pick (mem_List d) (sql_List D d) s) \<Longrightarrow> live (store_abs D s) (UID r) = Some r"
    by (insert i; cases s; simp only: store_simps; rule mem.list_sound[unfolded memory_storage_sel] sql.list_sound[unfolded sqlite_storage_sel];
      (assumption | rule TrueI))
  show "draw_ok d \<Longrightarrow> sql_good d \<Longrightarrow> live (store_abs D s) u = Some r \<Longrightarrow> r \<in> set (pick (mem_List d) (sql_List D d) s)"
    by (insert i; cases s; simp only: store_simps; rule mem.list_complete[unfolded memory_storage_sel] sql.list_complete[unfolded sqlite_storage_sel];
      (assumption | rule TrueI))
  show "sql_good d \<Longrightarrow> objs (store_abs D s) (d_uuid d) = None \<Longrightarrow> valid_length len \<Longrightarrow> d_rand d (key_size len) = Inr b \<Longrightarrow>
    \<exists>rec. fst (lift (mem_Create d name alg len usage own) (sql_Create D d name alg len usage own) s) = Inr rec"
    by (insert i; cases s; simp only: store_simps; rule mem.create_total[unfolded memory_storage_sel] sql.create_total[unfolded sqlite_storage_sel];
      (assumption | rule TrueI))
  show "sql_good d \<Longrightarrow> objs (store_abs D s) (d_uuid d) = None \<Longrightarrow> Material r \<noteq> None \<Longrightarrow> 0 \<le> sint (Length r) \<Longrightarrow>
    \<exists>rec. fst (lift (mem_Register d r) (sql_Register D d r) s) = Inr rec"
    by (insert i; cases s; simp only: store_simps; rule mem.register_total[unfolded memory_storage_sel] sql.register_total[unfolded sqlite_storage_sel];
      (assumption | rule TrueI))
  show "sql_good d \<Longrightarrow> live (store_abs D s) u = Some r \<Longrightarrow> fst (lift (mem_Activate d u) (sql_Activate d u) s) = None"
    by (insert i; cases s; simp only: store_simps; rule mem.activate_total[unfolded memory_storage_sel] sql.activate_total[unfolded sqlite_storage_sel];
      (assumption | rule TrueI))
  show "sql_good d \<Longrightarrow> live (store_abs D s) u = Some r \<Longrightarrow> fst (lift (mem_Destroy d u) (sql_Destroy d u) s) = None"
    by (insert i; cases s; simp only: store_simps; rule mem.destroy_total[unfolded memory_storage_sel] sql.destroy_total[unfolded sqlite_storage_sel];
      (assumption | rule TrueI))
  show "sql_good d \<Longrightarrow> live (store_abs D s) u = Some r \<Longrightarrow> fst (lift (mem_Revoke d u k) (sql_Revoke d u k) s) = None" for k
    by (insert i; cases s; simp only: store_simps; rule mem.revoke_total[unfolded memory_storage_sel] sql.revoke_total[unfolded sqlite_storage_sel];
      (assumption | rule TrueI))
  show "sql_good d \<Longrightarrow> live (store_abs D s) u \<noteq> None \<Longrightarrow>
    \<exists>al. pick (mem_GetCustomAttributes d u) (sql_GetCustomAttributes D d u) s = Inr al \<and> map_of al = cattrs (store_abs D s) u"
    by (insert i; cases s; simp only: store_simps; rule mem.get_attrs_total[unfolded memory_storage_sel] sql.get_attrs_total[unfolded sqlite_storage_sel];
      (assumption | rule TrueI))
  show "sql_good d \<Longrightarrow> live (store_abs D s) u \<noteq> None \<Longrightarrow>
    fst (lift (mem_SetCustomAttribute d u n x) (sql_SetCustomAttribute D d u n x) s) = None"
    by (insert i; cases s; simp only: store_simps; rule mem.set_attr_total[unfolded memory_storage_sel] sql.set_attr_total[unfolded sqlite_storage_sel];
      (assumption | rule TrueI))
  show "pick (mem_GetCustomAttributes d u) (sql_GetCustomAttributes D d u) s = Inr al \<Longrightarrow>
    live (store_abs D s) u \<noteq> None \<and> map_of al \<subseteq>\<^sub>m cattrs (store_abs D s) u" for al
    by (insert i; cases s; simp only: store_simps; rule mem.get_attrs_sound[unfolded memory_storage_sel] sql.get_attrs_sound[unfolded sqlite_storage_sel];
      (assumption | rule TrueI))
next
  fix s :: store and d u
  show "pick (mem_GetAttributes d u) (sql_GetAttributes D d u) s = pick (mem_Get d u) (sql_Get D d u) s"
    by (cases s) (simp_all add: mem_GetAttributes_def sql_GetAttributes_def)
qed (elim liftE; simp only: store_simps; (rule mem_laws[unfolded memory_storage_sel] sql_laws[unfolded sqlite_storage_sel]; assumption))+

end
