(* ===== verification/Server_Model.thy ===== *)
theory Server_Model
  imports Stores
begin

text \<open>
  The KMIP side of the server put together as \<open>main.go\<close> does: the handler over the interface
  value that holds one of the two stores, with its invariant. The second part is a concrete
  instance (trees as messages, a transparent cipher, counted identifiers) on which the witnesses
  evaluate the model.
\<close>

definition server :: "('w, 'i) kmiplib \<Rightarrow> driver \<Rightarrow> hkdf \<Rightarrow> crypto \<Rightarrow> world \<Rightarrow> ('w, 'i, store) deps" where
  "server L D H C E = \<lparr>lib = L, stor = interface_storage D H, cry = C, outside = E\<rparr>"

definition server_inv :: "driver \<Rightarrow> world \<Rightarrow> store hstate \<Rightarrow> bool" where
  "server_inv D E = hinv store_inv (store_abs D) E"

text \<open>The vault the server manages, and the object it finds under an identifier.\<close>

definition managed :: "driver \<Rightarrow> store hstate \<Rightarrow> vault" where
  "managed D h = store_abs D (hstore h)"

definition object :: "driver \<Rightarrow> store hstate \<Rightarrow> string \<Rightarrow> KeyRecord option" where
  "object D h u = objs (managed D h) u"

lemma server_sel [simp]:
  "lib (server L D H C E) = L" "stor (server L D H C E) = interface_storage D H"
  "cry (server L D H C E) = C" "outside (server L D H C E) = E"
  by (simp_all add: server_def)

lemma server_inv_store: "server_inv D E h \<Longrightarrow> store_inv (hstore h)"
  by (simp add: server_inv_def hinv_def)

text \<open>An empty store of either kind satisfies the invariant.\<close>

fun empty_store :: "store \<Rightarrow> bool" where
  "empty_store (Mem m) \<longleftrightarrow> m = NewMemoryStore"
| "empty_store (Sql q) \<longleftrightarrow> q = \<lparr>key_rows = [], attr_rows = []\<rparr>"

lemma empty_store_abs: "empty_store s \<Longrightarrow> store_abs D s = \<lparr>objs = Map.empty, cattrs = (\<lambda>_. Map.empty)\<rparr>"
  by (cases s) (simp_all add: mem_abs_new sql_abs_def)

lemma empty_store_inv: "empty_store s \<Longrightarrow> store_inv s"
  by (cases s) (simp_all add: mem_inv_new sql_inv_def)

lemma server_inv_new: "empty_store s \<Longrightarrow> server_inv D E (NewHandler n s a t)"
  by (simp add: server_inv_def hinv_def NewHandler_def empty_store_abs empty_store_inv)

lemma server_serves:
  assumes "serves (server L D H C E) h h'" "fresh_world E" "server_inv D E h"
  shows "server_inv D E h'" "kmip_step\<^sup>*\<^sup>* (managed D h) (managed D h')"
  using itf.serves_inv[OF assms(1)] itf.serves_steps[OF assms(1)] assms(2,3)
  by (simp_all add: server_inv_def managed_def)

text \<open>What holds of every state reached from an empty store.\<close>

lemma server_reachable:
  assumes "fresh_world E" "empty_store s" "serves (server L D H C E) (NewHandler n s a t) h"
  shows "server_inv D E h" "proper (managed D h)"
proof -
  note r = server_serves[OF assms(3,1) server_inv_new[OF assms(2)]]
  show "server_inv D E h" by (rule r(1))
  have "proper (managed D (NewHandler n s a t))"
    using assms(2) by (simp add: managed_def NewHandler_def empty_store_abs)
  with r(2) show "proper (managed D h)" by (rule steps_proper)
qed

section \<open>A concrete instance\<close>

definition demo_draw :: "nat \<Rightarrow> draw" where
  "demo_draw k = \<lparr>d_uuid = replicate k CHR ''u'', d_rand = (\<lambda>n. Inr (replicate n (of_nat k))), d_now = int k,
     d_perm = (\<lambda>xs. xs), d_sql = (\<lambda>_. None), d_cut = 0\<rparr>"

definition demo_driver :: driver where
  "demo_driver = \<lparr>empty_nil = True, err_unique = ''UNIQUE constraint failed'', err_nil = Some ''NOT NULL constraint failed'',
     ts_text = (\<lambda>t. replicate (nat t) CHR ''t'')\<rparr>"

definition demo_hkdf :: hkdf where
  "demo_hkdf secret salt info n = Inr (take n (sl secret @ sl salt @ replicate n 7))"

definition demo :: "(ttlv, ttlv, store) deps" where
  "demo = server treelib demo_driver demo_hkdf plaincrypto demo_draw"

lemma demo_draw_sel:
  "d_uuid (demo_draw k) = replicate k CHR ''u''" "d_rand (demo_draw k) n = Inr (replicate n (of_nat k))"
  "d_now (demo_draw k) = int k" "d_sql (demo_draw k) n = None"
  by (simp_all add: demo_draw_def)

lemma demo_fresh: "fresh_world demo_draw"
  by (auto simp: fresh_world_def demo_draw_def dest: arg_cong[of _ _ length])

lemma demo_ok [simp]: "draw_ok (demo_draw k)" "sql_good (demo_draw k)"
  by (auto simp: draw_ok_def sql_good_def demo_draw_def)

text \<open>A symmetric key in a given state, stored in a memory store under the identifier \<open>u\<close>.\<close>

definition demo_key :: "KeyState \<Rightarrow> KeyRecord" where
  "demo_key st = \<lparr>UID = ''u'', Name = ''k'', ObjectType = 2, Algorithm = 3, Length = 128,
     Material = Some (replicate 16 1), UsageMask = 12, State = st, RevocationReason = 0, Owner = ''alice'',
     CreatedAt = 5, Version = 1\<rparr>"

definition demo_handler :: "KeyRecord \<Rightarrow> store hstate" where
  "demo_handler r = NewHandler 2 (Mem \<lparr>keys = [(''u'', r)], attrs = []\<rparr>)
     (NewLogger None [] 1) (Some NewConnectionTracker)"

lemma demo_inv: "UID r = ''u'' \<Longrightarrow> State r \<noteq> StateDestroyed \<Longrightarrow> server_inv demo_driver demo_draw (demo_handler r)"
  by (auto simp: server_inv_def hinv_def demo_handler_def NewHandler_def mem_inv_def demo_draw_def
      split: if_splits intro!: exI[of _ 1])

lemma demo_key_inv [simp]: "st \<noteq> StateDestroyed \<Longrightarrow> server_inv demo_driver demo_draw (demo_handler (demo_key st))"
  by (rule demo_inv) (simp_all add: demo_key_def)

lemma demo_key_sel [simp]: "UID (demo_key st) = ''u''" "State (demo_key st) = st" "ObjectType (demo_key st) = 2"
  "Name (demo_key st) = ''k''" "Length (demo_key st) = 128" "Material (demo_key st) = Some (replicate 16 1)" "Version (demo_key st) = 1"
  by (simp_all add: demo_key_def)

lemma demo_object [simp]: "object D (demo_handler r) u = (if u = ''u'' then Some r else None)"
  by (simp add: object_def managed_def demo_handler_def NewHandler_def)

text \<open>Requests: a message with one batch item, and the payload that names an object.\<close>

definition demo_request :: "int \<Rightarrow> ttlv list \<Rightarrow> ttlv" where
  "demo_request op kids = Structure (tree_tag TagRequestMessage)
     [Structure (tree_tag TagBatchItem)
       [Enumeration (tree_tag TagOperation) op, Structure (tree_tag TagRequestPayload) kids]]"

definition demo_payload :: "ttlv list \<Rightarrow> ttlv" where
  "demo_payload kids = Structure (tree_tag TagRequestPayload) (TextString (tree_tag TagUniqueIdentifier) ''u'' # kids)"

lemma demo_payload_uid [simp]: "uid_of treelib (demo_payload kids) = Some ''u''"
  by (simp add: uid_of_def demo_payload_def)

text \<open>A run of requests on a server that starts with an empty memory store.\<close>

fun run_requests :: "('w, 'i, 's) deps \<Rightarrow> 'w list \<Rightarrow> 's hstate \<Rightarrow> 's hstate" where
  "run_requests X [] h = h"
| "run_requests X (msg # msgs) h = run_requests X msgs (snd (HandleRequest X msg ''cn'' ''ra'' ''c'' h))"

lemma serves_run: "serves X h0 h \<Longrightarrow> serves X h0 (run_requests X msgs h)"
  by (induction msgs arbitrary: h) (auto intro: serves.request)

lemmas serves_run_requests = serves_run[OF serves.idle]

definition demo_start :: "store hstate" where
  "demo_start = NewHandler 1 (Mem NewMemoryStore) None None"

text \<open>\<open>Create\<close>, then the given operations on the new object.\<close>

definition demo_run :: "int list \<Rightarrow> store hstate" where
  "demo_run ops = run_requests demo
     (demo_request 1 [] # map (\<lambda>op. demo_request op [TextString (tree_tag TagUniqueIdentifier) ''u'']) ops) demo_start"

lemma demo_run_serves: "serves (server treelib demo_driver demo_hkdf plaincrypto demo_draw)
    (NewHandler 1 (Mem NewMemoryStore) None None) (demo_run ops)"
  unfolding demo_run_def demo_def demo_start_def by (rule serves_run_requests)

text \<open>One more operation on the object.\<close>

definition demo_more :: "int \<Rightarrow> store hstate \<Rightarrow> store hstate" where
  "demo_more op h = run_requests demo [demo_request op [TextString (tree_tag TagUniqueIdentifier) ''u'']] h"

lemma demo_more_serves: "serves (server treelib demo_driver demo_hkdf plaincrypto demo_draw) h (demo_more op h)"
  unfolding demo_more_def demo_def by (rule serves_run_requests)

lemma demo_run_states:
  "map_option State (object demo_driver (demo_run []) ''u'') = Some StatePreActive"
  "map_option State (object demo_driver (demo_run [18]) ''u'') = Some StateActive"
  "map_option State (object demo_driver (demo_run [18, 19]) ''u'') = Some StateCompromised"
  "map_option State (object demo_driver (demo_run [20]) ''u'') = Some StateDestroyed"
  by code_simp+

text \<open>Both halves of an active RSA key pair, the private key under \<open>u\<close>, the public one under \<open>uu\<close>.\<close>

definition demo_private :: KeyRecord where
  "demo_private = (demo_key StateActive)\<lparr>ObjectType := 4, Algorithm := 4, Length := 2048, Material := Some [0, 9]\<rparr>"

definition demo_public :: KeyRecord where
  "demo_public = (demo_key StateActive)\<lparr>UID := ''uu'', ObjectType := 3, Algorithm := 4, Length := 2048, Material := Some [0, 9]\<rparr>"

definition demo_pair :: "store hstate" where
  "demo_pair = NewHandler 3 (Mem \<lparr>keys = [(''u'', demo_private), (''uu'', demo_public)], attrs = []\<rparr>) None None"

lemma demo_pair_inv: "server_inv demo_driver demo_draw demo_pair"
  by (auto simp: server_inv_def hinv_def demo_pair_def NewHandler_def mem_inv_def demo_draw_def demo_private_def
      demo_public_def go_const split: if_splits intro: exI[of _ 1])
    (auto simp: numeral_2_eq_2 intro!: exI[of _ 2])

text \<open>A \<open>Locate\<close> payload for the name \<open>k\<close>.\<close>

definition demo_locate :: ttlv where
  "demo_locate = Structure (tree_tag TagRequestPayload) [Structure (tree_tag TagAttribute)
     [TextString (tree_tag TagAttributeName) ''Name'',
      Structure (tree_tag TagAttributeValue) [TextString (tree_tag TagNameValue) ''k'']]]"

text \<open>A batch of three items: a query, one without an operation, one with an unknown operation.\<close>

definition demo_batch :: ttlv where
  "demo_batch = Structure (tree_tag TagRequestMessage)
     [Structure (tree_tag TagBatchItem) [Enumeration (tree_tag TagOperation) 24],
      Structure (tree_tag TagBatchItem) [],
      Structure (tree_tag TagBatchItem) [Enumeration (tree_tag TagOperation) 12345]]"

lemma demo_batch_accepted: "accepted_batch (lib demo) demo_batch = Some (tchildren demo_batch (tree_tag TagBatchItem))"
  by code_simp

definition good_world :: "world \<Rightarrow> bool" where
  "good_world E \<longleftrightarrow> (\<forall>k. draw_ok (E k) \<and> sql_good (E k))"

lemma demo_good [simp]: "good_world demo_draw"
  by (simp add: good_world_def)

lemma good_worldD: "good_world E \<Longrightarrow> draw_ok (E k)" "good_world E \<Longrightarrow> sql_good (E k)"
  by (simp_all add: good_world_def)

lemma object_live: "object D h u = Some r \<Longrightarrow> State r \<noteq> StateDestroyed \<Longrightarrow> live (store_abs D (hstore h)) u = Some r"
  by (simp add: object_def managed_def live_Some_iff)

text \<open>What a codec reads from a payload that names an object and carries further children.\<close>

lemma item_uid:
  assumes "codec_ok L item fits" "tag_of L TagUniqueIdentifier = gu"
  shows "uid_of L (item (Structure g (TextString gu uid # kids))) = Some uid"
  using codec_okD[OF assms(1)] assms(2) by (simp add: uid_of_def)

lemma item_bytes:
  assumes "codec_ok L item fits" "find (\<lambda>t. ttag t = tg) kids = Some (ByteString tg b)"
  shows "bytes_of L (item (Structure g kids)) tg = Some (sl b)"
  using codec_okD[OF assms(1)] assms(2) by (simp add: bytes_of_def)

end
