(* ===== verification/Kmip_Server.thy ===== *)
theory Kmip_Server
  imports Server_Model
begin

text \<open>
  \<open>internal/kmip/server.go\<close>: the TLS configuration, the framing loop of one connection and the
  listener that limits the number of connections. A connection is a \<open>net_conn\<close>: the outcome of its
  TLS handshake, the bytes the client sends before it closes, times out or fails, the results of the
  writes and the responses written so far. The wire type of the KMIP library is \<open>bytes\<close> here, and
  Go's \<open>int\<close> has 64 bits.
\<close>

section \<open>TLS configuration\<close>

datatype client_auth = NoClientCert | RequireAndVerifyClientCert

datatype cipher_suite = TLS_ECDHE_RSA_WITH_AES_256_GCM_SHA384 | TLS_ECDHE_RSA_WITH_AES_128_GCM_SHA256
  | TLS_ECDHE_ECDSA_WITH_AES_256_GCM_SHA384 | TLS_ECDHE_ECDSA_WITH_AES_128_GCM_SHA256
  | TLS_ECDHE_RSA_WITH_CHACHA20_POLY1305_SHA256 | TLS_ECDHE_ECDSA_WITH_CHACHA20_POLY1305_SHA256

record tls_config =
  MinVersion :: int
  SessionTicketsDisabled :: bool
  CipherSuites :: "cipher_suite list"
  ClientCAs :: "bytes option"
  ClientAuth :: client_auth

record KmipServer =
  kmip_host :: string
  kmip_port :: int
  kmip_config :: tls_config

text \<open>
  \<open>NewServer\<close>: \<open>cert\<close> is what \<open>tls.LoadX509KeyPair\<close> returns, \<open>read\<close> what \<open>os.ReadFile\<close>
  returns for a file, \<open>pool\<close> whether \<open>AppendCertsFromPEM\<close> finds a certificate.
\<close>

definition NewServer ::
  "string \<Rightarrow> int \<Rightarrow> error option \<Rightarrow> string \<Rightarrow> (string \<Rightarrow> bytes result) \<Rightarrow> (bytes \<Rightarrow> bool) \<Rightarrow> KmipServer result" where
  "NewServer host port cert caFile read pool =
     (case cert of
        Some err \<Rightarrow> Inl (''load server certificate: '' @ err)
      | None \<Rightarrow>
          let tlsConfig = \<lparr>MinVersion = 0x0303, SessionTicketsDisabled = True,
                CipherSuites = [TLS_ECDHE_RSA_WITH_AES_256_GCM_SHA384, TLS_ECDHE_RSA_WITH_AES_128_GCM_SHA256,
                  TLS_ECDHE_ECDSA_WITH_AES_256_GCM_SHA384, TLS_ECDHE_ECDSA_WITH_AES_128_GCM_SHA256,
                  TLS_ECDHE_RSA_WITH_CHACHA20_POLY1305_SHA256, TLS_ECDHE_ECDSA_WITH_CHACHA20_POLY1305_SHA256],
                ClientCAs = None, ClientAuth = NoClientCert\<rparr>
          in if caFile \<noteq> '''' then
               (case read caFile of
                  Inl err \<Rightarrow> Inl (''read CA certificate: '' @ err)
                | Inr caPEM \<Rightarrow>
                    if \<not> pool caPEM then Inl ''parse CA certificate failed''
                    else Inr \<lparr>kmip_host = host, kmip_port = port,
                      kmip_config = tlsConfig\<lparr>ClientCAs := Some caPEM, ClientAuth := RequireAndVerifyClientCert\<rparr>\<rparr>)
             else Inr \<lparr>kmip_host = host, kmip_port = port, kmip_config = tlsConfig\<rparr>)"

section \<open>One connection\<close>

definition maxTTLVMessageSize :: nat where [go_const]: "maxTTLVMessageSize = 10 * 2 ^ 20"
definition maxConnections :: nat where [go_const]: "maxConnections = 1000"

record net_conn =
  net_RemoteAddr :: string
  handshake :: "string list result"
  incoming :: bytes
  write_error :: "nat \<Rightarrow> error option"
  outgoing :: "bytes list"

datatype conn_end = HandshakeError error | HeaderError | TooLarge nat | BodyError | WriteError error | HandlerPanic string

text \<open>\<open>binary.BigEndian.Uint32\<close> of four bytes.\<close>

fun Uint32 :: "bytes \<Rightarrow> nat" where
  "Uint32 (a # b # c # d # _) = unat a * 2 ^ 24 + unat b * 2 ^ 16 + unat c * 2 ^ 8 + unat d"
| "Uint32 _ = 0"

text \<open>
  One round of the loop of \<open>handleConnection\<close>: the eight bytes of a TTLV header, the length in its
  last four, the body, the request, the response. The result says how the connection ended, if it did.
\<close>

definition serve_one ::
  "(bytes, 'i, 's) deps \<Rightarrow> string \<Rightarrow> string \<Rightarrow> net_conn \<Rightarrow> 's hstate \<Rightarrow> conn_end option \<times> net_conn \<times> 's hstate" where
  "serve_one X clientCN connID c h =
     (if length (incoming c) < 8 then (Some HeaderError, c\<lparr>incoming := []\<rparr>, h)
      else
        let header = take 8 (incoming c); rest = drop 8 (incoming c); valueLen = Uint32 (drop 4 header)
        in if valueLen > maxTTLVMessageSize then (Some (TooLarge valueLen), c\<lparr>incoming := rest\<rparr>, h)
           else if length rest < valueLen then (Some BodyError, c\<lparr>incoming := []\<rparr>, h)
           else
             let request = header @ take valueLen rest; c1 = c\<lparr>incoming := drop valueLen rest\<rparr>
             in case HandleRequest X request clientCN (net_RemoteAddr c) connID h of
                  (Panicked m, h1) \<Rightarrow> (Some (HandlerPanic m), c1, h1)
                | (Done response, h1) \<Rightarrow>
                    (case write_error c1 (length (outgoing c1)) of
                       Some err \<Rightarrow> (Some (WriteError err), c1, h1)
                     | None \<Rightarrow> (None, c1\<lparr>outgoing := outgoing c1 @ [response]\<rparr>, h1)))"

lemma serve_one_shrinks: "serve_one X cn conn c h = (None, c1, h1) \<Longrightarrow> length (incoming c1) < length (incoming c)"
  by (auto simp: serve_one_def Let_def split: if_splits prod.splits outcome.splits option.splits)

function request_loop ::
  "(bytes, 'i, 's) deps \<Rightarrow> string \<Rightarrow> string \<Rightarrow> net_conn \<Rightarrow> 's hstate \<Rightarrow> conn_end \<times> net_conn \<times> 's hstate" where
  "request_loop X clientCN connID c h =
     (case serve_one X clientCN connID c h of
        (Some e, c1, h1) \<Rightarrow> (e, c1, h1)
      | (None, c1, h1) \<Rightarrow> request_loop X clientCN connID c1 h1)"
  by pat_completeness auto
termination
  by (relation "measure (\<lambda>(X, cn, conn, c, h). length (incoming c))") (auto dest: serve_one_shrinks[OF sym])

declare request_loop.simps [simp del]

definition client_cn :: "string list \<Rightarrow> string" where
  "client_cn peers = (case peers of [] \<Rightarrow> '''' | p # _ \<Rightarrow> p)"

text \<open>\<open>s.tracker.Add\<close> and the deferred \<open>s.tracker.Remove\<close>, where there is a tracker.\<close>

definition track :: "(bytes, 'i, 's) deps \<Rightarrow> string \<Rightarrow> string \<Rightarrow> string \<Rightarrow> 's hstate \<Rightarrow> 's hstate" where
  "track X connID clientCN remoteAddr h =
     (case htracker h of
        None \<Rightarrow> h
      | Some t \<Rightarrow> let (d, h1) = sample X h in h1\<lparr>htracker := Some (tracker_Add (d_now d) connID clientCN remoteAddr t)\<rparr>)"

definition untrack :: "string \<Rightarrow> 's hstate \<Rightarrow> 's hstate" where
  "untrack connID h = h\<lparr>htracker := map_option (tracker_Remove connID) (htracker h)\<rparr>"

text \<open>
  \<open>handleConnection\<close>: whatever ends the loop, a panic of the handler included, the deferred calls
  run.
\<close>

definition handleConnection ::
  "(bytes, 'i, 's) deps \<Rightarrow> net_conn \<Rightarrow> 's hstate \<Rightarrow> conn_end \<times> net_conn \<times> 's hstate" where
  "handleConnection X c h =
     (let (d, h1) = sample X h; connID = d_uuid d
      in case handshake c of
           Inl err \<Rightarrow> (HandshakeError err, c, h1)
         | Inr peers \<Rightarrow>
             let clientCN = client_cn peers;
                 (e, c1, h2) = request_loop X clientCN connID c (track X connID clientCN (net_RemoteAddr c) h1)
             in (e, c1, untrack connID h2))"

section \<open>Framing\<close>

text \<open>
  A complete message has the number of bytes its header announces, within the limit; what is left of
  a stream is \<open>stuck\<close> when it does not begin with one.
\<close>

definition announced :: "bytes \<Rightarrow> nat" where
  "announced m = Uint32 (drop 4 (take 8 m))"

definition complete :: "bytes \<Rightarrow> bool" where
  "complete m \<longleftrightarrow> length m = 8 + announced m \<and> announced m \<le> maxTTLVMessageSize"

definition stuck :: "bytes \<Rightarrow> bool" where
  "stuck rest \<longleftrightarrow> length rest < 8 \<or> announced rest > maxTTLVMessageSize \<or> length rest < 8 + announced rest"

definition stuck_end :: "bytes \<Rightarrow> conn_end" where
  "stuck_end rest = (if length rest < 8 then HeaderError
     else if announced rest > maxTTLVMessageSize then TooLarge (announced rest) else BodyError)"

text \<open>The messages answered one after the other.\<close>

fun answer_all :: "('w, 'i, 's) deps \<Rightarrow> string \<Rightarrow> string \<Rightarrow> string \<Rightarrow> 'w list \<Rightarrow> 's hstate \<Rightarrow> 'w list \<times> 's hstate" where
  "answer_all X cn ra conn [] h = ([], h)"
| "answer_all X cn ra conn (m # ms) h =
     (case HandleRequest X m cn ra conn h of
        (Panicked _, h1) \<Rightarrow> ([], h1)
      | (Done r, h1) \<Rightarrow> (let (rs, h2) = answer_all X cn ra conn ms h1 in (r # rs, h2)))"

lemma announced_append: "8 \<le> length m \<Longrightarrow> announced (m @ x) = announced m"
  by (simp add: announced_def)

lemma serve_one_stuck:
  "stuck (incoming c) \<Longrightarrow> \<exists>c1. serve_one X cn conn c h = (Some (stuck_end (incoming c)), c1, h) \<and> outgoing c1 = outgoing c"
  by (auto simp: serve_one_def stuck_def stuck_end_def announced_def Let_def)

lemma serve_one_complete:
  assumes "complete m" "incoming c = m @ rest" "HandleRequest X m cn (net_RemoteAddr c) conn h = (Done r, h1)"
    and "write_error c (length (outgoing c)) = None"
  shows "serve_one X cn conn c h = (None, c\<lparr>incoming := rest, outgoing := outgoing c @ [r]\<rparr>, h1)"
proof -
  from assms(1) have l: "8 \<le> length m" "length m - 8 = announced m" by (simp_all add: complete_def)
  have n: "Uint32 (drop 4 (take 8 m)) = announced m" by (simp add: announced_def)
  have "take 8 m @ drop 8 m = m" by simp
  with l assms(1-2) n have p: "take 8 (incoming c) = take 8 m" "\<not> length (incoming c) < 8" "\<not> announced m > maxTTLVMessageSize"
    "\<not> length (drop 8 (incoming c)) < announced m" "drop (announced m) (drop 8 (incoming c)) = rest"
    "take 8 m @ take (announced m) (drop 8 (incoming c)) = m"
    by (simp_all add: complete_def)
  show ?thesis unfolding serve_one_def Let_def p(1) n using p assms(3,4) by (simp del: drop_drop length_drop)
qed

lemma request_loop_frames:
  assumes "\<forall>m \<in> set ms. complete m" "stuck rest" "incoming c = concat ms @ rest" "\<forall>k. write_error c k = None"
  shows "\<exists>c'. request_loop X cn conn c h = (stuck_end rest, c', snd (answer_all X cn (net_RemoteAddr c) conn ms h)) \<and>
    outgoing c' = outgoing c @ fst (answer_all X cn (net_RemoteAddr c) conn ms h)"
  using assms
proof (induction ms arbitrary: c h)
  case Nil
  with serve_one_stuck[of c X cn conn h] show ?case by (subst request_loop.simps) auto
next
  case (Cons m ms)
  obtain r h1 where r: "HandleRequest X m cn (net_RemoteAddr c) conn h = (Done r, h1)" by (rule HandleRequest_Done)
  let ?c = "c\<lparr>incoming := concat ms @ rest, outgoing := outgoing c @ [r]\<rparr>"
  have s: "serve_one X cn conn c h = (None, ?c, h1)"
    using Cons.prems by (intro serve_one_complete[OF _ _ r]) simp_all
  from Cons.IH[of ?c h1] Cons.prems obtain c' where
    "request_loop X cn conn ?c h1 = (stuck_end rest, c', snd (answer_all X cn (net_RemoteAddr c) conn ms h1))"
    "outgoing c' = outgoing ?c @ fst (answer_all X cn (net_RemoteAddr c) conn ms h1)" by auto
  with r s show ?case by (subst request_loop.simps) (auto simp: split_beta Let_def)
qed

lemma split_stream: "\<exists>ms rest. bs = concat ms @ rest \<and> (\<forall>m \<in> set ms. complete m) \<and> stuck rest"
proof (induction "length bs" arbitrary: bs rule: less_induct)
  case less
  show ?case
  proof (cases "stuck bs")
    case True
    then show ?thesis by (intro exI[of _ "[]"] exI[of _ bs]) simp
  next
    case False
    let ?n = "8 + announced bs"
    from False have n: "?n \<le> length bs" "announced bs \<le> maxTTLVMessageSize" by (auto simp: stuck_def)
    have "take 8 (take ?n bs) = take 8 bs" by (simp add: min_absorb1)
    then have "announced (take ?n bs) = announced bs" by (simp only: announced_def)
    with n have c: "complete (take ?n bs)" by (simp only: complete_def length_take min_absorb2)
    from n(1) have "length (drop ?n bs) < length bs" by simp
    from less[OF this] obtain ms rest where
      "drop ?n bs = concat ms @ rest" "\<forall>m \<in> set ms. complete m" "stuck rest" by blast
    moreover have "bs = take ?n bs @ drop ?n bs" by simp
    ultimately have "bs = concat (take ?n bs # ms) @ rest" by simp
    with c \<open>stuck rest\<close> \<open>\<forall>m \<in> set ms. complete m\<close> show ?thesis
      by (intro exI[of _ "take ?n bs # ms"] exI[of _ rest]) simp
  qed
qed

text \<open>The decomposition is unique.\<close>

lemma complete_prefix: "complete m \<Longrightarrow> complete m' \<Longrightarrow> m @ x = m' @ x' \<Longrightarrow> m = m'"
proof -
  assume c: "complete m" "complete m'" "m @ x = m' @ x'"
  then have "8 \<le> length m" "8 \<le> length m'" by (simp_all add: complete_def)
  with c(3) have "announced m = announced m'" by (metis announced_append)
  with c show "m = m'" by (simp add: complete_def)
qed

lemma not_stuck: "complete m \<Longrightarrow> \<not> stuck (m @ x)"
  using announced_append[of m x] by (auto simp: stuck_def complete_def)

lemma split_unique:
  "concat ms @ r = concat ms' @ r' \<Longrightarrow> \<forall>m \<in> set ms. complete m \<Longrightarrow> \<forall>m \<in> set ms'. complete m \<Longrightarrow> stuck r \<Longrightarrow> stuck r' \<Longrightarrow>
    ms = ms' \<and> r = r'"
proof (induction ms arbitrary: ms')
  case Nil
  then show ?case using not_stuck by (cases ms') auto
next
  case (Cons m ms)
  then obtain m' ms2 where "ms' = m' # ms2" using not_stuck[of m "concat ms @ r"] by (cases ms') auto
  with Cons complete_prefix[of m m' "concat ms @ r" "concat ms2 @ r'"] show ?case by auto
qed

text \<open>
  C34. Framing: whatever bytes a client sends, they split in exactly one way into complete messages
  and a rest that does not begin with one; the connection answers exactly these messages, in order,
  each with what \<open>HandleRequest\<close> returns for it, and then ends: for the lack of a header or a body,
  or because the next header announces more than 10 MiB, which is not read.
\<close>

theorem connection_framing:
  assumes "\<forall>k. write_error c k = None"
  shows "\<exists>!p. case p of (ms, rest) \<Rightarrow> incoming c = concat ms @ rest \<and> (\<forall>m \<in> set ms. complete m) \<and> stuck rest \<and>
    (\<exists>c'. request_loop X cn conn c h = (stuck_end rest, c', snd (answer_all X cn (net_RemoteAddr c) conn ms h)) \<and>
       outgoing c' = outgoing c @ fst (answer_all X cn (net_RemoteAddr c) conn ms h))"
proof -
  obtain ms rest where s: "incoming c = concat ms @ rest" "\<forall>m \<in> set ms. complete m" "stuck rest"
    using split_stream by blast
  note f = request_loop_frames[OF s(2,3,1) assms, of X cn conn h]
  show ?thesis
  proof (intro ex1I[of _ "(ms, rest)"])
    fix p
    assume "case p of (ms, rest) \<Rightarrow> incoming c = concat ms @ rest \<and> (\<forall>m \<in> set ms. complete m) \<and> stuck rest \<and>
      (\<exists>c'. request_loop X cn conn c h = (stuck_end rest, c', snd (answer_all X cn (net_RemoteAddr c) conn ms h)) \<and>
         outgoing c' = outgoing c @ fst (answer_all X cn (net_RemoteAddr c) conn ms h))"
    then show "p = (ms, rest)" using split_unique[OF _ _ s(2) _ s(3)] s(1) by (cases p) simp
  qed (use s f in simp)
qed

text \<open>
  A concrete library on bytes: the first byte of a message is the operation, on the object \<open>u\<close>.
\<close>

definition bytelib :: "(bytes, ttlv) kmiplib" where
  "bytelib = \<lparr>tag_of = tree_tag, code = tree_code,
     DecodeTTLV = (\<lambda>w _. case w of [] \<Rightarrow> Inl ''empty'' | b # _ \<Rightarrow> Inr (demo_request (uint b) [TextString (tree_tag TagUniqueIdentifier) ''u''])),
     Tag = ttag, FindChild = tchild, FindChildren = tchildren, IntValue = tree_int, StringValue = tree_string,
     BytesValue = tree_bytes, EncodeStructure = (\<lambda>g ts. concat ts), EncodeEnum = (\<lambda>g v. [word_of_int v]),
     EncodeInteger = (\<lambda>g v. []), EncodeTextString = (\<lambda>g s. []), EncodeByteString = (\<lambda>g b. []), EncodeDateTime = (\<lambda>g t. [])\<rparr>"

definition demo_net :: net_conn where
  "demo_net = \<lparr>net_RemoteAddr = ''10.0.0.1:555'', handshake = Inr [''alice''],
     incoming = [1, 0, 0, 0, 0, 0, 0, 1, 99, 18, 0, 0, 0, 0, 0, 0, 0, 77], write_error = (\<lambda>_. None), outgoing = []\<rparr>"

theorem connection_framing_witness:
  "(\<forall>k. write_error demo_net k = None) \<and>
   (\<exists>ms rest. incoming demo_net = concat ms @ rest \<and> (\<forall>m \<in> set ms. complete m) \<and> stuck rest \<and>
      fst (request_loop (server bytelib demo_driver demo_hkdf plaincrypto demo_draw) ''alice'' ''c'' demo_net demo_start) = stuck_end rest)"
proof -
  have w: "\<forall>k. write_error demo_net k = None" by (simp add: demo_net_def)
  from ex1_implies_ex[OF connection_framing[OF w, of "server bytelib demo_driver demo_hkdf plaincrypto demo_draw" "''alice''" "''c''" demo_start]]
  obtain ms rest c' h' where "incoming demo_net = concat ms @ rest" "\<forall>m \<in> set ms. complete m" "stuck rest"
    "request_loop (server bytelib demo_driver demo_hkdf plaincrypto demo_draw) ''alice'' ''c'' demo_net demo_start = (stuck_end rest, c', h')"
    unfolding split_paired_Ex prod.case by blast
  with w show ?thesis by (intro conjI exI[of _ ms] exI[of _ rest]) simp_all
qed

section \<open>A connection leaves no trace in the table\<close>

text \<open>
  What a listener needs of the table of connections: \<open>seen E h t\<close> holds when \<open>t\<close> is well formed and
  every identifier in it was drawn before.
\<close>

definition seen :: "world \<Rightarrow> nat \<Rightarrow> ConnectionTracker \<Rightarrow> bool" where
  "seen E n t \<longleftrightarrow> tracker_inv t \<and> (\<forall>i. tracker_look t i \<noteq> None \<longrightarrow> (\<exists>k < n. i = d_uuid (E k)))"

lemma seen_later: "seen E m t \<Longrightarrow> m \<le> n \<Longrightarrow> seen E n t"
  unfolding seen_def by (meson less_le_trans)

lemma seen_dom: "seen E n t \<Longrightarrow> tracker_inv t1 \<Longrightarrow> dom (tracker_look t1) \<subseteq> dom (tracker_look t) \<Longrightarrow> seen E n t1"
  unfolding seen_def by blast

lemma seen_fresh:
  "seen E n t \<Longrightarrow> fresh_world E \<Longrightarrow> tracker_look t (d_uuid (E n)) = None"
  unfolding seen_def fresh_world_def by (metis less_irrefl)

lemma record_ops_inv: "tracker_inv t \<Longrightarrow> tracker_inv (record_ops i ops t)"
  unfolding record_ops_all by (rule tracker.inv_record_all)

lemma track_frame [simp]:
  "hstore (track X conn cn ra h) = hstore h" "haudit (track X conn cn ra h) = haudit h" "htick h \<le> htick (track X conn cn ra h)"
  by (simp_all add: track_def sample_def split: option.split)

lemma untrack_frame [simp]:
  "hstore (untrack conn h) = hstore h" "haudit (untrack conn h) = haudit h" "htick (untrack conn h) = htick h"
  by (simp_all add: untrack_def)

text \<open>
  One round either leaves the handler's state alone or is one request, whatever the round's outcome.
\<close>

lemma serve_one_state:
  "snd (snd (serve_one X cn conn c h)) = h \<or> (\<exists>msg. snd (snd (serve_one X cn conn c h)) = snd (HandleRequest X msg cn (net_RemoteAddr c) conn h))"
  by (simp add: serve_one_def Let_def split_beta split: outcome.split option.split) blast

lemma serve_one_records: "\<exists>n. records conn n h (snd (snd (serve_one X cn conn c h)))"
  using serve_one_state[of X cn conn c h] records_HandleRequest[of conn h X _ cn "net_RemoteAddr c"] records_same[of h h conn 0]
  by (metis order_refl)

lemma request_loop_records: "\<exists>n. records conn n h (snd (snd (request_loop X cn conn c h)))"
proof (induction X cn conn c h rule: request_loop.induct)
  case (1 X cn conn c h)
  obtain e c1 h1 where s: "serve_one X cn conn c h = (e, c1, h1)" by (metis prod_cases3)
  with serve_one_records[of conn h X cn c] obtain n where n: "records conn n h h1" by auto
  show ?case
  proof (cases e)
    case None
    from 1[OF s[symmetric] None refl] obtain m where "records conn m h1 (snd (snd (request_loop X cn conn c1 h1)))" by blast
    with n s None show ?thesis by (subst request_loop.simps) (auto dest: records_trans)
  next
    case (Some x)
    with n s show ?thesis by (subst request_loop.simps) auto
  qed
qed

lemma request_loop_serves: "serves X h (snd (snd (request_loop X cn conn c h)))"
proof (induction X cn conn c h rule: request_loop.induct)
  case (1 X cn conn c h)
  obtain e c1 h1 where s: "serve_one X cn conn c h = (e, c1, h1)" by (metis prod_cases3)
  with serve_one_state[of X cn conn c h] have h1: "serves X h h1" by (auto intro: serves.idle serves.request)
  show ?case
  proof (cases e)
    case None
    from 1[OF s[symmetric] None refl] h1 s None show ?thesis by (subst request_loop.simps) (auto intro: serves_trans)
  next
    case (Some x)
    with h1 s show ?thesis by (subst request_loop.simps) auto
  qed
qed

lemma sample_frame [simp]: "hstore (snd (sample X h)) = hstore h" "htracker (snd (sample X h)) = htracker h"
  "haudit (snd (sample X h)) = haudit h" "htick (snd (sample X h)) = Suc (htick h)" "fst (sample X h) = outside X (htick h)"
  by (simp_all add: sample_def)

lemma server_inv_frame:
  "server_inv D E h \<Longrightarrow> hstore h' = hstore h \<Longrightarrow> htick h \<le> htick h' \<Longrightarrow> server_inv D E h'"
  using safe_same[of "((), h')" h store_inv "store_abs D" E] by (simp add: safe_def server_inv_def)

text \<open>Adding, recording and removing under an identifier of its own gives the table back.\<close>

lemma track_cycle:
  assumes "htracker h = Some t" "seen E (htick h) t" "tracker_look t conn = None"
    and "records conn n (track X conn cn ra h) h1"
  shows "\<exists>t'. htracker (untrack conn h1) = Some t' \<and> tracker_inv t' \<and> tracker_look t' = tracker_look t"
proof -
  let ?t = "tracker_Add (d_now (outside X (htick h))) conn cn ra t"
  from assms(1,4) obtain ops where "htracker h1 = Some (record_ops conn ops ?t)"
    by (auto simp: records_def track_def sample_def)
  moreover have i: "tracker_inv t" using assms(2) by (simp add: seen_def)
  moreover note tracker.session[OF i assms(3), of ops] tracker.inv_remove[OF tracker.inv_record_all[OF tracker.inv_add[OF i]]]
  ultimately show ?thesis by (simp add: untrack_def record_ops_all)
qed

text \<open>
  C35. A connection, whatever the client sends and however it ends (a failed handshake, an oversized
  or cut message, a failing write), keeps the server's invariant, moves the managed objects by
  life-cycle steps only, and leaves the table of active connections as it found it.
\<close>

theorem connection_safe:
  assumes "fresh_world E" "server_inv D E h" "htracker h = Some t" "seen E (htick h) t"
    and "handleConnection (server L D H C E) c h = (e, c', h')"
  shows "server_inv D E h' \<and> kmip_step\<^sup>*\<^sup>* (managed D h) (managed D h') \<and>
    (\<exists>t'. htracker h' = Some t' \<and> tracker_look t' = tracker_look t)"
proof (cases "handshake c")
  case (Inl err)
  with assms(5) have "h' = snd (sample (server L D H C E) h)" by (auto simp: handleConnection_def split_beta Let_def)
  with server_inv_frame[OF assms(2), of h'] assms(3) show ?thesis by (simp add: managed_def)
next
  case (Inr peers)
  let ?X = "server L D H C E"
  let ?h1 = "snd (sample ?X h)" and ?conn = "d_uuid (E (htick h))" and ?cn = "client_cn peers"
  let ?h2 = "track ?X ?conn ?cn (net_RemoteAddr c) ?h1"
  let ?h3 = "snd (snd (request_loop ?X ?cn ?conn c ?h2))"
  from Inr assms(5) have h': "h' = untrack ?conn ?h3" by (auto simp: handleConnection_def split_beta Let_def)
  have i: "server_inv D E ?h2" by (rule server_inv_frame[OF assms(2)]) (auto intro: order_trans[OF _ track_frame(3)])
  note s = server_serves[OF request_loop_serves[of ?X ?h2 ?cn ?conn c] assms(1) i]
  have "server_inv D E h'" unfolding h' by (rule server_inv_frame[OF s(1)]) simp_all
  moreover have "kmip_step\<^sup>*\<^sup>* (managed D h) (managed D h')" using s(2) by (simp add: h' managed_def)
  moreover have "\<exists>t'. htracker h' = Some t' \<and> tracker_look t' = tracker_look t"
  proof -
    obtain n where "records ?conn n ?h2 ?h3" using request_loop_records by blast
    from track_cycle[OF _ seen_later[OF assms(4)] seen_fresh[OF assms(4,1)] this] assms(3) show ?thesis
      by (auto simp: h')
  qed
  ultimately show ?thesis by blast
qed

definition demo_idle :: "store hstate" where
  "demo_idle = NewHandler 1 (Mem NewMemoryStore) None (Some NewConnectionTracker)"

theorem connection_safe_witness:
  "server_inv demo_driver demo_draw
     (snd (snd (handleConnection (server bytelib demo_driver demo_hkdf plaincrypto demo_draw) demo_net demo_idle))) \<and>
   (\<exists>t'. htracker (snd (snd (handleConnection (server bytelib demo_driver demo_hkdf plaincrypto demo_draw) demo_net demo_idle))) = Some t' \<and>
      tracker_look t' = Map.empty)"
proof -
  let ?r = "handleConnection (server bytelib demo_driver demo_hkdf plaincrypto demo_draw) demo_net demo_idle"
  have r: "?r = (fst ?r, fst (snd ?r), snd (snd ?r))" by simp
  have i: "server_inv demo_driver demo_draw demo_idle" unfolding demo_idle_def by (rule server_inv_new) simp
  have t: "htracker demo_idle = Some NewConnectionTracker" by (simp add: demo_idle_def NewHandler_def)
  have "seen demo_draw (htick demo_idle) NewConnectionTracker" by (simp add: seen_def tracker.inv_new tracker.look_new)
  from connection_safe[OF demo_fresh i t this r] show ?thesis by (simp add: tracker.look_new)
qed

section \<open>The listener\<close>

text \<open>
  \<open>Serve\<close>: connections are accepted while the semaphore has a free slot and refused otherwise; each
  accepted one runs in a goroutine of its own. The relation \<open>listener_step\<close> interleaves the
  goroutines: the handshake with the registration of the connection, the rounds of its loop, and its
  end, where the slot is given back. The handlers of one request run as a whole; every call into the
  store and the tracker is atomic by its lock.
\<close>

datatype phase = Accepted | Serving string string

record 's listener =
  slots :: nat
  active :: "nat \<rightharpoonup> net_conn \<times> phase"
  shared :: "'s hstate"

inductive listener_step :: "(bytes, 'i, 's) deps \<Rightarrow> 's listener \<Rightarrow> 's listener \<Rightarrow> bool" for X where
  accept: "slots l < maxConnections \<Longrightarrow> active l g = None \<Longrightarrow>
    listener_step X l (l\<lparr>slots := slots l + 1, active := (active l)(g \<mapsto> (c, Accepted))\<rparr>)"
| reject: "\<not> slots l < maxConnections \<Longrightarrow> listener_step X l l"
| hello_fails: "active l g = Some (c, Accepted) \<Longrightarrow> handshake c = Inl err \<Longrightarrow>
    listener_step X l (l\<lparr>slots := slots l - 1, active := (active l)(g := None), shared := snd (sample X (shared l))\<rparr>)"
| hello: "active l g = Some (c, Accepted) \<Longrightarrow> handshake c = Inr peers \<Longrightarrow> sample X (shared l) = (d, h1) \<Longrightarrow>
    listener_step X l (l\<lparr>active := (active l)(g \<mapsto> (c, Serving (d_uuid d) (client_cn peers))),
      shared := track X (d_uuid d) (client_cn peers) (net_RemoteAddr c) h1\<rparr>)"
| one_round: "active l g = Some (c, Serving conn cn) \<Longrightarrow> serve_one X cn conn c (shared l) = (None, c1, h1) \<Longrightarrow>
    listener_step X l (l\<lparr>active := (active l)(g \<mapsto> (c1, Serving conn cn)), shared := h1\<rparr>)"
| finish: "active l g = Some (c, Serving conn cn) \<Longrightarrow> serve_one X cn conn c (shared l) = (Some e, c1, h1) \<Longrightarrow>
    listener_step X l (l\<lparr>slots := slots l - 1, active := (active l)(g := None), shared := untrack conn h1\<rparr>)"

inductive_cases listener_stepE: "listener_step X l l'"

text \<open>
  The invariant: the semaphore counts the goroutines, and the tracker lists exactly the connections
  that are being served, each under an identifier of its own.
\<close>

definition served :: "'s listener \<Rightarrow> nat \<Rightarrow> string option" where
  "served l g = (case active l g of Some (_, Serving conn _) \<Rightarrow> Some conn | _ \<Rightarrow> None)"

definition listed :: "world \<Rightarrow> 's listener \<Rightarrow> bool" where
  "listed E l \<longleftrightarrow> (\<exists>t. htracker (shared l) = Some t \<and> seen E (htick (shared l)) t \<and>
     dom (tracker_look t) = {conn. \<exists>g. served l g = Some conn}) \<and>
     (\<forall>g g' conn. served l g = Some conn \<longrightarrow> served l g' = Some conn \<longrightarrow> g = g')"

definition counted :: "'s listener \<Rightarrow> bool" where
  "counted l \<longleftrightarrow> finite (dom (active l)) \<and> card (dom (active l)) = slots l \<and> slots l \<le> maxConnections"

lemma counted_step: "listener_step X l l' \<Longrightarrow> counted l \<Longrightarrow> counted l'"
proof (induction rule: listener_step.induct)
  case (hello_fails l g c err)
  moreover from hello_fails(1) have "g \<in> dom (active l)" by auto
  ultimately show ?case by (auto simp: counted_def card_Diff_singleton)
next
  case (finish l g c conn cn e c1 h1)
  moreover from finish(1) have "g \<in> dom (active l)" by auto
  ultimately show ?case by (auto simp: counted_def card_Diff_singleton)
qed (auto simp: counted_def domIff insert_absorb)

lemma served_simps [simp]:
  "served (l\<lparr>slots := n\<rparr>) = served l" "served (l\<lparr>shared := h\<rparr>) = served l"
  "served (l\<lparr>slots := n, active := a\<rparr>) = served (l\<lparr>active := a\<rparr>)"
  "served (l\<lparr>active := (active l)(g := None)\<rparr>) = (served l)(g := None)"
  "served (l\<lparr>active := (active l)(g \<mapsto> (c, Accepted))\<rparr>) = (served l)(g := None)"
  "served (l\<lparr>active := (active l)(g \<mapsto> (c, Serving conn cn))\<rparr>) = (served l)(g \<mapsto> conn)"
  by (auto simp: served_def fun_eq_iff)

lemma record_ops_dom: "tracker_inv t \<Longrightarrow> dom (tracker_look (record_ops conn ops t)) = dom (tracker_look t)"
proof (induction ops arbitrary: t)
  case (Cons x ops)
  obtain now opn where x: "x = (now, opn)" by (cases x)
  have "dom (tracker_look (tracker_RecordOp now conn opn t)) = dom (tracker_look t)"
    using tracker.look_record[OF Cons.prems] by (auto split: option.splits)
  with Cons.IH[OF tracker.inv_record[OF Cons.prems]] show ?case by (simp add: record_ops_def x)
qed simp

text \<open>A round keeps the set of listed connections.\<close>

lemma records_listed:
  assumes "records conn n h h1" "htracker h = Some t" "seen E (htick h) t"
  shows "\<exists>t1. htracker h1 = Some t1 \<and> seen E (htick h1) t1 \<and> dom (tracker_look t1) = dom (tracker_look t)"
proof -
  from assms(1,2) obtain ops where o: "htracker h1 = Some (record_ops conn ops t)" "htick h \<le> htick h1"
    by (auto simp: records_def)
  have i: "tracker_inv t" using assms(3) by (simp add: seen_def)
  have "seen E (htick h1) (record_ops conn ops t)"
    using seen_dom[OF seen_later[OF assms(3) o(2)] record_ops_inv[OF i]] record_ops_dom[OF i] by blast
  with o record_ops_dom[OF i] show ?thesis by auto
qed

lemma served_without:
  assumes "m g = Some c" "\<forall>g g' k. m g = Some k \<longrightarrow> m g' = Some k \<longrightarrow> g = g'"
  shows "{k. \<exists>g'. (m(g := None)) g' = Some k} = {k. \<exists>g'. m g' = Some k} - {c}"
  using assms by (fastforce split: if_splits)

lemma listed_step:
  assumes "listener_step X l l'" "fresh_world (outside X)" "listed (outside X) l"
  shows "listed (outside X) l'"
  using assms(1,3)
proof (induction rule: listener_step.induct)
  case (accept l g c)
  then have "served l g = None" by (simp add: served_def)
  with accept.prems show ?case by (simp add: listed_def fun_upd_idem)
next
  case (hello_fails l g c err)
  then have "served l g = None" by (simp add: served_def)
  with hello_fails.prems show ?case by (auto simp: listed_def fun_upd_idem intro: seen_later[OF _ le_SucI[OF order.refl]])
next
  case (hello l g c peers d h1)
  let ?E = "outside X" and ?n = "htick (shared l)"
  from hello(3) have d: "d = ?E ?n" "h1 = snd (sample X (shared l))" by (simp_all add: sample_def)
  from hello.prems obtain t where t: "htracker (shared l) = Some t" "seen ?E ?n t"
    "dom (tracker_look t) = {conn. \<exists>g. served l g = Some conn}"
    "\<forall>g g' conn. served l g = Some conn \<longrightarrow> served l g' = Some conn \<longrightarrow> g = g'" by (auto simp: listed_def)
  let ?t = "tracker_Add (d_now (?E (Suc ?n))) (d_uuid d) (client_cn peers) (net_RemoteAddr c) t"
  have i: "tracker_inv t" using t(2) by (simp add: seen_def)
  from tracker.look_add[OF i] obtain x where x: "tracker_look ?t = (tracker_look t)(d_uuid d \<mapsto> x)" by metis
  have n: "tracker_look t (d_uuid d) = None" unfolding d by (rule seen_fresh[OF t(2) assms(2)])
  then have new: "served l g' \<noteq> Some (d_uuid d)" for g' using t(3) by auto
  have old: "served l g = None" using hello(1) by (simp add: served_def)
  have "htracker (track X (d_uuid d) (client_cn peers) (net_RemoteAddr c) h1) = Some ?t"
    "htick (track X (d_uuid d) (client_cn peers) (net_RemoteAddr c) h1) = Suc (Suc ?n)"
    using t(1) by (simp_all add: track_def d sample_def)
  moreover have "seen ?E (Suc (Suc ?n)) ?t"
    using t(2) x d tracker.inv_add[OF i] by (auto simp: seen_def less_Suc_eq)
  moreover have "dom (tracker_look ?t) = {conn. \<exists>g'. ((served l)(g \<mapsto> d_uuid d)) g' = Some conn}"
    using x t(3) ran_map_upd[of "served l" g "d_uuid d"] old by (simp add: ran_def)
  ultimately show ?case using t(4) new by (auto simp: listed_def)
next
  case (one_round l g c conn cn c1 h1)
  from one_round(1) have s: "(served l)(g \<mapsto> conn) = served l" by (simp add: served_def fun_upd_idem)
  from serve_one_records[of conn "shared l" X cn c] one_round(2) obtain n where "records conn n (shared l) h1" by auto
  with one_round.prems s show ?case by (auto simp: listed_def dest: records_listed)
next
  case (finish l g c conn cn e c1 h1)
  from finish(1) have s: "served l g = Some conn" by (simp add: served_def)
  from serve_one_records[of conn "shared l" X cn c] finish(2) obtain n where r: "records conn n (shared l) h1" by auto
  from finish.prems obtain t where t: "htracker (shared l) = Some t" "seen (outside X) (htick (shared l)) t"
    "dom (tracker_look t) = {conn. \<exists>g. served l g = Some conn}"
    "\<forall>g g' conn. served l g = Some conn \<longrightarrow> served l g' = Some conn \<longrightarrow> g = g'" by (auto simp: listed_def)
  from records_listed[OF r t(1,2)] obtain t1 where t1: "htracker h1 = Some t1" "seen (outside X) (htick h1) t1"
    "dom (tracker_look t1) = dom (tracker_look t)" by blast
  have i: "tracker_inv t1" using t1(2) by (simp add: seen_def)
  note rm = tracker.look_remove[OF i, of conn] tracker.inv_remove[OF i, of conn]
  have "dom (tracker_look (tracker_Remove conn t1)) = {k. \<exists>g'. ((served l)(g := None)) g' = Some k}"
    using served_without[of "served l", OF s t(4)] t(3) t1(3) rm by simp
  moreover have "seen (outside X) (htick h1) (tracker_Remove conn t1)" using rm by (intro seen_dom[OF t1(2)]) auto
  ultimately show ?case using t(4) t1(1) by (auto simp: listed_def untrack_def)
qed (auto simp: listed_def)

text \<open>The managed objects move by life-cycle steps, whatever the schedule.\<close>

lemma listener_objects:
  assumes "listener_step (server L D H C E) l l'" "fresh_world E" "server_inv D E (shared l)"
  shows "server_inv D E (shared l') \<and> kmip_step\<^sup>*\<^sup>* (managed D (shared l)) (managed D (shared l'))"
proof -
  have same: "server_inv D E h1 \<and> kmip_step\<^sup>*\<^sup>* (managed D h) (managed D h1)"
    if "server_inv D E h" "hstore h1 = hstore h" "htick h \<le> htick h1" for h h1
    using server_inv_frame[OF that] that(2) by (simp add: managed_def)
  have round: "server_inv D E h1 \<and> kmip_step\<^sup>*\<^sup>* (managed D h) (managed D h1)"
    if "server_inv D E h" "serve_one (server L D H C E) cn conn c h = (e, c1, h1)" for h cn conn c e c1 h1
  proof -
    from serve_one_state[of "server L D H C E" cn conn c h] that(2) have "serves (server L D H C E) h h1"
      by (auto intro: serves.idle serves.request)
    with server_serves[OF this assms(2) that(1)] show ?thesis by blast
  qed
  from assms(1,3) show ?thesis
  proof (induction rule: listener_step.induct)
    case (hello_fails l g c err)
    then show ?case by (simp add: same)
  next
    case (hello l g c peers d h1)
    then show ?case using track_frame(3)[of h1]
      by (intro same) (auto simp: sample_def intro: order_trans[OF _ track_frame(3)])
  next
    case (one_round l g c conn cn c1 h1)
    with round show ?case by auto
  next
    case (finish l g c conn cn e c1 h1)
    with round have "server_inv D E h1" "kmip_step\<^sup>*\<^sup>* (managed D (shared l)) (managed D h1)" by blast+
    with same[of h1 "untrack conn h1"] show ?case by (auto simp: managed_def)
  qed (auto intro: same)
qed

definition listening :: "'s hstate \<Rightarrow> 's listener" where
  "listening h = \<lparr>slots = 0, active = Map.empty, shared = h\<rparr>"

lemma listening_inv: "counted (listening h)" "htracker h = Some NewConnectionTracker \<Longrightarrow> listed E (listening h)"
  by (simp_all add: counted_def listed_def listening_def served_def seen_def tracker.inv_new tracker.look_new)

lemma listener_steps:
  assumes "(listener_step (server L D H C E))\<^sup>*\<^sup>* l l'" "fresh_world E" "counted l" "listed E l" "server_inv D E (shared l)"
  shows "counted l' \<and> listed E l' \<and> server_inv D E (shared l') \<and> kmip_step\<^sup>*\<^sup>* (managed D (shared l)) (managed D (shared l'))"
  using assms
proof (induction rule: rtranclp_induct)
  case (step l1 l2)
  then have "counted l1" "listed E l1" "server_inv D E (shared l1)" "kmip_step\<^sup>*\<^sup>* (managed D (shared l)) (managed D (shared l1))"
    by blast+
  with counted_step[OF step(2)] listed_step[OF step(2)] listener_objects[OF step(2) step(4)] step(4) show ?case
    by (auto intro: rtranclp_trans)
qed simp

lemma served_iff: "served l g = Some conn \<longleftrightarrow> (\<exists>c cn. active l g = Some (c, Serving conn cn))"
proof (cases "active l g")
  case (Some p)
  obtain c ph where "p = (c, ph)" by (cases p)
  with Some show ?thesis by (cases ph) (simp_all add: served_def)
qed (simp add: served_def)

lemma served_count:
  assumes "counted l" "listed E l" "htracker (shared l) = Some t"
  shows "tracker_Count t \<le> int (slots l)"
proof -
  let ?S = "{conn. \<exists>g. served l g = Some conn}"
  from assms(2,3) have t: "tracker_inv t" "dom (tracker_look t) = ?S" by (auto simp: listed_def seen_def)
  have "?S \<subseteq> (\<lambda>g. the (served l g)) ` dom (active l)"
    by (force simp: served_def split: option.splits)
  moreover have "finite (dom (active l))" using assms(1) by (simp add: counted_def)
  ultimately have "card ?S \<le> card (dom (active l))" by (meson card_image_le card_mono finite_imageI order_trans)
  with t assms(1) show ?thesis by (simp add: tracker_Count_card counted_def)
qed



end
