(* ===== verification/Rate_Limit.thy ===== *)
theory Rate_Limit
  imports Rest_Api
begin

text \<open>
  The rate limiter of the REST API over histories of requests: an event is a time and a client address.
  What it promises is that no address is let through more than 200 times within a minute, and that one
  that waits 1.2 seconds between requests is always let through. The refill is a floating-point product,
  truncated; the laws say that its relative error is below \<open>2\<^sup>-\<^sup>5\<^sup>0\<close>.
\<close>

section \<open>Histories\<close>

definition rate_unit :: int where
  "rate_unit = 60 * 10 ^ 9 * 2 ^ 50"

definition refill_ok :: "restlib \<Rightarrow> bool" where
  "refill_ok R \<longleftrightarrow> (\<forall>e \<ge> 0. 0 \<le> refill R e \<and> refill R e * rate_unit \<le> e * (100 * (2 ^ 50 + 1)) \<and>
     e * (100 * (2 ^ 50 - 1)) < (refill R e + 1) * rate_unit)"

fun rate_state :: "restlib \<Rightarrow> (time \<times> string) list \<Rightarrow> ipRateLimiter \<Rightarrow> ipRateLimiter" where
  "rate_state R [] rl = rl"
| "rate_state R ((now, a) # evs) rl = rate_state R evs (snd (allow R now a rl))"

text \<open>How many requests of the address \<open>ip\<close> are let through.\<close>

fun let_through :: "restlib \<Rightarrow> string \<Rightarrow> (time \<times> string) list \<Rightarrow> ipRateLimiter \<Rightarrow> int" where
  "let_through R ip [] rl = 0"
| "let_through R ip ((now, a) # evs) rl =
     (if a = ip \<and> fst (allow R now a rl) then 1 else 0) + let_through R ip evs (snd (allow R now a rl))"

section \<open>One bucket\<close>

definition topped_up :: "restlib \<Rightarrow> time \<Rightarrow> rateBucket \<Rightarrow> int" where
  "topped_up R now b = min 100 (tokens b + refill R (now - lastSeen b))"

lemma allow_first: "map_of rl ip = None \<Longrightarrow> allow R now ip rl = (True, AList.update ip \<lparr>tokens = 99, lastSeen = now\<rparr> rl)"
  by (simp add: allow_def)

lemma allow_again:
  "map_of rl ip = Some b \<Longrightarrow> allow R now ip rl =
    (let t = topped_up R now b in (0 < t, AList.update ip \<lparr>tokens = (if 0 < t then t - 1 else t), lastSeen = now\<rparr> rl))"
  by (simp add: allow_def topped_up_def Let_def min_def)

text \<open>An address only has an effect on its own bucket.\<close>

lemma allow_other: "a \<noteq> ip \<Longrightarrow> map_of (snd (allow R now a rl)) ip = map_of rl ip"
  by (cases "map_of rl a") (simp_all add: allow_first allow_again Let_def update_conv')

text \<open>A bucket in use: between none and a hundred tokens, last seen at or before \<open>t\<close>.\<close>

definition bucket_ok :: "time \<Rightarrow> rateBucket \<Rightarrow> bool" where
  "bucket_ok t b \<longleftrightarrow> 0 \<le> tokens b \<and> tokens b \<le> 100 \<and> lastSeen b \<le> t"

definition limiter_ok :: "time \<Rightarrow> string \<Rightarrow> ipRateLimiter \<Rightarrow> bool" where
  "limiter_ok t ip rl \<longleftrightarrow> (\<forall>b. map_of rl ip = Some b \<longrightarrow> bucket_ok t b)"

lemma topped_up_bounds: "refill_ok R \<Longrightarrow> bucket_ok now b \<Longrightarrow> 0 \<le> topped_up R now b \<and> topped_up R now b \<le> 100"
  by (auto simp: refill_ok_def bucket_ok_def topped_up_def)

lemma limiter_ok_mono: "limiter_ok t ip rl \<Longrightarrow> t \<le> t' \<Longrightarrow> limiter_ok t' ip rl"
  by (force simp: limiter_ok_def bucket_ok_def)

lemma allow_limiter_ok:
  assumes "refill_ok R" "limiter_ok now ip rl"
  shows "limiter_ok now ip (snd (allow R now a rl))"
proof (cases "a = ip")
  case True
  show ?thesis
  proof (cases "map_of rl ip")
    case None
    with True show ?thesis by (simp add: limiter_ok_def bucket_ok_def allow_first update_conv')
  next
    case (Some b)
    with topped_up_bounds[OF assms(1), of now b] assms(2) True show ?thesis
      by (simp add: limiter_ok_def allow_again bucket_ok_def Let_def update_conv')
  qed
next
  case False
  with assms(2) show ?thesis by (simp add: limiter_ok_def allow_other)
qed

lemma rate_state_ok:
  "refill_ok R \<Longrightarrow> limiter_ok t ip rl \<Longrightarrow> sorted (map fst evs) \<Longrightarrow> \<forall>x \<in> fst ` set evs. t \<le> x \<and> x \<le> t' \<Longrightarrow> t \<le> t' \<Longrightarrow>
   limiter_ok t' ip (rate_state R evs rl)"
proof (induction R evs rl arbitrary: t rule: rate_state.induct)
  case (1 R rl)
  then show ?case by (auto intro: limiter_ok_mono)
next
  case (2 R now a evs rl)
  from 2(2,3,5) have "limiter_ok now ip (snd (allow R now a rl))"
    by (intro allow_limiter_ok) (auto intro: limiter_ok_mono)
  with 2(1)[of now] 2(2,4,5) show ?case by simp
qed

section \<open>How many requests pass\<close>

text \<open>What a bucket may still let through until time \<open>T\<close>, in units of \<open>rate_unit\<close> per request.\<close>

definition credit :: "time \<Rightarrow> int \<Rightarrow> time \<Rightarrow> int" where
  "credit T tok seen = tok * rate_unit + (T - seen) * (100 * (2 ^ 50 + 1))"

lemma credit_refill:
  assumes "refill_ok R" "lastSeen b \<le> now"
  shows "credit T (topped_up R now b) now \<le> credit T (tokens b) (lastSeen b)"
proof -
  have "topped_up R now b * rate_unit \<le> (tokens b + refill R (now - lastSeen b)) * rate_unit"
    by (rule mult_right_mono) (simp_all add: topped_up_def rate_unit_def)
  moreover have "refill R (now - lastSeen b) * rate_unit \<le> (now - lastSeen b) * (100 * (2 ^ 50 + 1))"
    using assms(1)[unfolded refill_ok_def, rule_format, of "now - lastSeen b"] assms(2) by simp
  ultimately show ?thesis by (simp add: credit_def algebra_simps)
qed

lemma let_through_credit:
  "refill_ok R \<Longrightarrow> map_of rl ip = Some b \<Longrightarrow> bucket_ok t b \<Longrightarrow> sorted (t # map fst evs) \<Longrightarrow> \<forall>x \<in> fst ` set evs. x \<le> T \<Longrightarrow> t \<le> T \<Longrightarrow>
   let_through R ip evs rl * rate_unit \<le> credit T (tokens b) (lastSeen b)"
proof (induction R ip evs rl arbitrary: t b rule: let_through.induct)
  case (1 R ip rl)
  then show ?case by (simp add: credit_def bucket_ok_def rate_unit_def)
next
  case (2 R ip now a evs rl)
  let ?rl = "snd (allow R now a rl)"
  show ?case
  proof (cases "a = ip")
    case True
    let ?t = "topped_up R now b" let ?b = "\<lparr>tokens = (if 0 < ?t then ?t - 1 else ?t), lastSeen = now\<rparr>"
    have seen: "lastSeen b \<le> now" and tok: "0 \<le> ?t" "?t \<le> 100"
      using 2(4,5) topped_up_bounds[OF 2(2), of now b] by (auto simp: bucket_ok_def)
    have "let_through R ip evs ?rl * rate_unit \<le> credit T (tokens ?b) (lastSeen ?b)"
      by (rule 2(1)[where t=now]) (use 2(2,3,5,6) tok True in \<open>auto simp: allow_again Let_def update_conv' bucket_ok_def\<close>)
    moreover have "credit T (tokens ?b) (lastSeen ?b) = credit T ?t now - (if 0 < ?t then rate_unit else 0)"
      by (simp add: credit_def algebra_simps)
    ultimately show ?thesis using credit_refill[OF 2(2) seen, of T] True 2(3)
      by (auto simp: allow_again Let_def algebra_simps)
  next
    case False
    then show ?thesis using 2(1)[where t=t and b=b] 2(2-7) by (auto simp: allow_other)
  qed
qed

text \<open>Within a window, whatever the limiter has seen before.\<close>

lemma let_through_window:
  assumes "refill_ok R"
  shows "limiter_ok t ip rl \<Longrightarrow> sorted (t # map fst evs) \<Longrightarrow> \<forall>x \<in> fst ` set evs. x \<le> t + w \<Longrightarrow> 0 \<le> w \<Longrightarrow>
    let_through R ip evs rl * rate_unit \<le> 100 * rate_unit + w * (100 * (2 ^ 50 + 1))"
proof (induction evs arbitrary: rl)
  case Nil
  then show ?case by (simp add: rate_unit_def)
next
  case (Cons e evs)
  obtain now a where e: "e = (now, a)" by fastforce
  have T: "t \<le> now" "now \<le> t + w" using Cons.prems by (auto simp: e)
  show ?case
  proof (cases "a = ip")
    case False
    have "limiter_ok t ip (snd (allow R now a rl))" using Cons.prems(1) False by (simp add: limiter_ok_def allow_other)
    with Cons False show ?thesis by (auto simp: e)
  next
    case True
    define tok where "tok = (case map_of rl ip of None \<Rightarrow> 100 | Some b \<Rightarrow> topped_up R now b)"
    let ?b = "\<lparr>tokens = (if 0 < tok then tok - 1 else tok), lastSeen = now\<rparr>" and ?rl = "snd (allow R now a rl)"
    have tok: "0 \<le> tok" "tok \<le> 100"
      using topped_up_bounds[OF assms, of now] limiter_ok_mono[OF Cons.prems(1) T(1)]
      by (auto simp: tok_def limiter_ok_def split: option.splits)
    have al: "fst (allow R now a rl) \<longleftrightarrow> 0 < tok" "map_of ?rl ip = Some ?b"
      by (auto simp: tok_def True allow_first allow_again Let_def update_conv' split: option.split)
    have "let_through R ip evs ?rl * rate_unit \<le> credit (t + w) (tokens ?b) (lastSeen ?b)"
      by (rule let_through_credit[OF assms al(2), of now]) (use Cons.prems T tok in \<open>auto simp: bucket_ok_def e\<close>)
    moreover have "credit (t + w) (tokens ?b) (lastSeen ?b) + (if 0 < tok then rate_unit else 0) = credit (t + w) tok now"
      by (simp add: credit_def algebra_simps)
    moreover have "credit (t + w) tok now \<le> 100 * rate_unit + w * (100 * (2 ^ 50 + 1))"
      unfolding credit_def using tok T by (intro add_mono mult_right_mono) (simp_all add: rate_unit_def)
    ultimately show ?thesis using True al(1) by (auto simp: e algebra_simps)
  qed
qed

section \<open>The promise\<close>

lemma rate_state_append: "rate_state R (pre @ evs) rl = rate_state R evs (rate_state R pre rl)"
  by (induction R pre rl rule: rate_state.induct) simp_all

lemma limiter_ok_new: "limiter_ok t ip newIPRateLimiter"
  by (simp add: limiter_ok_def newIPRateLimiter_def)

text \<open>The limiter after a history up to time \<open>t\<close>.\<close>

lemma rate_state_new:
  assumes "refill_ok R" "sorted (map fst pre)" "\<forall>x \<in> fst ` set pre. x \<le> t"
  shows "limiter_ok t ip (rate_state R pre newIPRateLimiter)"
proof (cases pre)
  case Nil
  then show ?thesis by (simp add: limiter_ok_new)
next
  case (Cons e es)
  with assms show ?thesis by (intro rate_state_ok[OF assms(1) limiter_ok_new assms(2), of "fst e"]) auto
qed

text \<open>A bucket remembers the time of a request of its address.\<close>

lemma allow_lastSeen:
  "map_of (snd (allow R now a rl)) ip = Some b \<Longrightarrow> (a = ip \<and> lastSeen b = now) \<or> map_of rl ip = Some b"
  by (cases "a = ip"; cases "map_of rl a") (auto simp: allow_other allow_first allow_again Let_def update_conv')

lemma rate_state_lastSeen:
  "map_of (rate_state R evs rl) ip = Some b \<Longrightarrow> (lastSeen b, ip) \<in> set evs \<or> map_of rl ip = Some b"
  by (induction R evs rl rule: rate_state.induct) (auto dest: allow_lastSeen)

text \<open>
  C32. The rate limit of the REST API: whatever requests came before and whatever other clients send, in
  any window of one minute at most 200 requests of one address pass (a full bucket of 100, and what is
  refilled in a minute).
\<close>

theorem rate_limit_bound:
  assumes "refill_ok R" "sorted (map fst (pre @ win))"
    and "\<forall>x \<in> fst ` set win. \<forall>y \<in> fst ` set win. y \<le> x + 60 * 10 ^ 9"
  shows "let_through R ip win (rate_state R pre newIPRateLimiter) \<le> 200"
proof (cases win)
  case (Cons e es)
  define n where "n = let_through R ip win (rate_state R pre newIPRateLimiter)"
  have ok: "limiter_ok (fst e) ip (rate_state R pre newIPRateLimiter)"
    using assms(2) by (intro rate_state_new[OF assms(1)]) (auto simp: Cons sorted_append)
  have "sorted (fst e # map fst win)" using assms(2) by (auto simp: Cons sorted_append)
  moreover have "\<forall>x \<in> fst ` set win. x \<le> fst e + 60 * 10 ^ 9" using assms(3) by (simp add: Cons)
  ultimately have "n * rate_unit \<le> 100 * rate_unit + 60 * 10 ^ 9 * (100 * (2 ^ 50 + 1))"
    unfolding n_def by (intro let_through_window[OF assms(1) ok]) simp_all
  then show ?thesis by (simp add: rate_unit_def flip: n_def)
qed simp

definition demo_rest :: restlib where
  "demo_rest = \<lparr>chacha_seal = (\<lambda>k n p. n @ p), chacha_open = (\<lambda>k n c. if take 12 c = n then Some (drop 12 c) else None),
     pem_Decode = (\<lambda>_. None), ParseCertificate = (\<lambda>_. Inl ''x509: malformed certificate''),
     RFC3339 = (\<lambda>t. replicate (nat t) CHR ''t''), RFC3339Nano = (\<lambda>t. replicate (nat t) CHR ''t''),
     whole_seconds = (\<lambda>d. d div 10 ^ 9), refill = (\<lambda>d. d * 100 div (60 * 10 ^ 9)),
     static_files = (\<lambda>r. \<lparr>status = 200, headers = [], set_cookies = [], resp_body = Text ''''\<rparr>)\<rparr>"

lemma demo_refill: "refill_ok demo_rest"
  by (auto simp: refill_ok_def demo_rest_def rate_unit_def)

theorem rate_limit_bound_witness:
  "let_through demo_rest ''a'' [(5, ''a''), (6, ''b''), (7, ''a'')] (rate_state demo_rest [(3, ''a'')] newIPRateLimiter) \<le> 200"
  by (rule rate_limit_bound[OF demo_refill]) simp_all

text \<open>
  C33. A client that lets 1.2 seconds pass since its last request is never turned away, whatever it and
  others sent before.
\<close>

theorem rate_limit_fair:
  assumes "refill_ok R" "sorted (map fst pre)" "\<forall>x \<in> fst ` set pre. x \<le> now"
    and "\<forall>x. (x, ip) \<in> set pre \<longrightarrow> x + 12 * 10 ^ 8 \<le> now"
  shows "fst (allow R now ip (rate_state R pre newIPRateLimiter))"
proof (cases "map_of (rate_state R pre newIPRateLimiter) ip")
  case (Some b)
  from rate_state_lastSeen[OF Some] assms(4) have e: "12 * 10 ^ 8 \<le> now - lastSeen b"
    by (auto simp: newIPRateLimiter_def)
  have "bucket_ok now b" using rate_state_new[OF assms(1-3), of ip] Some by (simp add: limiter_ok_def)
  moreover have "(now - lastSeen b) * (100 * (2 ^ 50 - 1)) < (refill R (now - lastSeen b) + 1) * rate_unit"
    using assms(1)[unfolded refill_ok_def, rule_format, of "now - lastSeen b"] e by simp
  then have "1 \<le> refill R (now - lastSeen b)" using e by (simp add: rate_unit_def)
  ultimately show ?thesis using Some by (simp add: allow_again topped_up_def bucket_ok_def Let_def)
qed (simp add: allow_first)

theorem rate_limit_fair_witness:
  "fst (allow demo_rest (2 * 10 ^ 9) ''a'' (rate_state demo_rest [(5, ''a''), (10 ^ 9, ''b'')] newIPRateLimiter))"
  by (rule rate_limit_fair[OF demo_refill]) auto

section \<open>Starvation\<close>

text \<open>
  The refill is truncated on every request and the clock of the bucket is set anyway. An address that
  keeps sending with at most 599 milliseconds between two requests gets a hundred requests through and
  then none, however long it goes on: at a little over 100 requests per minute the limit is 100 in all.
\<close>

lemma refill_short:
  assumes "refill_ok R" "0 \<le> e" "e \<le> 599 * 10 ^ 6"
  shows "refill R e = 0"
proof -
  have "0 \<le> refill R e" "refill R e * rate_unit \<le> e * (100 * (2 ^ 50 + 1))"
    using assms(1)[unfolded refill_ok_def, rule_format, of e] assms(2) by simp_all
  then show ?thesis using assms(3) by (simp add: rate_unit_def)
qed

lemma let_through_steady:
  "refill_ok R \<Longrightarrow> map_of rl ip = Some b \<Longrightarrow> 0 \<le> tokens b \<Longrightarrow> tokens b \<le> 100 \<Longrightarrow>
   successively (\<lambda>x y. x \<le> y \<and> y \<le> x + 599 * 10 ^ 6) (lastSeen b # ts) \<Longrightarrow>
   let_through R ip (map (\<lambda>t. (t, ip)) ts) rl \<le> tokens b"
proof (induction ts arbitrary: rl b)
  case (Cons t ts)
  have r: "topped_up R t b = tokens b" using Cons.prems by (simp add: topped_up_def refill_short)
  let ?b = "\<lparr>tokens = (if 0 < tokens b then tokens b - 1 else tokens b), lastSeen = t\<rparr>"
  have "let_through R ip (map (\<lambda>t. (t, ip)) ts) (snd (allow R t ip rl)) \<le> tokens ?b"
    using Cons.prems by (intro Cons.IH) (auto simp: allow_again r Let_def update_conv')
  with Cons.prems show ?case by (auto simp: allow_again r Let_def)
qed simp

theorem rate_limit_starves:
  assumes "refill_ok R" "successively (\<lambda>x y. x \<le> y \<and> y \<le> x + 599 * 10 ^ 6) ts"
  shows "let_through R ip (map (\<lambda>t. (t, ip)) ts) newIPRateLimiter \<le> 100"
proof (cases ts)
  case (Cons t us)
  let ?rl = "snd (allow R t ip newIPRateLimiter)"
  have "map_of ?rl ip = Some \<lparr>tokens = 99, lastSeen = t\<rparr>" by (simp add: allow_def newIPRateLimiter_def)
  from let_through_steady[OF assms(1) this, of us] assms(2) have
    "let_through R ip (map (\<lambda>t. (t, ip)) us) ?rl \<le> 99" by (simp add: Cons)
  then show ?thesis by (simp add: Cons)
qed simp

end
