(* ===== verification/Rest_Model.thy ===== *)
theory Rest_Model
  imports Server_Model Rate_Limit
begin

text \<open>
  The REST API over the interface value that holds one of the two stores, as \<open>main.go\<close> connects
  them, and what its handlers do there when the backing store reports no errors. The last part
  extends the concrete instance of the KMIP side by a REST API.
\<close>

section \<open>Looking up a key\<close>

lemma logAudit_inv [simp]: "server_inv D E h \<Longrightarrow> server_inv D E (logAudit G r opn u nm st msg h)"
  using web_json_log[of store_inv "store_abs D" E h 200 JNull G r opn u nm st msg]
  by (simp add: web_safe_def writeJSON_def server_inv_def)

lemma tick_inv [simp]: "server_inv D E h \<Longrightarrow> server_inv D E (tick h)"
  by (auto simp: server_inv_def hinv_def less_Suc_eq)

lemma object_frame [simp]:
  "object D (tick h) = object D h" "object D (logAudit G r opn u' nm st msg h) = object D h"
  by (simp_all add: object_def managed_def fun_eq_iff)

text \<open>A live object is found; anything else is a 404.\<close>

definition found :: "driver \<Rightarrow> store hstate \<Rightarrow> string \<Rightarrow> KeyRecord option" where
  "found D h u = (case object D h u of None \<Rightarrow> None | Some r \<Rightarrow> if State r = StateDestroyed then None else Some r)"

lemma found_live: "found D h u = live (store_abs D (hstore h)) u"
  by (simp add: found_def live_def object_def managed_def)

lemma found_frame [simp]:
  "found D (tick h) u = found D h u" "found D (logAudit G r opn u' nm st msg h) u = found D h u"
  by (simp_all add: found_def)

lemma found_uid: "server_inv D E h \<Longrightarrow> found D h u = Some r \<Longrightarrow> UID r = u"
  using itf.uid_key[OF server_inv_store] by (auto simp: found_live live_Some_iff)

lemma need_key_found:
  assumes "deps_of G = server L D H C E" "good_world E" "server_inv D E h"
  shows "need_key G u what h k =
    (case found D h u of None \<Rightarrow> writeError 404 (what @ '' not found'') (tick h) | Some r \<Rightarrow> k r (tick h))"
  using itf.get_complete[OF server_inv_store[OF assms(3)] good_worldD(2)[OF assms(2)], of D H "htick h" u]
  by (simp add: need_key_def query_def assms(1) found_live tick_def split: option.split)

lemma sample_server: "deps_of G = server L D H C E \<Longrightarrow> sample (deps_of G) h = (E (htick h), tick h)"
  by (simp add: sample_tick)

section \<open>New objects\<close>

text \<open>Where the backing store works, \<open>Register\<close> and \<open>Create\<close> add the object under a fresh identifier.\<close>

definition object_added :: "driver \<Rightarrow> KeyRecord \<Rightarrow> store hstate \<Rightarrow> store hstate \<Rightarrow> bool" where
  "object_added D r h h' \<longleftrightarrow> object D h (UID r) = None \<and>
     (\<exists>m. sl m = sl (Material r) \<and> object D h' = (object D h)(UID r \<mapsto> r\<lparr>Material := m\<rparr>))"

lemma adds_object_added:
  "adds r (store_abs D (hstore h)) (store_abs D s) \<Longrightarrow> object D h (UID r) = None \<Longrightarrow> hstore h' = s \<Longrightarrow> object_added D r h h'"
  by (auto simp: adds_def object_added_def object_def managed_def fun_eq_iff elim!: putsE)

lemma object_added_frame [simp]:
  "object_added D r (tick h) h' \<longleftrightarrow> object_added D r h h'"
  "object_added D r h (logAudit G rq opn u nm st msg h') \<longleftrightarrow> object_added D r h h'"
  by (simp_all add: object_added_def)

lemma fresh_object: "fresh_world E \<Longrightarrow> server_inv D E h \<Longrightarrow> object D h (d_uuid (E (htick h))) = None"
  by (simp add: server_inv_def object_def managed_def hinv_fresh)

lemma added_call:
  assumes "deps_of G = server L D H C E" "fresh_world E" "server_inv D E h"
    and "f (E (htick h)) (hstore h) = (Inr rec, s')" "UID rec = d_uuid (E (htick h))"
    and "adds rec (store_abs D (hstore h)) (store_abs D s')"
    and "web_safe store_inv (store_abs D) E h (call (deps_of G) f h)"
  shows "\<exists>h'. call (deps_of G) f h = (Inr rec, h') \<and> server_inv D E h' \<and> object_added D rec h h' \<and> htick h' = Suc (htick h)"
proof -
  let ?h' = "(tick h)\<lparr>hstore := s'\<rparr>"
  have c: "call (deps_of G) f h = (Inr rec, ?h')" by (simp add: call_tick assms(1,4))
  have "server_inv D E ?h'" using assms(3,7) by (simp add: c web_safe_def server_inv_def)
  moreover have "object_added D rec h ?h'"
    using assms(5,6) fresh_object[OF assms(2,3)] by (intro adds_object_added[where s=s']) auto
  ultimately show ?thesis using c by simp
qed

lemma fresh_vault: "fresh_world E \<Longrightarrow> server_inv D E h \<Longrightarrow> objs (store_abs D (hstore h)) (d_uuid (E (htick h))) = None"
  using fresh_object[of E D h] by (simp add: object_def managed_def)

lemma register_call:
  assumes "deps_of G = server L D H C E" "good_world E" "fresh_world E" "server_inv D E h" "Material r \<noteq> None" "0 \<le> sint (Length r)"
  shows "\<exists>h'. call (deps_of G) (\<lambda>d. Register (stor (deps_of G)) d r) h = (Inr (registered (E (htick h)) r), h') \<and>
    server_inv D E h' \<and> object_added D (registered (E (htick h)) r) h h' \<and> htick h' = Suc (htick h)"
proof -
  note i = server_inv_store[OF assms(4)]
  obtain rec s' where r: "Register (interface_storage D H) (E (htick h)) r (hstore h) = (Inr rec, s')"
    using itf.register_total[OF i good_worldD(2)[OF assms(2)] fresh_vault[OF assms(3,4)] assms(5,6), of H] by (metis prod.collapse)
  show ?thesis
    by (rule added_call[OF assms(1,3,4), where s'=s'])
      (use r itf.register_ok[OF i r] itf.web_register_call[of "deps_of G" D H h r] assms(1,3) in auto)
qed

lemma create_call:
  assumes "deps_of G = server L D H C E" "good_world E" "fresh_world E" "server_inv D E h"
    and "valid_length len" "d_rand (E (htick h)) (key_size len) = Inr b"
  shows "\<exists>h'. call (deps_of G) (\<lambda>d. Create (stor (deps_of G)) d name alg len usage own) h =
      (Inr (new_key (E (htick h)) name alg len usage own b), h') \<and>
    server_inv D E h' \<and> object_added D (new_key (E (htick h)) name alg len usage own b) h h' \<and> htick h' = Suc (htick h)"
proof -
  note i = server_inv_store[OF assms(4)]
  obtain rec s' where r: "Create (interface_storage D H) (E (htick h)) name alg len usage own (hstore h) = (Inr rec, s')"
    using itf.create_total[OF i good_worldD(2)[OF assms(2)] fresh_vault[OF assms(3,4)] assms(5,6), of H] by (metis prod.collapse)
  show ?thesis
    by (rule added_call[OF assms(1,3,4), where s'=s'])
      (use r itf.create_ok[OF i r] itf.web_create_call[of "deps_of G" D H h name alg len usage own] assms(1,3,6) in auto)
qed

section \<open>Authenticated encryption\<close>

definition chacha_ok :: "restlib \<Rightarrow> bool" where
  "chacha_ok R \<longleftrightarrow> (\<forall>k n p. length n = aead_NonceSize \<longrightarrow> chacha_open R k n (chacha_seal R k n p) = Some p)"

text \<open>The keys with which the API can encrypt.\<close>

definition usable_key :: "slice \<Rightarrow> int \<Rightarrow> string \<Rightarrow> bool" where
  "usable_key m alg meth \<longleftrightarrow>
     (if ToLower meth = ''chacha20-poly1305'' \<or> alg = 0x1E then length (sl m) = 32 else length (sl m) \<in> {16, 24, 32})"

lemma createAEAD_usable: "(\<exists>a. createAEADFromMaterial m alg meth = Inr a) \<longleftrightarrow> usable_key m alg meth"
  by (auto simp: createAEADFromMaterial_def usable_key_def chacha_New_def aes_NewCipher_def cipher_NewGCM_def Let_def)

lemma aead_round_trip:
  assumes "aead_ok C" "chacha_ok R" "length n = aead_NonceSize"
  shows "aead_Open C R a n (aead_Seal C R a n p) = Done (Inr p)"
  using assms gcm_Open_Seal[OF assms(1), of n]
  by (cases a) (simp_all add: aead_Open_def aead_Seal_def chacha_ok_def gcm_NonceSize_def aead_NonceSize_def)

lemma nonce_length: "good_world E \<Longrightarrow> length (fresh_nonce (E k) aead_NonceSize) = aead_NonceSize"
  using fresh_nonce_length[OF good_worldD(1), of E k] by (simp add: aead_NonceSize_def gcm_NonceSize_def)

section \<open>Reading request bodies\<close>

text \<open>Decoding an object whose members are exactly the fields of the struct, in its order or not.\<close>

lemma decode_data: "Decode (Some (JObject [(''data'', JString s)])) [(''data'', FString '''')] = Some [(''data'', FString s)]"
  by (simp add: Decode_def field_for_def)

lemma decode_data_nonce:
  "Decode (Some (JObject [(''data'', JString s), (''nonce'', JString n)])) [(''data'', FString ''''), (''nonce'', FString '''')] =
    Some [(''data'', FString s), (''nonce'', FString n)]"
  by (simp add: Decode_def field_for_def)

lemmas field_simps = str_field_def int32_field_def int_field_def

section \<open>The concrete instance\<close>

definition demo_api :: "(ttlv, ttlv, store) API" where
  "demo_api = \<lparr>deps_of = server treelib demo_driver demo_hkdf plaincrypto demo_draw, weblib = demo_rest, api_apiKey = ''sesame'',
     corsOrigin = '''', certFile = ''server.pem'', keyFile = ''server-key.pem'', start = 0, inventory = (\<lambda>d s. None)\<rparr>"

lemma demo_api_sel [simp]: "deps_of demo_api = server treelib demo_driver demo_hkdf plaincrypto demo_draw" "weblib demo_api = demo_rest"
  by (simp_all add: demo_api_def)

lemma demo_chacha: "chacha_ok demo_rest"
  by (simp add: chacha_ok_def demo_rest_def aead_NonceSize_def)

text \<open>A request with the given credentials, method, path and JSON body.\<close>

definition demo_web :: "string \<Rightarrow> string \<Rightarrow> string list \<Rightarrow> json \<Rightarrow> http_request" where
  "demo_web auth meth path body = \<lparr>Method = meth, Path = path, Authorization = auth, Cookies = [], RemoteIPPort = ''10.0.0.1:5000'',
     Body = Some body, JsonEnd = 100, RawBody = Inr [], URLQuery = []\<rparr>"

lemma demo_web_sel [simp]:
  "Body (demo_web auth meth path body) = Some body" "Method (demo_web auth meth path body) = meth"
  "Path (demo_web auth meth path body) = path" "Authorization (demo_web auth meth path body) = auth"
  "Cookies (demo_web auth meth path body) = []" "JsonEnd (demo_web auth meth path body) = 100"
  by (simp_all add: demo_web_def)

end
