(* ===== verification/Rest_Safety.thy ===== *)
theory Rest_Safety
  imports Rest_Model
begin

text \<open>
  Safety of the REST API as a whole: what requests without credentials achieve, that no answer depends
  on key material except those of the cryptographic operations, and what holds of the managed objects
  under any mix of KMIP and REST requests.
\<close>

section \<open>Requests without credentials\<close>

lemma route_body [simp]: "route (r\<lparr>Body := b\<rparr>) = route r"
proof -
  have "Method (r\<lparr>Body := b\<rparr>) = Method r" "Path (r\<lparr>Body := b\<rparr>) = Path r" by simp_all
  then show ?thesis by (simp only: route_def)
qed

text \<open>The two answers such a request gets from a protected route.\<close>

definition rate_limited :: http_response where
  "rate_limited = json_response 429 [(''Retry-After'', ''5'')] [] (error_body ''rate limit exceeded'')"

definition denied :: "('w, 'i, 's) API \<Rightarrow> http_response" where
  "denied G = (if corsOrigin G = '''' then unauthorized else unauthorized\<lparr>headers := cors_headers G @ headers unauthorized\<rparr>)"

definition no_credentials :: "('w, 'i, 's) API \<Rightarrow> http_request \<Rightarrow> DashAuth \<Rightarrow> bool" where
  "no_credentials G r d \<longleftrightarrow> \<not> IsDevMode d \<and> Authorization r \<noteq> ''Bearer '' @ auth_apiKey d \<and>
     (\<forall>v s. request_Cookie r cookieName = Some v \<longrightarrow> map_of (sessions d) v = Some s \<longrightarrow>
       (\<forall>k. ExpiresAt s < d_now (outside (deps_of G) k)))"

lemma no_credentials_unauthorised: "no_credentials G r d \<Longrightarrow> \<not> authorised (d_now (outside (deps_of G) k)) r d"
  unfolding no_credentials_def authorised_def by (meson leD)

lemma route_options:
  assumes "Method r = ''OPTIONS''"
  shows "route r = EDashboard"
proof -
  have "Method r \<in> {''GET'', ''HEAD''} = False" "(Method r = ''POST'') = False" "(Method r = ''DELETE'') = False"
    by (simp_all add: assms)
  note f = this
  show ?thesis unfolding route_def f Let_def by (simp cong: list.case_cong split: list.split)
qed

lemma protected_method: "protected G (route r) \<noteq> None \<Longrightarrow> Method r \<noteq> ''OPTIONS''"
  by (auto simp: route_options protected_def)

lemma serveMux_no_credentials:
  assumes "no_credentials G r (dashAuth st)"
  shows "hstore (api_h (snd (serveMux G r st))) = hstore (api_h st)"
    and "protected G (route r) \<noteq> None \<Longrightarrow> fst (serveMux G r st) = Done unauthorized"
proof -
  note n = no_credentials_unauthorised[OF assms]
  show "protected G (route r) \<noteq> None \<Longrightarrow> fst (serveMux G r st) = Done unauthorized"
    using n by (auto simp: serveMux_def Let_def sample_def RequireAPIAuth_eq)
  show "hstore (api_h (snd (serveMux G r st))) = hstore (api_h st)"
  proof (cases "protected G (route r)")
    case None
    then show ?thesis
      by (cases "route r") (auto simp: serveMux_def Let_def protected_def on_shared_def on_auth_def sample_def query_def
          handleHealthz_def handleMetrics_def writeJSON_def)
  next
    case (Some k)
    with n show ?thesis by (auto simp: serveMux_def Let_def sample_def RequireAPIAuth_eq)
  qed
qed

text \<open>
  C6. A request without credentials (no development mode, not the API key as bearer token, no session
  cookie that is still valid) never changes the store, and every protected route answers it with 401,
  or 429 if the client is over its rate: two fixed answers, which tell nothing about the keys.
\<close>

theorem rest_gate:
  assumes "no_credentials G r (dashAuth st)"
  shows "hstore (api_h (snd (ServeHTTP G r st))) = hstore (api_h st) \<and>
    (protected G (route r) \<noteq> None \<longrightarrow> fst (ServeHTTP G r st) \<in> {Done rate_limited, Done (denied G)})"
proof -
  obtain d h1 where d: "sample (deps_of G) (api_h st) = (d, h1)" by fastforce
  obtain ok rl where a: "allow (weblib G) (d_now d) (before_last CHR '':'' (RemoteIPPort r)) (limiter st) = (ok, rl)" by fastforce
  have h1: "hstore h1 = hstore (api_h st)" using d by (auto simp: sample_def)
  let ?r = "r\<lparr>Body := (if JsonEnd r > maxRequestBodySize then None else Body r)\<rparr>" and ?st = "st\<lparr>api_h := h1, limiter := rl\<rparr>"
  have n: "no_credentials G ?r (dashAuth ?st)" using assms by (simp add: no_credentials_def request_Cookie_def)
  show ?thesis
  proof (cases ok)
    case True
    then have s: "ServeHTTP G r st = corsMiddleware G (serveMux G) ?r ?st"
      by (simp add: ServeHTTP_def rateLimitMiddleware_def limitBodyMiddleware_def d a Let_def)
    show ?thesis unfolding s corsMiddleware_def
      using serveMux_no_credentials[OF n] protected_method[of G r] h1
      by (auto simp: denied_def add_headers_def apfst_def map_prod_def split_beta)
  next
    case False
    then show ?thesis by (simp add: ServeHTTP_def rateLimitMiddleware_def d a Let_def h1 rate_limited_def)
  qed
qed

definition demo_api_state :: "store hstate \<Rightarrow> store api_state" where
  "demo_api_state h = NewAPI ''sesame'' False h"

theorem rest_gate_witness:
  "hstore (api_h (snd (ServeHTTP demo_api (demo_web ''Bearer guess'' ''DELETE'' [''v1'', ''keys'', ''u''] JNull)
      (demo_api_state (demo_handler (demo_key StateActive)))))) = hstore (demo_handler (demo_key StateActive)) \<and>
   fst (ServeHTTP demo_api (demo_web ''Bearer guess'' ''DELETE'' [''v1'', ''keys'', ''u''] JNull)
      (demo_api_state (demo_handler (demo_key StateActive)))) \<in> {Done rate_limited, Done (denied demo_api)}"
proof -
  let ?r = "demo_web ''Bearer guess'' ''DELETE'' [''v1'', ''keys'', ''u''] JNull"
  have n: "no_credentials demo_api ?r (dashAuth (demo_api_state (demo_handler (demo_key StateActive))))"
    by (simp add: no_credentials_def demo_api_state_def NewAPI_def NewDashAuth_def IsDevMode_def request_Cookie_def)
  have "protected demo_api (route ?r) \<noteq> None" by (simp add: route_def protected_def Let_def)
  with rest_gate[OF n] show ?thesis by (simp add: demo_api_state_def NewAPI_def)
qed

section \<open>Key material stays inside\<close>

text \<open>
  \<open>sealed G\<close> is the API over a store that never hands out key material: every record it returns has
  lost it. Where a request gets the same answer from both, the answer does not depend on the material.
\<close>

definition redact :: "KeyRecord \<Rightarrow> KeyRecord" where
  "redact r = r\<lparr>Material := None\<rparr>"

definition redacted :: "'s Storage \<Rightarrow> 's Storage" where
  "redacted S = S\<lparr>Create := (\<lambda>d n a l u w s. apfst (map_sum id redact) (Create S d n a l u w s)),
     Get := (\<lambda>d u s. map_option redact (Get S d u s)), List := (\<lambda>d s. map redact (List S d s)),
     Register := (\<lambda>d r s. apfst (map_sum id redact) (Register S d r s)),
     GetAttributes := (\<lambda>d u s. map_option redact (GetAttributes S d u s)),
     Rekey := (\<lambda>d u s. apfst (map_sum id redact) (Rekey S d u s)),
     DeriveKey := (\<lambda>d u dat n l s. apfst (map_sum id redact) (DeriveKey S d u dat n l s))\<rparr>"

definition sealed :: "('w, 'i, 's) API \<Rightarrow> ('w, 'i, 's) API" where
  "sealed G = G\<lparr>deps_of := (deps_of G)\<lparr>stor := redacted (stor (deps_of G))\<rparr>\<rparr>"

fun uses_material :: "endpoint \<Rightarrow> bool" where
  "uses_material (EEncryptKey _) = True" | "uses_material (EDecryptKey _) = True" | "uses_material (ESignKey _) = True"
| "uses_material (EVerifyKey _) = True" | "uses_material (EMACKey _) = True" | "uses_material (EWrapKey _) = True"
| "uses_material (EUnwrapKey _) = True" | "uses_material _ = False"

lemma redact_sel [simp]:
  "UID (redact r) = UID r" "Name (redact r) = Name r" "ObjectType (redact r) = ObjectType r" "Algorithm (redact r) = Algorithm r"
  "Length (redact r) = Length r" "UsageMask (redact r) = UsageMask r" "State (redact r) = State r"
  "CreatedAt (redact r) = CreatedAt r" "Version (redact r) = Version r"
  by (simp_all add: redact_def)

lemma redacted_sel [simp]:
  "Create (redacted S) = (\<lambda>d n a l u w s. apfst (map_sum id redact) (Create S d n a l u w s))"
  "Get (redacted S) = (\<lambda>d u s. map_option redact (Get S d u s))" "List (redacted S) = (\<lambda>d s. map redact (List S d s))"
  "Register (redacted S) = (\<lambda>d r s. apfst (map_sum id redact) (Register S d r s))"
  "Rekey (redacted S) = (\<lambda>d u s. apfst (map_sum id redact) (Rekey S d u s))"
  "Activate (redacted S) = Activate S" "Revoke (redacted S) = Revoke S" "Destroy (redacted S) = Destroy S"
  by (simp_all add: redacted_def)

lemma sealed_sel [simp]:
  "lib (deps_of (sealed G)) = lib (deps_of G)" "cry (deps_of (sealed G)) = cry (deps_of G)"
  "outside (deps_of (sealed G)) = outside (deps_of G)" "stor (deps_of (sealed G)) = redacted (stor (deps_of G))"
  "weblib (sealed G) = weblib G" "api_apiKey (sealed G) = api_apiKey G" "corsOrigin (sealed G) = corsOrigin G"
  "start (sealed G) = start G" "inventory (sealed G) = inventory G"
  by (simp_all add: sealed_def)

lemma sealed_sample [simp]: "sample (deps_of (sealed G)) = sample (deps_of G)" "query (deps_of (sealed G)) = query (deps_of G)"
  by (simp_all add: sample_def query_def fun_eq_iff)

lemma sealed_logAudit [simp]: "logAudit (sealed G) = logAudit G"
  by (simp add: logAudit_def fun_eq_iff split: option.split)

lemma sealed_call: "call (deps_of (sealed G)) f = call (deps_of G) f"
  "call (deps_of G) (\<lambda>d s. apfst m (g d s)) h = apfst m (call (deps_of G) g h)"
  by (simp_all add: call_def fun_eq_iff split_beta apfst_def map_prod_def)

lemma sealed_need_key: "need_key (sealed G) uid what h k = need_key G uid what h (\<lambda>r. k (redact r))"
  by (simp add: need_key_def query_def split: option.split)

lemma sealed_key_item [simp]: "key_item R (redact r) = key_item R r"
  by (simp add: key_item_def)

lemma sealed_counts [simp]:
  "count_state st (map redact rs) = count_state st rs" "state_counts (map redact rs) = state_counts rs"
proof -
  show "count_state st (map redact rs) = count_state st rs" for st by (simp add: count_state_def filter_map comp_def)
  then show "state_counts (map redact rs) = state_counts rs" by (simp add: state_counts_def)
qed

lemma sealed_query_list:
  "query X (\<lambda>d s. map redact (List S d s)) h = apfst (map redact) (query X (\<lambda>d. List S d) h)"
  by (simp add: query_def)

lemma sealed_reading:
  "handleListKeys (sealed G) = handleListKeys G" "handleStatus (sealed G) = handleStatus G" "handleMetrics (sealed G) = handleMetrics G"
  "handleGetKey (sealed G) = handleGetKey G" "handleConnections (sealed G) = handleConnections G"
  "handleInventory (sealed G) = handleInventory G"
  by (simp_all add: fun_eq_iff rest_defs sealed_query_list sealed_need_key split_beta comp_def)

lemma sealed_audit: "handleAuditLog (sealed G) = handleAuditLog G"
  unfolding fun_eq_iff handleAuditLog_def Let_def sealed_sample sealed_sel by simp

lemma sealed_state_change [simp]: "state_change (sealed G) r opn uid st f h = state_change G r opn uid st f h"
  by (simp add: state_change_def sealed_call split: prod.split option.split)

lemma sealed_changing:
  "handleActivateKey (sealed G) = handleActivateKey G" "handleRevokeKey (sealed G) = handleRevokeKey G"
  "handleDestroyKey (sealed G) = handleDestroyKey G"
  by (simp_all add: fun_eq_iff rest_defs)

text \<open>The handlers that add or replace a key pass the record on to its metadata only.\<close>

lemma apfst_case: "(case apfst f c of (a, b) \<Rightarrow> k a b) = (case c of (a, b) \<Rightarrow> k (f a) b)"
  by (cases c) simp

lemma redact_case: "(case map_sum id redact x of Inl e \<Rightarrow> f e | Inr v \<Rightarrow> g v) = (case x of Inl e \<Rightarrow> f e | Inr v \<Rightarrow> g (redact v))"
  by (cases x) simp_all

lemma redact_web_error: "web_error st pre (map_sum id redact x) h k = web_error st pre x h (\<lambda>v. k (redact v))"
  by (cases x) (simp_all add: web_error_def)

lemmas sealed_rules = sealed_sel sealed_sample redacted_sel sealed_logAudit sealed_call sealed_need_key apfst_case redact_case
  redact_web_error redact_sel

lemma sealed_key_pair [simp]: "rest_key_pair (sealed G) = rest_key_pair G"
  unfolding fun_eq_iff rest_key_pair_def Let_def sealed_rules by simp

lemma sealed_create_pair [simp]: "rest_handleCreateKeyPair (sealed G) = rest_handleCreateKeyPair G"
  unfolding fun_eq_iff rest_handleCreateKeyPair_def Let_def sealed_rules sealed_key_pair by simp

lemma sealed_adding:
  "handleCreateKey (sealed G) = handleCreateKey G" "handleUploadCertificate (sealed G) = handleUploadCertificate G"
  "handleRekeyKey (sealed G) = handleRekeyKey G"
  unfolding fun_eq_iff handleCreateKey_def handleUploadCertificate_def handleRekeyKey_def Let_def sealed_rules sealed_create_pair
  by simp_all

lemma sealed_protected: "\<not> uses_material e \<Longrightarrow> protected (sealed G) e = protected G e"
  by (cases e) (simp_all add: protected_def sealed_reading sealed_audit sealed_changing sealed_adding)

lemma sealed_serveMux: "\<not> uses_material (route r) \<Longrightarrow> serveMux (sealed G) r st = serveMux G r st"
  by (cases "protected G (route r)"; cases "route r")
    (simp_all add: serveMux_def sealed_protected sealed_reading split_beta Let_def)

text \<open>
  C7. Key material leaves the REST API only through the cryptographic operations: on every other route
  (listing, metadata, creation, activation, revocation, destruction, rekeying, certificates, audit log,
  status, metrics, login, dashboard) a request gets the same answer and has the same effect as from an
  API whose store never hands out key material.
\<close>

theorem rest_no_export:
  assumes "\<not> uses_material (route r)"
  shows "ServeHTTP (sealed G) r st = ServeHTTP G r st"
proof -
  have "corsMiddleware (sealed G) (serveMux (sealed G)) r' st' = corsMiddleware G (serveMux G) r' st'" if "route r' = route r" for r' st'
    using that assms by (simp add: corsMiddleware_def sealed_serveMux cors_headers_def)
  then show ?thesis
    by (simp add: ServeHTTP_def rateLimitMiddleware_def limitBodyMiddleware_def split_beta Let_def)
qed

theorem rest_no_export_witness:
  "ServeHTTP (sealed demo_api) (demo_web ''Bearer sesame'' ''GET'' [''v1'', ''keys'', ''u''] JNull)
     (demo_api_state (demo_handler (demo_key StateActive))) =
   ServeHTTP demo_api (demo_web ''Bearer sesame'' ''GET'' [''v1'', ''keys'', ''u''] JNull)
     (demo_api_state (demo_handler (demo_key StateActive)))"
  by (rule rest_no_export) (simp add: route_def)

section \<open>Both front ends\<close>

text \<open>
  C5. Under any sequence of KMIP and REST requests, in any order and with any credentials, a server that
  started with an empty store keeps its invariant; every object is in one of the states PreActive,
  Active, Compromised or Destroyed; objects never disappear and never change their identity; and a
  destroyed object has no material and never changes again.
\<close>

theorem both_front_ends:
  assumes "deps_of G = server L D H C E" "fresh_world E" "empty_store s"
    and "system G (NewAPI key dev (NewHandler n s a t)) st" "system G st st'" "object D (api_h st) u = Some r"
  shows "server_inv D E (api_h st) \<and> State r \<in> {StatePreActive, StateActive, StateCompromised, StateDestroyed} \<and>
    (\<exists>r'. object D (api_h st') u = Some r' \<and> same_identity r r' \<and>
      (State r = StateDestroyed \<longrightarrow> r' = r \<and> sl (Material r) = []))"
proof -
  have i0: "hinv store_inv (store_abs D) (outside (deps_of G)) (api_h (NewAPI key dev (NewHandler n s a t)))"
    using server_inv_new[OF assms(3), of D E n a t] by (simp add: server_inv_def assms(1) NewAPI_def)
  have S: "stor (deps_of G) = interface_storage D H" "fresh_world (outside (deps_of G))" by (simp_all add: assms(1,2))
  note r1 = itf.system_safe[OF assms(4) S i0]
  note r2 = itf.system_safe[OF assms(5) S r1[THEN conjunct1]]
  have "proper (store_abs D (hstore (api_h (NewAPI key dev (NewHandler n s a t)))))"
    using assms(3) by (simp add: NewAPI_def NewHandler_def empty_store_abs)
  then have p: "proper (managed D (api_h st))" using r1 vault_steps_proper unfolding managed_def by blast
  from vault_steps_later[of _ "managed D (api_h st')" u r] r2 assms(6)
  obtain r' where "object D (api_h st') u = Some r'" "later r r'" by (auto simp: object_def managed_def)
  moreover have "State r \<in> {StatePreActive, StateActive, StateCompromised, StateDestroyed}"
    "State r = StateDestroyed \<longrightarrow> sl (Material r) = []"
    using p assms(6) by (auto simp: proper_def object_def kmip_states_def StateRevoked_def)
  ultimately show ?thesis using r1 by (auto simp: later_def server_inv_def assms(1))
qed

lemma system_run: "system G st st1 \<Longrightarrow> system G st (st1\<lparr>api_h := run_requests (deps_of G) msgs (api_h st1)\<rparr>)"
proof (induction msgs arbitrary: st1)
  case (Cons m msgs)
  from Cons.IH[OF system.kmip[OF Cons.prems, of m "''cn''" "''ra''" "''c''"]] show ?case by simp
qed simp

theorem both_front_ends_witness:
  "\<exists>r. object demo_driver (demo_run [20]) ''u'' = Some r \<and> State r = StateDestroyed \<and>
     object demo_driver (api_h (snd (ServeHTTP demo_api (demo_web ''Bearer sesame'' ''POST'' [''v1'', ''keys'', ''u'', ''activate''] JNull)
       ((NewAPI ''sesame'' False demo_start)\<lparr>api_h := demo_run [20]\<rparr>)))) ''u'' = Some r"
proof -
  let ?init = "NewAPI ''sesame'' False (NewHandler 1 (Mem NewMemoryStore) None None)"
  let ?st = "?init\<lparr>api_h := demo_run [20]\<rparr>"
  let ?r = "demo_web ''Bearer sesame'' ''POST'' [''v1'', ''keys'', ''u'', ''activate''] JNull"
  obtain r where r: "object demo_driver (demo_run [20]) ''u'' = Some r" "State r = StateDestroyed"
    using demo_run_states(4) by auto
  have s: "system demo_api ?init ?st"
    using system_run[OF system.start[of demo_api ?init], of "demo_request 1 [] # map (\<lambda>op. demo_request op [TextString (tree_tag TagUniqueIdentifier) ''u'']) [20]"]
    unfolding demo_run_def demo_def demo_start_def by (simp only: NewAPI_def api_state.select_convs demo_api_sel)
  from both_front_ends[OF demo_api_sel(1) demo_fresh _ s system.http[OF system.start], of "''u''" r ?r] r
  show ?thesis by (auto simp: demo_start_def)
qed

end
