(* ===== verification/Dev_Certs.thy ===== *)
theory Dev_Certs
  imports Crypto Encodings
begin

text \<open>
  \<open>internal/devcerts/devcerts.go\<close>: the certificates of development mode, with what it uses of
  \<open>path/filepath\<close> and \<open>os\<close>. The files of the machine are a map from paths to their mode and
  contents; the operations of \<open>crypto/x509\<close> and \<open>encoding/pem\<close> are parameters. Every call of the
  clock or the random source uses the next draw of the world.
\<close>

section \<open>Paths\<close>

fun split_slash :: "string \<Rightarrow> string list" where
  "split_slash [] = [[]]"
| "split_slash (c # s) =
     (if c = CHR ''/'' then [] # split_slash s else (case split_slash s of [] \<Rightarrow> [[c]] | w # ws \<Rightarrow> (c # w) # ws))"

fun join_slash :: "string list \<Rightarrow> string" where
  "join_slash [] = ''''"
| "join_slash [w] = w"
| "join_slash (w # v # ws) = w @ ''/'' @ join_slash (v # ws)"

text \<open>One element of a path on the stack of those before it, the last one first.\<close>

definition push_element :: "bool \<Rightarrow> string \<Rightarrow> string list \<Rightarrow> string list" where
  "push_element rooted w st =
     (if w = '''' \<or> w = ''.'' then st
      else if w = ''..'' then
        (case st of [] \<Rightarrow> if rooted then [] else [w] | x # r \<Rightarrow> if x = ''..'' then w # st else r)
      else w # st)"

definition path_Clean :: "string \<Rightarrow> string" where
  "path_Clean p =
     (let rooted = (p \<noteq> [] \<and> hd p = CHR ''/''); st = fold (push_element rooted) (split_slash p) []
      in if rooted then CHR ''/'' # join_slash (rev st) else if st = [] then ''.'' else join_slash (rev st))"

text \<open>\<open>filepath.Join\<close>: leading empty elements are ignored.\<close>

definition filepath_Join :: "string list \<Rightarrow> string" where
  "filepath_Join elem = (case dropWhile (\<lambda>e. e = '''') elem of [] \<Rightarrow> '''' | es \<Rightarrow> path_Clean (join_slash es))"

section \<open>The machine\<close>

record diskfile =
  file_mode :: nat
  contents :: bytes

record machine =
  disk :: "(string, diskfile) gomap"
  ticks :: nat

text \<open>
  What the operating system decides: whether a directory can be made, a file opened for writing or
  inspected, and after how many bytes writing to it fails.
\<close>

record osenv =
  MkdirAll :: "string \<Rightarrow> error option"
  OpenFile :: "string \<Rightarrow> error option"
  write_fault :: "string \<Rightarrow> (nat \<times> error) option"
  stat_fault :: "string \<Rightarrow> bool"
  UserHomeDir :: "string result"
  TempDir :: string

type_synonym 'a script = "machine \<Rightarrow> 'a result \<times> machine"

definition andThen :: "'a script \<Rightarrow> ('a \<Rightarrow> 'b script) \<Rightarrow> 'b script" where
  "andThen f g m = (case f m of (Inl err, m1) \<Rightarrow> (Inl err, m1) | (Inr x, m1) \<Rightarrow> g x m1)"

definition pure :: "'a \<Rightarrow> 'a script" where
  "pure x m = (Inr x, m)"

text \<open>A call whose outcome depends on the next draw; \<open>fmt.Errorf\<close> puts a text in front of its error.\<close>

definition with_draw :: "world \<Rightarrow> (draw \<Rightarrow> 'a result) \<Rightarrow> 'a script" where
  "with_draw E f m = (f (E (ticks m)), m\<lparr>ticks := Suc (ticks m)\<rparr>)"

definition wrapErr :: "string \<Rightarrow> 'a result \<Rightarrow> 'a result" where
  "wrapErr what x = (case x of Inl err \<Rightarrow> Inl (what @ '': '' @ err) | Inr v \<Rightarrow> Inr v)"

section \<open>Certificates\<close>

datatype key_usage = KeyUsageCertSign | KeyUsageCRLSign | KeyUsageDigitalSignature
datatype ext_key_usage = ExtKeyUsageServerAuth | ExtKeyUsageClientAuth

record template =
  SerialNumber :: int
  CommonName :: string
  NotBefore :: time
  NotAfter :: time
  IsCA :: bool
  BasicConstraintsValid :: bool
  KeyUsages :: "key_usage list"
  ExtKeyUsages :: "ext_key_usage list"
  DNSNames :: "string list"
  IPAddresses :: "string list"

datatype issuer = OfTemplate template | OfCertificate bytes

text \<open>
  \<open>CreateCertificate\<close> of a template, an issuer, a public key and the private key that signs; a parsed
  certificate is carried as its encoding. \<open>pem_Encode\<close> is the text of a block.
\<close>

record x509lib =
  CreateCertificate :: "rng \<Rightarrow> template \<Rightarrow> issuer \<Rightarrow> bytes \<Rightarrow> bytes \<Rightarrow> bytes result"
  x509_Parse :: "bytes \<Rightarrow> bytes result"
  MarshalECPrivateKey :: "bytes \<Rightarrow> bytes result"
  pem_Encode :: "string \<Rightarrow> bytes \<Rightarrow> bytes"

record Certs =
  CACert :: string
  ServerCert :: string
  ServerKey :: string
  ClientCert :: string
  ClientKey :: string
  APIKey :: string

text \<open>\<open>writePEM\<close>: the file is created with mode 0600 or cut to nothing, and then written.\<close>

definition put_file :: "string \<Rightarrow> bytes \<Rightarrow> machine \<Rightarrow> machine" where
  "put_file path b m =
     m\<lparr>disk := AList.update path \<lparr>file_mode = (case map_of (disk m) path of None \<Rightarrow> 384 | Some f \<Rightarrow> file_mode f), contents = b\<rparr> (disk m)\<rparr>"

definition writePEM :: "osenv \<Rightarrow> x509lib \<Rightarrow> string \<Rightarrow> string \<Rightarrow> bytes \<Rightarrow> unit script" where
  "writePEM os X path blockType dat m =
     (case OpenFile os path of
        Some err \<Rightarrow> (Inl (''write '' @ path @ '': '' @ err), m)
      | None \<Rightarrow>
          (case write_fault os path of
             Some (n, err) \<Rightarrow> (Inl err, put_file path (take n (pem_Encode X blockType dat)) m)
           | None \<Rightarrow> (Inr (), put_file path (pem_Encode X blockType dat) m)))"

definition year :: int where
  "year = 365 * 24 * 3600 * 10 ^ 9"

definition newTemplate ::
  "world \<Rightarrow> int \<Rightarrow> string \<Rightarrow> bool \<Rightarrow> key_usage list \<Rightarrow> ext_key_usage list \<Rightarrow> string list \<Rightarrow> string list \<Rightarrow> template script" where
  "newTemplate E serial cn ca usages ext dns ips =
     andThen (with_draw E (\<lambda>d. Inr (d_now d))) (\<lambda>before.
     andThen (with_draw E (\<lambda>d. Inr (d_now d))) (\<lambda>now.
     pure \<lparr>SerialNumber = serial, CommonName = cn, NotBefore = before, NotAfter = now + year, IsCA = ca,
       BasicConstraintsValid = ca, KeyUsages = usages, ExtKeyUsages = ext, DNSNames = dns, IPAddresses = ips\<rparr>))"

text \<open>The server's and the client's part: a key, a certificate signed by the CA, and both files.\<close>

definition issue ::
  "crypto \<Rightarrow> x509lib \<Rightarrow> osenv \<Rightarrow> world \<Rightarrow> string \<Rightarrow> string \<Rightarrow> bytes \<Rightarrow> bytes \<Rightarrow> template script \<Rightarrow> (string \<times> string) script" where
  "issue C X os E dir who caKey caCert tmpl =
     andThen (with_draw E (\<lambda>d. wrapErr (''generate '' @ who @ '' key'') (ecdsa_GenerateKey C P256 (d_rand d)))) (\<lambda>key.
     andThen tmpl (\<lambda>t.
     andThen (with_draw E (\<lambda>d. wrapErr (''create '' @ who @ '' cert'')
       (CreateCertificate X (d_rand d) t (OfCertificate caCert) (ecdsa_PublicKey C key) caKey))) (\<lambda>certDER.
     let certPath = filepath_Join [dir, who @ ''.pem'']; keyPath = filepath_Join [dir, who @ ''-key.pem''] in
     andThen (writePEM os X certPath ''CERTIFICATE'' certDER) (\<lambda>_.
     andThen (\<lambda>m. (wrapErr (''marshal '' @ who @ '' key'') (MarshalECPrivateKey X key), m)) (\<lambda>keyDER.
     andThen (writePEM os X keyPath ''EC PRIVATE KEY'' keyDER) (\<lambda>_.
     pure (certPath, keyPath)))))))"

definition Generate :: "crypto \<Rightarrow> x509lib \<Rightarrow> osenv \<Rightarrow> world \<Rightarrow> string \<Rightarrow> Certs script" where
  "Generate C X os E dir =
     andThen (\<lambda>m. (case MkdirAll os dir of Some err \<Rightarrow> Inl (''create cert directory: '' @ err) | None \<Rightarrow> Inr (), m)) (\<lambda>_.
     andThen (with_draw E (\<lambda>d. wrapErr ''generate CA key'' (ecdsa_GenerateKey C P256 (d_rand d)))) (\<lambda>caKey.
     andThen (newTemplate E 1 ''KMIP Dev CA'' True [KeyUsageCertSign, KeyUsageCRLSign] [] [] []) (\<lambda>caTemplate.
     andThen (with_draw E (\<lambda>d. wrapErr ''create CA cert''
       (CreateCertificate X (d_rand d) caTemplate (OfTemplate caTemplate) (ecdsa_PublicKey C caKey) caKey))) (\<lambda>caCertDER.
     andThen (\<lambda>m. (wrapErr ''parse CA cert'' (x509_Parse X caCertDER), m)) (\<lambda>caCert.
     let caCertPath = filepath_Join [dir, ''ca.pem''] in
     andThen (writePEM os X caCertPath ''CERTIFICATE'' caCertDER) (\<lambda>_.
     andThen (issue C X os E dir ''server'' caKey caCert (newTemplate E 2 ''localhost'' False [KeyUsageDigitalSignature]
       [ExtKeyUsageServerAuth] [''localhost'', ''kmip-server''] [''127.0.0.1'', ''0.0.0.0''])) (\<lambda>(serverCertPath, serverKeyPath).
     andThen (issue C X os E dir ''client'' caKey caCert (newTemplate E 3 ''dev-client'' False [KeyUsageDigitalSignature]
       [ExtKeyUsageClientAuth] [] [])) (\<lambda>(clientCertPath, clientKeyPath).
     andThen (with_draw E (\<lambda>d. wrapErr ''generate API key'' (d_rand d 24))) (\<lambda>apiKeyBytes.
     pure \<lparr>CACert = caCertPath, ServerCert = serverCertPath, ServerKey = serverKeyPath, ClientCert = clientCertPath,
       ClientKey = clientKeyPath, APIKey = ''dev-'' @ take 32 (hex_EncodeToString apiKeyBytes)\<rparr>)))))))))"

section \<open>Paths in a directory\<close>

lemma split_slash_nonempty [simp]: "split_slash s \<noteq> []"
  by (induction s) (auto split: list.split)

lemma split_slash_append: "split_slash (p @ CHR ''/'' # s) = split_slash p @ split_slash s"
  by (induction p) (auto split: list.split)

lemma split_slash_name: "CHR ''/'' \<notin> set s \<Longrightarrow> split_slash s = [s]"
  by (induction s) auto

lemma join_slash_snoc: "join_slash (ws @ [x]) = concat (map (\<lambda>w. w @ ''/'') ws) @ x"
proof (induction ws rule: join_slash.induct)
  case (3 w v ws)
  then show ?case by (cases "ws @ [x]") auto
qed auto

text \<open>A name that \<open>filepath.Clean\<close> leaves alone.\<close>

definition plain_name :: "string \<Rightarrow> bool" where
  "plain_name x \<longleftrightarrow> x \<notin> {'''', ''.'', ''..''} \<and> CHR ''/'' \<notin> set x"

definition dir_prefix :: "string \<Rightarrow> string" where
  "dir_prefix dir = (if dir = '''' then '''' else
     (let rooted = (hd dir = CHR ''/'')
      in (if rooted then ''/'' else '''') @ concat (map (\<lambda>w. w @ ''/'') (rev (fold (push_element rooted) (split_slash dir) [])))))"

lemma push_plain: "plain_name x \<Longrightarrow> push_element rooted x st = x # st"
  by (simp add: push_element_def plain_name_def)

lemma Join_name:
  assumes "plain_name x"
  shows "filepath_Join [dir, x] = dir_prefix dir @ x"
proof (cases "dir = ''''")
  case True
  have "x \<noteq> ''''" "hd x \<noteq> CHR ''/''" using assms by (cases x; auto simp: plain_name_def)+
  then show ?thesis using assms True
    by (simp add: filepath_Join_def path_Clean_def dir_prefix_def split_slash_name push_plain plain_name_def)
next
  case False
  then have "filepath_Join [dir, x] = path_Clean (dir @ CHR ''/'' # x)" by (simp add: filepath_Join_def)
  moreover have "split_slash (dir @ CHR ''/'' # x) = split_slash dir @ [x]"
    using assms by (simp add: split_slash_append split_slash_name plain_name_def)
  ultimately show ?thesis using False assms
    by (simp add: path_Clean_def dir_prefix_def push_plain join_slash_snoc Let_def)
qed

section \<open>What the steps do\<close>

lemma andThen_Inr:
  "andThen f g m = (Inr y, m') \<longleftrightarrow> (\<exists>x m1. f m = (Inr x, m1) \<and> g x m1 = (Inr y, m'))"
  by (auto simp: andThen_def split: prod.split sum.split)

lemma with_draw_Inr: "with_draw E f m = (Inr y, m') \<longleftrightarrow> f (E (ticks m)) = Inr y \<and> m' = m\<lparr>ticks := Suc (ticks m)\<rparr>"
  by (auto simp: with_draw_def)

lemma wrapErr_Inr [simp]: "wrapErr what x = Inr y \<longleftrightarrow> x = Inr y"
  by (simp add: wrapErr_def split: sum.split)

lemma pure_Inr: "pure x m = (Inr y, m') \<longleftrightarrow> y = x \<and> m' = m"
  by (auto simp: pure_def)

lemma writePEM_Inr: "writePEM os X path ty dat m = (Inr u, m') \<longleftrightarrow>
    OpenFile os path = None \<and> write_fault os path = None \<and> m' = put_file path (pem_Encode X ty dat) m"
  by (auto simp: writePEM_def split: option.split)

lemmas script_simps = andThen_Inr with_draw_Inr pure_Inr writePEM_Inr

definition on_disk :: "machine \<Rightarrow> string \<Rightarrow> diskfile option" where
  "on_disk m path = map_of (disk m) path"

lemma on_disk_put [simp]:
  "on_disk (put_file path b m) q = (if q = path then
     Some \<lparr>file_mode = (case on_disk m path of None \<Rightarrow> 384 | Some f \<Rightarrow> file_mode f), contents = b\<rparr> else on_disk m q)"
  "on_disk (m\<lparr>ticks := t\<rparr>) q = on_disk m q"
  by (auto simp: on_disk_def put_file_def update_conv')

text \<open>
  A certificate and its key as \<open>issue\<close> leaves them: the certificate in the first file is signed with the
  CA's key, by the CA, for the public half of the key in the second file.
\<close>

definition issued_files ::
  "crypto \<Rightarrow> x509lib \<Rightarrow> machine \<Rightarrow> bytes \<Rightarrow> bytes \<Rightarrow> ext_key_usage \<Rightarrow> string \<Rightarrow> string \<Rightarrow> bool" where
  "issued_files C X m caKey caCert ext certPath keyPath \<longleftrightarrow>
     (\<exists>key t R certDER keyDER. ExtKeyUsages t = [ext] \<and> \<not> IsCA t \<and>
        CreateCertificate X R t (OfCertificate caCert) (ecdsa_PublicKey C key) caKey = Inr certDER \<and>
        MarshalECPrivateKey X key = Inr keyDER \<and>
        map_option contents (on_disk m certPath) = Some (pem_Encode X ''CERTIFICATE'' certDER) \<and>
        map_option contents (on_disk m keyPath) = Some (pem_Encode X ''EC PRIVATE KEY'' keyDER))"

text \<open>The files in \<open>ps\<close> may be new or changed, new ones have mode 0600, all others are as before.\<close>

definition only_files :: "string set \<Rightarrow> machine \<Rightarrow> machine \<Rightarrow> bool" where
  "only_files ps m m' \<longleftrightarrow> (\<forall>p. p \<notin> ps \<longrightarrow> on_disk m' p = on_disk m p) \<and>
     (\<forall>p f. on_disk m p = None \<longrightarrow> on_disk m' p = Some f \<longrightarrow> file_mode f = 384) \<and>
     (\<forall>p f. on_disk m p = Some f \<longrightarrow> (\<exists>g. on_disk m' p = Some g \<and> file_mode g = file_mode f))"

lemma only_files_refl: "disk m' = disk m \<Longrightarrow> only_files {} m m'"
  by (auto simp: only_files_def on_disk_def)

lemma only_files_put: "only_files {path} m (put_file path b m)"
  by (auto simp: only_files_def)

lemma only_files_trans:
  assumes "only_files ps m m1" "only_files qs m1 m2"
  shows "only_files (ps \<union> qs) m m2"
proof -
  have "file_mode f = 384" if "on_disk m p = None" "on_disk m2 p = Some f" for p f
    using that assms unfolding only_files_def by (cases "on_disk m1 p") (auto, metis option.inject)
  with assms show ?thesis unfolding only_files_def by (metis UnCI)
qed

definition leaf_template :: "template script \<Rightarrow> ext_key_usage \<Rightarrow> bool" where
  "leaf_template tmpl ext \<longleftrightarrow> (\<forall>m t m1. tmpl m = (Inr t, m1) \<longrightarrow> ExtKeyUsages t = [ext] \<and> \<not> IsCA t \<and> disk m1 = disk m)"

lemma newTemplate_leaf: "leaf_template (newTemplate E serial cn False usages [ext] dns ips) ext"
  by (auto simp: leaf_template_def newTemplate_def script_simps)

lemma issue_Inr:
  assumes "issue C X os E dir who caKey caCert tmpl m = (Inr (certPath, keyPath), m')" "leaf_template tmpl ext"
    and "plain_name (who @ ''.pem'')" "plain_name (who @ ''-key.pem'')"
  shows "certPath = dir_prefix dir @ who @ ''.pem''" "keyPath = dir_prefix dir @ who @ ''-key.pem''"
    and "issued_files C X m' caKey caCert ext certPath keyPath" "only_files {certPath, keyPath} m m'"
proof -
  obtain key t m1 R der kder where w: "tmpl (m\<lparr>ticks := Suc (ticks m)\<rparr>) = (Inr t, m1)"
    "CreateCertificate X R t (OfCertificate caCert) (ecdsa_PublicKey C key) caKey = Inr der" "MarshalECPrivateKey X key = Inr kder"
    and p: "certPath = filepath_Join [dir, who @ ''.pem'']" "keyPath = filepath_Join [dir, who @ ''-key.pem'']"
    and m': "m' = put_file keyPath (pem_Encode X ''EC PRIVATE KEY'' kder)
      (put_file certPath (pem_Encode X ''CERTIFICATE'' der) (m1\<lparr>ticks := Suc (ticks m1)\<rparr>))"
    using assms(1) by (auto simp: issue_def script_simps Let_def)
  show c: "certPath = dir_prefix dir @ who @ ''.pem''" and k: "keyPath = dir_prefix dir @ who @ ''-key.pem''"
    using Join_name[OF assms(3), of dir] Join_name[OF assms(4), of dir] by (simp_all add: p)
  have t: "ExtKeyUsages t = [ext]" "\<not> IsCA t" "disk m1 = disk m"
    using assms(2) w(1) by (auto simp: leaf_template_def)
  show "issued_files C X m' caKey caCert ext certPath keyPath"
    unfolding issued_files_def by (rule exI[of _ key], rule exI[of _ t]) (use t w c k in \<open>auto simp: m'\<close>)
  have "only_files {} m (m1\<lparr>ticks := Suc (ticks m1)\<rparr>)" by (rule only_files_refl) (simp add: t(3))
  from only_files_trans[OF only_files_trans[OF this only_files_put] only_files_put]
  show "only_files {certPath, keyPath} m m'" by (simp add: m' insert_commute)
qed

lemma issued_files_keep:
  "issued_files C X m caKey caCert ext p q \<Longrightarrow> only_files ps m m' \<Longrightarrow> p \<notin> ps \<Longrightarrow> q \<notin> ps \<Longrightarrow> issued_files C X m' caKey caCert ext p q"
  by (auto simp: issued_files_def only_files_def)

definition cert_paths :: "string \<Rightarrow> string \<Rightarrow> Certs" where
  "cert_paths dir key = \<lparr>CACert = dir_prefix dir @ ''ca.pem'', ServerCert = dir_prefix dir @ ''server.pem'',
     ServerKey = dir_prefix dir @ ''server-key.pem'', ClientCert = dir_prefix dir @ ''client.pem'',
     ClientKey = dir_prefix dir @ ''client-key.pem'', APIKey = key\<rparr>"

definition cert_files :: "Certs \<Rightarrow> string set" where
  "cert_files c = {CACert c, ServerCert c, ServerKey c, ClientCert c, ClientKey c}"

lemma hex_length: "length (hex_EncodeToString b) = 2 * length b"
  by (simp add: hex_EncodeToString_def length_concat comp_def sum_list_triv)

lemma newTemplate_disk: "newTemplate E serial cn ca usages ext dns ips m = (Inr t, m1) \<Longrightarrow> disk m1 = disk m"
  by (auto simp: newTemplate_def script_simps)


section \<open>A concrete instance\<close>

definition plain_x509 :: x509lib where
  "plain_x509 = \<lparr>CreateCertificate = (\<lambda>R t i pub priv. Inr (of_int (SerialNumber t) # pub)), x509_Parse = Inr,
     MarshalECPrivateKey = Inr, pem_Encode = (\<lambda>ty b. map (\<lambda>c. of_char c) ty @ b)\<rparr>"

definition plain_os :: osenv where
  "plain_os = \<lparr>MkdirAll = (\<lambda>_. None), OpenFile = (\<lambda>_. None), write_fault = (\<lambda>_. None), stat_fault = (\<lambda>_. False),
     UserHomeDir = Inr ''/root'', TempDir = ''/tmp''\<rparr>"

definition plain_draw :: draw where
  "plain_draw = \<lparr>d_uuid = '''', d_rand = (\<lambda>n. Inr (replicate n 171)), d_now = 0, d_perm = (\<lambda>xs. xs), d_sql = (\<lambda>_. None), d_cut = 0\<rparr>"

lemma plain_draw_ok: "draw_ok plain_draw"
  by (auto simp: draw_ok_def plain_draw_def)

lemma plain_Generate: "\<exists>certs m'. Generate plaincrypto plain_x509 plain_os (\<lambda>_. plain_draw) dir m = (Inr certs, m')"
  by (simp add: Generate_def issue_def newTemplate_def andThen_def with_draw_def wrapErr_def pure_def writePEM_def
      plaincrypto_def plain_x509_def plain_os_def plain_draw_def Let_def)


end
