(* ===== verification/Assets.thy ===== *)
theory Assets
  imports Http SQLite_Store
begin

text \<open>
  \<open>internal/storage/assets.go\<close>: the asset graph, six further tables of the SQLite database. Rows that
  the source reads without an order come in the order of \<open>d_perm\<close>; the \<open>k\<close>-th statement of a call
  fails where \<open>d_sql d k\<close> gives an error, and a query ends early as in the key store. Foreign keys are
  checked only on the connections of the pool on which the pragma was executed: \<open>fk_on\<close>. The text of
  \<open>datetime('now')\<close>, of JSON objects and the parsing of RFC 3339 are parameters; a zero time is \<open>None\<close>.
\<close>

section \<open>Tables\<close>

record adriver =
  fk_on :: "draw \<Rightarrow> bool"
  err_fk :: error
  sql_datetime :: "time \<Rightarrow> string"
  json_Marshal :: "json \<Rightarrow> string"
  json_Unmarshal :: "string \<Rightarrow> json option"
  Parse_RFC3339 :: "string \<Rightarrow> time option"

record asset_row =
  asset_type :: string
  native_id :: string
  asset_source :: string
  asset_name :: string
  asset_status :: string
  created_at :: string
  updated_at :: string

record relationship_row =
  from_asset_id :: string
  relationship_type :: string
  to_asset_id :: string
  metadata_json :: string

record event_row =
  event_asset_id :: string
  event_type :: string
  actor :: string
  event_timestamp :: string
  event_result :: string
  details_json :: string

text \<open>Rows by primary key; the automatic keys of relationships and events are kept as their decimal text.\<close>

record AssetDB =
  assets :: "(string, asset_row) gomap"
  asset_metadata :: "(string \<times> string, string) gomap"
  tag_rows :: "(int, string) gomap"
  next_tag :: int
  asset_tags :: "(string \<times> int) list"
  asset_relationships :: "(string, relationship_row) gomap"
  next_relationship :: int
  asset_lifecycle_events :: "(string, event_row) gomap"
  next_event :: int

definition empty_assets :: AssetDB where
  "empty_assets = \<lparr>assets = [], asset_metadata = [], tag_rows = [], next_tag = 1, asset_tags = [], asset_relationships = [],
     next_relationship = 1, asset_lifecycle_events = [], next_event = 1\<rparr>"

definition known_asset :: "adriver \<Rightarrow> draw \<Rightarrow> string \<Rightarrow> AssetDB \<Rightarrow> bool" where
  "known_asset V d assetID db \<longleftrightarrow> \<not> fk_on V d \<or> map_of (assets db) assetID \<noteq> None"

text \<open>The rows of a table that satisfy a condition, in the order in which the database delivers them.\<close>

definition scan_table :: "draw \<Rightarrow> ('r \<Rightarrow> bool) \<Rightarrow> (string, 'r) gomap \<Rightarrow> (string \<times> 'r) list" where
  "scan_table d cond tab = filter (\<lambda>(k, r). cond r) (List.map_filter (\<lambda>k. map_option (Pair k) (map_of tab k)) (d_perm d (map fst tab)))"

section \<open>Operations\<close>

definition RegisterAsset ::
  "adriver \<Rightarrow> draw \<Rightarrow> string \<Rightarrow> string \<Rightarrow> string \<Rightarrow> string \<Rightarrow> string \<Rightarrow> AssetDB \<Rightarrow> error option \<times> AssetDB" where
  "RegisterAsset V d i assetType nativeID name st db =
     (case d_sql d 0 of
        Some err \<Rightarrow> (Some err, db)
      | None \<Rightarrow>
          let now = sql_datetime V (d_now d) in
          (None, db\<lparr>assets :=
             (case map_of (assets db) i of
                None \<Rightarrow> assets db @ [(i, \<lparr>asset_type = assetType, native_id = nativeID, asset_source = ''open-kmip-server'',
                  asset_name = name, asset_status = st, created_at = now, updated_at = now\<rparr>)]
              | Some a \<Rightarrow> AList.update i (a\<lparr>asset_name := name, asset_status := st, updated_at := now\<rparr>) (assets db))\<rparr>))"

definition SetMetadata :: "adriver \<Rightarrow> draw \<Rightarrow> string \<Rightarrow> string \<Rightarrow> string \<Rightarrow> AssetDB \<Rightarrow> error option \<times> AssetDB" where
  "SetMetadata V d assetID key val db =
     (case d_sql d 0 of
        Some err \<Rightarrow> (Some err, db)
      | None \<Rightarrow>
          if map_of (asset_metadata db) (assetID, key) = None \<and> \<not> known_asset V d assetID db then (Some (err_fk V), db)
          else (None, db\<lparr>asset_metadata := AList.update (assetID, key) val (asset_metadata db)\<rparr>))"

text \<open>\<open>GetMetadata\<close>, whose query is statement \<open>k\<close> of the call; the result is a Go map.\<close>

definition GetMetadata :: "nat \<Rightarrow> draw \<Rightarrow> string \<Rightarrow> AssetDB \<Rightarrow> (string, string) gomap result" where
  "GetMetadata k d assetID db =
     (case d_sql d k of
        Some err \<Rightarrow> Inl err
      | None \<Rightarrow> Inr (delivered d (k + 1) (map (\<lambda>((a, key), v). (key, v)) (filter (\<lambda>((a, key), v). a = assetID) (asset_metadata db)))))"

text \<open>\<open>TagAsset\<close>: the error of the first statement is ignored.\<close>

definition TagAsset :: "adriver \<Rightarrow> draw \<Rightarrow> string \<Rightarrow> string \<Rightarrow> AssetDB \<Rightarrow> error option \<times> AssetDB" where
  "TagAsset V d assetID tagName db =
     (let db1 = (if d_sql d 0 \<noteq> None \<or> tagName \<in> snd ` set (tag_rows db) then db
        else db\<lparr>tag_rows := tag_rows db @ [(next_tag db, tagName)], next_tag := next_tag db + 1\<rparr>)
      in case d_sql d 1 of
           Some err \<Rightarrow> (Some err, db1)
         | None \<Rightarrow>
             (case find (\<lambda>(t, n). n = tagName) (tag_rows db1) of
                None \<Rightarrow> (None, db1)
              | Some (t, _) \<Rightarrow>
                  if (assetID, t) \<in> set (asset_tags db1) then (None, db1)
                  else if \<not> known_asset V d assetID db1 then (Some (err_fk V), db1)
                  else (None, db1\<lparr>asset_tags := asset_tags db1 @ [(assetID, t)]\<rparr>)))"

definition GetTags :: "nat \<Rightarrow> draw \<Rightarrow> string \<Rightarrow> AssetDB \<Rightarrow> string list result" where
  "GetTags k d assetID db =
     (case d_sql d k of
        Some err \<Rightarrow> Inl err
      | None \<Rightarrow> Inr (delivered d (k + 1) (d_perm d (map snd (filter (\<lambda>(t, n). (assetID, t) \<in> set (asset_tags db)) (tag_rows db))))))"

definition AddRelationship :: "adriver \<Rightarrow> draw \<Rightarrow> string \<Rightarrow> string \<Rightarrow> string \<Rightarrow> json \<Rightarrow> AssetDB \<Rightarrow> error option \<times> AssetDB" where
  "AddRelationship V d fromAssetID relType toAssetID metadata db =
     (case d_sql d 0 of
        Some err \<Rightarrow> (Some err, db)
      | None \<Rightarrow>
          if \<not> known_asset V d fromAssetID db then (Some (err_fk V), db)
          else (None, db\<lparr>asset_relationships := asset_relationships db @ [(fmt_d (next_relationship db),
                  \<lparr>from_asset_id = fromAssetID, relationship_type = relType, to_asset_id = toAssetID,
                   metadata_json = json_Marshal V metadata\<rparr>)], next_relationship := next_relationship db + 1\<rparr>))"

record AssetRelationship =
  rel_Type :: string
  rel_Target :: string
  rel_Metadata :: json

text \<open>\<open>json.Unmarshal\<close> into a map that is nil: an error leaves it nil.\<close>

definition unmarshalled :: "adriver \<Rightarrow> string \<Rightarrow> json" where
  "unmarshalled V s = (case json_Unmarshal V s of Some j \<Rightarrow> j | None \<Rightarrow> JNull)"

definition GetRelationships :: "adriver \<Rightarrow> nat \<Rightarrow> draw \<Rightarrow> string \<Rightarrow> AssetDB \<Rightarrow> AssetRelationship list result" where
  "GetRelationships V k d assetID db =
     (case d_sql d k of
        Some err \<Rightarrow> Inl err
      | None \<Rightarrow> Inr (map (\<lambda>(_, r). \<lparr>rel_Type = relationship_type r, rel_Target = to_asset_id r, rel_Metadata = unmarshalled V (metadata_json r)\<rparr>)
          (delivered d (k + 1) (scan_table d (\<lambda>r. from_asset_id r = assetID) (asset_relationships db)))))"

definition EmitLifecycleEvent :: "adriver \<Rightarrow> draw \<Rightarrow> string \<Rightarrow> string \<Rightarrow> string \<Rightarrow> json \<Rightarrow> AssetDB \<Rightarrow> error option \<times> AssetDB" where
  "EmitLifecycleEvent V d assetID eventType act details db =
     (case d_sql d 0 of
        Some err \<Rightarrow> (Some err, db)
      | None \<Rightarrow> (None, db\<lparr>asset_lifecycle_events := asset_lifecycle_events db @ [(fmt_d (next_event db),
          \<lparr>event_asset_id = assetID, event_type = eventType, actor = act, event_timestamp = sql_datetime V (d_now d),
           event_result = ''success'', details_json = json_Marshal V details\<rparr>)], next_event := next_event db + 1\<rparr>))"

record LifecycleEvent =
  le_ID :: string
  le_AssetID :: string
  le_EventType :: string
  le_Actor :: string
  le_Timestamp :: "time option"
  le_Result :: string
  le_Details :: json

definition ListLifecycleEvents :: "adriver \<Rightarrow> draw \<Rightarrow> string \<Rightarrow> int \<Rightarrow> AssetDB \<Rightarrow> LifecycleEvent list result" where
  "ListLifecycleEvents V d assetID limit db =
     (let limit = (if limit \<le> 0 then 50 else limit) in
      case d_sql d 0 of
        Some err \<Rightarrow> Inl err
      | None \<Rightarrow> Inr (map (\<lambda>(i, e). \<lparr>le_ID = i, le_AssetID = event_asset_id e, le_EventType = event_type e, le_Actor = actor e,
            le_Timestamp = Parse_RFC3339 V (event_timestamp e), le_Result = event_result e, le_Details = unmarshalled V (details_json e)\<rparr>)
          (delivered d 1 (take (nat limit) (rev (sort_key (\<lambda>(_, e). event_timestamp e)
            (scan_table d (\<lambda>e. assetID = '''' \<or> event_asset_id e = assetID) (asset_lifecycle_events db))))))))"

section \<open>The inventory\<close>

record AssetView =
  view_ID :: string
  view_Type :: string
  view_Source :: string
  view_Name :: string
  view_Status :: string
  view_CreatedAt :: string
  view_Metadata :: "(string, string) gomap"
  view_Tags :: "string list"
  view_Relationships :: "AssetRelationship list"

definition or_nil :: "'a list result \<Rightarrow> 'a list" where
  "or_nil x = (case x of Inl _ \<Rightarrow> [] | Inr xs \<Rightarrow> xs)"

text \<open>The queries for the \<open>n\<close>-th view are the statements from \<open>2 + 6 * n\<close> on.\<close>

definition asset_view :: "adriver \<Rightarrow> draw \<Rightarrow> AssetDB \<Rightarrow> nat \<Rightarrow> string \<times> asset_row \<Rightarrow> AssetView" where
  "asset_view V d db n row =
     (case row of (i, a) \<Rightarrow>
        \<lparr>view_ID = i, view_Type = asset_type a, view_Source = ''open-kmip-server'', view_Name = asset_name a,
         view_Status = asset_status a, view_CreatedAt = created_at a,
         view_Metadata = or_nil (GetMetadata (2 + 6 * n) d i db), view_Tags = or_nil (GetTags (4 + 6 * n) d i db),
         view_Relationships = or_nil (GetRelationships V (6 + 6 * n) d i db)\<rparr>)"

definition ListInventory :: "adriver \<Rightarrow> draw \<Rightarrow> AssetDB \<Rightarrow> AssetView list result" where
  "ListInventory V d db =
     (case d_sql d 0 of
        Some err \<Rightarrow> Inl err
      | None \<Rightarrow>
          let rows = delivered d 1 (rev (sort_key (\<lambda>(_, a). created_at a) (scan_table d (\<lambda>_. True) (assets db))))
          in Inr (map (\<lambda>(n, row). asset_view V d db n row) (enumerate 0 rows)))"

text \<open>The JSON of a view: members that are empty are left out, a Go map lists its keys in order.\<close>

definition omitempty :: "string \<Rightarrow> bool \<Rightarrow> json \<Rightarrow> (string \<times> json) list" where
  "omitempty name absent j = (if absent then [] else [(name, j)])"

definition relationship_json :: "AssetRelationship \<Rightarrow> json" where
  "relationship_json r = JObject ([(''type'', JString (rel_Type r)), (''target'', JString (rel_Target r))] @
     omitempty ''metadata'' (rel_Metadata r = JNull \<or> rel_Metadata r = JObject []) (rel_Metadata r))"

definition view_json :: "AssetView \<Rightarrow> json" where
  "view_json v = JObject ([(''id'', JString (view_ID v)), (''type'', JString (view_Type v)), (''source'', JString (view_Source v)),
     (''name'', JString (view_Name v)), (''status'', JString (view_Status v)), (''created_at'', JString (view_CreatedAt v))] @
     omitempty ''metadata'' (view_Metadata v = []) (JObject (map (\<lambda>(k, x). (k, JString x)) (sort_key fst (view_Metadata v)))) @
     omitempty ''tags'' (view_Tags v = []) (JArray (map JString (view_Tags v))) @
     omitempty ''relationships'' (view_Relationships v = []) (JArray (map relationship_json (view_Relationships v))))"

text \<open>A nil slice of views is \<open>null\<close>.\<close>

definition inventory_json :: "AssetView list \<Rightarrow> json" where
  "inventory_json vs = (if vs = [] then JNull else JArray (map view_json vs))"

section \<open>Invariant\<close>

definition asset_inv :: "AssetDB \<Rightarrow> bool" where
  "asset_inv db \<longleftrightarrow> distinct (map fst (assets db)) \<and> distinct (map fst (asset_metadata db)) \<and>
     distinct (map fst (tag_rows db)) \<and> distinct (map snd (tag_rows db)) \<and> distinct (asset_tags db) \<and>
     (\<forall>t \<in> fst ` set (tag_rows db). t < next_tag db)"

lemma asset_inv_empty: "asset_inv empty_assets"
  by (simp add: asset_inv_def empty_assets_def)

lemma asset_inv_rows:
  "asset_inv db \<Longrightarrow> asset_inv (snd (RegisterAsset V d i ty nat_id name st db))"
  "asset_inv db \<Longrightarrow> asset_inv (snd (SetMetadata V d i k v db))"
  "asset_inv db \<Longrightarrow> asset_inv (snd (AddRelationship V d i rt t j db))"
  "asset_inv db \<Longrightarrow> asset_inv (snd (EmitLifecycleEvent V d i et ac j db))"
  by (auto simp: asset_inv_def RegisterAsset_def SetMetadata_def AddRelationship_def EmitLifecycleEvent_def distinct_update
      Let_def map_of_eq_None_iff split: option.split)

definition with_tag :: "draw \<Rightarrow> string \<Rightarrow> AssetDB \<Rightarrow> AssetDB" where
  "with_tag d t db = (if d_sql d 0 \<noteq> None \<or> t \<in> snd ` set (tag_rows db) then db
     else db\<lparr>tag_rows := tag_rows db @ [(next_tag db, t)], next_tag := next_tag db + 1\<rparr>)"

lemma TagAsset_cases:
  "snd (TagAsset V d i t db) = with_tag d t db \<or>
   (\<exists>x. x \<notin> set (asset_tags (with_tag d t db)) \<and>
     snd (TagAsset V d i t db) = (with_tag d t db)\<lparr>asset_tags := asset_tags (with_tag d t db) @ [x]\<rparr>)"
  unfolding TagAsset_def with_tag_def[symmetric] Let_def by (auto split: option.split)

lemma asset_inv_tag:
  assumes "asset_inv db"
  shows "asset_inv (snd (TagAsset V d i t db))"
proof -
  have "asset_inv (with_tag d t db)" using assms by (auto simp: asset_inv_def with_tag_def)
  with TagAsset_cases[of V d i t db] show ?thesis by (elim disjE exE conjE) (simp_all add: asset_inv_def)
qed

lemmas asset_inv_steps = asset_inv_rows asset_inv_tag

section \<open>What the queries return\<close>

lemma map_filter_some: "\<forall>k \<in> set ks. map_of tab k \<noteq> None \<Longrightarrow>
    List.map_filter (\<lambda>k. map_option (Pair k) (map_of tab k)) ks = map (\<lambda>k. (k, the (map_of tab k))) ks"
  by (induction ks) (auto simp: List.map_filter_def)

lemma scan_table_all:
  assumes "distinct (map fst tab)" "draw_ok d"
  shows "mset (scan_table d (\<lambda>_. True) tab) = mset tab"
proof -
  let ?f = "\<lambda>k. (k, the (map_of tab k))"
  have m: "mset (d_perm d (map fst tab)) = mset (map fst tab)" using assms(2) by (simp add: draw_ok_def)
  then have s: "set (d_perm d (map fst tab)) = fst ` set tab" by (metis set_mset_mset set_map)
  then have "scan_table d (\<lambda>_. True) tab = map ?f (d_perm d (map fst tab))"
    unfolding scan_table_def by (subst map_filter_some) (auto simp: map_of_eq_None_iff)
  then have "mset (scan_table d (\<lambda>_. True) tab) = image_mset ?f (mset (map fst tab))" using m by simp
  also have "\<dots> = mset (map (?f \<circ> fst) tab)" by (simp add: comp_def image_mset.compositionality)
  also have "map (?f \<circ> fst) tab = tab" using assms(1) by (intro map_idI) auto
  finally show ?thesis .
qed

lemma all_delivered [simp]: "sql_good d \<Longrightarrow> delivered d k xs = xs"
  by (simp add: delivered_def)

lemma map_of_metadata:
  "map_of (map (\<lambda>((a, key), v). (key, v)) (filter (\<lambda>((a, key), v). a = i) tab)) k = map_of tab (i, k)"
  by (induction tab) auto

lemma GetMetadata_good:
  "sql_good d \<Longrightarrow> \<exists>m. GetMetadata n d i db = Inr m \<and> (\<forall>k. map_of m k = map_of (asset_metadata db) (i, k))"
  by (simp add: GetMetadata_def map_of_metadata)

lemma GetTags_good:
  assumes "sql_good d" "draw_ok d" "asset_inv db"
  shows "\<exists>ts. GetTags n d i db = Inr ts \<and> distinct ts \<and> set ts = {s. \<exists>t. (t, s) \<in> set (tag_rows db) \<and> (i, t) \<in> set (asset_tags db)}"
proof -
  let ?ts = "map snd (filter (\<lambda>(t, n). (i, t) \<in> set (asset_tags db)) (tag_rows db))"
  have "mset (d_perm d ?ts) = mset ?ts" using assms(2) by (simp add: draw_ok_def)
  then have "distinct (d_perm d ?ts) = distinct ?ts" "set (d_perm d ?ts) = set ?ts"
    by (metis mset_eq_imp_distinct_iff, metis mset_eq_setD)
  moreover have "distinct ?ts" using assms(3) by (simp add: asset_inv_def distinct_map_filter)
  moreover have "set ?ts = {s. \<exists>t. (t, s) \<in> set (tag_rows db) \<and> (i, t) \<in> set (asset_tags db)}" by force
  ultimately show ?thesis using assms(1) by (simp add: GetTags_def)
qed


definition plain_adriver :: adriver where
  "plain_adriver = \<lparr>fk_on = (\<lambda>_. True), err_fk = ''FOREIGN KEY constraint failed'', sql_datetime = (\<lambda>t. ''2026-01-01 00:00:00''),
     json_Marshal = (\<lambda>_. ''{}''), json_Unmarshal = (\<lambda>_. Some (JObject [])),
     Parse_RFC3339 = (\<lambda>s. if length s > 10 \<and> s ! 10 = CHR ''T'' then Some 0 else None)\<rparr>"

definition still_draw :: draw where
  "still_draw = \<lparr>d_uuid = '''', d_rand = (\<lambda>n. Inr (replicate n 0)), d_now = 0, d_perm = (\<lambda>xs. xs), d_sql = (\<lambda>_. None), d_cut = 0\<rparr>"

lemma still_draw_ok [simp]: "draw_ok still_draw" "sql_good still_draw"
  by (auto simp: draw_ok_def sql_good_def still_draw_def)


section \<open>Life-cycle events\<close>

text \<open>
  The timestamps of events are written by \<open>datetime('now')\<close>, with a blank between date and time, and
  read back with \<open>time.Parse(time.RFC3339, ts)\<close>, which wants a \<open>T\<close> there, and whose error is ignored:
  every event is returned with the zero time.
\<close>

definition rfc3339_needs_T :: "adriver \<Rightarrow> bool" where
  "rfc3339_needs_T V \<longleftrightarrow> (\<forall>s. length s > 10 \<and> s ! 10 \<noteq> CHR ''T'' \<longrightarrow> Parse_RFC3339 V s = None) \<and>
     (\<forall>t. length (sql_datetime V t) = 19 \<and> sql_datetime V t ! 10 = CHR '' '')"

definition events_dated :: "adriver \<Rightarrow> AssetDB \<Rightarrow> bool" where
  "events_dated V db \<longleftrightarrow> (\<forall>(i, e) \<in> set (asset_lifecycle_events db). \<exists>t. event_timestamp e = sql_datetime V t)"

lemma events_dated_emit: "events_dated V db \<Longrightarrow> events_dated V (snd (EmitLifecycleEvent V d i ty ac j db))"
  by (auto simp: events_dated_def EmitLifecycleEvent_def split: option.split)

lemma scan_table_rows: "(k, r) \<in> set (scan_table d cond tab) \<Longrightarrow> (k, r) \<in> set tab"
  by (auto simp: scan_table_def List.map_filter_def dest: map_of_SomeD)

theorem event_times_lost:
  assumes "rfc3339_needs_T V" "events_dated V db" "ListLifecycleEvents V d i n db = Inr es" "e \<in> set es"
  shows "le_Timestamp e = None"
proof -
  obtain k r where r: "(k, r) \<in> set (asset_lifecycle_events db)" "le_Timestamp e = Parse_RFC3339 V (event_timestamp r)"
    using assms(3,4) by (fastforce simp: ListLifecycleEvents_def delivered_def Let_def split: option.splits
        dest: scan_table_rows in_set_takeD)
  then obtain t where "event_timestamp r = sql_datetime V t" using assms(2) by (auto simp: events_dated_def)
  with r(2) assms(1) show ?thesis by (simp add: rfc3339_needs_T_def)
qed

end
