(* ===== verification/Startup.thy ===== *)
theory Startup
  imports Kmip_Server Rest_Safety Dev_Certs Assets
begin

text \<open>
  \<open>cmd/open-kmip/main.go\<close>: from the flags to the running servers. Whatever stops the process
  (\<open>log.Fatal\<close>, a panic) is a value; a start that succeeds is described by what runs afterwards: the
  state that both front ends share, the REST API and its address, the KMIP server. The log lines other
  than the listener mode are not modelled.
\<close>

section \<open>Flags and platform\<close>

record options =
  opt_devMode :: bool
  host :: string
  port :: int
  apiPort :: int
  apiKey :: string
  opt_corsOrigin :: string
  opt_certFile :: string
  opt_keyFile :: string
  caFile :: string
  insecureNoMTLS :: bool
  storageType :: string
  dbPath :: string

record ('w, 'i) platform =
  pf_lib :: "('w, 'i) kmiplib"
  pf_driver :: driver
  pf_hkdf :: hkdf
  pf_crypto :: crypto
  pf_rest :: restlib
  pf_x509 :: x509lib
  pf_assets :: adriver
  pf_os :: osenv
  pf_world :: world
  env_API_KEY :: string
  LoadX509KeyPair :: "string \<Rightarrow> string \<Rightarrow> machine \<Rightarrow> error option"
  ReadFile :: "string \<Rightarrow> machine \<Rightarrow> bytes result"
  AppendCertsFromPEM :: "bytes \<Rightarrow> bool"
  database :: "string \<Rightarrow> SQLiteStore"
  audit_table :: "string \<Rightarrow> Entry list \<times> int"
  asset_tables :: "string \<Rightarrow> AssetDB"

datatype stop = Fatal string | Panic string

record ('w, 'i) running =
  run_shared :: "store hstate"
  rest_server :: "(string \<times> ('w, 'i, store) API \<times> store api_state) option"
  kmip_server :: KmipServer
  listenerMode :: string

section \<open>Development mode\<close>

text \<open>
  \<open>setupDevMode\<close>: certificates are generated unless \<open>ca.pem\<close> is there; a missing API key is replaced
  by a generated one, for which the second branch generates certificates in the directory for temporary
  files, ignoring an error and so dereferencing nil.
\<close>

definition setupDevMode :: "('w, 'i) platform \<Rightarrow> options \<Rightarrow> machine \<Rightarrow> (stop + options) \<times> machine" where
  "setupDevMode P opts m =
     (let os = pf_os P; gen = Generate (pf_crypto P) (pf_x509 P) os (pf_world P);
          home = (case UserHomeDir os of Inl _ \<Rightarrow> TempDir os | Inr dir \<Rightarrow> dir);
          certDir = filepath_Join [home, ''.open-kmip'', ''certs''];
          caCertPath = filepath_Join [certDir, ''ca.pem'']
      in if \<not> stat_fault os caCertPath \<and> on_disk m caCertPath = None then
           (case gen certDir m of
              (Inl err, m1) \<Rightarrow> (Inl (Fatal (''failed to generate dev certs: '' @ err)), m1)
            | (Inr certs, m1) \<Rightarrow>
                (Inr (opts\<lparr>opt_certFile := ServerCert certs, opt_keyFile := ServerKey certs, caFile := CACert certs,
                   apiKey := (if apiKey opts = '''' then APIKey certs else apiKey opts)\<rparr>), m1))
         else
           (let opts1 = opts\<lparr>opt_certFile := filepath_Join [certDir, ''server.pem''],
                  opt_keyFile := filepath_Join [certDir, ''server-key.pem''], caFile := caCertPath\<rparr>
            in if apiKey opts = '''' then
                 (case gen (TempDir os) m of
                    (Inl _, m1) \<Rightarrow> (Inl (Panic ''runtime error: invalid memory address or nil pointer dereference''), m1)
                  | (Inr certs, m1) \<Rightarrow> (Inr (opts1\<lparr>apiKey := APIKey certs\<rparr>), m1))
               else (Inr opts1, m)))"

section \<open>main\<close>

definition newline :: string where
  "newline = [CHR 0x0A]"

definition check_flags :: "options \<Rightarrow> stop + options" where
  "check_flags opts =
     (if caFile opts = '''' \<and> \<not> insecureNoMTLS opts then
        Inl (Fatal (''FATAL: --ca is required for mTLS.'' @ newline @
          ''  Use --dev for development with auto-generated certs.'' @ newline @
          ''  Use --insecure-no-mtls to disable client auth (NOT for production).''))
      else if opt_certFile opts = '''' \<or> opt_keyFile opts = '''' then
        Inl (Fatal (''FATAL: --cert and --key are required.'' @ newline @
          ''  Use --dev for development with auto-generated certs.''))
      else if apiKey opts = '''' \<and> apiPort opts > 0 then
        Inl (Fatal (''FATAL: --api-key (or KMIP_API_KEY) is required when REST API is enabled.'' @ newline @
          ''  Use --dev for development with auto-generated API key.'' @ newline @
          ''  Use --api-port 0 to disable the REST API.''))
      else Inr opts)"

text \<open>
  The store and the audit log. The two draws are those of opening the database and of creating the
  audit table; an audit log whose table cannot be created is nil.
\<close>

definition open_storage :: "('w, 'i) platform \<Rightarrow> options \<Rightarrow> machine \<Rightarrow> (stop + store \<times> Logger option) \<times> machine" where
  "open_storage P opts m =
     (if storageType opts = ''memory'' \<and> \<not> opt_devMode opts then
        (Inl (Fatal (''FATAL: --storage memory disables audit and is only allowed with --dev.'' @ newline @
          ''  Use --storage sqlite for evaluation/alpha use.'')), m)
      else if storageType opts = ''memory'' then (Inr (Mem NewMemoryStore, None), m)
      else if storageType opts = ''sqlite'' then
        (let d1 = pf_world P (ticks m); d2 = pf_world P (Suc (ticks m)); m1 = m\<lparr>ticks := ticks m + 2\<rparr> in
         case NewSQLiteStore d1 (database P (dbPath opts)) of
           Inl err \<Rightarrow> (Inl (Fatal (''failed to open SQLite store: '' @ err)), m1)
         | Inr s \<Rightarrow> (case audit_table P (dbPath opts) of (old, nid) \<Rightarrow> (Inr (Sql s, NewLogger (d_sql d2 0) old nid), m1)))
      else (Inl (Fatal (''unknown storage type: '' @ storageType opts)), m))"

definition inventory_of :: "adriver \<Rightarrow> AssetDB \<Rightarrow> draw \<Rightarrow> store \<Rightarrow> json result option" where
  "inventory_of V db d s =
     (case s of Mem _ \<Rightarrow> None | Sql _ \<Rightarrow> Some (case ListInventory V d db of Inl err \<Rightarrow> Inl err | Inr vs \<Rightarrow> Inr (inventory_json vs)))"

definition new_api :: "('w, 'i) platform \<Rightarrow> options \<Rightarrow> time \<Rightarrow> ('w, 'i, store) API" where
  "new_api P opts now = \<lparr>deps_of = server (pf_lib P) (pf_driver P) (pf_hkdf P) (pf_crypto P) (pf_world P), weblib = pf_rest P,
     api_apiKey = apiKey opts, corsOrigin = opt_corsOrigin opts, certFile = opt_certFile opts, keyFile = opt_keyFile opts,
     start = now, inventory = inventory_of (pf_assets P) (asset_tables P (dbPath opts))\<rparr>"

definition with_env :: "('w, 'i) platform \<Rightarrow> options \<Rightarrow> options" where
  "with_env P opts = (if env_API_KEY P \<noteq> '''' \<and> apiKey opts = '''' then opts\<lparr>apiKey := env_API_KEY P\<rparr> else opts)"

definition main :: "('w, 'i) platform \<Rightarrow> options \<Rightarrow> machine \<Rightarrow> stop + ('w, 'i) running" where
  "main P opts m =
     (let opts = with_env P opts in
      case (if opt_devMode opts then setupDevMode P opts m else (check_flags opts, m)) of
        (Inl x, _) \<Rightarrow> Inl x
      | (Inr opts, m1) \<Rightarrow>
          (case open_storage P opts m1 of
             (Inl x, _) \<Rightarrow> Inl x
           | (Inr (st, auditLog), m2) \<Rightarrow>
               let h = NewHandler (Suc (ticks m2)) st auditLog (Some NewConnectionTracker);
                   api = (if apiPort opts > 0 then
                     Some (host opts @ '':'' @ fmt_d (apiPort opts), new_api P opts (d_now (pf_world P (ticks m2))),
                       NewAPI (apiKey opts) (opt_devMode opts) h) else None)
               in case NewServer (host opts) (port opts) (LoadX509KeyPair P (opt_certFile opts) (opt_keyFile opts) m2) (caFile opts)
                      (\<lambda>path. ReadFile P path m2) (AppendCertsFromPEM P) of
                    Inl err \<Rightarrow> Inl (Fatal (''failed to create KMIP server: '' @ err))
                  | Inr srv \<Rightarrow> Inr \<lparr>run_shared = h, rest_server = api, kmip_server = srv,
                      listenerMode = (if insecureNoMTLS opts then ''TLS, client auth disabled'' else ''mTLS'')\<rparr>))"

section \<open>Starts that succeed\<close>

lemma NewServer_Inr:
  "NewServer hst prt cert ca read pool = Inr srv \<Longrightarrow>
     cert = None \<and> MinVersion (kmip_config srv) = 0x0303 \<and>
     ClientAuth (kmip_config srv) = (if ca = '''' then NoClientCert else RequireAndVerifyClientCert)"
  by (auto simp: NewServer_def Let_def split: option.splits if_splits sum.splits)

lemma NewServer_ok: "(\<exists>srv. NewServer hst prt cert ca read pool = Inr srv) \<longleftrightarrow>
    cert = None \<and> (ca \<noteq> '''' \<longrightarrow> (\<exists>pem. read ca = Inr pem \<and> pool pem))"
  by (auto simp: NewServer_def Let_def split: option.split sum.split)

lemma with_env_sel [simp]:
  "opt_devMode (with_env P opts) = opt_devMode opts" "insecureNoMTLS (with_env P opts) = insecureNoMTLS opts"
  "storageType (with_env P opts) = storageType opts" "caFile (with_env P opts) = caFile opts"
  "opt_certFile (with_env P opts) = opt_certFile opts" "opt_keyFile (with_env P opts) = opt_keyFile opts"
  "apiPort (with_env P opts) = apiPort opts" "dbPath (with_env P opts) = dbPath opts"
  by (simp_all add: with_env_def)

lemma check_flags_Inr: "check_flags opts = Inr o1 \<longleftrightarrow> o1 = opts \<and> (caFile opts \<noteq> '''' \<or> insecureNoMTLS opts) \<and>
    opt_certFile opts \<noteq> '''' \<and> opt_keyFile opts \<noteq> '''' \<and> (apiKey opts \<noteq> '''' \<or> \<not> apiPort opts > 0)"
  by (auto simp: check_flags_def)

lemma main_Inr:
  assumes "main P opts m = Inr r"
  obtains o1 m1 st a m2 where
    "(if opt_devMode opts then setupDevMode P (with_env P opts) m else (check_flags (with_env P opts), m)) = (Inr o1, m1)"
    "open_storage P o1 m1 = (Inr (st, a), m2)"
    "run_shared r = NewHandler (Suc (ticks m2)) st a (Some NewConnectionTracker)"
    "rest_server r = (if apiPort o1 > 0 then Some (host o1 @ '':'' @ fmt_d (apiPort o1), new_api P o1 (d_now (pf_world P (ticks m2))),
      NewAPI (apiKey o1) (opt_devMode o1) (run_shared r)) else None)"
    "NewServer (host o1) (port o1) (LoadX509KeyPair P (opt_certFile o1) (opt_keyFile o1) m2) (caFile o1)
      (\<lambda>path. ReadFile P path m2) (AppendCertsFromPEM P) = Inr (kmip_server r)"
    "listenerMode r = (if insecureNoMTLS o1 then ''TLS, client auth disabled'' else ''mTLS'')"
  using assms unfolding main_def Let_def with_env_sel
  by (auto split: prod.splits sum.splits simp del: with_env_sel)


definition demo_platform :: "(ttlv, ttlv) platform" where
  "demo_platform = \<lparr>pf_lib = treelib, pf_driver = demo_driver, pf_hkdf = demo_hkdf, pf_crypto = plaincrypto, pf_rest = demo_rest,
     pf_x509 = plain_x509, pf_assets = plain_adriver, pf_os = plain_os, pf_world = demo_draw, env_API_KEY = ''sesame'',
     LoadX509KeyPair = (\<lambda>c k m. None), ReadFile = (\<lambda>path m. Inr [1]), AppendCertsFromPEM = (\<lambda>b. b \<noteq> []),
     database = (\<lambda>_. \<lparr>key_rows = [], attr_rows = []\<rparr>), audit_table = (\<lambda>_. ([], 1)), asset_tables = (\<lambda>_. empty_assets)\<rparr>"

definition demo_options :: options where
  "demo_options = \<lparr>opt_devMode = False, host = ''0.0.0.0'', port = 5696, apiPort = 8200, apiKey = '''', opt_corsOrigin = '''',
     opt_certFile = ''s.pem'', opt_keyFile = ''k.pem'', caFile = ''ca.pem'', insecureNoMTLS = False, storageType = ''sqlite'',
     dbPath = ''kmip.db''\<rparr>"


lemma demo_platform_starts: "\<exists>r. main demo_platform demo_options \<lparr>disk = [], ticks = 0\<rparr> = Inr r"
  by (simp add: main_def Let_def with_env_def demo_platform_def demo_options_def check_flags_def open_storage_def NewServer_def
      NewSQLiteStore_def demo_draw_sel)



section \<open>Two surprises\<close>

text \<open>
  \<open>--insecure-no-mtls\<close> together with \<open>--ca\<close>: client certificates are demanded all the same, while the
  log says that client authentication is disabled.
\<close>

theorem insecure_flag_with_ca:
  assumes "main P opts m = Inr r" "\<not> opt_devMode opts" "caFile opts \<noteq> ''''" "insecureNoMTLS opts"
  shows "ClientAuth (kmip_config (kmip_server r)) = RequireAndVerifyClientCert \<and> listenerMode r = ''TLS, client auth disabled''"
proof (rule main_Inr[OF assms(1)])
  fix o1 m1 m2
  assume "(if opt_devMode opts then setupDevMode P (with_env P opts) m else (check_flags (with_env P opts), m)) = (Inr o1, m1)"
    "listenerMode r = (if insecureNoMTLS o1 then ''TLS, client auth disabled'' else ''mTLS'')"
    "NewServer (host o1) (port o1) (LoadX509KeyPair P (opt_certFile o1) (opt_keyFile o1) m2) (caFile o1)
      (\<lambda>path. ReadFile P path m2) (AppendCertsFromPEM P) = Inr (kmip_server r)"
  then show ?thesis using assms(2-4) by (auto simp: check_flags_Inr dest: NewServer_Inr)
qed

text \<open>
  \<open>--dev\<close> prints an API key, but the REST API is started in its development mode, in which the gate lets
  every request through.
\<close>

theorem dev_mode_open:
  assumes "main P opts m = Inr r" "opt_devMode opts" "rest_server r = Some (addr, G, st)"
  shows "authorised now rq (dashAuth st)"
proof (rule main_Inr[OF assms(1)])
  fix o1 m1 m2
  assume o: "(if opt_devMode opts then setupDevMode P (with_env P opts) m else (check_flags (with_env P opts), m)) = (Inr o1, m1)"
    and api: "rest_server r = (if apiPort o1 > 0 then Some (host o1 @ '':'' @ fmt_d (apiPort o1), new_api P o1 (d_now (pf_world P (ticks m2))),
      NewAPI (apiKey o1) (opt_devMode o1) (run_shared r)) else None)"
  have "opt_devMode o1" using o assms(2) by (auto simp: setupDevMode_def Let_def split: if_splits prod.splits sum.splits)
  with api assms(3) have "dashAuth st = NewDevMode" by (auto simp: NewAPI_def split: if_splits)
  then show ?thesis by (simp add: authorised_def IsDevMode_def NewDevMode_def)
qed

end
