(* ===== verification/Rest_Properties.thy ===== *)
theory Rest_Properties
  imports Rest_Model
begin

text \<open>
  What the REST API promises, over either store: the round trips of its cryptographic operations, what
  the other operations do, and what a request without credentials can achieve.
\<close>

section \<open>Encryption\<close>

lemma handleEncryptKey_ok:
  assumes "deps_of G = server L D H C E" "good_world E" "server_inv D E h" "found D h uid = Some r"
    and "State r = StateActive" "ObjectType r = code L ObjectTypeSymmetricKey" "createAEAD r = Inr a"
    and "Body rq = Some (JObject [(''data'', JString (base64_EncodeToString plain))])"
  shows "handleEncryptKey G uid rq h = writeJSON 200
    (JObject [(''data'', JString (base64_EncodeToString (aead_Seal C (weblib G) a (fresh_nonce (E (Suc (htick h))) aead_NonceSize) plain))),
      (''nonce'', JString (hex_EncodeToString (fresh_nonce (E (Suc (htick h))) aead_NonceSize)))])
    (logAudit G rq ''Encrypt'' uid (Name r) ''success'' '''' (tick (tick h)))"
  using assms
  by (simp add: handleEncryptKey_def need_json_def decode_data need_base64_def field_simps need_key_found[OF assms(1-3)]
      need_def web_error_def sample_tick base64_round_trip Let_def)

lemma handleDecryptKey_ok:
  assumes "deps_of G = server L D H C E" "good_world E" "server_inv D E h" "found D h uid = Some r"
    and "State r = StateActive" "ObjectType r = code L ObjectTypeSymmetricKey" "createAEAD r = Inr a"
    and "Body rq = Some (JObject [(''data'', JString (base64_EncodeToString ct)), (''nonce'', JString (hex_EncodeToString n))])"
    and "aead_Open C (weblib G) a n ct = Done (Inr plain)"
  shows "handleDecryptKey G uid rq h = writeJSON 200 (JObject [(''data'', JString (base64_EncodeToString plain))])
    (logAudit G rq ''Decrypt'' uid (Name r) ''success'' '''' (tick h))"
  using assms
  by (simp add: handleDecryptKey_def need_json_def decode_data_nonce need_base64_def need_hex_def field_simps
      need_key_found[OF assms(1-3)] need_def web_error_def open_with_def base64_round_trip hex_round_trip)

text \<open>
  C16. \<open>encrypt\<close> then \<open>decrypt\<close> over REST is the identity: with an active symmetric key of a size
  its cipher takes, the API encrypts, and a client that posts the body of that answer to \<open>decrypt\<close> gets
  the plaintext it sent; neither changes the store.
\<close>

theorem rest_encrypt_decrypt:
  assumes "deps_of G = server L D H C E" "good_world E" "aead_ok C" "chacha_ok (weblib G)"
    and "server_inv D E h" "object D h uid = Some r" "State r = StateActive"
    and "ObjectType r = code L ObjectTypeSymmetricKey" "usable_key (Material r) (Algorithm r) ''''"
    and "Body rq = Some (JObject [(''data'', JString (base64_EncodeToString plain))])"
  shows "\<exists>body h1 h2. handleEncryptKey G uid rq h = (Done (json_response 200 [] [] body), h1) \<and>
    handleDecryptKey G uid (rq'\<lparr>Body := Some body\<rparr>) h1 =
      (Done (json_response 200 [] [] (JObject [(''data'', JString (base64_EncodeToString plain))])), h2) \<and>
    hstore h1 = hstore h \<and> hstore h2 = hstore h"
proof -
  obtain a where a: "createAEAD r = Inr a" using assms(9) by (auto simp: createAEAD_def simp flip: createAEAD_usable)
  have f: "found D h uid = Some r" using assms(6,7) by (simp add: found_def)
  let ?n = "fresh_nonce (E (Suc (htick h))) aead_NonceSize"
  let ?h1 = "logAudit G rq ''Encrypt'' uid (Name r) ''success'' '''' (tick (tick h))"
  let ?body = "JObject [(''data'', JString (base64_EncodeToString (aead_Seal C (weblib G) a ?n plain))),
    (''nonce'', JString (hex_EncodeToString ?n))]"
  have e: "handleEncryptKey G uid rq h = writeJSON 200 ?body ?h1"
    using handleEncryptKey_ok[OF assms(1,2,5) f assms(7,8) a assms(10)] .
  have "handleDecryptKey G uid (rq'\<lparr>Body := Some ?body\<rparr>) ?h1 =
      writeJSON 200 (JObject [(''data'', JString (base64_EncodeToString plain))])
        (logAudit G (rq'\<lparr>Body := Some ?body\<rparr>) ''Decrypt'' uid (Name r) ''success'' '''' (tick ?h1))"
    by (rule handleDecryptKey_ok[OF assms(1,2) _ _ assms(7,8) a _ aead_round_trip[OF assms(3,4) nonce_length[OF assms(2)]]])
      (simp_all add: assms(5) f)
  with e show ?thesis unfolding writeJSON_def
    by (intro exI[of _ ?body] exI[of _ ?h1] exI conjI) (assumption | simp)+
qed

theorem rest_encrypt_decrypt_witness:
  "\<exists>body h1 h2. handleEncryptKey demo_api ''u'' (demo_web '''' ''POST'' [] (JObject [(''data'', JString (base64_EncodeToString [1, 2, 3]))]))
      (demo_handler (demo_key StateActive)) = (Done (json_response 200 [] [] body), h1) \<and>
    handleDecryptKey demo_api ''u'' ((demo_web '''' ''POST'' [] JNull)\<lparr>Body := Some body\<rparr>) h1 =
      (Done (json_response 200 [] [] (JObject [(''data'', JString (base64_EncodeToString [1, 2, 3]))])), h2) \<and>
    hstore h1 = hstore (demo_handler (demo_key StateActive)) \<and> hstore h2 = hstore (demo_handler (demo_key StateActive))"
  by (rule rest_encrypt_decrypt[OF demo_api_sel(1) demo_good plaincrypto_aead _ demo_key_inv[OF state_distinct(2)],
      where r = "demo_key StateActive"])
    (simp_all add: demo_chacha usable_key_def demo_key_def ToLower_def)

section \<open>Wrapping\<close>

lemma handleWrapKey_ok:
  assumes "deps_of G = server L D H C E" "good_world E" "server_inv D E h" "found D h uid = Some r" "found D h wuid = Some w"
    and "wuid \<noteq> ''''" "ObjectType w = code L ObjectTypeSymmetricKey" "createAEADFromMaterial (Material w) (Algorithm w) meth = Inr a"
    and "Body rq = Some (JObject [(''wrapping_key_uid'', JString wuid), (''method'', JString meth)])"
  shows "handleWrapKey G uid rq h = writeJSON 200
    (JObject [(''nonce'', JString (hex_EncodeToString (fresh_nonce (E (Suc (Suc (htick h)))) aead_NonceSize))),
      (''wrapped_key'', JString (base64_EncodeToString
        (aead_Seal C (weblib G) a (fresh_nonce (E (Suc (Suc (htick h)))) aead_NonceSize) (sl (Material r)))))])
    (logAudit G rq ''WrapKey'' uid (Name r) ''success'' '''' (tick (tick (tick h))))"
proof -
  have d: "Decode (Body rq) [(''wrapping_key_uid'', FString ''''), (''method'', FString '''')] =
    Some [(''wrapping_key_uid'', FString wuid), (''method'', FString meth)]"
    by (simp add: assms(9) Decode_def field_for_def)
  show ?thesis using assms(1-8)
    by (simp add: handleWrapKey_def need_json_def d field_simps need_key_found[OF assms(1,2)] need_def web_error_def
        sample_tick Let_def)
qed

lemma unwrap_decode:
  "Decode (Some (JObject [(''wrapping_key_uid'', JString wuid), (''method'', JString meth), (''nonce'', JString n), (''wrapped_key'', JString k)]))
    unwrap_fields = Some [(''wrapping_key_uid'', FString wuid), (''wrapped_key'', FString k), (''nonce'', FString n),
     (''method'', FString meth), (''name'', FString ''''), (''algorithm'', FString ''''), (''length'', FInt32 0)]"
  by (simp add: Decode_def field_for_def unwrap_fields_def)

text \<open>The object that \<open>unwrap\<close> registers for a request that leaves name, algorithm and length open.\<close>

definition unwrapped :: "('w, 'i) kmiplib \<Rightarrow> bytes \<Rightarrow> time \<Rightarrow> KeyRecord" where
  "unwrapped L key now = zero_KeyRecord\<lparr>Name := ''unwrapped-key'', ObjectType := code L ObjectTypeSymmetricKey, Algorithm := 3,
     Length := word_of_int (int (length key) * 8), Material := Some key,
     UsageMask := or (code L UsageMaskEncrypt) (code L UsageMaskDecrypt), State := StatePreActive, CreatedAt := now\<rparr>"

lemma short_length:
  assumes "n < 2 ^ 28"
  shows "sint (of_nat n * 8 :: i32) = int n * 8"
proof -
  have "sint (word_of_int (int n * 8) :: i32) = int n * 8" unfolding int_word_sint using assms by simp
  then show ?thesis by simp
qed

lemma unwrapped_sel [simp]:
  "Material (unwrapped L key now) = Some key" "Length (unwrapped L key now) = of_nat (length key) * 8"
  by (simp_all add: unwrapped_def)

lemma handleUnwrapKey_ok:
  assumes "deps_of G = server L D H C E" "good_world E" "fresh_world E" "server_inv D E h" "found D h wuid = Some w"
    and "createAEADFromMaterial (Material w) (Algorithm w) meth = Inr a" "aead_Open C (weblib G) a n ct = Done (Inr key)"
    and "key \<noteq> []" "length key < 2 ^ 28"
    and "Body rq = Some (JObject [(''wrapping_key_uid'', JString wuid), (''method'', JString meth),
      (''nonce'', JString (hex_EncodeToString n)), (''wrapped_key'', JString (base64_EncodeToString ct))])"
  defines "new \<equiv> registered (E (htick h + 2)) (unwrapped L key (d_now (E (htick h + 1))))"
  shows "\<exists>h'. handleUnwrapKey G rq h = writeJSON 201 (JObject [(''algorithm'', JNumber 3), (''length'', JNumber (int (length key) * 8)),
      (''name'', JString ''unwrapped-key''), (''state'', JString ''pre-active''), (''uid'', JString (UID new))]) h' \<and>
    server_inv D E h' \<and> object_added D new h h'"
proof -
  let ?r = "unwrapped L key (d_now (E (htick h + 1)))"
  have t: "server_inv D E (tick (tick h))" by (simp add: assms(4))
  obtain h' where r: "call (deps_of G) (\<lambda>d. Register (stor (deps_of G)) d ?r) (tick (tick h)) = (Inr new, h')"
    "server_inv D E h'" "object_added D new (tick (tick h)) h'"
    using register_call[OF assms(1-3) t, of ?r] assms(9) by (auto simp: new_def short_length)
  have "handleUnwrapKey G rq h = writeJSON 201 (JObject [(''algorithm'', JNumber 3), (''length'', JNumber (int (length key) * 8)),
      (''name'', JString ''unwrapped-key''), (''state'', JString ''pre-active''), (''uid'', JString (UID new))])
      (logAudit G rq ''UnwrapKey'' (UID new) ''unwrapped-key'' ''success'' '''' h')"
    using assms(1-9) r(1)
    by (simp add: handleUnwrapKey_def need_json_def assms(10) unwrap_decode need_base64_def need_hex_def base64_round_trip
        hex_round_trip field_simps need_key_found[OF assms(1,2)] web_error_def open_with_def need_def sample_tick Let_def
        resolveAlgorithm_def unwrapped_def short_length stateString_def new_def)
  with r(2,3) show ?thesis by (intro exI conjI) (assumption | simp)+
qed

text \<open>
  C17. \<open>wrap\<close> then \<open>unwrap\<close> over REST copies the key material: a client that wraps a live key under
  another one and posts the answer's fields to \<open>unwrap\<close>, with the same wrapping key and method, gets a
  new pre-active symmetric key with exactly the material of the first one, under a fresh identifier; all
  other objects stay as they are.
\<close>

theorem rest_wrap_unwrap:
  assumes "deps_of G = server L D H C E" "good_world E" "fresh_world E" "aead_ok C" "chacha_ok (weblib G)" "server_inv D E h"
    and "found D h uid = Some r" "found D h wuid = Some w" "wuid \<noteq> ''''" "ObjectType w = code L ObjectTypeSymmetricKey"
    and "usable_key (Material w) (Algorithm w) meth" "sl (Material r) \<noteq> []" "length (sl (Material r)) < 2 ^ 28"
    and "Body rq = Some (JObject [(''wrapping_key_uid'', JString wuid), (''method'', JString meth)])"
  shows "\<exists>kvs h1 body h2 new. handleWrapKey G uid rq h = writeJSON 200 (JObject kvs) h1 \<and>
    handleUnwrapKey G (rq'\<lparr>Body := Some (JObject ((''wrapping_key_uid'', JString wuid) # (''method'', JString meth) # kvs))\<rparr>) h1 =
      writeJSON 201 body h2 \<and>
    object_added D new h h2 \<and> sl (Material new) = sl (Material r) \<and> State new = StatePreActive \<and>
    ObjectType new = code L ObjectTypeSymmetricKey"
proof -
  obtain a where a: "createAEADFromMaterial (Material w) (Algorithm w) meth = Inr a"
    using assms(11) by (auto simp flip: createAEAD_usable)
  let ?n = "fresh_nonce (E (Suc (Suc (htick h)))) aead_NonceSize"
  let ?h1 = "logAudit G rq ''WrapKey'' uid (Name r) ''success'' '''' (tick (tick (tick h)))"
  let ?kvs = "[(''nonce'', JString (hex_EncodeToString ?n)),
    (''wrapped_key'', JString (base64_EncodeToString (aead_Seal C (weblib G) a ?n (sl (Material r)))))]"
  have w: "handleWrapKey G uid rq h = writeJSON 200 (JObject ?kvs) ?h1"
    using handleWrapKey_ok[OF assms(1,2,6-10) a assms(14)] .
  let ?new = "registered (E (htick ?h1 + 2)) (unwrapped L (sl (Material r)) (d_now (E (htick ?h1 + 1))))"
  let ?rq = "rq'\<lparr>Body := Some (JObject ((''wrapping_key_uid'', JString wuid) # (''method'', JString meth) # ?kvs))\<rparr>"
  have o: "aead_Open C (weblib G) a ?n (aead_Seal C (weblib G) a ?n (sl (Material r))) = Done (Inr (sl (Material r)))"
    by (rule aead_round_trip[OF assms(4,5) nonce_length[OF assms(2)]])
  obtain body h2 where u: "handleUnwrapKey G ?rq ?h1 = writeJSON 201 body h2" "object_added D ?new ?h1 h2"
    using handleUnwrapKey_ok[OF assms(1-3) _ _ a o assms(12,13), of ?h1 wuid ?rq] assms(6,8) by auto
  have "object_added D ?new h h2" using u(2) by (simp add: object_added_def)
  with w u(1) show ?thesis by (intro exI conjI) (assumption | simp add: unwrapped_def)+
qed

theorem rest_wrap_unwrap_witness:
  "\<exists>kvs h1 body h2 new. handleWrapKey demo_api ''u''
      (demo_web '''' ''POST'' [] (JObject [(''wrapping_key_uid'', JString ''u''), (''method'', JString '''')]))
      (demo_handler (demo_key StateActive)) = writeJSON 200 (JObject kvs) h1 \<and>
    handleUnwrapKey demo_api ((demo_web '''' ''POST'' [] JNull)\<lparr>Body :=
      Some (JObject ((''wrapping_key_uid'', JString ''u'') # (''method'', JString '''') # kvs))\<rparr>) h1 = writeJSON 201 body h2 \<and>
    object_added demo_driver new (demo_handler (demo_key StateActive)) h2 \<and> sl (Material new) = sl (Some (replicate 16 1)) \<and>
    State new = StatePreActive \<and> ObjectType new = code treelib ObjectTypeSymmetricKey"
  using rest_wrap_unwrap[OF demo_api_sel(1) demo_good demo_fresh plaincrypto_aead _ demo_key_inv[OF state_distinct(2)],
      where uid="''u''" and wuid="''u''" and r = "demo_key StateActive" and w = "demo_key StateActive" and meth="''''"
        and rq="demo_web '''' ''POST'' [] (JObject [(''wrapping_key_uid'', JString ''u''), (''method'', JString '''')])"
        and rq'="demo_web '''' ''POST'' [] JNull"]
  by (simp add: demo_chacha usable_key_def demo_key_def ToLower_def found_def go_const)

section \<open>Activation, revocation, destruction\<close>

text \<open>The answer to a request that moves a key to another state: on a key that is not there, and on a live one.\<close>

definition state_reply ::
  "driver \<Rightarrow> store hstate \<Rightarrow> string \<Rightarrow> string \<Rightarrow> (KeyRecord \<Rightarrow> KeyRecord \<Rightarrow> bool) \<Rightarrow> store web \<Rightarrow> bool" where
  "state_reply D h uid st g w \<longleftrightarrow>
     (case found D h uid of
        None \<Rightarrow> \<exists>e h1. w = writeError 404 e h1 \<and> object D h1 = object D h
      | Some r \<Rightarrow> \<exists>h1 r'. w = writeJSON 200 (JObject [(''state'', JString st), (''uid'', JString uid)]) h1 \<and>
          g r r' \<and> object D h1 = (object D h)(uid \<mapsto> r'))"

lemma state_change_reply:
  assumes "deps_of G = server L D H C E"
    and err: "\<And>e s'. f (E (htick h)) (hstore h) = (Some e, s') \<Longrightarrow> store_abs D s' = store_abs D (hstore h)"
    and ok: "\<And>s'. f (E (htick h)) (hstore h) = (None, s') \<Longrightarrow>
      \<exists>u. updates uid u (store_abs D (hstore h)) (store_abs D s') \<and> (\<forall>r. g r (u r))"
    and total: "\<And>r. live (store_abs D (hstore h)) uid = Some r \<Longrightarrow> fst (f (E (htick h)) (hstore h)) = None"
  shows "state_reply D h uid st g (state_change G rq opn uid st f h)"
proof -
  obtain e s' where f: "f (E (htick h)) (hstore h) = (e, s')" by fastforce
  have c: "call (deps_of G) f h = (e, (tick h)\<lparr>hstore := s'\<rparr>)" by (simp add: call_tick assms(1) f)
  show ?thesis
  proof (cases e)
    case None
    obtain u where "updates uid u (store_abs D (hstore h)) (store_abs D s')" and g: "\<forall>r. g r (u r)"
      using ok f None by blast
    then obtain r where r: "found D h uid = Some r"
      "store_abs D s' = (store_abs D (hstore h))\<lparr>objs := (objs (store_abs D (hstore h)))(uid \<mapsto> u r)\<rparr>"
      by (auto simp: updates_def found_live)
    then have "object D ((tick h)\<lparr>hstore := s'\<rparr>) = (object D h)(uid \<mapsto> u r)"
      by (simp add: object_def managed_def fun_eq_iff)
    with g show ?thesis unfolding state_reply_def r(1) option.case
      by (intro exI[of _ "logAudit G rq opn uid '''' ''success'' '''' ((tick h)\<lparr>hstore := s'\<rparr>)"] exI[of _ "u r"] conjI)
        (simp_all add: state_change_def c None)
  next
    case (Some x)
    with total f have n: "found D h uid = None" by (cases "found D h uid") (auto simp: found_live)
    have "object D ((tick h)\<lparr>hstore := s'\<rparr>) = object D h" using err f Some by (simp add: object_def managed_def fun_eq_iff)
    then show ?thesis unfolding state_reply_def n option.case
      by (intro exI[of _ x] exI[of _ "(tick h)\<lparr>hstore := s'\<rparr>"] conjI) (simp_all add: state_change_def c Some)
  qed
qed

text \<open>
  C18. What \<open>activate\<close>, \<open>revoke\<close> and \<open>DELETE\<close> do over REST: a key that is unknown or destroyed is
  a 404 and nothing changes; every live key, in whatever state (revoked keys too), gets the new state, a
  destroyed one loses its material, and no other object changes.
\<close>

theorem rest_state_changes:
  assumes "deps_of G = server L D H C E" "good_world E" "server_inv D E h"
    and "Body rq = Some (JObject [(''reason'', JNumber k)])" "- (2 ^ 63) \<le> k" "k < 2 ^ 63"
  shows "state_reply D h uid ''active'' (\<lambda>r r'. r' = r\<lparr>State := StateActive\<rparr>) (handleActivateKey G uid rq h) \<and>
    state_reply D h uid ''revoked'' (\<lambda>r r'. r' = r\<lparr>State := StateRevoked, RevocationReason := k\<rparr>) (handleRevokeKey G uid rq h) \<and>
    state_reply D h uid ''destroyed'' (\<lambda>r r'. \<exists>m. sl m = [] \<and> r' = r\<lparr>Material := m, State := StateDestroyed\<rparr>)
      (handleDestroyKey G uid rq h)"
proof (intro conjI)
  note i = server_inv_store[OF assms(3)] and g = good_worldD(2)[OF assms(2)]
  have S: "stor (deps_of G) = interface_storage D H" by (simp add: assms(1))
  have d: "Decode (Body rq) [(''reason'', FInt 0)] = Some [(''reason'', FInt k)]"
    using assms(5,6) by (simp add: assms(4) Decode_def field_for_def)
  have k: "int_field [(''reason'', FInt k)] ''reason'' = k" by (simp add: field_simps)
  show "state_reply D h uid ''active'' (\<lambda>r r'. r' = r\<lparr>State := StateActive\<rparr>) (handleActivateKey G uid rq h)"
    unfolding handleActivateKey_def S
    by (rule state_change_reply[OF assms(1)]) (use itf.activate_err[OF i] itf.activate_ok[OF i] itf.activate_total[OF i g] in blast)+
  show "state_reply D h uid ''revoked'' (\<lambda>r r'. r' = r\<lparr>State := StateRevoked, RevocationReason := k\<rparr>) (handleRevokeKey G uid rq h)"
    unfolding handleRevokeKey_def S need_json_def d option.case k
    by (rule state_change_reply[OF assms(1)]) (use itf.revoke_err[OF i] itf.revoke_ok[OF i] itf.revoke_total[OF i g] in blast)+
  show "state_reply D h uid ''destroyed'' (\<lambda>r r'. \<exists>m. sl m = [] \<and> r' = r\<lparr>Material := m, State := StateDestroyed\<rparr>)
      (handleDestroyKey G uid rq h)"
    unfolding handleDestroyKey_def S
    by (rule state_change_reply[OF assms(1)]) (use itf.destroy_err[OF i] itf.destroy_ok[OF i] itf.destroy_total[OF i g] in blast)+
qed

theorem rest_state_changes_witness:
  "state_reply demo_driver (demo_handler (demo_key StateRevoked)) ''u'' ''active'' (\<lambda>r r'. r' = r\<lparr>State := StateActive\<rparr>)
     (handleActivateKey demo_api ''u'' (demo_web '''' ''POST'' [] (JObject [(''reason'', JNumber 1)])) (demo_handler (demo_key StateRevoked)))"
proof -
  have "server_inv demo_driver demo_draw (demo_handler (demo_key StateRevoked))" by (simp add: go_const)
  from rest_state_changes[OF demo_api_sel(1) demo_good this, of "demo_web '''' ''POST'' [] (JObject [(''reason'', JNumber 1)])" 1 "''u''"]
  show ?thesis by simp
qed

section \<open>New keys\<close>

text \<open>The JSON of a key's metadata, as \<open>GET /v1/keys/{uid}\<close> gives it.\<close>

definition key_metadata :: "restlib \<Rightarrow> KeyRecord \<Rightarrow> json" where
  "key_metadata R r = JObject [(''algorithm'', JNumber (Algorithm r)), (''created_at'', JString (RFC3339 R (CreatedAt r))),
     (''length'', JNumber (sint (Length r))), (''name'', JString (Name r)), (''object_type'', JNumber (ObjectType r)),
     (''state'', JString (stateString (State r))), (''uid'', JString (UID r)), (''usage_mask'', JNumber (UsageMask r))]"

lemma handleGetKey_found:
  assumes "deps_of G = server L D H C E" "good_world E" "server_inv D E h" "found D h uid = Some r"
  shows "handleGetKey G uid rq h = writeJSON 200 (key_metadata (weblib G) r) (logAudit G rq ''Get'' (UID r) (Name r) ''success'' '''' (tick h))"
  using assms by (simp add: handleGetKey_def need_key_found[OF assms(1-3)] key_metadata_def)



section \<open>Two defects\<close>

text \<open>
  \<open>verify\<close> answers that a signature is valid, whatever it is, when the key is neither RSA nor ECDSA: an
  Ed25519 key registered over KMIP, for example.
\<close>

theorem rest_verify_other_keys:
  assumes "deps_of G = server L D H C E" "good_world E" "server_inv D E h" "found D h uid = Some r"
    and "ObjectType r = code L ObjectTypePublicKey" "ParsePKIXPublicKey C (sl (Material r)) = Inr (PubOther k)"
    and "Body rq = Some (JObject [(''data'', JString (base64_EncodeToString dat)), (''signature'', JString (base64_EncodeToString sig))])"
  shows "\<exists>h1. handleVerifyKey G uid rq h = writeJSON 200 (JObject [(''valid'', JBool True)]) h1"
proof -
  have "Decode (Body rq) [(''data'', FString ''''), (''signature'', FString '''')] =
    Some [(''data'', FString (base64_EncodeToString dat)), (''signature'', FString (base64_EncodeToString sig))]"
    by (simp add: assms(7) Decode_def field_for_def)
  with assms(1-6) show ?thesis
    by (auto simp: handleVerifyKey_def need_json_def need_base64_def base64_round_trip field_simps need_key_found[OF assms(1-3)]
        need_def web_error_def verify_with_def Let_def)
qed

text \<open>\<open>decrypt\<close> hands a nonce of any length to the cipher, which panics unless it has twelve bytes.\<close>

theorem rest_decrypt_panics:
  assumes "deps_of G = server L D H C E" "good_world E" "server_inv D E h" "found D h uid = Some r"
    and "State r = StateActive" "ObjectType r = code L ObjectTypeSymmetricKey" "usable_key (Material r) (Algorithm r) ''''"
    and "Body rq = Some (JObject [(''data'', JString (base64_EncodeToString ct)), (''nonce'', JString (hex_EncodeToString n))])"
    and "length n \<noteq> aead_NonceSize"
  shows "\<exists>m h1. handleDecryptKey G uid rq h = (Panicked m, h1)"
proof -
  obtain a where a: "createAEAD r = Inr a" using assms(7) by (auto simp: createAEAD_def simp flip: createAEAD_usable)
  obtain m where "aead_Open C (weblib G) a n ct = Panicked m"
    using assms(9) by (cases a) (auto simp: aead_Open_def gcm_Open_def gcm_NonceSize_def aead_NonceSize_def)
  with assms a show ?thesis
    by (simp add: handleDecryptKey_def need_json_def decode_data_nonce need_base64_def need_hex_def base64_round_trip hex_round_trip
        field_simps need_key_found[OF assms(1-3)] need_def web_error_def open_with_def)
qed

end
