(* ===== verification/Spec2Isabelle.thy ===== *)
theory Spec2Isabelle
  imports Startup Rest_Properties
begin

text \<open>
  A verification development for the Cyphera Open KMIP Server (Go, under \<open>src/\<close>): a key-management
  server that speaks KMIP over TLS, keeps its objects in memory or in SQLite, and offers a REST API
  with a dashboard.

  The program. \<open>cmd/open-kmip/main.go\<close> checks the flags, builds a store (\<open>internal/storage\<close>), an
  audit logger (\<open>internal/audit\<close>) and a connection tracker, and hands them to the KMIP server
  (\<open>internal/kmip\<close>) and the REST API (\<open>internal/api\<close>, guarded by \<open>internal/dashauth\<close>). The
  KMIP server cuts the bytes of a connection into messages; \<open>HandleRequest\<close> decodes one, checks
  version and batch size, and runs each batch item through the handler of its operation, which calls
  the store; each item leaves an audit entry and counts in the tracker. The REST API sends a request
  through rate limit, body limit, CORS and the authentication gate to one of its handlers, which use
  the same store, audit log and tracker.

  The theories, and the code they model:

  \<^item> \<open>Prelude\<close>: byte slices, errors, 32-bit integers, panics as values, \<open>fmt\<close>; the samples a call
    draws from the outside world (a \<open>draw\<close>: UUID, random bytes, clock, map iteration order, SQL
    driver errors). A \<open>world\<close> is a sequence of draws; the state counts the draws made.
  \<^item> \<open>Storage_Types\<close>, \<open>Storage_Contract\<close>: \<open>storage/types.go\<close>; the interface \<open>Storage\<close> as a record
    of methods, and the locale \<open>storage_contract\<close> that states what a client may rely on, over an
    abstract \<open>vault\<close> of objects and custom attributes.
  \<^item> \<open>Memory_Store\<close>, \<open>SQLite_Store\<close>, \<open>Stores\<close>: \<open>storage/memory.go\<close> on Go maps,
    \<open>storage/sqlite.go\<close> on table rows with an error per SQL statement; both interpret the contract, and
    so does the interface value that holds either. \<open>Assets\<close>: \<open>storage/assets.go\<close>, the tables of the
    asset graph.
  \<^item> \<open>Kmiplib\<close>, \<open>Crypto\<close>: the third-party library \<open>kmip-go\<close> and the crypto packages as parameters,
    with their documented behaviour (codec round trip, distinct tags, AEAD and signature laws) as named
    predicates and concrete instances for the witnesses.
  \<^item> \<open>Audit_Log\<close>, \<open>Connections\<close>: \<open>audit/audit.go\<close>, \<open>kmip/connections.go\<close>.
  \<^item> \<open>Lifecycle\<close>, \<open>Kmip_Handler\<close>, \<open>Kmip_Dispatch\<close>: \<open>kmip/handler.go\<close>, in the order of the
    code: operation names and the life-cycle table, the 27 operation handlers with the response
    builders, the dispatcher and \<open>HandleRequest\<close>.
  \<^item> \<open>Kmip_Steps\<close>, \<open>Step_Invariants\<close>, \<open>Kmip_Replies\<close>, \<open>Handler_Behaviour\<close>: lemmas on the
    handlers, proved once in the locale of the contract: every handler is safe (it keeps the store's
    invariant and moves the vault along the life-cycle relation \<open>kmip_step\<close>), what that relation
    preserves, the form of every reply and audit entry, and what single handlers do on each branch.
  \<^item> \<open>Server_Model\<close>, \<open>Kmip_Server\<close>: the handlers over the interface value, and \<open>kmip/server.go\<close>: TLS
    configuration, the framing loop of a connection, and the listener as an interleaving of goroutines.
  \<^item> \<open>Encodings\<close>, \<open>Http\<close>, \<open>Dash_Auth\<close>: hexadecimal and base64 with their round trips, what the code
    uses of \<open>net/http\<close>, \<open>encoding/json\<close> and \<open>strings\<close>, and \<open>dashauth/dashauth.go\<close>: sessions,
    bearer tokens and the login rate limit.
  \<^item> \<open>Rest_Handlers\<close>, \<open>Rest_Api\<close>: \<open>api/api.go\<close>: the handlers, and the rate limiter, routes and
    middleware around them. \<open>Rate_Limit\<close>: histories of the limiter. \<open>Rest_Steps\<close>: in the locale of
    the contract, every REST request moves the vault along \<open>vault_step\<close>, which extends \<open>kmip_step\<close> by
    the changes of state that the API allows without consulting the life cycle. \<open>Rest_Model\<close>,
    \<open>Rest_Properties\<close>, \<open>Rest_Safety\<close>: the API over either store.
  \<^item> \<open>Dev_Certs\<close>, \<open>Startup\<close>: \<open>devcerts/devcerts.go\<close> on a disk of files with modes, and \<open>main.go\<close> from
    the flags to the running servers.

  What is shown. C1 to C4: every KMIP request, on either store and whatever its bytes, moves the objects
  only along the life cycle, so destroyed objects stay destroyed and empty, states only move forward and
  compromised keys are not used again. C5 to C7: what holds under any mix of KMIP and REST requests, what
  a REST request without credentials can do, and that key material does not leave through the other
  routes. C8 to C11: every KMIP request is answered, item by item, and audited. C12 to C14, C20 to C28:
  the KMIP operations one by one, with the round trips of encryption, signatures and attributes. C15 and
  C37: which starts succeed and what they guarantee. C16 to C19: the REST operations. C29 to C33:
  authentication and rate limits, over histories. C34 to C36: framing, one connection, and all
  connections under every schedule. C38 to C40: the audit log, the development certificates and the
  inventory. Theorems without a number either show what the numbered ones rest on, or exhibit a defect
  (\<open>login_limit_race\<close>, \<open>rate_limit_starves\<close>, \<open>rest_verify_other_keys\<close>, \<open>rest_decrypt_panics\<close>,
  \<open>event_times_lost\<close>, \<open>insecure_flag_with_ca\<close>, \<open>dev_mode_open\<close>).

  Termination and bounds. Every model function is total: the loops are structural recursions or have
  a measure (\<open>drain\<close>: the channel, \<open>request_loop\<close>: the bytes left); no fuel is used.

  Not modelled: the sockets and the TLS handshake (their outcomes are inputs), the wire format of TTLV
  and the cryptography (parameters), SQL parsing, log output, the parsing of flags and of HTTP requests,
  the embedded dashboard files. Go's \<open>int\<close> is unbounded except where the code counts, and has 64 bits. A
  request of one connection runs as a whole between the requests of others.
\<close>

section \<open>Requests refine the life cycle\<close>

text \<open>
  C1. Whatever the bytes of a request, the client and the connection, \<open>HandleRequest\<close> keeps the
  server's invariant and changes the managed objects only by steps of the life-cycle relation, for
  either store, as long as fresh identifiers do not repeat.
\<close>

theorem HandleRequest_refines:
  assumes "fresh_world E" "server_inv D E h"
  shows "server_inv D E (snd (HandleRequest (server L D H C E) msg cn ra conn h)) \<and>
    kmip_step\<^sup>*\<^sup>* (managed D h) (managed D (snd (HandleRequest (server L D H C E) msg cn ra conn h)))"
  using itf.safe_HandleRequest[of "server L D H C E" D H h msg cn ra conn] assms
  by (simp add: safe_def server_inv_def managed_def)

theorem HandleRequest_refines_witness:
  "server_inv demo_driver demo_draw (demo_handler (demo_key StateActive)) \<and>
   kmip_step\<^sup>*\<^sup>* (managed demo_driver (demo_handler (demo_key StateActive)))
     (managed demo_driver (snd (HandleRequest (server treelib demo_driver demo_hkdf plaincrypto demo_draw)
        (demo_request 20 [TextString 0x420094 ''u'']) ''cn'' ''ra'' ''c'' (demo_handler (demo_key StateActive)))))"
  by (intro conjI demo_key_inv HandleRequest_refines[THEN conjunct2] demo_fresh) simp_all

text \<open>
  C2. Destruction is final: once an object is destroyed, no sequence of requests changes its record
  any more, and its material is gone.
\<close>

theorem destroyed_is_final:
  assumes "fresh_world E" "empty_store s"
    and "serves (server L D H C E) (NewHandler n s a t) h" "serves (server L D H C E) h h'"
    and "object D h u = Some r" "State r = StateDestroyed"
  shows "object D h' u = Some r \<and> sl (Material r) = []"
proof
  note i = server_reachable[OF assms(1-3)]
  show "sl (Material r) = []" using i(2) assms(5,6) by (auto simp: proper_def object_def)
  show "object D h' u = Some r"
    using steps_destroyed[OF server_serves(2)[OF assms(4,1) i(1)]] assms(5,6) by (simp add: object_def)
qed

theorem destroyed_is_final_witness:
  "\<exists>r. object demo_driver (demo_run [20]) ''u'' = Some r \<and> State r = StateDestroyed \<and>
     object demo_driver (demo_more 18 (demo_run [20])) ''u'' = Some r"
proof -
  obtain r where r: "object demo_driver (demo_run [20]) ''u'' = Some r" "State r = StateDestroyed"
    using demo_run_states(4) by auto
  with destroyed_is_final[OF demo_fresh _ demo_run_serves demo_more_serves r] show ?thesis
    by simp
qed

text \<open>
  C3. The life cycle only moves forward (PreActive, Active, Compromised, Destroyed): over any
  sequence of requests on a server that started with an empty store, an object never returns to an
  earlier state, and it never disappears.
\<close>

theorem lifecycle_forward:
  assumes "fresh_world E" "empty_store s"
    and "serves (server L D H C E) (NewHandler n s a t) h" "serves (server L D H C E) h h'"
    and "object D h u = Some r"
  shows "\<exists>r'. object D h' u = Some r' \<and> state_rank (State r) \<le> state_rank (State r')"
proof -
  note i = server_reachable[OF assms(1-3)]
  from steps_forward[OF server_serves(2)[OF assms(4,1) i(1)] i(2)] assms(5) show ?thesis
    by (simp add: object_def)
qed

theorem lifecycle_forward_witness:
  "\<exists>r r'. object demo_driver (demo_run [18]) ''u'' = Some r \<and> State r = StateActive \<and>
     object demo_driver (demo_more 19 (demo_run [18])) ''u'' = Some r' \<and>
     state_rank (State r) \<le> state_rank (State r')"
proof -
  obtain r where r: "object demo_driver (demo_run [18]) ''u'' = Some r" "State r = StateActive"
    using demo_run_states(2) by auto
  with lifecycle_forward[OF demo_fresh _ demo_run_serves demo_more_serves r(1)] show ?thesis
    by simp
qed

text \<open>
  C4. A compromised (revoked) object is never used again over KMIP: over any sequence of requests it
  keeps exactly its record until it is destroyed, so it is never active again. (The REST API does not
  keep this, see C18.)
\<close>

theorem compromised_retired:
  assumes "fresh_world E" "server_inv D E h" "serves (server L D H C E) h h'"
    and "object D h u = Some r" "State r = StateCompromised"
  shows "\<exists>r'. object D h' u = Some r' \<and> (r' = r \<or> State r' = StateDestroyed)"
  using steps_compromised[OF server_serves(2)[OF assms(3,1,2)]] assms(4,5)
  by (simp add: object_def retired_def StateRevoked_def)

theorem compromised_retired_witness:
  "\<exists>r r'. object demo_driver (demo_run [18, 19]) ''u'' = Some r \<and> State r = StateCompromised \<and>
     object demo_driver (demo_more 18 (demo_run [18, 19])) ''u'' = Some r' \<and>
     (r' = r \<or> State r' = StateDestroyed)"
proof -
  obtain r where r: "object demo_driver (demo_run [18, 19]) ''u'' = Some r" "State r = StateCompromised"
    using demo_run_states(3) by auto
  with compromised_retired[OF demo_fresh server_reachable(1)[OF demo_fresh _ demo_run_serves] demo_more_serves r]
  show ?thesis by simp
qed

text \<open>
  No sequence of requests changes the identity of an object: its identifier, name, type,
  algorithm, length, usage mask, owner and creation date.
\<close>

theorem identity_kept:
  assumes "fresh_world E" "server_inv D E h" "serves (server L D H C E) h h'" "object D h u = Some r"
  shows "\<exists>r'. object D h' u = Some r' \<and> same_identity r r'"
  using steps_identity[OF server_serves(2)[OF assms(3,1,2)]] assms(4) by (simp add: object_def)

theorem identity_kept_witness:
  "\<exists>r r'. object demo_driver (demo_run [18]) ''u'' = Some r \<and> State r = StateActive \<and>
     object demo_driver (demo_more 4 (demo_run [18])) ''u'' = Some r' \<and>
     same_identity r r'"
proof -
  obtain r where r: "object demo_driver (demo_run [18]) ''u'' = Some r" "State r = StateActive"
    using demo_run_states(2) by auto
  with identity_kept[OF demo_fresh server_reachable(1)[OF demo_fresh _ demo_run_serves] demo_more_serves r(1)]
  show ?thesis by simp
qed

text \<open>
  On a server that started with an empty store every object is in one of the states PreActive,
  Active, Compromised or Destroyed, and a destroyed one has no material.
\<close>

theorem reachable_states:
  assumes "fresh_world E" "empty_store s" "serves (server L D H C E) (NewHandler n s a t) h" "object D h u = Some r"
  shows "State r \<in> {StatePreActive, StateActive, StateCompromised, StateDestroyed} \<and>
    (State r = StateDestroyed \<longrightarrow> sl (Material r) = [])"
  using server_reachable(2)[OF assms(1-3)] assms(4)
  by (auto simp: proper_def object_def kmip_states_def StateRevoked_def)

theorem reachable_states_witness:
  "\<exists>r. object demo_driver (demo_run [20]) ''u'' = Some r \<and> State r = StateDestroyed \<and> sl (Material r) = []"
proof -
  obtain r where r: "object demo_driver (demo_run [20]) ''u'' = Some r" "State r = StateDestroyed"
    using demo_run_states(4) by auto
  with reachable_states[OF demo_fresh _ demo_run_serves r(1)] show ?thesis by simp
qed

text \<open>
  C20. On a server that started with an empty store \<open>Archive\<close> and \<open>Recover\<close> always refuse: they answer with an error item and
  leave the store as it is, since no request brings an object into the state Deactivated.
\<close>

theorem archive_out_of_reach:
  assumes "fresh_world E" "empty_store s" "serves (server L D H C E) (NewHandler n s a t) h"
  shows "refused (server L D H C E) op h (handleArchive (server L D H C E) op payload h) \<and>
    refused (server L D H C E) op h (handleRecover (server L D H C E) op payload h)"
  using server_reachable[OF assms] itf.archive_refused[of "server L D H C E" D H h op payload]
  by (simp add: server_inv_def managed_def)

theorem archive_out_of_reach_witness:
  "refused (server treelib demo_driver demo_hkdf plaincrypto demo_draw) 0x15 (demo_run [18])
     (handleArchive (server treelib demo_driver demo_hkdf plaincrypto demo_draw) 0x15 (Some (demo_payload [])) (demo_run [18]))"
  using archive_out_of_reach[OF demo_fresh _ demo_run_serves] by simp

section \<open>Every request is answered\<close>




text \<open>
  C10. A request that does not decode, is no request message, asks for a newer protocol version, or
  has no or more than a hundred batch items is answered with one error item, and the managed
  objects stay as they are.
\<close>

theorem HandleRequest_refusals:
  assumes "case DecodeTTLV (lib X) msg 0 of Inl err \<Rightarrow> True | Inr m \<Rightarrow>
      Tag (lib X) m \<noteq> tag_of (lib X) TagRequestMessage \<or>
      (\<exists>v. request_version (lib X) m = Some v \<and> version_unsupported v) \<or>
      FindChildren (lib X) m (tag_of (lib X) TagBatchItem) = [] \<or>
      length (FindChildren (lib X) m (tag_of (lib X) TagBatchItem)) > 100"
  shows "refusal (lib X) h (HandleRequest X msg cn ra conn h)"
  using assms by (intro HandleRequest_rejected) (auto simp: accepted_batch_def Let_def maxBatchItems_def split: sum.splits)

theorem HandleRequest_refusals_witness:
  "refusal treelib demo_start (HandleRequest demo (Structure (tree_tag TagRequestMessage)
      [Structure (tree_tag TagRequestHeader) [Structure (tree_tag TagProtocolVersion)
         [Integer (tree_tag TagProtocolVersionMajor) 2]]]) ''cn'' ''ra'' ''c'' demo_start)"
proof -
  have "lib demo = treelib" by (simp add: demo_def)
  with HandleRequest_refusals[of demo] show ?thesis by simp
qed



section \<open>Cryptographic operations\<close>

text \<open>
  C12. \<open>Encrypt\<close> then \<open>Decrypt\<close> is the identity: on an active symmetric key of an AES size, the
  server encrypts, and a client that sends the reply's fields back gets the plaintext it sent.
\<close>

theorem encrypt_decrypt:
  assumes "codec_ok L item fits" "aead_ok C" "good_world E" "server_inv D E h"
    and "tag_of L TagUniqueIdentifier \<notin> {TagData, TagIVCounterNonce}"
    and "uid_of L p = Some uid" "bytes_of L p TagData = Some plain" "object D h uid = Some r"
    and "State r = StateActive" "ObjectType r = code L ObjectTypeSymmetricKey" "length (sl (Material r)) \<in> {16, 24, 32}"
  shows "\<exists>kids h1. handleEncrypt (server L D H C E) op (Some p) h = success (server L D H C E) op kids h1 \<and>
    handleDecrypt (server L D H C E) op' (Some (item (Structure g kids))) h1 =
      success (server L D H C E) op' [TextString (tag_of L TagUniqueIdentifier) uid, ByteString TagData (Some plain)] (tick h1)"
proof -
  let ?X = "server L D H C E" and ?gu = "tag_of L TagUniqueIdentifier"
  let ?nonce = "fresh_nonce (E (Suc (htick h))) gcm_NonceSize"
  let ?kids = "[TextString ?gu uid, ByteString TagData (Some (gcm_Seal C (sl (Material r)) ?nonce plain)),
    ByteString TagIVCounterNonce (Some ?nonce)]"
  have l: "live (store_abs D (hstore h)) uid = Some r" using assms(8,9) by (intro object_live) simp_all
  note i = server_inv_store[OF assms(4)] and g = good_worldD[OF assms(3)]
  have e: "handleEncrypt ?X op (Some p) h = success ?X op ?kids (tick (tick h))"
    using itf.handleEncrypt_ok[of ?X D H h p uid plain r op] i g l assms(6,7,9-11) by simp
  have b: "uid_of (lib ?X) (item (Structure g ?kids)) = Some uid"
    "bytes_of (lib ?X) (item (Structure g ?kids)) TagData = Some (gcm_Seal C (sl (Material r)) ?nonce plain)"
    "bytes_of (lib ?X) (item (Structure g ?kids)) TagIVCounterNonce = Some ?nonce"
    using item_uid[OF assms(1)] item_bytes[OF assms(1), of TagData ?kids] item_bytes[OF assms(1), of TagIVCounterNonce ?kids] assms(5)
    by (simp_all add: TagData_def TagIVCounterNonce_def)
  have "handleDecrypt ?X op' (Some (item (Structure g ?kids))) (tick (tick h)) =
    success ?X op' [TextString ?gu uid, ByteString TagData (Some plain)] (tick (tick (tick h)))"
    using itf.handleDecrypt_ok[of ?X D H "tick (tick h)" "item (Structure g ?kids)" uid "gcm_Seal C (sl (Material r)) ?nonce plain"
        ?nonce r plain op'] i g l b gcm_Open_Seal[OF assms(2) fresh_nonce_length[OF g(1)]] assms(9-11) by simp
  with e show ?thesis by blast
qed

theorem encrypt_decrypt_witness:
  "\<exists>kids h1. handleEncrypt (server treelib demo_driver demo_hkdf plaincrypto demo_draw) 0x1F
      (Some (demo_payload [ByteString TagData (Some [1, 2, 3])])) (demo_handler (demo_key StateActive)) =
      success (server treelib demo_driver demo_hkdf plaincrypto demo_draw) 0x1F kids h1 \<and>
    handleDecrypt (server treelib demo_driver demo_hkdf plaincrypto demo_draw) 0x20 (Some (Structure 0x420079 kids)) h1 =
      success (server treelib demo_driver demo_hkdf plaincrypto demo_draw) 0x20
        [TextString (tag_of treelib TagUniqueIdentifier) ''u'', ByteString TagData (Some [1, 2, 3])] (tick h1)"
  by (rule encrypt_decrypt[OF treelib_codec plaincrypto_aead demo_good demo_key_inv[OF state_distinct(2)],
      where r = "demo_key StateActive"])
    (simp_all add: demo_payload_def uid_of_def bytes_of_def go_const)

text \<open>
  C13. What \<open>Sign\<close> signs with an active private key, \<open>SignatureVerify\<close> with the active public half
  of the same pair reports as valid.
\<close>

theorem sign_then_verify:
  assumes "codec_ok L item fits" "sigs_ok C" "good_world E" "server_inv D E h"
    and "tag_of L TagUniqueIdentifier \<notin> {TagData, TagSignatureData}"
    and "uid_of L p = Some uid" "bytes_of L p TagData = Some body"
    and "object D h uid = Some r" "State r = StateActive" "ObjectType r = code L ObjectTypePrivateKey"
    and "object D h uid' = Some r'" "State r' = StateActive" "ObjectType r' = code L ObjectTypePublicKey"
    and "MarshalPKCS8PrivateKey C k = Inr (sl (Material r))" "public_half C k = Some pk"
    and "MarshalPKIXPublicKey C pk = Inr (sl (Material r'))"
    and "sign_with C (E (Suc (htick h))) k (sha256_Sum256 C body) = Some (Inr sig)"
  shows "\<exists>h1. handleSign (server L D H C E) op (Some p) h = success (server L D H C E) op
      [TextString (tag_of L TagUniqueIdentifier) uid, ByteString TagSignatureData (Some sig)] h1 \<and>
    handleSignatureVerify (server L D H C E) op'
      (Some (item (Structure g [TextString (tag_of L TagUniqueIdentifier) uid', ByteString TagData (Some body),
        ByteString TagSignatureData (Some sig)]))) h1 =
      success (server L D H C E) op'
        [TextString (tag_of L TagUniqueIdentifier) uid', Enumeration TagValidityIndicator 0] (tick h1)"
proof -
  let ?X = "server L D H C E" and ?gu = "tag_of L TagUniqueIdentifier"
  let ?q = "[TextString ?gu uid', ByteString TagData (Some body), ByteString TagSignatureData (Some sig)]"
  have l: "live (store_abs D (hstore h)) uid = Some r" "live (store_abs D (hstore h)) uid' = Some r'"
    using assms(8,9,11,12) by (simp_all add: object_live)
  note i = server_inv_store[OF assms(4)] and g = good_worldD[OF assms(3)]
  have k: "ParsePKCS8PrivateKey C (sl (Material r)) = Inr k" "ParsePKIXPublicKey C (sl (Material r')) = Inr pk"
    using assms(2,14,16) by (simp_all add: sigs_ok_def)
  have s: "handleSign ?X op (Some p) h = success ?X op [TextString ?gu uid, ByteString TagSignatureData (Some sig)] (tick (tick h))"
    using itf.handleSign_ok[of ?X D H h p uid body r k sig op] i g l(1) k(1) assms(6,7,9,10,17) by simp
  have v: "verify_with C pk (sha256_Sum256 C body) sig = Some True"
    using sign_verify[OF assms(2,17,15)] .
  have b: "uid_of (lib ?X) (item (Structure g ?q)) = Some uid'"
    "bytes_of (lib ?X) (item (Structure g ?q)) TagData = Some body"
    "bytes_of (lib ?X) (item (Structure g ?q)) TagSignatureData = Some sig"
    using item_uid[OF assms(1)] item_bytes[OF assms(1), of TagData ?q] item_bytes[OF assms(1), of TagSignatureData ?q] assms(5)
    by (simp_all add: TagData_def TagSignatureData_def)
  have "handleSignatureVerify ?X op' (Some (item (Structure g ?q))) (tick (tick h)) =
    success ?X op' [TextString ?gu uid', Enumeration TagValidityIndicator 0] (tick (tick (tick h)))"
    using itf.handleSignatureVerify_ok[of ?X D H "tick (tick h)" "item (Structure g ?q)" uid' body sig r' pk True op']
      i g l(2) k(2) b v assms(12,13) by simp
  with s show ?thesis by blast
qed

theorem sign_then_verify_witness:
  "\<exists>h1. handleSign (server treelib demo_driver demo_hkdf plaincrypto demo_draw) 0x21
      (Some (demo_payload [ByteString TagData (Some [1, 2, 3])])) demo_pair =
      success (server treelib demo_driver demo_hkdf plaincrypto demo_draw) 0x21
        [TextString (tag_of treelib TagUniqueIdentifier) ''u'', ByteString TagSignatureData (Some (take 32 ([1, 2, 3] @ replicate 32 0)))] h1 \<and>
    handleSignatureVerify (server treelib demo_driver demo_hkdf plaincrypto demo_draw) 0x22
      (Some (Structure 0x420079 [TextString (tag_of treelib TagUniqueIdentifier) ''uu'', ByteString TagData (Some [1, 2, 3]),
        ByteString TagSignatureData (Some (take 32 ([1, 2, 3] @ replicate 32 0)))])) h1 =
      success (server treelib demo_driver demo_hkdf plaincrypto demo_draw) 0x22
        [TextString (tag_of treelib TagUniqueIdentifier) ''uu'', Enumeration TagValidityIndicator 0] (tick h1)"
  by (rule sign_then_verify[OF treelib_codec plaincrypto_sigs demo_good demo_pair_inv,
        where r = "demo_private" and r' = "demo_public" and k = "PrivRSA [9]" and pk = "PubRSA [9]"])
    (simp_all add: demo_payload_def uid_of_def bytes_of_def go_const demo_pair_def demo_private_def demo_public_def
      object_def managed_def NewHandler_def plaincrypto_def sign_with_def)

text \<open>
  C14. Key material is used only while the object is active: on an object that is missing, or in any
  other state, \<open>Encrypt\<close>, \<open>Decrypt\<close>, \<open>Sign\<close>, \<open>SignatureVerify\<close>, \<open>MAC\<close> and \<open>ReKey\<close> answer with an
  error item and leave the store alone.
\<close>

theorem crypto_needs_active:
  assumes "server_inv D E h" "uid_of L p = Some uid" "\<forall>r. object D h uid = Some r \<longrightarrow> State r \<noteq> StateActive"
  shows "\<forall>f \<in> {handleEncrypt, handleDecrypt, handleSign, handleSignatureVerify, handleMAC, handleReKey}.
    refused (server L D H C E) op h (f (server L D H C E) op (Some p) h)"
  using itf.crypto_refused[of "server L D H C E" D H h p uid op] server_inv_store[OF assms(1)] assms(2,3)
  by (auto simp: object_def managed_def live_Some_iff)

theorem crypto_needs_active_witness:
  "refused (server treelib demo_driver demo_hkdf plaincrypto demo_draw) 0x1F (demo_handler (demo_key StateCompromised))
    (handleEncrypt (server treelib demo_driver demo_hkdf plaincrypto demo_draw) 0x1F
      (Some (demo_payload [ByteString TagData (Some [1])])) (demo_handler (demo_key StateCompromised)))"
  using crypto_needs_active[of demo_driver demo_draw "demo_handler (demo_key StateCompromised)" treelib
      "demo_payload [ByteString TagData (Some [1])]" "''u''" demo_hkdf plaincrypto "0x1F"]
    demo_key_inv[OF state_distinct(3)]
  by (simp add: StateRevoked_def) (simp add: go_const)

section \<open>Objects\<close>



text \<open>
  \<open>Activate\<close> on every branch: the reply the table of states owes, and as effect a PreActive
  object becomes Active; nothing else changes.
\<close>

theorem activate_behaviour:
  assumes "server_inv D E h" "good_world E" "uid_of L p = Some uid"
  shows "fst (handleActivate (server L D H C E) op (Some p) h) =
      Done (change_reply L op ''Activate'' uid (live (managed D h) uid)) \<and>
    managed D (snd (handleActivate (server L D H C E) op (Some p) h)) =
      change_effect ''Activate'' uid (\<lambda>r. r\<lparr>State := StateActive\<rparr>) (managed D h)"
  using itf.change_handler_spec[of "server L D H C E" D H h p uid "''Activate''" "\<lambda>_. Activate (interface_storage D H)"
      "\<lambda>r. r\<lparr>State := StateActive\<rparr>" op]
    itf.activate_effect[OF server_inv_store[OF assms(1)] good_worldD(2)[OF assms(2)], of D uid] assms
  by (auto simp: change_handlers managed_def server_inv_store good_worldD)

theorem activate_behaviour_witness:
  "managed demo_driver (snd (handleActivate (server treelib demo_driver demo_hkdf plaincrypto demo_draw) 18
      (Some (demo_payload [])) (demo_handler (demo_key StatePreActive)))) =
    change_effect ''Activate'' ''u'' (\<lambda>r. r\<lparr>State := StateActive\<rparr>) (managed demo_driver (demo_handler (demo_key StatePreActive)))"
  using activate_behaviour[OF demo_key_inv[OF state_distinct(1)] demo_good demo_payload_uid, of demo_hkdf plaincrypto 18 "[]"]
  by blast



text \<open>
  C23. \<open>Destroy\<close> on every branch: any object that is not destroyed yet becomes Destroyed and loses
  its material.
\<close>

theorem destroy_behaviour:
  assumes "server_inv D E h" "good_world E" "uid_of L p = Some uid"
  shows "fst (handleDestroy (server L D H C E) op (Some p) h) =
      Done (change_reply L op ''Destroy'' uid (live (managed D h) uid)) \<and>
    (\<exists>m. sl m = [] \<and> managed D (snd (handleDestroy (server L D H C E) op (Some p) h)) =
      change_effect ''Destroy'' uid (\<lambda>r. r\<lparr>Material := m, State := StateDestroyed\<rparr>) (managed D h))"
proof -
  note i = server_inv_store[OF assms(1)] and g = good_worldD(2)[OF assms(2)]
  let ?s = "hstore h" and ?d = "E (Suc (htick h))"
  obtain m where m: "sl m = []" "\<And>r. live (store_abs D ?s) uid = Some r \<Longrightarrow>
    \<exists>s'. Destroy (interface_storage D H) ?d uid ?s = (None, s') \<and>
      updates uid (\<lambda>r. r\<lparr>Material := m, State := StateDestroyed\<rparr>) (store_abs D ?s) (store_abs D s')"
  proof (cases "live (store_abs D ?s) uid")
    case None
    then show thesis using that[of None] by simp
  next
    case (Some r)
    from itf.destroy_effect[OF i g Some, of H] show thesis using that by blast
  qed
  show ?thesis
    using itf.change_handler_spec[of "server L D H C E" D H h p uid "''Destroy''" "\<lambda>_. Destroy (interface_storage D H)"
        "\<lambda>r. r\<lparr>Material := m, State := StateDestroyed\<rparr>" op] m i g assms(3)
    by (auto simp: change_handlers managed_def)
qed

theorem destroy_behaviour_witness:
  "fst (handleDestroy (server treelib demo_driver demo_hkdf plaincrypto demo_draw) 20 (Some (demo_payload []))
      (demo_handler (demo_key StateCompromised))) =
    Done (change_reply treelib 20 ''Destroy'' ''u'' (live (managed demo_driver (demo_handler (demo_key StateCompromised))) ''u''))"
  using destroy_behaviour[OF demo_key_inv[OF state_distinct(3)] demo_good demo_payload_uid, of demo_hkdf plaincrypto 20 "[]"]
  by (simp add: StateRevoked_def)



text \<open>
  \<open>Create\<close> with a length outside 1 to 32768 bits is answered with an error item and adds
  nothing, before any memory is allocated for the key.
\<close>

theorem create_bad_length:
  assumes "server_inv D E h" "sint (t_length (create_template L p)) \<le> 0 \<or> sint (t_length (create_template L p)) > 32768"
  shows "\<exists>message h'. handleCreate (server L D H C E) op (Some p) cn h =
      failure (server L D H C E) op ReasonGeneralFailure message h' \<and> managed D h' = managed D h"
  using itf.handleCreate_bad_length[of "server L D H C E" D H h p op cn] server_inv_store[OF assms(1)] assms(2)
  by (auto simp: valid_length_def MaxKeyLengthBits_def managed_def)

theorem create_bad_length_witness:
  "\<exists>message h'. handleCreate (server treelib demo_driver demo_hkdf plaincrypto demo_draw) 1
      (Some (Structure 0x420079 [Structure 0x420091 [Structure 0x420008
        [TextString 0x42000A ''Cryptographic Length'', Integer 0x42000B (-8)]]])) ''cn'' (demo_handler (demo_key StateActive)) =
      failure (server treelib demo_driver demo_hkdf plaincrypto demo_draw) 1 ReasonGeneralFailure message h' \<and>
    managed demo_driver h' = managed demo_driver (demo_handler (demo_key StateActive))"
  by (rule create_bad_length[OF demo_key_inv[OF state_distinct(2)]])
    (simp add: create_template_def tmpl_loop_def create_body_def)

text \<open>
  C25. A \<open>DeriveKey\<close> that succeeds has derived \<open>length / 8\<close> bytes (32 where that is not positive),
  at most 512, by HKDF from the material of a source object that is not destroyed, and added one
  PreActive symmetric key with the source's algorithm, usage mask and owner; all else stays.
\<close>

theorem derive_behaviour:
  assumes "server_inv D E h" "uid_of L p = Some uid" "derive_template L p = t" "E (htick h) = d"
    and "handleDeriveKey (server L D H C E) op (Some p) h = success (server L D H C E) op kids h'"
  shows "\<exists>src b m. live (managed D h) uid = Some src \<and> derive_size (t_length t) \<le> 512 \<and>
    H (Material src) (derivation_data L p) ''kmip-derive'' (nat (derive_size (t_length t))) = Inr b \<and> sl m = b \<and>
    managed D h' = (managed D h)\<lparr>objs := (objs (managed D h))(d_uuid d \<mapsto>
      \<lparr>UID = d_uuid d, Name = t_name t, ObjectType = 2, Algorithm = Algorithm src, Length = t_length t, Material = m,
       UsageMask = UsageMask src, State = StatePreActive, RevocationReason = 0, Owner = Owner src,
       CreatedAt = d_now d, Version = 1\<rparr>)\<rparr>"
proof -
  obtain src b rec where r: "live (store_abs D (hstore h)) uid = Some src" "derive_size (t_length t) \<le> MaxDerivedKeyBytes"
    "H (Material src) (derivation_data L p) ''kmip-derive'' (nat (derive_size (t_length t))) = Inr b"
    "rec = new_key d (t_name t) (Algorithm src) (t_length t) (UsageMask src) (Owner src) b"
    "adds rec (store_abs D (hstore h)) (store_abs D (hstore h'))"
    using itf.handleDeriveKey_success[of "server L D H C E" D H h p uid op kids h'] server_inv_store[OF assms(1)] assms(2-5)
    by auto
  from r(5) obtain m where "sl m = sl (Material rec)"
    "store_abs D (hstore h') = (store_abs D (hstore h))\<lparr>objs := (objs (store_abs D (hstore h)))(UID rec \<mapsto> rec\<lparr>Material := m\<rparr>)\<rparr>"
    unfolding adds_def by (rule putsE)
  with r show ?thesis
    by (intro exI[of _ src] exI[of _ b] exI[of _ m]) (simp add: managed_def new_key_def MaxDerivedKeyBytes_def)
qed

theorem derive_behaviour_witness:
  "\<exists>h' src. handleDeriveKey (server treelib demo_driver demo_hkdf plaincrypto demo_draw) 5 (Some (demo_payload []))
      (demo_handler (demo_key StateActive)) =
      success (server treelib demo_driver demo_hkdf plaincrypto demo_draw) 5 [TextString (tag_of treelib TagUniqueIdentifier) ''uu''] h' \<and>
    live (managed demo_driver (demo_handler (demo_key StateActive))) ''u'' = Some src"
proof -
  let ?X = "server treelib demo_driver demo_hkdf plaincrypto demo_draw"
  have t: "derive_template treelib (demo_payload []) = \<lparr>t_name = '''', t_algorithm = 0, t_length = 256, t_usageMask = 0\<rparr>"
    by (simp add: derive_template_def tmpl_loop_def demo_payload_def)
  have e: "handleDeriveKey ?X 5 (Some (demo_payload [])) (demo_handler (demo_key StateActive)) =
      success ?X 5 [TextString (tag_of treelib TagUniqueIdentifier) ''uu'']
        (snd (handleDeriveKey ?X 5 (Some (demo_payload [])) (demo_handler (demo_key StateActive))))"
    unfolding demo_def[symmetric] by code_simp
  from derive_behaviour[OF demo_key_inv[OF state_distinct(2)] demo_payload_uid t refl e] e show ?thesis by blast
qed

text \<open>
  C26. A \<open>ReKey\<close> that succeeds was asked for an active object, replaces its material by
  \<open>Length / 8\<close> fresh random bytes and counts its version up (modulo the 64-bit wrap-around);
  nothing else changes.
\<close>

theorem rekey_behaviour:
  assumes "server_inv D E h" "uid_of L p = Some uid" "draw_ok (E (Suc (htick h)))"
    and "handleReKey (server L D H C E) op (Some p) h = success (server L D H C E) op kids h'"
  shows "\<exists>r b m. object D h uid = Some r \<and> State r = StateActive \<and>
    d_rand (E (Suc (htick h))) (nat (sint (Length r) div 8)) = Inr b \<and> length b = nat (sint (Length r) div 8) \<and> sl m = b \<and>
    managed D h' = (managed D h)\<lparr>objs := (objs (managed D h))(uid \<mapsto> r\<lparr>Version := int64 (Version r + 1), Material := m\<rparr>)\<rparr>"
proof -
  obtain r b where r: "live (store_abs D (hstore h)) uid = Some r" "State r = StateActive" "valid_length (Length r)"
    "d_rand (E (Suc (htick h))) (key_size (Length r)) = Inr b"
    "puts uid (r\<lparr>Material := Some b, Version := int64 (Version r + 1)\<rparr>) (store_abs D (hstore h)) (store_abs D (hstore h'))"
    using itf.handleReKey_success[of "server L D H C E" D H h p uid op kids h'] server_inv_store[OF assms(1)] assms(2,4) by auto
  from r(5) obtain m where m: "sl m = b" "store_abs D (hstore h') = (store_abs D (hstore h))\<lparr>objs :=
      (objs (store_abs D (hstore h)))(uid \<mapsto> r\<lparr>Version := int64 (Version r + 1), Material := m\<rparr>)\<rparr>"
    by (rule putsE) simp
  have k: "key_size (Length r) = nat (sint (Length r) div 8)"
    using r(3) by (simp add: key_size_def valid_length_def sdiv_nonneg)
  have "length b = nat (sint (Length r) div 8)"
    using r(4) assms(3) by (simp add: draw_ok_def k)
  with r m k live_SomeD[OF r(1)] show ?thesis
    by (intro exI[of _ r] exI[of _ b] exI[of _ m]) (simp add: managed_def object_def)
qed

theorem rekey_behaviour_witness:
  "\<exists>h' m. handleReKey (server treelib demo_driver demo_hkdf plaincrypto demo_draw) 4 (Some (demo_payload []))
      (demo_handler (demo_key StateActive)) =
      success (server treelib demo_driver demo_hkdf plaincrypto demo_draw) 4 [TextString (tag_of treelib TagUniqueIdentifier) ''u''] h' \<and>
    length (sl m) = 16 \<and> object demo_driver h' ''u'' = Some ((demo_key StateActive)\<lparr>Version := 2, Material := m\<rparr>)"
proof -
  let ?X = "server treelib demo_driver demo_hkdf plaincrypto demo_draw"
  have e: "handleReKey ?X 4 (Some (demo_payload [])) (demo_handler (demo_key StateActive)) =
      success ?X 4 [TextString (tag_of treelib TagUniqueIdentifier) ''u'']
        (snd (handleReKey ?X 4 (Some (demo_payload [])) (demo_handler (demo_key StateActive))))"
    unfolding demo_def[symmetric] by code_simp
  let ?h = "snd (handleReKey ?X 4 (Some (demo_payload [])) (demo_handler (demo_key StateActive)))"
  obtain r b m where r: "object demo_driver (demo_handler (demo_key StateActive)) ''u'' = Some r"
    "length b = nat (sint (Length r) div 8)" "sl m = b"
    "managed demo_driver ?h = (managed demo_driver (demo_handler (demo_key StateActive)))\<lparr>objs :=
      (objs (managed demo_driver (demo_handler (demo_key StateActive))))(''u'' \<mapsto> r\<lparr>Version := int64 (Version r + 1), Material := m\<rparr>)\<rparr>"
    using rekey_behaviour[OF demo_key_inv[OF state_distinct(2)] demo_payload_uid demo_ok(1) e] by blast
  have q: "r = demo_key StateActive" using r(1) by simp
  have "object demo_driver ?h ''u'' = Some ((demo_key StateActive)\<lparr>Version := 2, Material := m\<rparr>)"
    unfolding object_def r(4) q by (simp add: int64_def)
  moreover have "length (sl m) = 16" using r(2,3) by (simp add: q)
  ultimately show ?thesis using e by blast
qed

text \<open>
  C27. A custom attribute that was set is read back with the others as they were, on either store.
\<close>

theorem attribute_round_trip:
  assumes "store_inv s" "sql_good d" "sql_good d'" "live (store_abs D s) uid = Some r"
  shows "\<exists>s' al. SetCustomAttribute (interface_storage D H) d uid name val s = (None, s') \<and>
    GetCustomAttributes (interface_storage D H) d' uid s' = Inr al \<and>
    map_of al = (cattrs (store_abs D s) uid)(name \<mapsto> val)"
proof -
  obtain s' where s: "SetCustomAttribute (interface_storage D H) d uid name val s = (None, s')"
    using itf.set_attr_total[OF assms(1,2), of D uid H name val] assms(4)
    by (cases "SetCustomAttribute (interface_storage D H) d uid name val s") simp
  from itf.set_attr_ok[OF assms(1) s] have i: "store_inv s'"
    "store_abs D s' = (store_abs D s)\<lparr>cattrs := (cattrs (store_abs D s))(uid := (cattrs (store_abs D s) uid)(name \<mapsto> val))\<rparr>"
    by blast+
  have "live (store_abs D s') uid \<noteq> None" using assms(4) by (simp add: i(2) live_def)
  from itf.get_attrs_total[OF i(1) assms(3) this, of H] s i(2) show ?thesis by auto
qed

theorem attribute_round_trip_witness:
  "\<exists>s' al. SetCustomAttribute (interface_storage demo_driver demo_hkdf) (demo_draw 1) ''u'' ''x'' ''y''
       (hstore (demo_handler (demo_key StateActive))) = (None, s') \<and>
     GetCustomAttributes (interface_storage demo_driver demo_hkdf) (demo_draw 2) ''u'' s' = Inr al \<and> map_of al ''x'' = Some ''y''"
proof -
  have i: "store_inv (hstore (demo_handler (demo_key StateActive)))"
    by (rule server_inv_store[OF demo_key_inv[OF state_distinct(2)]])
  have l: "live (store_abs demo_driver (hstore (demo_handler (demo_key StateActive)))) ''u'' = Some (demo_key StateActive)"
    by (rule object_live) simp_all
  from attribute_round_trip[OF i demo_ok(2) demo_ok(2) l, of demo_hkdf 1 "''x''" "''y''" 2] show ?thesis by auto
qed

text \<open>
  C28. \<open>Locate\<close> answers with the identifiers of exactly the objects that have the requested name and
  are not destroyed, each once.
\<close>

theorem locate_behaviour:
  assumes "server_inv D E h" "good_world E"
  shows "\<exists>uids. handleLocate (server L D H C E) op payload h =
      success (server L D H C E) op (map (TextString (tag_of L TagUniqueIdentifier)) uids) (tick h) \<and> distinct uids \<and>
    set uids = {u. \<exists>r. object D h u = Some r \<and> Name r = locate_name L payload \<and> State r \<noteq> StateDestroyed}"
proof -
  let ?uids = "Locate (interface_storage D H) (E (htick h)) (locate_name L payload) (hstore h)"
  note i = server_inv_store[OF assms(1)] and g = good_worldD[OF assms(2), of "htick h"]
  have "u \<in> set ?uids \<longleftrightarrow> (\<exists>r. live (store_abs D (hstore h)) u = Some r \<and> Name r = locate_name L payload)" for u
    using itf.locate_sound[OF i g(1), of u D H] itf.locate_complete[OF i g, of D u _ _ H] by blast
  moreover have "distinct ?uids" by (rule itf.locate_distinct[OF i g(1)])
  moreover have "handleLocate (server L D H C E) op payload h =
      success (server L D H C E) op (map (TextString (tag_of L TagUniqueIdentifier)) ?uids) (tick h)"
    by (simp add: handleLocate_def query_def tick_def)
  ultimately show ?thesis
    by (intro exI[of _ ?uids]) (auto simp: object_def managed_def live_Some_iff)
qed

theorem locate_behaviour_witness:
  "\<exists>uids. handleLocate (server treelib demo_driver demo_hkdf plaincrypto demo_draw) 8 (Some demo_locate) (demo_handler (demo_key StateActive)) =
     success (server treelib demo_driver demo_hkdf plaincrypto demo_draw) 8
       (map (TextString (tag_of treelib TagUniqueIdentifier)) uids) (tick (demo_handler (demo_key StateActive))) \<and> set uids = {''u''}"
proof -
  have "{u. \<exists>r. object demo_driver (demo_handler (demo_key StateActive)) u = Some r \<and>
      Name r = locate_name treelib (Some demo_locate) \<and> State r \<noteq> StateDestroyed} = {''u''}"
    by (auto simp: locate_name_def demo_locate_def split: if_splits)
  with locate_behaviour[OF demo_key_inv[OF state_distinct(2)] demo_good, of treelib demo_hkdf plaincrypto 8 "Some demo_locate"]
  show ?thesis by metis
qed

section \<open>Operations\<close>

text \<open>
  The operations the server announces in its answer to \<open>Query\<close> are exactly those it has a
  handler for: an operation code outside the list is answered as not supported and changes nothing,
  one in the list has a name in the audit log that is not the one of unknown operations.
\<close>

theorem announced_operations:
  "(op \<notin> set (query_operations (lib X)) \<longrightarrow>
     dispatch X op payload cn h = failure X op ReasonOperationNotSupported (''unsupported: 0x'' @ fmt_X 8 op) h \<and>
     operationName (lib X) op = ''Unknown(0x'' @ fmt_X 8 op @ '')'') \<and>
   (op \<in> set (query_operations (lib X)) \<longrightarrow> hd (operationName (lib X) op) \<noteq> CHR ''U'')"
  by (simp add: dispatch_unknown operationName_unknown operationName_known)

theorem announced_operations_witness:
  "dispatch demo 12345 None ''cn'' demo_start =
     failure demo 12345 ReasonOperationNotSupported (''unsupported: 0x'' @ fmt_X 8 12345) demo_start"
proof -
  have "12345 \<notin> set (query_operations (lib demo))" by (simp add: demo_def query_operations_def go_const)
  with announced_operations[of 12345 demo None "''cn''" demo_start] show ?thesis by blast
qed

end
